(* ===== verification/Go_Base.thy ===== *)
theory Go_Base
  imports Complex_Main "HOL-Library.AList" "HOL-Library.Char_ord"
begin

text \<open>
  The prelude of the development: the parts of the Go language and of its
  standard library that the components use. It models

  \<^item> 64-bit signed arithmetic as integers with the wrap-around written out
    (\<open>wrap64\<close>), and truncating division (\<open>goDiv\<close>);
  \<^item> byte strings and the functions of package \<open>strings\<close> (\<open>TrimSpace\<close>,
    \<open>EqualFold\<close>, \<open>HasPrefix\<close>, \<open>SplitN\<close>, \<open>Fields\<close>, \<dots>), of \<open>strconv\<close>
    (\<open>Atoi\<close>, \<open>Itoa\<close>) and of \<open>encoding/hex\<close>;
  \<^item> \<open>time.Time\<close> as nanoseconds since the zero time (1 January of year 1, UTC);
  \<^item> maps as association lists with distinct keys when the code ranges over
    them, and the early-return idiom of validators as a first error.

  A Go string is a sequence of bytes, so a \<open>string\<close> of the model holds the
  UTF-8 bytes of the source string.
\<close>

named_theorems go_num \<open>wrap-around and machine integers\<close>
named_theorems go_str \<open>string functions\<close>
named_theorems go_err \<open>when a chain of early returns gives no error\<close>
named_theorems go_map \<open>association lists used as Go maps\<close>

section \<open>Machine integers\<close>

text \<open>A value of type \<open>int\<close> or \<open>int64\<close>, as a mathematical integer.\<close>

type_synonym int64 = int

abbreviation maxInt64 :: int where "maxInt64 \<equiv> 9223372036854775807"
abbreviation minInt64 :: int where "minInt64 \<equiv> -9223372036854775808"

definition in64 :: "int \<Rightarrow> bool" where
  "in64 x \<longleftrightarrow> minInt64 \<le> x \<and> x \<le> maxInt64"

definition wrap64 :: "int \<Rightarrow> int" where
  "wrap64 x = (x + 9223372036854775808) mod 18446744073709551616 - 9223372036854775808"

lemma wrap64_id [go_num]: "in64 x \<Longrightarrow> wrap64 x = x"
  by (simp add: wrap64_def in64_def)

lemma in64_wrap64 [simp, intro]: "in64 (wrap64 x)"
  using pos_mod_bound [of 18446744073709551616 "x + 9223372036854775808"]
    pos_mod_sign [of 18446744073709551616 "x + 9223372036854775808"]
  by (simp add: wrap64_def in64_def)

lemma wrap64_idem [simp]: "wrap64 (wrap64 x) = wrap64 x"
  by (rule wrap64_id) simp

lemma wrap64_eq_iff: "wrap64 x = x \<longleftrightarrow> in64 x"
  proof
  assume "wrap64 x = x"
  with in64_wrap64 [of x] show "in64 x" by simp
qed (rule wrap64_id)

lemma in64_between: "in64 a \<Longrightarrow> in64 b \<Longrightarrow> a \<le> x \<Longrightarrow> x \<le> b \<Longrightarrow> in64 x"
  by (simp add: in64_def)

lemma in64_small [go_num]: "-1000000000000 \<le> x \<Longrightarrow> x \<le> 1000000000000 \<Longrightarrow> in64 x"
  by (simp add: in64_def)

text \<open>Go's integer division truncates towards zero (the divisor is non-zero
  at every call site of the model).\<close>

definition goDiv :: "int \<Rightarrow> int \<Rightarrow> int" where
  "goDiv a b = sgn a * sgn b * (\<bar>a\<bar> div \<bar>b\<bar>)"

lemma goDiv_nonneg [go_num]: "0 \<le> a \<Longrightarrow> 0 < b \<Longrightarrow> goDiv a b = a div b"
  by (cases "a = 0") (simp_all add: goDiv_def)

lemma goDiv_neg [go_num]: "a < 0 \<Longrightarrow> 0 < b \<Longrightarrow> goDiv a b = - (- a div b)"
  by (simp add: goDiv_def)

section \<open>Errors and early returns\<close>

text \<open>A Go call that returns a value and an error is \<open>'e + 'a\<close>, the error on
  the left. A validator that returns only an error is \<open>'e option\<close>, where
  \<open>None\<close> is the nil error.\<close>

type_synonym ('e, 'a) res = "'e + 'a"

fun isOk :: "('e, 'a) res \<Rightarrow> bool" where
  "isOk (Inl _) = False"
| "isOk (Inr _) = True"

lemma isOk_iff: "isOk r \<longleftrightarrow> (\<exists>x. r = Inr x)"
  by (cases r) auto

text \<open>\<open>firstErr\<close> is the loop that returns the error of the first element with
  one; \<open>firstErrI\<close> also passes the index.\<close>

fun firstErr :: "('a \<Rightarrow> 'e option) \<Rightarrow> 'a list \<Rightarrow> 'e option" where
  "firstErr f [] = None"
| "firstErr f (x # xs) = (case f x of None \<Rightarrow> firstErr f xs | Some e \<Rightarrow> Some e)"

fun firstErrI :: "(nat \<Rightarrow> 'a \<Rightarrow> 'e option) \<Rightarrow> nat \<Rightarrow> 'a list \<Rightarrow> 'e option" where
  "firstErrI f i [] = None"
| "firstErrI f i (x # xs) = (case f i x of None \<Rightarrow> firstErrI f (Suc i) xs | Some e \<Rightarrow> Some e)"

lemma firstErr_None_iff [simp]: "firstErr f xs = None \<longleftrightarrow> (\<forall>x \<in> set xs. f x = None)"
  by (induction xs) (auto split: option.splits)

lemma firstErrI_None_iff:
  "firstErrI f i xs = None \<longleftrightarrow> (\<forall>j < length xs. f (i + j) (xs ! j) = None)"
proof (induction xs arbitrary: i)
  case (Cons x xs)
  show ?case
    by (auto simp: Cons.IH nth_Cons less_Suc_eq_0_disj split: option.splits nat.splits)
qed simp

lemma firstErrI_cond_None [go_err]:
  "firstErrI (\<lambda>i x. if P x then Some (f i) else None) n xs = None \<longleftrightarrow> (\<forall>x \<in> set xs. \<not> P x)"
  by (auto simp: firstErrI_None_iff all_set_conv_all_nth)

lemma if_err_None [go_err]: "(if b then Some e else k) = None \<longleftrightarrow> \<not> b \<and> k = None"
  by simp

lemma chain_err_None [go_err]:
  "(case r of Some e \<Rightarrow> Some e | None \<Rightarrow> k) = None \<longleftrightarrow> r = None \<and> k = None"
  by (simp split: option.split)

lemma case_err_None [go_err]:
  "(case x of None \<Rightarrow> Some e | Some y \<Rightarrow> g y) = None \<longleftrightarrow> (\<exists>y. x = Some y \<and> g y = None)"
  by (simp split: option.split)

lemma sum_err_None [go_err]:
  "(case r of Inl e \<Rightarrow> Some (f e) | Inr y \<Rightarrow> g y) = None \<longleftrightarrow> (\<exists>y. r = Inr y \<and> g y = None)"
  by (simp split: sum.split)

lemma firstErrI_NoneD: "firstErrI f i xs = None \<Longrightarrow> x \<in> set xs \<Longrightarrow> \<exists>j. f j x = None"
  by (auto simp: firstErrI_None_iff in_set_conv_nth)

section \<open>Strings\<close>

definition hasPrefix :: "string \<Rightarrow> string \<Rightarrow> bool" where
  "hasPrefix s p \<longleftrightarrow> take (length p) s = p"

definition hasSuffix :: "string \<Rightarrow> string \<Rightarrow> bool" where
  "hasSuffix s p \<longleftrightarrow> hasPrefix (rev s) (rev p)"

definition trimPrefix :: "string \<Rightarrow> string \<Rightarrow> string" where
  "trimPrefix s p = (if hasPrefix s p then drop (length p) s else s)"

definition trimSuffix :: "string \<Rightarrow> string \<Rightarrow> string" where
  "trimSuffix s p = (if hasSuffix s p then take (length s - length p) s else s)"

lemma hasPrefix_append [simp]: "hasPrefix (p @ s) p"
  by (simp add: hasPrefix_def)

lemma hasPrefix_iff: "hasPrefix s p \<longleftrightarrow> (\<exists>t. s = p @ t)"
  unfolding hasPrefix_def by (metis append_eq_conv_conj append_take_drop_id)

lemma hasSuffix_iff: "hasSuffix s p \<longleftrightarrow> (\<exists>t. s = t @ p)"
  unfolding hasSuffix_def hasPrefix_iff by (metis rev_append rev_rev_ident)

lemma trimPrefix_append [simp]: "trimPrefix (p @ s) p = s"
  by (simp add: trimPrefix_def)

lemma hasPrefix_length: "hasPrefix s p \<Longrightarrow> length p \<le> length s"
  by (auto simp: hasPrefix_iff)

text \<open>
  The white-space runes of package \<open>unicode\<close>, as their UTF-8 bytes. A rune is
  recognised by its bytes at either end of a string: the lead byte never occurs
  inside another rune.
\<close>

definition spaceRunes :: "string list" where
  "spaceRunes =
     [[CHR 0x09], [CHR 0x0A], [CHR 0x0B], [CHR 0x0C], [CHR 0x0D], [CHR 0x20],
      [CHR 0xC2, CHR 0x85], [CHR 0xC2, CHR 0xA0], [CHR 0xE1, CHR 0x9A, CHR 0x80],
      [CHR 0xE2, CHR 0x80, CHR 0x80], [CHR 0xE2, CHR 0x80, CHR 0x81],
      [CHR 0xE2, CHR 0x80, CHR 0x82], [CHR 0xE2, CHR 0x80, CHR 0x83],
      [CHR 0xE2, CHR 0x80, CHR 0x84], [CHR 0xE2, CHR 0x80, CHR 0x85],
      [CHR 0xE2, CHR 0x80, CHR 0x86], [CHR 0xE2, CHR 0x80, CHR 0x87],
      [CHR 0xE2, CHR 0x80, CHR 0x88], [CHR 0xE2, CHR 0x80, CHR 0x89],
      [CHR 0xE2, CHR 0x80, CHR 0x8A], [CHR 0xE2, CHR 0x80, CHR 0xA8],
      [CHR 0xE2, CHR 0x80, CHR 0xA9], [CHR 0xE2, CHR 0x80, CHR 0xAF],
      [CHR 0xE2, CHR 0x81, CHR 0x9F], [CHR 0xE3, CHR 0x80, CHR 0x80]]"

function trimRunes :: "string list \<Rightarrow> string \<Rightarrow> string" where
  "trimRunes rs s =
     (case find (\<lambda>r. r \<noteq> [] \<and> hasPrefix s r) rs of
        None \<Rightarrow> s
      | Some r \<Rightarrow> trimRunes rs (drop (length r) s))"
  by pat_completeness auto
termination
proof (relation "measure (\<lambda>(rs, s). length s)")
  fix rs s r
  assume "find (\<lambda>r. r \<noteq> [] \<and> hasPrefix s r) rs = Some r"
  then have "r \<noteq> []" and "hasPrefix s r"
    by (auto simp: find_Some_iff)
  then show "((rs, drop (length r) s), rs, s) \<in> measure (\<lambda>(rs, s). length s)"
    using hasPrefix_length [of s r] by (cases r) auto
qed simp

declare trimRunes.simps [simp del]

definition trimSpace :: "string \<Rightarrow> string" where
  "trimSpace s = rev (trimRunes (map rev spaceRunes) (rev (trimRunes spaceRunes s)))"

text \<open>The test \<open>strings.TrimSpace(s) == ""\<close>.\<close>

abbreviation blank :: "string \<Rightarrow> bool" where
  "blank s \<equiv> trimSpace s = []"

lemma trimRunes_Nil [simp]: "trimRunes rs [] = []"
  by (subst trimRunes.simps) (auto split: option.splits simp: find_Some_iff hasPrefix_def)

lemma blank_Nil [simp]: "blank []"
  by (simp add: trimSpace_def)

lemma trimRunes_suffix: "\<exists>p. s = p @ trimRunes rs s"
proof (induction rs s rule: trimRunes.induct)
  case (1 rs s)
  show ?case
  proof (cases "find (\<lambda>r. r \<noteq> [] \<and> hasPrefix s r) rs")
    case None
    then show ?thesis by (subst trimRunes.simps) simp
  next
    case (Some r)
    with 1 obtain p where "drop (length r) s = p @ trimRunes rs (drop (length r) s)"
      by blast
    then have "s = (take (length r) s @ p) @ trimRunes rs (drop (length r) s)"
      by (metis append.assoc append_take_drop_id)
    moreover have "trimRunes rs s = trimRunes rs (drop (length r) s)"
      using Some by (subst trimRunes.simps) simp
    ultimately show ?thesis by metis
  qed
qed

lemma trimRunes_set: "set (trimRunes rs s) \<subseteq> set s"
  using trimRunes_suffix [of s rs] by (metis Un_upper2 set_append)

lemma length_trimSpace: "length (trimSpace s) \<le> length s"
proof -
  have *: "length (trimRunes rs t) \<le> length t" for rs t
    using trimRunes_suffix [of t rs] by (metis le_add2 length_append)
  show ?thesis
    using * [of "map rev spaceRunes" "rev (trimRunes spaceRunes s)"] * [of spaceRunes s]
    by (simp add: trimSpace_def)
qed

lemma not_blank_Cons: "\<not> blank s \<Longrightarrow> s \<noteq> []"
  by auto

text \<open>Splitting. \<open>splitByte\<close> is \<open>strings.Split\<close> with a one-byte separator,
  \<open>splitN2\<close> is \<open>strings.SplitN(s, sep, 2)\<close> and \<open>goFields\<close> is \<open>strings.Fields\<close>.\<close>

fun splitByte :: "char \<Rightarrow> string \<Rightarrow> string list" where
  "splitByte c [] = [[]]"
| "splitByte c (x # xs) =
     (if x = c then [] # splitByte c xs
      else (case splitByte c xs of [] \<Rightarrow> [[x]] | p # ps \<Rightarrow> (x # p) # ps))"

definition splitN2 :: "char \<Rightarrow> string \<Rightarrow> string list" where
  "splitN2 c s =
     (if c \<in> set s then [takeWhile (\<lambda>x. x \<noteq> c) s, tl (dropWhile (\<lambda>x. x \<noteq> c) s)] else [s])"

lemma splitN2_join: "splitN2 c s = [a, b] \<Longrightarrow> s = a @ c # b \<and> c \<notin> set a"
proof -
  assume asm: "splitN2 c s = [a, b]"
  then have c: "c \<in> set s" by (auto simp: splitN2_def split: if_splits)
  then have "dropWhile (\<lambda>x. x \<noteq> c) s \<noteq> []" and "hd (dropWhile (\<lambda>x. x \<noteq> c) s) = c"
    using hd_dropWhile [of "\<lambda>x. x \<noteq> c" s] by (auto simp: dropWhile_eq_Nil_conv)
  then have "dropWhile (\<lambda>x. x \<noteq> c) s = c # tl (dropWhile (\<lambda>x. x \<noteq> c) s)"
    by (cases "dropWhile (\<lambda>x. x \<noteq> c) s") simp_all
  moreover have "a = takeWhile (\<lambda>x. x \<noteq> c) s" and "b = tl (dropWhile (\<lambda>x. x \<noteq> c) s)"
    using asm c by (simp_all add: splitN2_def)
  ultimately show ?thesis
    using takeWhile_dropWhile_id [of "\<lambda>x. x \<noteq> c" s] by (auto dest: set_takeWhileD)
qed

lemma splitN2_append [simp]: "c \<notin> set a \<Longrightarrow> splitN2 c (a @ c # b) = [a, b]"
  by (induction a) (auto simp: splitN2_def)

definition startsSpace :: "string \<Rightarrow> bool" where
  "startsSpace s \<longleftrightarrow> list_ex (hasPrefix s) spaceRunes"

fun spanField :: "string \<Rightarrow> string \<times> string" where
  "spanField [] = ([], [])"
| "spanField (c # cs) =
     (if startsSpace (c # cs) then ([], c # cs)
      else (case spanField cs of (f, r) \<Rightarrow> (c # f, r)))"

lemma spanField_length: "length (snd (spanField s)) \<le> length s"
  by (induction s rule: spanField.induct) (auto split: prod.splits)

lemma spanField_less: "\<not> startsSpace s \<Longrightarrow> s \<noteq> [] \<Longrightarrow> length (snd (spanField s)) < length s"
  using spanField_length [of "tl s"] by (cases s) (auto split: prod.splits)

function goFields :: "string \<Rightarrow> string list" where
  "goFields s =
     (let t = trimRunes spaceRunes s in
      if t = [] \<or> startsSpace t then []
      else (case spanField t of (f, r) \<Rightarrow> f # goFields r))"
  by pat_completeness auto
termination
proof (relation "measure length")
  fix s t f r
  assume t: "t = trimRunes spaceRunes s" and ne: "\<not> (t = [] \<or> startsSpace t)"
    and fr: "(f, r) = spanField t"
  have "length r < length t"
    using spanField_less [of t] ne fr by (metis snd_conv)
  also have "length t \<le> length s"
    using trimRunes_suffix [of s spaceRunes] t by (metis le_add2 length_append)
  finally show "(r, s) \<in> measure length" by simp
qed simp

declare goFields.simps [simp del]

text \<open>The guard \<open>startsSpace t\<close> in \<open>goFields\<close> is never true: trimming removes
  every leading white-space rune.\<close>

lemma trimRunes_not_startsSpace: "\<not> startsSpace (trimRunes spaceRunes s)"
proof (induction spaceRunes s rule: trimRunes.induct)
  case (1 s)
  show ?case
  proof (cases "find (\<lambda>r. r \<noteq> [] \<and> hasPrefix s r) spaceRunes")
    case None
    have "[] \<notin> set spaceRunes" by (simp add: spaceRunes_def)
    with None have "\<not> startsSpace s"
      by (auto simp: find_None_iff startsSpace_def list_ex_iff)
    moreover have "trimRunes spaceRunes s = s"
      using None by (subst trimRunes.simps) simp
    ultimately show ?thesis by simp
  next
    case (Some r)
    then have "trimRunes spaceRunes s = trimRunes spaceRunes (drop (length r) s)"
      by (subst trimRunes.simps) simp
    with 1 [OF Some] show ?thesis by simp
  qed
qed

text \<open>\<open>strings.Trim(s, cutset)\<close> with an ASCII cutset.\<close>

definition trimCutset :: "string \<Rightarrow> string \<Rightarrow> string" where
  "trimCutset cs s =
     rev (dropWhile (\<lambda>c. c \<in> set cs) (rev (dropWhile (\<lambda>c. c \<in> set cs) s)))"

subsection \<open>Case folding\<close>

definition asciiLower :: "char \<Rightarrow> char" where
  "asciiLower c = (if CHR ''A'' \<le> c \<and> c \<le> CHR ''Z'' then char_of (of_char c + 32 :: nat) else c)"

text \<open>
  \<open>foldRunes\<close> is the simple case folding that \<open>strings.EqualFold\<close> applies,
  for comparison with an ASCII string: besides the ASCII letters, only the
  Kelvin sign (folds to \<open>k\<close>) and the long s (folds to \<open>s\<close>) fold into ASCII.
  At every call in the code at least one argument is an ASCII constant or a
  checked hexadecimal digest.
\<close>

fun foldRunes :: "string \<Rightarrow> string" where
  "foldRunes [] = []"
| "foldRunes (a # s) =
     (if a = CHR 0xE2 \<and> hasPrefix s [CHR 0x84, CHR 0xAA] then CHR ''k'' # foldRunes (drop 2 s)
      else if a = CHR 0xC5 \<and> hasPrefix s [CHR 0xBF] then CHR ''s'' # foldRunes (drop 1 s)
      else asciiLower a # foldRunes s)"

definition equalFold :: "string \<Rightarrow> string \<Rightarrow> bool" where
  "equalFold s t \<longleftrightarrow> foldRunes s = foldRunes t"

lemma equalFold_refl [simp]: "equalFold s s"
  by (simp add: equalFold_def)

lemma equalFold_sym: "equalFold s t \<Longrightarrow> equalFold t s"
  by (simp add: equalFold_def)

lemma equalFold_trans: "equalFold s t \<Longrightarrow> equalFold t u \<Longrightarrow> equalFold s u"
  by (simp add: equalFold_def)

text \<open>\<open>strings.ToLower\<close> on ASCII strings (it is only applied to checked
  hexadecimal digests).\<close>

definition toLower :: "string \<Rightarrow> string" where
  "toLower s = map asciiLower s"

subsection \<open>Hexadecimal digests\<close>

definition isHexDigit :: "char \<Rightarrow> bool" where
  "isHexDigit c \<longleftrightarrow> (CHR ''0'' \<le> c \<and> c \<le> CHR ''9'') \<or> (CHR ''a'' \<le> c \<and> c \<le> CHR ''f'')
     \<or> (CHR ''A'' \<le> c \<and> c \<le> CHR ''F'')"

text \<open>\<open>hex.DecodeString\<close> succeeds on an even number of hexadecimal digits.\<close>

definition hexDecodes :: "string \<Rightarrow> bool" where
  "hexDecodes s \<longleftrightarrow> even (length s) \<and> list_all isHexDigit s"

definition hexDigit :: "nat \<Rightarrow> char" where
  "hexDigit n = (if n < 10 then char_of (48 + n) else char_of (87 + n))"

text \<open>\<open>hex.EncodeToString\<close>.\<close>

definition hexEncode :: "string \<Rightarrow> string" where
  "hexEncode bs = concat (map (\<lambda>b. [hexDigit (of_char b div 16), hexDigit (of_char b mod 16)]) bs)"

lemma length_hexEncode [simp]: "length (hexEncode bs) = 2 * length bs"
  by (induction bs) (simp_all add: hexEncode_def)

subsection \<open>UTF-8\<close>

text \<open>\<open>decodeRune\<close> is \<open>utf8.DecodeRuneInString\<close>: the rune and its width in
  bytes; an invalid byte is the replacement rune with width 1. The ranges of the
  second byte exclude overlong forms and surrogates.\<close>

abbreviation runeError :: nat where "runeError \<equiv> 65533"

definition contByte :: "char \<Rightarrow> bool" where
  "contByte c \<longleftrightarrow> of_char c div (64::nat) = 2"

definition secondOk :: "nat \<Rightarrow> nat \<Rightarrow> bool" where
  "secondOk a b \<longleftrightarrow>
     (if a = 224 then 160 \<le> b \<and> b \<le> 191
      else if a = 237 then 128 \<le> b \<and> b \<le> 159
      else if a = 240 then 144 \<le> b \<and> b \<le> 191
      else if a = 244 then 128 \<le> b \<and> b \<le> 143
      else 128 \<le> b \<and> b \<le> 191)"

definition decodeRune :: "string \<Rightarrow> nat \<times> nat" where
  "decodeRune s =
     (case s of
        [] \<Rightarrow> (runeError, 0)
      | c0 # r0 \<Rightarrow>
        let a = of_char c0 in
        if a < 128 then (a, 1)
        else if a < 194 \<or> 244 < a then (runeError, 1)
        else case r0 of
          [] \<Rightarrow> (runeError, 1)
        | c1 # r1 \<Rightarrow>
          let b = of_char c1 in
          if \<not> secondOk a b then (runeError, 1)
          else if a < 224 then ((a - 192) * 64 + (b - 128), 2)
          else case r1 of
            [] \<Rightarrow> (runeError, 1)
          | c2 # r2 \<Rightarrow>
            if \<not> contByte c2 then (runeError, 1)
            else let c = of_char c2 in
              if a < 240 then ((a - 224) * 4096 + (b - 128) * 64 + (c - 128), 3)
              else case r2 of
                [] \<Rightarrow> (runeError, 1)
              | c3 # _ \<Rightarrow>
                if \<not> contByte c3 then (runeError, 1)
                else ((a - 240) * 262144 + (b - 128) * 4096 + (c - 128) * 64 + (of_char c3 - 128), 4))"

lemma decodeRune_width: "s \<noteq> [] \<Longrightarrow> 0 < snd (decodeRune s)"
  by (auto simp: decodeRune_def Let_def split: list.splits if_splits)

text \<open>The loop \<open>for _, r := range s\<close>: the runes of a string with the bytes they
  came from.\<close>

function runesOf :: "string \<Rightarrow> (nat \<times> string) list" where
  "runesOf s =
     (if s = [] then []
      else case decodeRune s of (r, w) \<Rightarrow> (r, take w s) # runesOf (drop w s))"
  by pat_completeness auto
termination
proof (relation "measure length")
  fix s x y
  assume ne: "s \<noteq> []" and xy: "(x, y) = decodeRune s"
  have "0 < y" using decodeRune_width [OF ne] by (simp flip: xy)
  with ne show "(drop y s, s) \<in> measure length" by (cases s) auto
qed simp

declare runesOf.simps [simp del]

definition runeCount :: "string \<Rightarrow> nat" where
  "runeCount s = length (runesOf s)"

lemma runesOf_Nil [simp]: "runesOf [] = []"
  by (simp add: runesOf.simps)

lemma runeCount_0_iff: "runeCount s = 0 \<longleftrightarrow> s = []"
  by (auto simp: runeCount_def runesOf.simps [of s] split: prod.splits)

lemma runeCount_le: "runeCount s \<le> length s"
proof (induction s rule: runesOf.induct)
  case (1 s)
  show ?case
  proof (cases "s = []")
    case False
    obtain r w where rw: "decodeRune s = (r, w)" by (cases "decodeRune s")
    then have "0 < w" using decodeRune_width [OF False] by simp
    moreover have "runeCount (drop w s) \<le> length s - w"
      using 1 [OF False rw [symmetric]] by simp
    moreover have "runeCount s = Suc (runeCount (drop w s))"
      using False rw by (simp add: runeCount_def runesOf.simps [of s])
    ultimately show ?thesis using False by (cases s) auto
  qed (simp add: runeCount_def)
qed

subsection \<open>JSON strings\<close>

text \<open>The string encoding of \<open>json.Marshal\<close>: quotes, backslashes and control
  characters are escaped, so are \<open><\<close>, \<open>>\<close> and \<open>&\<close> and the line separators, and an
  invalid byte becomes the replacement escape.\<close>

definition jsonRune :: "nat \<times> string \<Rightarrow> string" where
  "jsonRune rb =
     (case rb of (r, bs) \<Rightarrow>
        if r = 34 then [CHR 0x5C, CHR 0x22]
        else if r = 92 then [CHR 0x5C, CHR 0x5C]
        else if r = 8 then [CHR 0x5C] @ ''b''
        else if r = 12 then [CHR 0x5C] @ ''f''
        else if r = 10 then [CHR 0x5C] @ ''n''
        else if r = 13 then [CHR 0x5C] @ ''r''
        else if r = 9 then [CHR 0x5C] @ ''t''
        else if r < 32 \<or> r = 60 \<or> r = 62 \<or> r = 38 then
          [CHR 0x5C] @ ''u00'' @ [hexDigit (r div 16), hexDigit (r mod 16)]
        else if r = runeError \<and> length bs = 1 then [CHR 0x5C] @ ''ufffd''
        else if r = 8232 \<or> r = 8233 then [CHR 0x5C] @ ''u202'' @ [hexDigit (r mod 16)]
        else bs)"

definition jsonString :: "string \<Rightarrow> string" where
  "jsonString s = [CHR 0x22] @ concat (map jsonRune (runesOf s)) @ [CHR 0x22]"

subsection \<open>Decimal integers\<close>

definition isDigit :: "char \<Rightarrow> bool" where
  "isDigit c \<longleftrightarrow> CHR ''0'' \<le> c \<and> c \<le> CHR ''9''"

definition digitVal :: "char \<Rightarrow> nat" where
  "digitVal c = of_char c - 48"

definition digitsVal :: "string \<Rightarrow> nat" where
  "digitsVal s = fold (\<lambda>c n. 10 * n + digitVal c) s 0"

text \<open>\<open>strconv.Atoi\<close>: an optional sign and at least one digit, in range.\<close>

definition atoi :: "string \<Rightarrow> int option" where
  "atoi s =
     (let neg = hasPrefix s ''-'';
          ds = (if neg \<or> hasPrefix s ''+'' then tl s else s);
          v = (if neg then - int (digitsVal ds) else int (digitsVal ds))
      in if ds \<noteq> [] \<and> list_all isDigit ds \<and> in64 v then Some v else None)"

fun showNat :: "nat \<Rightarrow> string" where
  "showNat n =
     (if n < 10 then [char_of (48 + n)] else showNat (n div 10) @ [char_of (48 + n mod 10)])"

declare showNat.simps [simp del]

definition showInt :: "int \<Rightarrow> string" where
  "showInt i = (if i < 0 then CHR ''-'' # showNat (nat (- i)) else showNat (nat i))"

lemma atoi_in64: "atoi s = Some v \<Longrightarrow> in64 v"
  by (auto simp: atoi_def Let_def split: if_splits)

section \<open>Time\<close>

text \<open>\<open>time.Time\<close>: nanoseconds since the zero time. \<open>IsZero\<close> is equality with
  0, and \<open>Truncate\<close> rounds down to a multiple of the duration since the zero
  time, as the package does.\<close>

type_synonym time = int

abbreviation (input) isZeroTime :: "time \<Rightarrow> bool" where
  "isZeroTime t \<equiv> t = 0"

abbreviation nanosPerSecond :: int where "nanosPerSecond \<equiv> 1000000000"

definition minuteNanos :: int where "minuteNanos = 60 * nanosPerSecond"

definition truncateTime :: "time \<Rightarrow> int \<Rightarrow> time" where
  "truncateTime t d = (if d \<le> 0 then t else t - t mod d)"

definition unixMilli :: "time \<Rightarrow> int" where
  "unixMilli t = (t - 62135596800 * nanosPerSecond) div 1000000"

lemma truncateTime_le: "truncateTime t d \<le> t"
  by (simp add: truncateTime_def)

lemma truncateTime_idem: "truncateTime (truncateTime t d) d = truncateTime t d"
  by (simp add: truncateTime_def minus_mod_eq_mult_div)

lemma truncateTime_gap: "0 < d \<Longrightarrow> t < truncateTime t d + d"
  by (simp add: truncateTime_def)

section \<open>Maps\<close>

text \<open>A Go map that the code ranges over or measures is an association list
  with distinct keys; \<open>map_of\<close> is the lookup. The list order is one of the
  iteration orders Go may choose.\<close>

type_synonym ('k, 'v) gomap = "('k \<times> 'v) list"

abbreviation validMap :: "('k, 'v) gomap \<Rightarrow> bool" where
  "validMap m \<equiv> distinct (map fst m)"

definition mapGet :: "(string, string) gomap \<Rightarrow> string \<Rightarrow> string" where
  \<comment> \<open>indexing a \<open>map[string]string\<close>: the empty string when the key is absent\<close>
  "mapGet m k = (case map_of m k of None \<Rightarrow> [] | Some v \<Rightarrow> v)"

definition mapDeleteIf :: "('k \<Rightarrow> 'v \<Rightarrow> bool) \<Rightarrow> ('k, 'v) gomap \<Rightarrow> ('k, 'v) gomap" where
  \<comment> \<open>\<open>for k, v := range m { if P(k, v) { delete(m, k) } }\<close>\<close>
  "mapDeleteIf P m = filter (\<lambda>(k, v). \<not> P k v) m"

lemma validMap_update [simp, go_map]: "validMap m \<Longrightarrow> validMap (AList.update k v m)"
  by (simp add: distinct_update)

lemma validMap_delete [simp, go_map]: "validMap m \<Longrightarrow> validMap (AList.delete k m)"
  by (rule distinct_delete)

lemma validMap_deleteIf [simp, go_map]: "validMap m \<Longrightarrow> validMap (mapDeleteIf P m)"
  by (simp add: mapDeleteIf_def distinct_map_filter)

lemma map_of_deleteIf [go_map]:
  "validMap m \<Longrightarrow> map_of (mapDeleteIf P m) k =
     (case map_of m k of None \<Rightarrow> None | Some v \<Rightarrow> if P k v then None else Some v)"
proof (induction m)
  case (Cons kv m)
  obtain k' v' where kv: "kv = (k', v')" by (cases kv)
  have IH: "map_of (mapDeleteIf P m) k =
      (case map_of m k of None \<Rightarrow> None | Some v \<Rightarrow> if P k v then None else Some v)"
    using Cons by simp
  have step: "mapDeleteIf P (kv # m) = (if P k' v' then mapDeleteIf P m else kv # mapDeleteIf P m)"
    by (simp add: mapDeleteIf_def kv)
  have "k' = k \<Longrightarrow> map_of m k = None"
    using Cons.prems by (simp add: kv map_of_eq_None_iff)
  then show ?case
    using IH by (cases "k' = k") (simp_all add: step, simp_all add: kv)
qed (simp add: mapDeleteIf_def)

lemma length_deleteIf: "length (mapDeleteIf P m) \<le> length m"
  by (simp add: mapDeleteIf_def)

lemma map_of_aupdate [go_map]: "map_of (AList.update k v m) = (map_of m)(k \<mapsto> v)"
  by (rule AList.update_conv')

lemma map_of_adelete [go_map]: "map_of (AList.delete k m) = (map_of m)(k := None)"
  by (rule AList.delete_conv')

lemma length_aupdate_new: "map_of m k = None \<Longrightarrow> length (AList.update k v m) = Suc (length m)"
  by (induction m) (auto split: if_splits)

lemma length_aupdate_old: "map_of m k \<noteq> None \<Longrightarrow> length (AList.update k v m) = length m"
  by (induction m) (auto split: if_splits)

end
