(* ===== verification/Go_Float.thy ===== *)
theory Go_Float
  imports Go_Base "HOL-Library.Log_Nat"
begin

text \<open>
  Go's \<open>float64\<close>, with the rounding of IEEE 754 binary64 written out. A finite
  value is a sign and a rational magnitude; every arithmetic result is rounded
  to the nearest representable magnitude, ties to even (\<open>roundMag\<close>), and
  overflows to an infinity. Comparisons are false on a NaN, and zeros of either
  sign are equal (\<open>fEq\<close>).

  The facts the components use: rounding is monotone (\<open>roundMag_mono\<close>) and exact
  on integers up to \<open>2^53\<close> (\<open>roundMag_of_nat\<close>).
\<close>

section \<open>Values\<close>

datatype float64 = FNaN | FInf bool | Fin bool rat

text \<open>\<open>FInf True\<close> is minus infinity; \<open>Fin True m\<close> is \<open>-m\<close>.\<close>

fun fVal :: "float64 \<Rightarrow> rat" where
  "fVal (Fin s m) = (if s then - m else m)"
| "fVal _ = 0"

fun isNaN :: "float64 \<Rightarrow> bool" where
  "isNaN FNaN = True"
| "isNaN _ = False"

fun isInf :: "float64 \<Rightarrow> bool" where
  "isInf (FInf _) = True"
| "isInf _ = False"

fun isFin :: "float64 \<Rightarrow> bool" where
  "isFin (Fin _ _) = True"
| "isFin _ = False"

section \<open>Rounding\<close>

definition roundEven :: "rat \<Rightarrow> int" where
  "roundEven x =
     (let f = \<lfloor>x\<rfloor>; d = x - of_int f in
      if d < 1 / 2 then f else if 1 / 2 < d then f + 1 else if even f then f else f + 1)"

lemma roundEven_bounds: "\<lfloor>x\<rfloor> \<le> roundEven x \<and> roundEven x \<le> \<lfloor>x\<rfloor> + 1"
  by (simp add: roundEven_def Let_def)

lemma roundEven_of_int [simp]: "roundEven (of_int n) = n"
  by (simp add: roundEven_def)

lemma roundEven_mono: "x \<le> y \<Longrightarrow> roundEven x \<le> roundEven y"
proof (cases "\<lfloor>x\<rfloor> = \<lfloor>y\<rfloor>")
  case True
  then show "x \<le> y \<Longrightarrow> ?thesis" by (auto simp: roundEven_def Let_def)
next
  case False
  assume "x \<le> y"
  with False have "\<lfloor>x\<rfloor> + 1 \<le> \<lfloor>y\<rfloor>" using floor_mono [of x y] by linarith
  then show ?thesis using roundEven_bounds [of x] roundEven_bounds [of y] by linarith
qed

lemma pow2_less_iff [simp]: "(2::rat) powi a < 2 powi b \<longleftrightarrow> a < b"
proof
  assume "(2::rat) powi a < 2 powi b"
  moreover have "(2::rat) powi b \<le> 2 powi a" if "b \<le> a"
    using that by (rule power_int_increasing) simp
  ultimately show "a < b" by (cases "a < b") auto
qed (rule power_int_strict_increasing, simp_all)

lemma pow2_le_iff [simp]: "(2::rat) powi a \<le> 2 powi b \<longleftrightarrow> a \<le> b"
  by (simp flip: not_less)

lemma pow2_eq_iff [simp]: "(2::rat) powi a = 2 powi b \<longleftrightarrow> a = b"
  by (simp add: eq_iff [of "2 powi a"] eq_iff [of a])

text \<open>The exponent of a positive magnitude: \<open>2^e \<le> m < 2^(e+1)\<close>.\<close>

definition ilog2 :: "rat \<Rightarrow> int" where
  "ilog2 m =
     (case quotient_of m of (p, q) \<Rightarrow>
        let e = bitlen p - bitlen q in if 2 powi e \<le> m then e else e - 1)"

lemma ilog2_bounds:
  assumes "0 < m"
  shows "2 powi (ilog2 m) \<le> m \<and> m < 2 powi (ilog2 m + 1)"
proof -
  obtain p q where pq: "quotient_of m = (p, q)" by (cases "quotient_of m")
  define e where "e = bitlen p - bitlen q"
  have q: "0 < q" using quotient_of_denom_pos [OF pq] .
  have m: "m = of_int p / of_int q" using quotient_of_div [OF pq] .
  then have p: "0 < p" using assms q by (simp add: zero_less_divide_iff)
  have bp: "(2::rat) powi (bitlen p - 1) \<le> of_int p" "of_int p < (2::rat) powi bitlen p"
   and bq: "(2::rat) powi (bitlen q - 1) \<le> of_int q" "of_int q < (2::rat) powi bitlen q"
  proof -
    have b: "(2::rat) powi (bitlen x - 1) \<le> of_int x \<and> of_int x < (2::rat) powi bitlen x"
      if "0 < x" for x :: int
    proof -
      have "1 \<le> bitlen x" using that by (simp add: bitlen_def compute_floorlog)
      moreover have "(2::int) ^ nat (bitlen x - 1) \<le> x \<and> x < 2 ^ nat (bitlen x)"
        using bitlen_bounds [OF that] .
      then have "(of_int (2 ^ nat (bitlen x - 1)) :: rat) \<le> of_int x
          \<and> (of_int x :: rat) < of_int (2 ^ nat (bitlen x))"
        by (simp only: of_int_le_iff of_int_less_iff)
      ultimately show ?thesis by (simp add: power_int_def)
    qed
    show "(2::rat) powi (bitlen p - 1) \<le> of_int p" "of_int p < (2::rat) powi bitlen p"
      "(2::rat) powi (bitlen q - 1) \<le> of_int q" "of_int q < (2::rat) powi bitlen q"
      using b [OF p] b [OF q] by auto
  qed
  have q': "(0::rat) < of_int q" using q by simp
  have "(2::rat) powi (bitlen p) = 2 powi (e + 1) * 2 powi (bitlen q - 1)"
    by (simp add: e_def flip: power_int_add)
  also have "\<dots> \<le> 2 powi (e + 1) * of_int q"
    using bq(1) by (intro mult_left_mono) simp_all
  finally have "of_int p < (2::rat) powi (e + 1) * of_int q" using bp(2) by linarith
  then have up: "m < 2 powi (e + 1)"
    using q' by (simp add: m field_simps)
  have "2 powi (e - 1) * of_int q \<le> (2::rat) powi (e - 1) * 2 powi bitlen q"
    using bq(2) by (intro mult_left_mono) simp_all
  also have "\<dots> = 2 powi (bitlen p - 1)"
    by (simp add: e_def flip: power_int_add)
  finally have "(2::rat) powi (e - 1) * of_int q \<le> of_int p" using bp(1) by linarith
  then have low: "2 powi (e - 1) \<le> m"
    using q' by (simp add: m field_simps)
  show ?thesis
  proof (cases "2 powi e \<le> m")
    case True
    then have "ilog2 m = e" by (simp add: ilog2_def pq e_def)
    with True up show ?thesis by simp
  next
    case False
    then have "ilog2 m = e - 1" by (simp add: ilog2_def pq e_def Let_def)
    with False low show ?thesis by simp
  qed
qed

lemma ilog2_mono: "0 < a \<Longrightarrow> a \<le> b \<Longrightarrow> ilog2 a \<le> ilog2 b"
proof -
  assume a: "0 < a" and ab: "a \<le> b"
  have "2 powi (ilog2 a) \<le> a" using ilog2_bounds [OF a] by simp
  also have "a < 2 powi (ilog2 b + 1)" using ab a ilog2_bounds [of b] by linarith
  finally have "ilog2 a < ilog2 b + 1" by (simp only: pow2_less_iff)
  then show ?thesis by simp
qed

text \<open>The unit in the last place of a positive magnitude, with gradual
  underflow below \<open>2^-1022\<close>, and the rounded magnitude.\<close>

definition ulp :: "rat \<Rightarrow> rat" where
  "ulp m = 2 powi (max (ilog2 m) (-1022) - 52)"

definition roundMag :: "rat \<Rightarrow> rat" where
  "roundMag m = (if m \<le> 0 then 0 else of_int (roundEven (m / ulp m)) * ulp m)"

lemma ulp_pos: "0 < ulp m"
  by (simp add: ulp_def)

lemma roundMag_0 [simp]: "roundMag 0 = 0"
  by (simp add: roundMag_def)

lemma roundMag_nonneg [simp]: "0 \<le> roundMag m"
proof (cases "m \<le> 0")
  case False
  then have "0 \<le> m / ulp m" using ulp_pos [of m] by simp
  then have "0 \<le> roundEven (m / ulp m)" using roundEven_mono [of 0 "m / ulp m"]
    by (metis of_int_0 roundEven_of_int)
  then show ?thesis using ulp_pos [of m] False by (simp add: roundMag_def)
qed (simp add: roundMag_def)

text \<open>A magnitude that is a whole number of its own units is not changed.\<close>

lemma roundMag_exact:
  assumes "0 < m" and "m = of_int k * ulp m"
  shows "roundMag m = m"
proof -
  have "m / ulp m = of_int k" using assms(2) ulp_pos [of m] by (simp add: field_simps)
  then show ?thesis using assms by (simp add: roundMag_def)
qed

lemma roundMag_power:
  assumes "-1022 \<le> e"
  shows "roundMag (2 powi e) = 2 powi e"
proof (rule roundMag_exact)
  have "2 powi (ilog2 (2 powi e)) \<le> (2::rat) powi e"
    "(2::rat) powi e < 2 powi (ilog2 (2 powi e) + 1)"
    using ilog2_bounds [of "2 powi e"] by auto
  then have "ilog2 (2 powi e) = e" by (simp only: pow2_less_iff pow2_le_iff)
  then have "ulp (2 powi e) = 2 powi (e - 52)" using assms by (simp add: ulp_def)
  then show "2 powi e = of_int (2 ^ 52) * ulp (2 powi e)"
    by (simp add: power_int_diff)
qed simp

lemma roundMag_le_power:
  assumes "0 < m" and "-1022 \<le> e" and "m \<le> 2 powi e"
  shows "roundMag m \<le> 2 powi e"
proof -
  have "2 powi (ilog2 m) \<le> m" using ilog2_bounds [OF assms(1)] by simp
  then have "(2::rat) powi (ilog2 m) \<le> 2 powi e" using assms(3) by linarith
  then have le: "max (ilog2 m) (-1022) \<le> e" using assms(2) by simp
  then have le': "max (ilog2 m) (-1022) - 52 \<le> e" by linarith
  define n where "n = nat (e - (max (ilog2 m) (-1022) - 52))"
  have n: "(2::rat) powi e = of_int (2 ^ n) * ulp m"
    using le' by (simp add: ulp_def n_def flip: power_int_add power_int_of_nat)
  have "m / ulp m \<le> of_int (2 ^ n)"
    using assms(3) n ulp_pos [of m] by (simp add: field_simps)
  then have "roundEven (m / ulp m) \<le> 2 ^ n"
    using roundEven_mono roundEven_of_int by metis
  then have "(of_int (roundEven (m / ulp m)) :: rat) \<le> of_int (2 ^ n)"
    by (simp only: of_int_le_iff)
  then show ?thesis
    using assms(1) n ulp_pos [of m] by (simp add: roundMag_def mult_right_mono)
qed

lemma roundMag_ge_power:
  assumes "-1022 \<le> e" and "2 powi e \<le> m"
  shows "2 powi e \<le> roundMag m"
proof -
  have m: "0 < m" using assms(2) by (rule less_le_trans [rotated]) simp
  have "(2::rat) powi e < 2 powi (ilog2 m + 1)" using assms(2) ilog2_bounds [OF m] by linarith
  then have e: "e \<le> ilog2 m" by simp
  then have u: "ulp m = 2 powi (ilog2 m - 52)" using assms(1) by (simp add: ulp_def)
  have "of_int (2 ^ 52) * ulp m = 2 powi (ilog2 m)"
    by (simp add: u power_int_diff)
  moreover have "2 powi (ilog2 m) \<le> m" using ilog2_bounds [OF m] by simp
  ultimately have "of_int (2 ^ 52) \<le> m / ulp m"
    using ulp_pos [of m] by (simp add: field_simps)
  then have "2 ^ 52 \<le> roundEven (m / ulp m)"
    using roundEven_mono roundEven_of_int by metis
  then have "(of_int (2 ^ 52) :: rat) \<le> of_int (roundEven (m / ulp m))"
    by (simp only: of_int_le_iff)
  then have "of_int (2 ^ 52) * ulp m \<le> roundMag m"
    using m ulp_pos [of m] by (simp add: roundMag_def mult_right_mono)
  moreover have "(2::rat) powi e \<le> 2 powi (ilog2 m)" using e by simp
  ultimately show ?thesis using \<open>of_int (2 ^ 52) * ulp m = 2 powi (ilog2 m)\<close> by linarith
qed

theorem roundMag_mono:
  assumes "a \<le> b"
  shows "roundMag a \<le> roundMag b"
proof (cases "0 < a")
  case False
  then show ?thesis by (simp add: roundMag_def [of a])
next
  case a: True
  then have b: "0 < b" using assms by linarith
  let ?e = "\<lambda>m. max (ilog2 m) (-1022)"
  have le: "?e a \<le> ?e b" using ilog2_mono [OF a assms] by linarith
  show ?thesis
  proof (cases "?e a = ?e b")
    case True
    then have "ulp a = ulp b" by (simp add: ulp_def)
    moreover have "roundEven (a / ulp b) \<le> roundEven (b / ulp b)"
      using assms ulp_pos [of b] by (intro roundEven_mono divide_right_mono) simp_all
    ultimately show ?thesis
      using a b ulp_pos [of b] by (simp add: roundMag_def mult_right_mono)
  next
    case False
    with le have lt: "?e a + 1 \<le> ?e b" by linarith
    then have eb: "?e b = ilog2 b" by linarith
    have "a \<le> 2 powi (?e a + 1)"
    proof -
      have "a < 2 powi (ilog2 a + 1)" using ilog2_bounds [OF a] by simp
      also have "(2::rat) powi (ilog2 a + 1) \<le> 2 powi (?e a + 1)" by simp
      finally show ?thesis by simp
    qed
    then have "roundMag a \<le> 2 powi (?e a + 1)"
      using a by (intro roundMag_le_power) simp_all
    also have "(2::rat) powi (?e a + 1) \<le> 2 powi (ilog2 b)" using lt eb by simp
    also have "\<dots> \<le> roundMag b"
      using lt eb ilog2_bounds [OF b] by (intro roundMag_ge_power) linarith+
    finally show ?thesis .
  qed
qed

lemma roundMag_of_nat:
  assumes "n \<le> 2 ^ 53"
  shows "roundMag (of_nat n) = of_nat n"
proof (cases "n = 0 \<or> n = 2 ^ 53")
  case True
  moreover have "roundMag (2 powi 53) = 2 powi 53" by (rule roundMag_power) simp
  ultimately show ?thesis by auto
next
  case False
  with assms have n: "0 < n" "n < 2 ^ 53" by auto
  let ?m = "of_nat n :: rat"
  have m: "0 < ?m" using n by simp
  have "2 powi (ilog2 ?m) \<le> ?m" using ilog2_bounds [OF m] by simp
  also have "?m < 2 powi 53" using n(2) by (simp flip: of_nat_less_iff)
  finally have hi: "ilog2 ?m < 53" by (simp only: pow2_less_iff)
  have "(2::rat) powi 0 \<le> ?m" using n by simp
  also have "?m < 2 powi (ilog2 ?m + 1)" using ilog2_bounds [OF m] by simp
  finally have "0 < ilog2 ?m + 1" by (simp only: pow2_less_iff)
  then have lo: "0 \<le> ilog2 ?m" by simp
  have u: "ulp ?m = inverse (2 ^ nat (52 - ilog2 ?m))"
    using hi lo power_int_minus [of "2::rat" "52 - ilog2 ?m"] power_int_nonneg_exp [of "52 - ilog2 ?m" "2::rat"]
    by (simp add: ulp_def)
  show ?thesis
    by (rule roundMag_exact [OF m, of "int n * 2 ^ nat (52 - ilog2 ?m)"]) (simp add: u)
qed


subsection \<open>Evaluation over integers\<close>

text \<open>Code equations that round with integer division only, so that closed
  instances evaluate quickly.\<close>

definition roundDiv :: "int \<Rightarrow> int \<Rightarrow> int" where
  "roundDiv a b =
     (let f = a div b; r = 2 * (a mod b) in
      if r < b then f else if b < r then f + 1 else if even f then f else f + 1)"

lemma roundEven_div:
  assumes "0 < b"
  shows "roundEven (of_int a / of_int b) = roundDiv a b"
proof -
  have f: "\<lfloor>(of_int a / of_int b :: rat)\<rfloor> = a div b"
    by (rule floor_divide_of_int_eq)
  have "(of_int a :: rat) = of_int (a div b) * of_int b + of_int (a mod b)"
    by (simp flip: of_int_mult of_int_add)
  then have d: "of_int a / of_int b - of_int (a div b) = (of_int (a mod b) / of_int b :: rat)"
    using assms by (simp add: field_simps)
  have b: "(0::rat) < of_int b" using assms by simp
  have "(of_int (a mod b) / of_int b < (1 / 2 :: rat)) = ((of_int (2 * (a mod b)) :: rat) < of_int b)"
    using b by (simp add: field_simps)
  then have "(of_int (a mod b) / of_int b < (1 / 2 :: rat)) = (2 * (a mod b) < b)"
    by (simp only: of_int_less_iff)
  moreover have "((1 / 2 :: rat) < of_int (a mod b) / of_int b) = ((of_int b :: rat) < of_int (2 * (a mod b)))"
    using b by (simp add: field_simps)
  then have "((1 / 2 :: rat) < of_int (a mod b) / of_int b) = (b < 2 * (a mod b))"
    by (simp only: of_int_less_iff)
  ultimately show ?thesis by (simp only: roundEven_def roundDiv_def Let_def f d)
qed

lemma pow2_powi: "(2::rat) powi k = (if 0 \<le> k then of_int (2 ^ nat k) else 1 / of_int (2 ^ nat (- k)))"
  by (simp add: power_int_def power_one_over)

lemma ilog2_code [code]:
  "ilog2 m =
     (case quotient_of m of (p, q) \<Rightarrow>
        let e = bitlen p - bitlen q in
        if (if 0 \<le> e then 2 ^ nat e * q \<le> p else q \<le> p * 2 ^ nat (- e)) then e else e - 1)"
proof -
  obtain p q where pq: "quotient_of m = (p, q)" by (cases "quotient_of m")
  then have q: "0 < q" and m: "m = of_int p / of_int q"
    by (rule quotient_of_denom_pos, rule quotient_of_div)
  have "(2 powi e \<le> m) = (if 0 \<le> e then 2 ^ nat e * q \<le> p else q \<le> p * 2 ^ nat (- e))" for e
  proof (cases "0 \<le> e")
    case True
    have "(2 powi e \<le> m) = ((of_int (2 ^ nat e * q) :: rat) \<le> of_int p)"
      using q True by (simp add: m pow2_powi field_simps)
    then show ?thesis using True by (simp only: of_int_le_iff if_True)
  next
    case False
    have "(2 powi e \<le> m) = ((of_int q :: rat) \<le> of_int (p * 2 ^ nat (- e)))"
      using q False by (simp add: m pow2_powi field_simps)
    then show ?thesis using False by (simp only: of_int_le_iff if_False)
  qed
  then show ?thesis by (simp add: ilog2_def pq)
qed

lemma roundMag_code [code]:
  "roundMag m =
     (if m \<le> 0 then 0
      else case quotient_of m of (p, q) \<Rightarrow>
        let k = max (ilog2 m) (-1022) - 52 in
        if 0 \<le> k then of_int (roundDiv p (q * 2 ^ nat k) * 2 ^ nat k)
        else Fract (roundDiv (p * 2 ^ nat (- k)) q) (2 ^ nat (- k)))"
proof -
  obtain p q where pq: "quotient_of m = (p, q)" by (cases "quotient_of m")
  then have q: "0 < q" and m: "m = of_int p / of_int q"
    by (rule quotient_of_denom_pos, rule quotient_of_div)
  define k where "k = max (ilog2 m) (-1022) - 52"
  have u: "ulp m = 2 powi k" by (simp add: ulp_def k_def)
  have "of_int (roundEven (m / ulp m)) * ulp m =
      (if 0 \<le> k then of_int (roundDiv p (q * 2 ^ nat k) * 2 ^ nat k)
       else Fract (roundDiv (p * 2 ^ nat (- k)) q) (2 ^ nat (- k)))"
  proof (cases "0 \<le> k")
    case True
    then have "m / ulp m = of_int p / of_int (q * 2 ^ nat k)"
      unfolding u by (simp add: m pow2_powi)
    then show ?thesis
      using True q by (simp add: roundEven_div u pow2_powi del: of_int_mult) simp
  next
    case False
    then have "m / ulp m = of_int (p * 2 ^ nat (- k)) / of_int q"
      unfolding u by (simp add: m pow2_powi)
    then show ?thesis
      using False q by (simp add: roundEven_div u pow2_powi Fract_of_int_quotient del: of_int_mult)
  qed
  then show ?thesis by (simp only: roundMag_def pq k_def Let_def prod.case)
qed

section \<open>Arithmetic\<close>

text \<open>The value of sign \<open>s\<close> and exact magnitude \<open>m\<close>, rounded.\<close>

definition toFloat :: "bool \<Rightarrow> rat \<Rightarrow> float64" where
  "toFloat s m = (let r = roundMag m in if 2 ^ 1024 \<le> r then FInf s else Fin s r)"

lemma pow2_le_ilog2:
  assumes "0 < r"
  shows "2 powi e \<le> r \<longleftrightarrow> e \<le> ilog2 r"
proof
  assume "2 powi e \<le> r"
  also have "r < 2 powi (ilog2 r + 1)" using ilog2_bounds [OF assms] by simp
  finally show "e \<le> ilog2 r" by (simp only: pow2_less_iff)
next
  assume "e \<le> ilog2 r"
  then have "(2::rat) powi e \<le> 2 powi ilog2 r" by simp
  also have "\<dots> \<le> r" using ilog2_bounds [OF assms] by simp
  finally show "2 powi e \<le> r" .
qed

lemma toFloat_code [code]:
  "toFloat s m = (let r = roundMag m in if 0 < r \<and> 1024 \<le> ilog2 r then FInf s else Fin s r)"
proof (cases "0 < roundMag m")
  case True
  then have "((2::rat) ^ 1024 \<le> roundMag m) = (1024 \<le> ilog2 (roundMag m))"
    using pow2_le_ilog2 [OF True, of 1024] by (simp only: power_int_numeral)
  with True show ?thesis by (simp only: toFloat_def Let_def if_True simp_thms)
next
  case False
  then have "roundMag m = 0" using roundMag_nonneg [of m] by linarith
  then show ?thesis by (simp add: toFloat_def)
qed

fun fNeg :: "float64 \<Rightarrow> float64" where
  "fNeg FNaN = FNaN"
| "fNeg (FInf s) = FInf (\<not> s)"
| "fNeg (Fin s m) = Fin (\<not> s) m"

fun fAdd :: "float64 \<Rightarrow> float64 \<Rightarrow> float64" where
  "fAdd FNaN _ = FNaN"
| "fAdd _ FNaN = FNaN"
| "fAdd (FInf s) (FInf t) = (if s = t then FInf s else FNaN)"
| "fAdd (FInf s) _ = FInf s"
| "fAdd _ (FInf t) = FInf t"
| "fAdd (Fin s m) (Fin t n) =
     (let v = fVal (Fin s m) + fVal (Fin t n) in
      if v = 0 then Fin (s \<and> t) 0 else toFloat (v < 0) \<bar>v\<bar>)"

definition fSub :: "float64 \<Rightarrow> float64 \<Rightarrow> float64" where
  "fSub a b = fAdd a (fNeg b)"

fun fMul :: "float64 \<Rightarrow> float64 \<Rightarrow> float64" where
  "fMul FNaN _ = FNaN"
| "fMul _ FNaN = FNaN"
| "fMul (FInf s) (FInf t) = FInf (s \<noteq> t)"
| "fMul (FInf s) (Fin t n) = (if n = 0 then FNaN else FInf (s \<noteq> t))"
| "fMul (Fin s m) (FInf t) = (if m = 0 then FNaN else FInf (s \<noteq> t))"
| "fMul (Fin s m) (Fin t n) = toFloat (s \<noteq> t) (m * n)"

fun fDiv :: "float64 \<Rightarrow> float64 \<Rightarrow> float64" where
  "fDiv FNaN _ = FNaN"
| "fDiv _ FNaN = FNaN"
| "fDiv (FInf s) (FInf t) = FNaN"
| "fDiv (FInf s) (Fin t n) = FInf (s \<noteq> t)"
| "fDiv (Fin s m) (FInf t) = Fin (s \<noteq> t) 0"
| "fDiv (Fin s m) (Fin t n) =
     (if n = 0 then (if m = 0 then FNaN else FInf (s \<noteq> t)) else toFloat (s \<noteq> t) (m / n))"

section \<open>Comparison\<close>

fun fRank :: "float64 \<Rightarrow> int" where
  "fRank (FInf True) = -1"
| "fRank (FInf False) = 1"
| "fRank _ = 0"

definition fLt :: "float64 \<Rightarrow> float64 \<Rightarrow> bool" where
  "fLt a b \<longleftrightarrow> \<not> isNaN a \<and> \<not> isNaN b \<and>
     (fRank a < fRank b \<or> fRank a = 0 \<and> fRank b = 0 \<and> fVal a < fVal b)"

definition fLe :: "float64 \<Rightarrow> float64 \<Rightarrow> bool" where
  "fLe a b \<longleftrightarrow> \<not> isNaN a \<and> \<not> isNaN b \<and>
     (fRank a < fRank b \<or> fRank a = fRank b \<and> fVal a \<le> fVal b)"

definition fEq :: "float64 \<Rightarrow> float64 \<Rightarrow> bool" where
  "fEq a b \<longleftrightarrow> \<not> isNaN a \<and> \<not> isNaN b \<and> fRank a = fRank b \<and> fVal a = fVal b"

lemma fRank_nonzero: "fRank a \<noteq> 0 \<Longrightarrow> fVal a = 0"
  by (cases a) auto

lemma fLt_irrefl [simp]: "\<not> fLt a a"
  by (simp add: fLt_def)

lemma fLt_trans: "fLt a b \<Longrightarrow> fLt b c \<Longrightarrow> fLt a c"
  by (auto simp: fLt_def)

text \<open>On values that are not NaN the comparison is a strict weak order.\<close>

lemma not_fLt: "\<not> isNaN a \<Longrightarrow> \<not> isNaN b \<Longrightarrow> \<not> fLt a b \<longleftrightarrow> fLe b a"
  using fRank_nonzero [of a] fRank_nonzero [of b] by (auto simp: fLt_def fLe_def)

lemma fLe_refl [simp]: "fLe a a \<longleftrightarrow> \<not> isNaN a"
  by (simp add: fLe_def)

lemma fLe_trans: "fLe a b \<Longrightarrow> fLe b c \<Longrightarrow> fLe a c"
  by (auto simp: fLe_def)

lemma fLt_fLe_trans: "fLt a b \<Longrightarrow> fLe b c \<Longrightarrow> fLt a c"
  by (auto simp: fLt_def fLe_def)

lemma fLe_fLt_trans: "fLe a b \<Longrightarrow> fLt b c \<Longrightarrow> fLt a c"
  by (auto simp: fLt_def fLe_def)

lemma fLt_imp_fLe: "fLt a b \<Longrightarrow> fLe a b"
  by (auto simp: fLt_def fLe_def)

lemma fLt_Fin [simp]: "fLt (Fin s m) (Fin t n) \<longleftrightarrow> fVal (Fin s m) < fVal (Fin t n)"
  by (simp add: fLt_def)

lemma fLe_Fin [simp]: "fLe (Fin s m) (Fin t n) \<longleftrightarrow> fVal (Fin s m) \<le> fVal (Fin t n)"
  by (simp add: fLe_def)

lemma fLt_NaN [simp]: "\<not> fLt FNaN a" "\<not> fLt a FNaN"
  by (simp_all add: fLt_def)

lemma fLe_NaN [simp]: "\<not> fLe FNaN a" "\<not> fLe a FNaN"
  by (simp_all add: fLe_def)

section \<open>Conversions\<close>

definition fOfInt :: "int \<Rightarrow> float64" where
  "fOfInt i = toFloat (i < 0) (of_int \<bar>i\<bar>)"

text \<open>\<open>int(f)\<close> truncates towards zero. Outside the range of \<open>int64\<close> (and on
  NaN) the language leaves the result to the implementation; the model has the
  value the amd64 conversion instruction produces.\<close>

fun fToInt :: "float64 \<Rightarrow> int" where
  "fToInt (Fin s m) =
     (let t = (if s then - \<lfloor>m\<rfloor> else \<lfloor>m\<rfloor>) in if in64 t then t else minInt64)"
| "fToInt _ = minInt64"

fun fFloor :: "float64 \<Rightarrow> float64" where
  "fFloor (Fin s m) = Fin s (of_int (if s then \<lceil>m\<rceil> else \<lfloor>m\<rfloor>))"
| "fFloor a = a"

fun fCeil :: "float64 \<Rightarrow> float64" where
  "fCeil (Fin s m) = Fin s (of_int (if s then \<lfloor>m\<rfloor> else \<lceil>m\<rceil>))"
| "fCeil a = a"

fun fTrunc :: "float64 \<Rightarrow> float64" where
  "fTrunc (Fin s m) = Fin s (of_int \<lfloor>m\<rfloor>)"
| "fTrunc a = a"

text \<open>\<open>math.Round\<close>: half away from zero.\<close>

fun fRound :: "float64 \<Rightarrow> float64" where
  "fRound (Fin s m) = Fin s (of_int \<lfloor>m + 1 / 2\<rfloor>)"
| "fRound a = a"

text \<open>The float of a decimal literal of the source.\<close>

definition fLit :: "rat \<Rightarrow> float64" where
  "fLit r = toFloat (r < 0) \<bar>r\<bar>"

abbreviation fZero :: float64 where "fZero \<equiv> Fin False 0"
abbreviation fOne :: float64 where "fOne \<equiv> Fin False 1"

text \<open>\<open>fmt.Sprintf("%.2f", f)\<close>.\<close>

fun fmt2f :: "float64 \<Rightarrow> string" where
  "fmt2f FNaN = ''NaN''"
| "fmt2f (FInf s) = (if s then ''-Inf'' else ''+Inf'')"
| "fmt2f (Fin s m) =
     (let n = nat (roundEven (m * 100)) in
      (if s then ''-'' else []) @ showNat (n div 100) @ ''.''
        @ [char_of (48 + n div 10 mod 10), char_of (48 + n mod 10)])"

section \<open>Properties\<close>

text \<open>Magnitudes are non-negative in every value the operations build.\<close>

fun wfFloat :: "float64 \<Rightarrow> bool" where
  "wfFloat (Fin s m) = (0 \<le> m \<and> m < 2 ^ 1024)"
| "wfFloat _ = True"

lemma wf_toFloat [simp, intro]: "wfFloat (toFloat s m)"
  by (simp add: toFloat_def Let_def)

lemma wf_fNeg [simp]: "wfFloat (fNeg a) \<longleftrightarrow> wfFloat a"
  by (cases a) auto

lemma wf_fAdd [simp, intro]: "wfFloat a \<Longrightarrow> wfFloat b \<Longrightarrow> wfFloat (fAdd a b)"
  by (induction a b rule: fAdd.induct) (auto simp: Let_def)

lemma wf_fSub [simp, intro]: "wfFloat a \<Longrightarrow> wfFloat b \<Longrightarrow> wfFloat (fSub a b)"
  by (simp add: fSub_def)

lemma wf_fMul [simp, intro]: "wfFloat (fMul a b)"
  by (induction a b rule: fMul.induct) auto

lemma wf_fDiv [simp, intro]: "wfFloat (fDiv a b)"
  by (induction a b rule: fDiv.induct) auto

lemma wf_fOfInt [simp, intro]: "wfFloat (fOfInt i)"
  by (simp add: fOfInt_def)

lemma toFloat_not_NaN [simp]: "toFloat s m \<noteq> FNaN" "\<not> isNaN (toFloat s m)"
  by (simp_all add: toFloat_def Let_def)

lemma fOfInt_not_NaN [simp]: "\<not> isNaN (fOfInt i)"
  by (simp add: fOfInt_def)

lemma toFloat_exact: "roundMag m = m \<Longrightarrow> m < 2 ^ 1024 \<Longrightarrow> toFloat s m = Fin s m"
  by (simp add: toFloat_def)

text \<open>Rounding keeps the order: the rounded results of ordered magnitudes are
  ordered.\<close>

lemma toFloat_mono: "m \<le> n \<Longrightarrow> fLe (toFloat False m) (toFloat False n)"
  using roundMag_mono [of m n] by (auto simp: toFloat_def Let_def fLe_def)

lemma toFloat_nonneg: "fLe fZero (toFloat False m)"
  by (simp add: toFloat_def Let_def fLe_def)

lemma toFloat_le_exact:
  assumes "m \<le> n" and "roundMag n = n" and "n < 2 ^ 1024"
  shows "\<exists>r. toFloat s m = Fin s r \<and> 0 \<le> r \<and> r \<le> n"
  using assms roundMag_mono [OF assms(1)] by (auto simp: toFloat_def Let_def)

lemma pow53_lt: "(2::rat) ^ 53 < 2 ^ 1024"
  by (rule power_strict_increasing) simp_all

lemma roundMag_of_int:
  assumes "\<bar>i\<bar> \<le> 2 ^ 53"
  shows "roundMag (of_int \<bar>i\<bar>) = of_int \<bar>i\<bar>"
proof -
  have "nat \<bar>i\<bar> \<le> 2 ^ 53" using assms by (simp add: nat_le_iff)
  then show ?thesis using roundMag_of_nat [of "nat \<bar>i\<bar>"] by simp
qed

lemma fOfInt_exact:
  assumes "\<bar>i\<bar> \<le> 2 ^ 53"
  shows "fOfInt i = Fin (i < 0) (of_int \<bar>i\<bar>)"
proof -
  have "(of_int \<bar>i\<bar> :: rat) \<le> of_int (2 ^ 53)" using assms by (simp only: of_int_le_iff)
  then have "(of_int \<bar>i\<bar> :: rat) < 2 ^ 1024" using pow53_lt by simp
  then show ?thesis using roundMag_of_int [OF assms] by (simp add: fOfInt_def toFloat_exact)
qed

lemma fVal_fOfInt: "\<bar>i\<bar> \<le> 2 ^ 53 \<Longrightarrow> fVal (fOfInt i) = of_int i"
  by (simp add: fOfInt_exact)

lemma fOfInt_0 [simp]: "fOfInt 0 = fZero"
  by (simp add: fOfInt_exact)

lemma fOfInt_1 [simp]: "fOfInt 1 = fOne"
  by (simp add: fOfInt_exact)

lemma roundMag_1 [simp]: "roundMag 1 = 1"
  using roundMag_of_nat [of 1] by simp

lemma fToInt_le:
  assumes "fLe a (Fin False (of_int n))" and "wfFloat a" and "0 \<le> n"
  shows "fToInt a \<le> n"
proof (cases a)
  case (Fin s m)
  with assms show ?thesis
    by (auto simp: Let_def floor_le_iff le_floor_iff intro: order_trans [of _ 0])
next
  case (FInf s)
  with assms show ?thesis by (cases s) (auto simp: fLe_def)
qed (use assms in simp)

section \<open>Parsing\<close>

text \<open>\<open>strconv.ParseFloat(s, 64)\<close>; \<open>None\<close> is a syntax or a range error. The
  special values are matched ignoring ASCII case, digits may be separated by
  underscores, and the exponent is accumulated as the package does (it stops
  growing at 10000).\<close>

fun scanMant :: "bool \<Rightarrow> bool \<Rightarrow> string \<Rightarrow> string \<times> string" where
  "scanMant hx dot [] = ([], [])"
| "scanMant hx dot (c # cs) =
     (if c = CHR ''_'' \<or> isDigit c \<or> (hx \<and> isHexDigit c) then
        (case scanMant hx dot cs of (a, r) \<Rightarrow> (c # a, r))
      else if c = CHR ''.'' \<and> \<not> dot then
        (case scanMant hx True cs of (a, r) \<Rightarrow> (c # a, r))
      else ([], c # cs))"

definition hexVal :: "char \<Rightarrow> nat" where
  "hexVal c = (if isDigit c then of_char c - 48 else of_char (asciiLower c) - 87)"

definition mantVal :: "nat \<Rightarrow> string \<Rightarrow> nat" where
  "mantVal b ds = fold (\<lambda>c n. b * n + hexVal c) ds 0"

definition expVal :: "string \<Rightarrow> nat" where
  "expVal ds = fold (\<lambda>c e. if e < 10000 then 10 * e + digitVal c else e) ds 0"

fun underscoreRun :: "bool \<Rightarrow> char \<Rightarrow> string \<Rightarrow> bool" where
  "underscoreRun hx saw [] = (saw \<noteq> CHR ''_'')"
| "underscoreRun hx saw (c # cs) =
     (if isDigit c \<or> (hx \<and> isHexDigit c) then underscoreRun hx CHR ''0'' cs
      else if c = CHR ''_'' then saw = CHR ''0'' \<and> underscoreRun hx CHR ''_'' cs
      else saw \<noteq> CHR ''_'' \<and> underscoreRun hx CHR ''!'' cs)"

definition hexPrefix :: "string \<Rightarrow> bool" where
  "hexPrefix s \<longleftrightarrow> 2 < length s \<and> s ! 0 = CHR ''0'' \<and> asciiLower (s ! 1) = CHR ''x''"

definition underscoreOK :: "string \<Rightarrow> bool" where
  \<comment> \<open>applied to the text after the sign\<close>
  "underscoreOK s =
     (if hexPrefix s then underscoreRun True CHR ''0'' (drop 2 s) else underscoreRun False CHR ''^'' s)"

definition scanExp :: "string \<Rightarrow> (int \<times> string) option" where
  \<comment> \<open>the text after the exponent letter\<close>
  "scanExp s =
     (let neg = hasPrefix s ''-'';
          r = (if neg \<or> hasPrefix s ''+'' then tl s else s)
      in if r = [] \<or> \<not> isDigit (hd r) then None
         else let ds = takeWhile (\<lambda>c. isDigit c \<or> c = CHR ''_'') r;
                  e = int (expVal (filter isDigit ds))
              in Some (if neg then - e else e, drop (length ds) r))"

definition parseUnsigned :: "bool \<Rightarrow> string \<Rightarrow> float64 option" where
  "parseUnsigned neg s =
     (let hx = hexPrefix s;
          (a, r) = scanMant hx False (if hx then drop 2 s else s);
          ds = filter isHexDigit a;
          frac = length (filter isHexDigit (dropWhile (\<lambda>c. c \<noteq> CHR ''.'') a));
          expo = (case r of
                    [] \<Rightarrow> if hx then None else Some (0, [])
                  | c # r' \<Rightarrow>
                      if asciiLower c = (if hx then CHR ''p'' else CHR ''e'') then scanExp r'
                      else None)
      in if ds = [] then None
         else case expo of
           None \<Rightarrow> None
         | Some (e, rest) \<Rightarrow>
             if rest \<noteq> [] \<or> (CHR ''_'' \<in> set s \<and> \<not> underscoreOK s) then None
             else
               let v = (if hx then of_nat (mantVal 16 ds) * 2 powi (e - 4 * int frac)
                        else of_nat (mantVal 10 ds) * 10 powi (e - int frac))
               in (case toFloat neg v of FInf _ \<Rightarrow> None | f \<Rightarrow> Some f))"

definition parseFloat :: "string \<Rightarrow> float64 option" where
  "parseFloat s =
     (let neg = hasPrefix s ''-'';
          sgnd = neg \<or> hasPrefix s ''+'';
          r = (if sgnd then tl s else s);
          l = toLower r
      in if l = ''inf'' \<or> l = ''infinity'' then Some (FInf neg)
         else if \<not> sgnd \<and> l = ''nan'' then Some FNaN
         else parseUnsigned neg r)"

end
