(* ===== verification/Go_Any.thy ===== *)
theory Go_Any
  imports Go_Float
begin

text \<open>
  The dynamic values of Go.
\<close>

text \<open>A value of type \<open>interface{}\<close>, with the dynamic types the code switches on.
  \<open>AnyNumber\<close> is \<open>json.Number\<close>, \<open>AnyStrings\<close> is \<open>[]string\<close> and \<open>AnyList\<close> is
  \<open>[]any\<close>.\<close>

datatype goany =
    AnyNil
  | AnyBool bool
  | AnyNumber string
  | AnyFloat float64
  | AnyFloat32 float64
  | AnyInt int
  | AnyInt64 int
  | AnyString string
  | AnyList "goany list"
  | AnyStrings "string list"
  | AnyMap "(string \<times> goany) list"

end
