(* ===== verification/Intent_Types.thy ===== *)
theory Intent_Types
  imports Go_Any
begin

text \<open>
  The data model of package \<open>pkg/intents\<close> (\<open>types.go\<close>, and the values of
  \<open>evaluator.go\<close>) and of the proofs the immutable ledger returns
  (\<open>pkg/ledger/types.go\<close>). Constants of Go string types that the code compares
  and concatenates stay strings; the closed sets are datatypes.
\<close>

section \<open>Intent types and states\<close>

type_synonym IntentType = string

definition IntentPreWarm :: IntentType where "IntentPreWarm = ''pre_warm''"
definition IntentScale :: IntentType where "IntentScale = ''scale''"
definition IntentShedLoad :: IntentType where "IntentShedLoad = ''shed_load''"
definition IntentAlert :: IntentType where "IntentAlert = ''alert''"
definition IntentMigrate :: IntentType where "IntentMigrate = ''migrate''"
definition IntentRoute :: IntentType where "IntentRoute = ''route''"
definition IntentDeploy :: IntentType where "IntentDeploy = ''deploy''"
definition IntentKVTransfer :: IntentType where "IntentKVTransfer = ''kv_transfer''"
definition IntentNoAction :: IntentType where "IntentNoAction = ''no_action''"

lemmas intent_type_defs =
  IntentPreWarm_def IntentScale_def IntentShedLoad_def IntentAlert_def IntentMigrate_def
  IntentRoute_def IntentDeploy_def IntentKVTransfer_def IntentNoAction_def

datatype IntentStatus = StatusAccepted | StatusExecuted | StatusRefused | StatusDeferred

text \<open>\<open>StateOther\<close> stands for a state string outside the declared constants.\<close>

datatype OperationState =
    StateReceived | StateAccepted | StatePlanned | StateGovernancePending | StateAuthorized
  | StateActuating | StateObserving | StateVerified | StateEvidencePending | StateSucceeded
  | StateRejected | StateDeferred | StateExpired | StateFailed | StateRollingBack
  | StateRolledBack | StateQuarantined | StateOther string

datatype LedgerReceiptPurpose =
    ReceiptPurposeAdmission | ReceiptPurposeAuthorizationDecision | ReceiptPurposeOutcome
  | ReceiptPurposeOther string

definition AuthorizationAudienceFleetController :: string where
  "AuthorizationAudienceFleetController = ''fleet-llm-d''"

definition LedgerEntryTypeAuthorizationDecision :: string where
  "LedgerEntryTypeAuthorizationDecision = ''fleet.operation.authorization_decision''"

definition LedgerEntryTypeOutcome :: string where
  "LedgerEntryTypeOutcome = ''fleet.operation.verified''"

section \<open>Intents\<close>

record EvidenceDigest =
  ed_URI :: string
  ed_SHA256 :: string
  ed_MediaType :: string

record ProposerAuthority =
  pa_Subject :: string
  pa_AuthorityRef :: string
  pa_MaxAction :: string
  pa_ExpiresAt :: "time option"

record FleetIntent =
  fi_ID :: string
  fi_CorrelationID :: string
  fi_IdempotencyKey :: string
  fi_Type :: IntentType
  fi_Confidence :: float64
  fi_HorizonSeconds :: int64
  fi_Justification :: string
  fi_StateSnapshot :: "(string, goany) gomap option"
  fi_CreatedAt :: time
  fi_ExpiresAt :: "time option"
  fi_DecisionPackageRef :: string
  fi_DecisionPackageDigest :: string
  fi_Evidence :: "EvidenceDigest list"
  fi_Proposer :: "ProposerAuthority option"
  fi_Model :: string
  fi_Pool :: string
  fi_TargetReplicas :: int64
  fi_DesiredReplicas :: int64
  fi_CurrentReplicas :: int64
  fi_TargetClusters :: "string list"
  fi_MaxInflight :: int64
  fi_DurationSeconds :: int64
  fi_Metric :: string
  fi_Severity :: string
  fi_Message :: string
  fi_Reason :: string
  fi_RecommendedAction :: string

record IntentResponse =
  ir_IntentID :: string
  ir_Status :: IntentStatus
  ir_Reason :: string
  ir_LedgerEntryID :: string

section \<open>Operations\<close>

record OperationTransition =
  tr_Sequence :: int64
  tr_State :: OperationState
  tr_At :: time
  tr_Reason :: string
  tr_Actor :: string
  tr_LedgerEntryID :: string

record OperationLedgerReceipt =
  lr_EntryID :: string
  lr_EntryHash :: string
  lr_EntryType :: string
  lr_ChainPosition :: int64
  lr_WrittenTS :: int64
  lr_InputHash :: string
  lr_Purpose :: LedgerReceiptPurpose

record AuthorizationReference =
  ar_GrantID :: string
  ar_Subject :: string
  ar_ActionClass :: string
  ar_ObjectUID :: string
  ar_SpecDigest :: string
  ar_Audience :: string
  ar_ExpiresAt :: time
  ar_IdempotencyKey :: string
  ar_BreakGlass :: bool
  ar_IncidentRef :: string

record ProviderReference =
  pr_Type :: string
  pr_Name :: string
  pr_Namespace :: string
  pr_ExternalID :: string
  pr_Generation :: int64

record FleetOperation =
  op_ID :: string
  op_ObjectUID :: string
  op_IntentID :: string
  op_CorrelationID :: string
  op_IdempotencyKey :: string
  op_ActionClass :: string
  op_State :: OperationState
  op_PlanDigest :: string
  op_Provider :: "ProviderReference option"
  op_ObservedDigest :: string
  op_AuthorizationRef :: "AuthorizationReference option"
  op_LedgerEntryID :: string
  op_LedgerReceipts :: "OperationLedgerReceipt list"
  op_CreatedAt :: time
  op_UpdatedAt :: time
  op_Transitions :: "OperationTransition list"

record SubmissionResponse =
  sr_IntentID :: string
  sr_OperationID :: string
  sr_CorrelationID :: string
  sr_State :: OperationState
  sr_Reason :: string
  sr_StatusURL :: string

record ProofVerification =
  pv_Valid :: bool
  pv_EntryID :: string
  pv_EntryType :: string
  pv_AgentID :: string
  pv_SourceID :: string
  pv_CorrelationID :: string
  pv_InputHash :: string
  pv_Content :: string
  pv_ChainPosition :: int64
  pv_FailureReason :: string
  pv_WrittenAt :: time

text \<open>The operation \<open>FleetOperation{}\<close> that error returns carry.\<close>

definition zeroOperation :: FleetOperation where
  "zeroOperation = \<lparr>op_ID = [], op_ObjectUID = [], op_IntentID = [], op_CorrelationID = [],
     op_IdempotencyKey = [], op_ActionClass = [], op_State = StateOther [], op_PlanDigest = [],
     op_Provider = None, op_ObservedDigest = [], op_AuthorizationRef = None, op_LedgerEntryID = [],
     op_LedgerReceipts = [], op_CreatedAt = 0, op_UpdatedAt = 0, op_Transitions = []\<rparr>"

section \<open>Errors\<close>

text \<open>The errors of the package, one constructor for each place that builds one.
  A negative-parameter error of \<open>ValidateGovernedIntent\<close> names the parameter Go's
  map iteration met first, so the model does not say which.\<close>

datatype ValidationError =
    UnsupportedIntentType string
  | ConfidenceRange
  | HorizonRequired
  | JustificationRequired
  | SnapshotRequired
  | IdempotencyRequired
  | ExpiryRequired
  | IntentExpired
  | PackageRefRequired
  | PackageDigestInvalid
  | ProposerRequired
  | ProposerExpired
  | PoolRequired
  | EvidenceRequired
  | EvidenceInvalid nat
  | NegativeParameter
  | TargetClusterEmpty nat
  | ActionParameter string

datatype AuthorizationError =
    AuthorizationRequired
  | AuthorizationField string
  | AuthorizationAction string string
  | AuthorizationObject string string
  | AuthorizationDigest
  | AuthorizationAudience string
  | AuthorizationIdempotency
  | AuthorizationExpired
  | BreakGlassIncident

datatype OutcomeError =
    OutcomeOperationID
  | OutcomePlanDigest
  | OutcomeObservedDigest
  | OutcomeMissing
  | OutcomeDecode
  | OutcomeConstruct
  | OutcomeNotBound

datatype ReceiptError =
    ReceiptPurposeAbsent LedgerReceiptPurpose
  | ReceiptMalformed
  | ReceiptEntryType string LedgerReceiptPurpose string
  | ProofVerifierMissing
  | LedgerFailure string
  | LedgerRejected string
  | ProofTypeMismatch
  | ProofEntryMismatch
  | ProofCorrelationMismatch string string
  | ProofInputMismatch
  | ObservedDigestRequired
  | OutcomeNotObserved
  | OutcomeEvidence OutcomeError
  | ProofPositionMismatch
  | ProofTimeMismatch

datatype EvidenceError =
    PlanDigestRequired
  | ProviderRequired
  | AuthorizationInvalid AuthorizationError
  | OutcomeReceiptRequired ReceiptError

datatype IntentError =
    ErrNotFound
  | ErrInvalidTransition OperationState OperationState
  | TransitionEvidence OperationState OperationState EvidenceError
  | IntentExists string
  | IdempotencyTaken string
  | UnsupportedAdmission IntentStatus
  | RepositoryFailure string
  | ReceiptRejected ReceiptError
  | ReceiptConflict string

section \<open>Digests\<close>

definition validSHA256 :: "string \<Rightarrow> bool" where
  "validSHA256 v \<longleftrightarrow> (if length v \<noteq> 64 then False else hexDecodes v)"

lemma validSHA256_iff: "validSHA256 v \<longleftrightarrow> length v = 64 \<and> list_all isHexDigit v"
  by (auto simp: validSHA256_def hexDecodes_def)

lemma validSHA256_Nil [simp]: "\<not> validSHA256 []"
  by (simp add: validSHA256_iff)

section \<open>Action classes\<close>

definition actionClass :: "IntentType \<Rightarrow> string" where
  "actionClass t =
     (if t = IntentPreWarm then ''fleet.prewarm''
      else if t = IntentShedLoad then ''fleet.shed_load''
      else if t = IntentKVTransfer then ''fleet.kv_transfer''
      else ''fleet.'' @ t)"

definition intentTypeOf :: "string \<Rightarrow> IntentType" where
  "intentTypeOf a =
     (if a = ''fleet.prewarm'' \<or> a = ''fleet.pre-warm'' then IntentPreWarm
      else if a = ''fleet.shed_load'' \<or> a = ''fleet.shed-load'' then IntentShedLoad
      else if a = ''fleet.kv_transfer'' \<or> a = ''fleet.kv-transfer'' then IntentKVTransfer
      else trimPrefix a ''fleet.'')"

text \<open>C12: The action class of an intent type determines the type: reading back
  the class that \<open>actionClass\<close> writes gives the type again, for every type string
  other than the four spellings that are aliases.\<close>

theorem intentTypeOf_actionClass:
  assumes "t \<notin> {''prewarm'', ''pre-warm'', ''shed-load'', ''kv-transfer''}"
  shows "intentTypeOf (actionClass t) = t"
proof (cases "t = IntentPreWarm \<or> t = IntentShedLoad \<or> t = IntentKVTransfer")
  case True
  then show ?thesis
    by (auto simp: intentTypeOf_def actionClass_def intent_type_defs)
next
  case False
  with assms show ?thesis
    by (simp add: intentTypeOf_def actionClass_def intent_type_defs trimPrefix_def hasPrefix_def)
qed

theorem intentTypeOf_actionClass_witness:
  "IntentMigrate \<notin> {''prewarm'', ''pre-warm'', ''shed-load'', ''kv-transfer''} \<and>
   intentTypeOf (actionClass IntentMigrate) = IntentMigrate"
proof -
  have h: "IntentMigrate \<notin> {''prewarm'', ''pre-warm'', ''shed-load'', ''kv-transfer''}"
    by (simp add: intent_type_defs)
  show ?thesis using h intentTypeOf_actionClass [OF h] by blast
qed

end
