(* ===== verification/Intent_Validation.thy ===== *)
theory Intent_Validation
  imports Intent_Types
begin

text \<open>
  Admission checks of package \<open>pkg/intents\<close>: the governed-intent envelope of
  \<open>validation.go\<close> and the policy evaluation of \<open>evaluator.go\<close>. Each validator is
  the chain of early returns of the source, and \<open>ValidateGovernedIntent_ok\<close> states
  what an accepted intent satisfies.
\<close>

section \<open>The governed-intent envelope\<close>

definition supportedIntentTypes :: "IntentType list" where
  "supportedIntentTypes =
     [IntentDeploy, IntentScale, IntentRoute, IntentPreWarm, IntentShedLoad, IntentMigrate,
      IntentKVTransfer]"

definition requiredSnapshotParameter ::
  "(string, goany) gomap option \<Rightarrow> string \<Rightarrow> (string, string) res" where
  "requiredSnapshotParameter snapshot name =
     (case map_of (case snapshot of None \<Rightarrow> [] | Some m \<Rightarrow> m) ''parameters'' of
        None \<Rightarrow> Inl (''state_snapshot.parameters.'' @ name @ '' is required'')
      | Some (AnyMap parameters) \<Rightarrow>
          (case map_of parameters name of
             None \<Rightarrow> Inl (''state_snapshot.parameters.'' @ name @ '' is required'')
           | Some (AnyString value) \<Rightarrow>
               if blank value
               then Inl (''state_snapshot.parameters.'' @ name @ '' must be a non-empty string'')
               else Inr (trimSpace value)
           | Some _ \<Rightarrow>
               Inl (''state_snapshot.parameters.'' @ name @ '' must be a non-empty string''))
      | Some _ \<Rightarrow> Inl ''state_snapshot.parameters must be an object'')"

definition validateTargetClusters :: "string list \<Rightarrow> ValidationError option" where
  "validateTargetClusters clusters =
     firstErrI (\<lambda>i c. if blank c then Some (TargetClusterEmpty i) else None) 0 clusters"

definition validateActionParameters :: "FleetIntent \<Rightarrow> ValidationError option" where
  "validateActionParameters intent =
     (if fi_Type intent = IntentDeploy then
        (if blank (fi_Model intent) then Some (ActionParameter ''deploy intent requires model'')
         else if fi_DesiredReplicas intent \<le> 0 then
           Some (ActionParameter ''deploy intent requires desired_replicas greater than zero'')
         else None)
      else if fi_Type intent = IntentScale then
        (if fi_DesiredReplicas intent \<le> 0 then
           Some (ActionParameter ''scale intent requires desired_replicas greater than zero'')
         else None)
      else if fi_Type intent = IntentRoute then
        (if fi_TargetClusters intent = [] then
           Some (ActionParameter ''route intent requires at least one target_cluster'')
         else None)
      else if fi_Type intent = IntentPreWarm then
        (if fi_TargetReplicas intent \<le> 0 then
           Some (ActionParameter ''pre_warm intent requires target_replicas greater than zero'')
         else None)
      else if fi_Type intent = IntentShedLoad then
        (if fi_MaxInflight intent \<le> 0 then
           Some (ActionParameter ''shed_load intent requires max_inflight greater than zero'')
         else if fi_DurationSeconds intent \<le> 0 then
           Some (ActionParameter ''shed_load intent requires duration_seconds greater than zero'')
         else None)
      else if fi_Type intent = IntentMigrate then
        (case requiredSnapshotParameter (fi_StateSnapshot intent) ''target_pool'' of
           Inl e \<Rightarrow> Some (ActionParameter (''migrate intent: '' @ e))
         | Inr targetPool \<Rightarrow>
             if targetPool = trimSpace (fi_Pool intent) then
               Some (ActionParameter ''migrate intent target_pool must differ from pool'')
             else None)
      else if fi_Type intent = IntentKVTransfer then
        (case requiredSnapshotParameter (fi_StateSnapshot intent) ''source_cluster'' of
           Inl e \<Rightarrow> Some (ActionParameter (''kv_transfer intent: '' @ e))
         | Inr sourceCluster \<Rightarrow>
             (case requiredSnapshotParameter (fi_StateSnapshot intent) ''target_cluster'' of
                Inl e \<Rightarrow> Some (ActionParameter (''kv_transfer intent: '' @ e))
              | Inr targetCluster \<Rightarrow>
                  if sourceCluster = targetCluster then
                    Some (ActionParameter
                      ''kv_transfer intent source_cluster and target_cluster must differ'')
                  else None))
      else None)"

definition ValidateGovernedIntent :: "FleetIntent \<Rightarrow> time \<Rightarrow> ValidationError option" where
  "ValidateGovernedIntent intent now =
     (if fi_Type intent \<notin> set supportedIntentTypes then
        Some (UnsupportedIntentType (fi_Type intent))
      else if isNaN (fi_Confidence intent) \<or> isInf (fi_Confidence intent)
           \<or> fLt (fi_Confidence intent) fZero \<or> fLt fOne (fi_Confidence intent) then
        Some ConfidenceRange
      else if fi_HorizonSeconds intent \<le> 0 then Some HorizonRequired
      else if blank (fi_Justification intent) then Some JustificationRequired
      else if fi_StateSnapshot intent = None then Some SnapshotRequired
      else if blank (fi_IdempotencyKey intent) then Some IdempotencyRequired
      else
        (case fi_ExpiresAt intent of
           None \<Rightarrow> Some ExpiryRequired
         | Some expires \<Rightarrow>
             if \<not> now < expires then Some IntentExpired
             else if blank (fi_DecisionPackageRef intent) then Some PackageRefRequired
             else if \<not> validSHA256 (fi_DecisionPackageDigest intent) then Some PackageDigestInvalid
             else
               (case fi_Proposer intent of
                  None \<Rightarrow> Some ProposerRequired
                | Some p \<Rightarrow>
                    if blank (pa_Subject p) \<or> blank (pa_AuthorityRef p) then Some ProposerRequired
                    else if (case pa_ExpiresAt p of None \<Rightarrow> False | Some t \<Rightarrow> \<not> now < t) then
                      Some ProposerExpired
                    else if blank (fi_Pool intent) then Some PoolRequired
                    else if fi_Evidence intent = [] then Some EvidenceRequired
                    else
                      (case firstErrI
                              (\<lambda>i ev. if blank (ed_URI ev) \<or> \<not> validSHA256 (ed_SHA256 ev)
                                      then Some (EvidenceInvalid i) else None)
                              0 (fi_Evidence intent) of
                         Some e \<Rightarrow> Some e
                       | None \<Rightarrow>
                           if \<exists>v \<in> {fi_TargetReplicas intent, fi_DesiredReplicas intent,
                                    fi_CurrentReplicas intent, fi_MaxInflight intent,
                                    fi_DurationSeconds intent}. v < 0 then
                             Some NegativeParameter
                           else
                             (case validateTargetClusters (fi_TargetClusters intent) of
                                Some e \<Rightarrow> Some e
                              | None \<Rightarrow> validateActionParameters intent)))))"

section \<open>What validation guarantees\<close>

text \<open>The declarative reading of the type-specific checks.\<close>

definition actionOk :: "FleetIntent \<Rightarrow> bool" where
  "actionOk i \<longleftrightarrow>
     (fi_Type i = IntentDeploy \<longrightarrow> \<not> blank (fi_Model i) \<and> 0 < fi_DesiredReplicas i) \<and>
     (fi_Type i = IntentScale \<longrightarrow> 0 < fi_DesiredReplicas i) \<and>
     (fi_Type i = IntentRoute \<longrightarrow> fi_TargetClusters i \<noteq> []) \<and>
     (fi_Type i = IntentPreWarm \<longrightarrow> 0 < fi_TargetReplicas i) \<and>
     (fi_Type i = IntentShedLoad \<longrightarrow> 0 < fi_MaxInflight i \<and> 0 < fi_DurationSeconds i) \<and>
     (fi_Type i = IntentMigrate \<longrightarrow>
        (\<exists>p. requiredSnapshotParameter (fi_StateSnapshot i) ''target_pool'' = Inr p
             \<and> p \<noteq> trimSpace (fi_Pool i))) \<and>
     (fi_Type i = IntentKVTransfer \<longrightarrow>
        (\<exists>s t. requiredSnapshotParameter (fi_StateSnapshot i) ''source_cluster'' = Inr s
             \<and> requiredSnapshotParameter (fi_StateSnapshot i) ''target_cluster'' = Inr t
             \<and> s \<noteq> t))"

definition governedIntent :: "FleetIntent \<Rightarrow> time \<Rightarrow> bool" where
  "governedIntent i now \<longleftrightarrow>
     fi_Type i \<in> {IntentDeploy, IntentScale, IntentRoute, IntentPreWarm, IntentShedLoad,
                  IntentMigrate, IntentKVTransfer} \<and>
     fLe fZero (fi_Confidence i) \<and> fLe (fi_Confidence i) fOne \<and>
     0 < fi_HorizonSeconds i \<and> \<not> blank (fi_Justification i) \<and> fi_StateSnapshot i \<noteq> None \<and>
     \<not> blank (fi_IdempotencyKey i) \<and>
     (\<exists>t. fi_ExpiresAt i = Some t \<and> now < t) \<and>
     \<not> blank (fi_DecisionPackageRef i) \<and> validSHA256 (fi_DecisionPackageDigest i) \<and>
     (\<exists>p. fi_Proposer i = Some p \<and> \<not> blank (pa_Subject p) \<and> \<not> blank (pa_AuthorityRef p)
          \<and> (\<forall>t. pa_ExpiresAt p = Some t \<longrightarrow> now < t)) \<and>
     \<not> blank (fi_Pool i) \<and> fi_Evidence i \<noteq> [] \<and>
     (\<forall>ev \<in> set (fi_Evidence i). \<not> blank (ed_URI ev) \<and> validSHA256 (ed_SHA256 ev)) \<and>
     0 \<le> fi_TargetReplicas i \<and> 0 \<le> fi_DesiredReplicas i \<and> 0 \<le> fi_CurrentReplicas i \<and>
     0 \<le> fi_MaxInflight i \<and> 0 \<le> fi_DurationSeconds i \<and>
     (\<forall>c \<in> set (fi_TargetClusters i). \<not> blank c) \<and> actionOk i"

lemma intent_types_distinct [simp]:
  "distinct [IntentPreWarm, IntentScale, IntentShedLoad, IntentAlert, IntentMigrate, IntentRoute,
     IntentDeploy, IntentKVTransfer, IntentNoAction]"
  by (simp add: intent_type_defs)

lemma validateActionParameters_None: "validateActionParameters i = None \<longleftrightarrow> actionOk i"
proof -
  note d = intent_types_distinct
  show ?thesis
    unfolding validateActionParameters_def actionOk_def
    by (cases "fi_Type i = IntentDeploy"; cases "fi_Type i = IntentScale";
        cases "fi_Type i = IntentRoute"; cases "fi_Type i = IntentPreWarm";
        cases "fi_Type i = IntentShedLoad"; cases "fi_Type i = IntentMigrate";
        cases "fi_Type i = IntentKVTransfer")
      (use d in \<open>auto split: sum.splits if_splits\<close>)
qed

lemma validateTargetClusters_None:
  "validateTargetClusters cs = None \<longleftrightarrow> (\<forall>c \<in> set cs. \<not> blank c)"
  unfolding validateTargetClusters_def by (rule firstErrI_cond_None)

lemma unit_interval_iff:
  "\<not> (isNaN c \<or> isInf c \<or> fLt c fZero \<or> fLt fOne c) \<longleftrightarrow> fLe fZero c \<and> fLe c fOne"
  by (cases c rule: fRank.cases) (auto simp: fLe_def fLt_def)


text \<open>C7: The governed-intent validator accepts exactly the intents that meet the
  trust envelope: a supported type, a confidence between 0 and 1 (so not a NaN), a
  positive horizon, an unexpired intent and proposer, digests that are SHA-256,
  non-negative parameters, and the parameters its action needs.\<close>

theorem ValidateGovernedIntent_iff:
  "ValidateGovernedIntent i now = None \<longleftrightarrow> governedIntent i now"
proof -
  have expired: "(case x of None \<Rightarrow> False | Some t \<Rightarrow> \<not> now < t) \<longleftrightarrow> (\<exists>t. x = Some t \<and> \<not> now < t)"
    for x :: "time option"
    by (simp split: option.split)
  have types: "set supportedIntentTypes = {IntentDeploy, IntentScale, IntentRoute, IntentPreWarm,
      IntentShedLoad, IntentMigrate, IntentKVTransfer}"
    by (simp add: supportedIntentTypes_def)
  show ?thesis
    unfolding ValidateGovernedIntent_def go_err unit_interval_iff validateTargetClusters_None
      validateActionParameters_None expired governedIntent_def [folded types]
    by (cases "fi_ExpiresAt i"; cases "fi_Proposer i") auto
qed

section \<open>Policy evaluation\<close>

record PolicyConfig =
  pc_MinConfidence :: float64
  pc_MaxReplicasPerModel :: int64
  pc_RequireHumanGate :: bool

definition DefaultPolicyConfig :: PolicyConfig where
  "DefaultPolicyConfig =
     \<lparr>pc_MinConfidence = fLit (1 / 2), pc_MaxReplicasPerModel = 8, pc_RequireHumanGate = True\<rparr>"

definition Evaluate :: "FleetIntent \<Rightarrow> PolicyConfig \<Rightarrow> IntentResponse" where
  "Evaluate intent policy =
     (if fLt (fi_Confidence intent) (pc_MinConfidence policy) then
        \<lparr>ir_IntentID = fi_ID intent, ir_Status = StatusDeferred,
         ir_Reason = ''confidence '' @ fmt2f (fi_Confidence intent) @ '' below threshold ''
           @ fmt2f (pc_MinConfidence policy),
         ir_LedgerEntryID = []\<rparr>
      else if pc_MaxReplicasPerModel policy < fi_TargetReplicas intent
           \<or> pc_MaxReplicasPerModel policy < fi_DesiredReplicas intent then
        let replicas = (if fi_TargetReplicas intent < fi_DesiredReplicas intent
                        then fi_DesiredReplicas intent else fi_TargetReplicas intent)
        in \<lparr>ir_IntentID = fi_ID intent, ir_Status = StatusRefused,
            ir_Reason = ''requested '' @ showInt replicas @ '' replicas exceeds max ''
              @ showInt (pc_MaxReplicasPerModel policy),
            ir_LedgerEntryID = []\<rparr>
      else if fi_Type intent = IntentAlert \<and> fi_Severity intent = ''critical''
           \<and> pc_RequireHumanGate policy then
        \<lparr>ir_IntentID = fi_ID intent, ir_Status = StatusDeferred,
         ir_Reason = ''critical alert requires human approval'', ir_LedgerEntryID = []\<rparr>
      else
        \<lparr>ir_IntentID = fi_ID intent, ir_Status = StatusAccepted,
         ir_Reason = ''policy checks passed; awaiting governance and observed actuation'',
         ir_LedgerEntryID = []\<rparr>)"

lemma Evaluate_IntentID [simp]: "ir_IntentID (Evaluate i p) = fi_ID i"
  by (simp add: Evaluate_def Let_def)

lemma Evaluate_not_executed: "ir_Status (Evaluate i p) \<noteq> StatusExecuted"
  by (simp add: Evaluate_def Let_def)

lemma Evaluate_accepted_iff:
  "ir_Status (Evaluate i p) = StatusAccepted \<longleftrightarrow>
     \<not> fLt (fi_Confidence i) (pc_MinConfidence p) \<and>
     fi_TargetReplicas i \<le> pc_MaxReplicasPerModel p \<and>
     fi_DesiredReplicas i \<le> pc_MaxReplicasPerModel p \<and>
     \<not> (fi_Type i = IntentAlert \<and> fi_Severity i = ''critical'' \<and> pc_RequireHumanGate p)"
  by (auto simp: Evaluate_def Let_def)

text \<open>C11: An intent is accepted exactly when its confidence is not below the
  minimum, both its replica counts are within the limit and it is not a critical
  alert behind the human gate. So raising the confidence of an accepted intent,
  or loosening the policy (a lower minimum, a higher limit, no added gate), or
  both, keeps it accepted.\<close>

theorem Evaluate_mono:
  assumes "fLe (fi_Confidence i) confidence"
    and "fLe (pc_MinConfidence q) (pc_MinConfidence p)"
    and "pc_MaxReplicasPerModel p \<le> pc_MaxReplicasPerModel q"
    and "pc_RequireHumanGate q \<longrightarrow> pc_RequireHumanGate p"
  shows "(ir_Status (Evaluate i p) = StatusAccepted \<longleftrightarrow>
      \<not> fLt (fi_Confidence i) (pc_MinConfidence p) \<and>
      fi_TargetReplicas i \<le> pc_MaxReplicasPerModel p \<and> fi_DesiredReplicas i \<le> pc_MaxReplicasPerModel p \<and>
      \<not> (fi_Type i = IntentAlert \<and> fi_Severity i = ''critical'' \<and> pc_RequireHumanGate p)) \<and>
    (ir_Status (Evaluate i p) = StatusAccepted \<longrightarrow>
      ir_Status (Evaluate (i\<lparr>fi_Confidence := confidence\<rparr>) q) = StatusAccepted)"
proof -
  have "\<not> fLt confidence (pc_MinConfidence q)" if "\<not> fLt (fi_Confidence i) (pc_MinConfidence p)"
    using that assms(1,2) fLt_fLe_trans fLe_fLt_trans by blast
  with assms(3,4) show ?thesis unfolding Evaluate_accepted_iff by auto
qed

definition sampleIntent :: FleetIntent where
  "sampleIntent = \<lparr>fi_ID = ''intent-1'', fi_CorrelationID = ''corr-1'', fi_IdempotencyKey = ''key-1'',
     fi_Type = IntentScale, fi_Confidence = Fin False (3 / 4), fi_HorizonSeconds = 60,
     fi_Justification = ''load'', fi_StateSnapshot = Some [], fi_CreatedAt = 100,
     fi_ExpiresAt = Some 1000, fi_DecisionPackageRef = ''gcl://p'', fi_DecisionPackageDigest = [],
     fi_Evidence = [], fi_Proposer = None, fi_Model = ''m'', fi_Pool = ''p'', fi_TargetReplicas = 0,
     fi_DesiredReplicas = 4, fi_CurrentReplicas = 2, fi_TargetClusters = [], fi_MaxInflight = 0,
     fi_DurationSeconds = 0, fi_Metric = [], fi_Severity = [], fi_Message = [], fi_Reason = [],
     fi_RecommendedAction = []\<rparr>"

lemma fLit_half: "fLit (1 / 2) = Fin False (1 / 2)"
  by code_simp

theorem Evaluate_mono_witness:
  "ir_Status (Evaluate sampleIntent DefaultPolicyConfig) = StatusAccepted \<and>
   ir_Status (Evaluate (sampleIntent\<lparr>fi_Confidence := Fin False 1\<rparr>)
     \<lparr>pc_MinConfidence = fZero, pc_MaxReplicasPerModel = 16, pc_RequireHumanGate = False\<rparr>)
     = StatusAccepted"
proof -
  let ?q = "\<lparr>pc_MinConfidence = fZero, pc_MaxReplicasPerModel = 16, pc_RequireHumanGate = False\<rparr>"
  have a: "ir_Status (Evaluate sampleIntent DefaultPolicyConfig) = StatusAccepted"
    by (simp add: Evaluate_accepted_iff fLit_half sampleIntent_def DefaultPolicyConfig_def
        intent_type_defs)
  have "fLe (fi_Confidence sampleIntent) (Fin False 1)" "fLe (pc_MinConfidence ?q) (pc_MinConfidence DefaultPolicyConfig)"
    "pc_MaxReplicasPerModel DefaultPolicyConfig \<le> pc_MaxReplicasPerModel ?q"
    by (simp_all add: sampleIntent_def fLit_half DefaultPolicyConfig_def)
  with a Evaluate_mono [of sampleIntent "Fin False 1" ?q DefaultPolicyConfig] show ?thesis by simp
qed

end
