(* ===== verification/Intent_Repository.thy ===== *)
theory Intent_Repository
  imports Intent_Validation
begin

text \<open>
  The persistence boundary of \<open>pkg/intents/service.go\<close>: the \<open>Repository\<close>
  interface as a record of operations, the concurrency-safe \<open>MemoryRepository\<close>
  that implements it, and the two contracts the service relies on. The
  operations of \<open>MemoryRepository\<close> hold its lock for their whole body, so each is
  one atomic step on the state; the clones it stores and returns are copies, and
  the model's values are immutable (\<open>cloneIntent_id\<close>, \<open>cloneOperation_id\<close>).
\<close>

section \<open>The interface\<close>

record 'r Repository =
  repo_Create :: "FleetIntent \<Rightarrow> FleetOperation \<Rightarrow> 'r \<Rightarrow> 'r \<times> IntentError option"
  repo_Delete :: "string \<Rightarrow> string \<Rightarrow> 'r \<Rightarrow> 'r \<times> IntentError option"
  repo_GetIntent :: "string \<Rightarrow> 'r \<Rightarrow> (IntentError, FleetIntent) res"
  repo_GetOperation :: "string \<Rightarrow> 'r \<Rightarrow> (IntentError, FleetOperation) res"
  repo_FindByIdempotencyKey :: "string \<Rightarrow> 'r \<Rightarrow> (IntentError, FleetOperation) res"
  repo_UpdateOperation :: "FleetOperation \<Rightarrow> 'r \<Rightarrow> 'r \<times> IntentError option"

text \<open>What every repository promises about stored operations: an operation is
  returned under its own identifier, a successful create or update is visible to
  the next read and changes no other operation, a failed one changes nothing, and
  a delete never makes an operation appear.\<close>

locale operation_store =
  fixes R :: "'r Repository"
    and inv :: "'r \<Rightarrow> bool"
  assumes create_inv: "inv r \<Longrightarrow> repo_Create R i op r = (r', eo) \<Longrightarrow> inv r'"
    and create_get: "inv r \<Longrightarrow> repo_Create R i op r = (r', None) \<Longrightarrow>
      repo_GetOperation R x r' = (if x = op_ID op then Inr op else repo_GetOperation R x r)"
    and create_err: "repo_Create R i op r = (r', Some e) \<Longrightarrow> r' = r"
    and update_inv: "inv r \<Longrightarrow> repo_UpdateOperation R op r = (r', eo) \<Longrightarrow> inv r'"
    and update_get: "inv r \<Longrightarrow> repo_UpdateOperation R op r = (r', None) \<Longrightarrow>
      repo_GetOperation R x r' = (if x = op_ID op then Inr op else repo_GetOperation R x r)"
    and update_err: "repo_UpdateOperation R op r = (r', Some e) \<Longrightarrow> r' = r"
    and delete_inv: "inv r \<Longrightarrow> repo_Delete R iid oid r = (r', eo) \<Longrightarrow> inv r'"
    and delete_get: "inv r \<Longrightarrow> repo_Delete R iid oid r = (r', eo) \<Longrightarrow>
      repo_GetOperation R x r' = Inr op \<Longrightarrow> repo_GetOperation R x r = Inr op"
    and get_ID: "inv r \<Longrightarrow> repo_GetOperation R x r = Inr op \<Longrightarrow> op_ID op = x"

text \<open>A repository whose idempotency index follows its operations. The index
  stays consistent as long as new operations take unused identifiers and updates
  keep the idempotency key.\<close>

locale idempotent_store = operation_store R inv
  for R :: "'r Repository" and inv :: "'r \<Rightarrow> bool" +
  fixes keyed :: "'r \<Rightarrow> bool"
  assumes keyed_create:
      "inv r \<Longrightarrow> keyed r \<Longrightarrow> repo_Create R i op r = (r', None) \<Longrightarrow>
       op_IdempotencyKey op = fi_IdempotencyKey i \<Longrightarrow> \<not> isOk (repo_GetOperation R (op_ID op) r) \<Longrightarrow>
       keyed r'"
    and find_create:
      "inv r \<Longrightarrow> repo_Create R i op r = (r', None) \<Longrightarrow> fi_IdempotencyKey i \<noteq> [] \<Longrightarrow>
       repo_FindByIdempotencyKey R (fi_IdempotencyKey i) r' = Inr op"
    and keyed_update:
      "inv r \<Longrightarrow> keyed r \<Longrightarrow> repo_UpdateOperation R op r = (r', None) \<Longrightarrow>
       repo_GetOperation R (op_ID op) r = Inr old \<Longrightarrow> op_IdempotencyKey op = op_IdempotencyKey old \<Longrightarrow>
       keyed r'"
    and keyed_delete: "inv r \<Longrightarrow> keyed r \<Longrightarrow> repo_Delete R iid oid r = (r', eo) \<Longrightarrow> keyed r'"
    and keyed_find:
      "inv r \<Longrightarrow> keyed r \<Longrightarrow> repo_FindByIdempotencyKey R k r = Inr op \<Longrightarrow>
       repo_GetOperation R (op_ID op) r = Inr op \<and> op_IdempotencyKey op = k"
    and find_update:
      "inv r \<Longrightarrow> keyed r \<Longrightarrow> repo_UpdateOperation R op r = (r', None) \<Longrightarrow>
       repo_FindByIdempotencyKey R k r = Inr old \<Longrightarrow>
       repo_FindByIdempotencyKey R k r' = Inr (if op_ID old = op_ID op then op else old)"

section \<open>The in-memory repository\<close>

record MemoryRepository =
  mr_intents :: "string \<rightharpoonup> FleetIntent"
  mr_operations :: "string \<rightharpoonup> FleetOperation"
  mr_idempotency :: "string \<rightharpoonup> string"

definition NewMemoryRepository :: MemoryRepository where
  "NewMemoryRepository =
     \<lparr>mr_intents = Map.empty, mr_operations = Map.empty, mr_idempotency = Map.empty\<rparr>"

definition cloneIntent :: "FleetIntent \<Rightarrow> FleetIntent" where
  "cloneIntent i =
     i\<lparr>fi_TargetClusters := [] @ fi_TargetClusters i,
       fi_Evidence := [] @ fi_Evidence i,
       fi_StateSnapshot := map_option (map (\<lambda>(k, v). (k, v))) (fi_StateSnapshot i)\<rparr>"

definition cloneOperation :: "FleetOperation \<Rightarrow> FleetOperation" where
  "cloneOperation op =
     op\<lparr>op_Transitions := [] @ op_Transitions op,
        op_LedgerReceipts := [] @ op_LedgerReceipts op,
        op_AuthorizationRef := map_option (\<lambda>a. a) (op_AuthorizationRef op),
        op_Provider := map_option (\<lambda>p. p) (op_Provider op)\<rparr>"

lemma cloneIntent_id [simp]: "cloneIntent i = i"
  by (cases "fi_StateSnapshot i") (simp_all add: cloneIntent_def)

lemma cloneOperation_id [simp]: "cloneOperation op = op"
  by (simp add: cloneOperation_def option.map_ident)

definition memCreate ::
  "FleetIntent \<Rightarrow> FleetOperation \<Rightarrow> MemoryRepository \<Rightarrow> MemoryRepository \<times> IntentError option" where
  "memCreate intent operation r =
     (if mr_intents r (fi_ID intent) \<noteq> None then (r, Some (IntentExists (fi_ID intent)))
      else
        let store = (\<lambda>r. (r\<lparr>mr_intents := (mr_intents r)(fi_ID intent \<mapsto> cloneIntent intent),
                            mr_operations := (mr_operations r)(op_ID operation \<mapsto> cloneOperation operation)\<rparr>,
                          None))
        in if fi_IdempotencyKey intent \<noteq> [] then
             (case mr_idempotency r (fi_IdempotencyKey intent) of
                Some existing \<Rightarrow> (r, Some (IdempotencyTaken existing))
              | None \<Rightarrow>
                  store (r\<lparr>mr_idempotency :=
                             (mr_idempotency r)(fi_IdempotencyKey intent \<mapsto> op_ID operation)\<rparr>))
           else store r)"

definition memDelete ::
  "string \<Rightarrow> string \<Rightarrow> MemoryRepository \<Rightarrow> MemoryRepository \<times> IntentError option" where
  "memDelete intentID operationID r =
     (let operation = mr_operations r operationID in
      if operation = None \<and> mr_intents r intentID = None then (r, Some ErrNotFound)
      else
        let r1 = (case operation of
                    Some op \<Rightarrow>
                      if op_IdempotencyKey op \<noteq> []
                      then r\<lparr>mr_idempotency := (mr_idempotency r)(op_IdempotencyKey op := None)\<rparr>
                      else r
                  | None \<Rightarrow> r)
        in (r1\<lparr>mr_operations := (mr_operations r1)(operationID := None),
               mr_intents := (mr_intents r1)(intentID := None)\<rparr>, None))"

definition memGetIntent :: "string \<Rightarrow> MemoryRepository \<Rightarrow> (IntentError, FleetIntent) res" where
  "memGetIntent x r =
     (case mr_intents r x of None \<Rightarrow> Inl ErrNotFound | Some i \<Rightarrow> Inr (cloneIntent i))"

definition memGetOperation :: "string \<Rightarrow> MemoryRepository \<Rightarrow> (IntentError, FleetOperation) res" where
  "memGetOperation x r =
     (case mr_operations r x of None \<Rightarrow> Inl ErrNotFound | Some op \<Rightarrow> Inr (cloneOperation op))"

text \<open>Indexing the operations with an unknown identifier gives the zero
  operation, as it does in Go.\<close>

definition memFindByIdempotencyKey ::
  "string \<Rightarrow> MemoryRepository \<Rightarrow> (IntentError, FleetOperation) res" where
  "memFindByIdempotencyKey key r =
     (case mr_idempotency r key of
        None \<Rightarrow> Inl ErrNotFound
      | Some x \<Rightarrow>
          Inr (cloneOperation (case mr_operations r x of None \<Rightarrow> zeroOperation | Some op \<Rightarrow> op)))"

definition memUpdateOperation ::
  "FleetOperation \<Rightarrow> MemoryRepository \<Rightarrow> MemoryRepository \<times> IntentError option" where
  "memUpdateOperation operation r =
     (if mr_operations r (op_ID operation) = None then (r, Some ErrNotFound)
      else (r\<lparr>mr_operations := (mr_operations r)(op_ID operation \<mapsto> cloneOperation operation)\<rparr>, None))"

definition memoryRepository :: "MemoryRepository Repository" where
  "memoryRepository =
     \<lparr>repo_Create = memCreate, repo_Delete = memDelete, repo_GetIntent = memGetIntent,
      repo_GetOperation = memGetOperation, repo_FindByIdempotencyKey = memFindByIdempotencyKey,
      repo_UpdateOperation = memUpdateOperation\<rparr>"

lemma memoryRepository_sel [simp]:
  "repo_Create memoryRepository = memCreate" "repo_Delete memoryRepository = memDelete"
  "repo_GetIntent memoryRepository = memGetIntent" "repo_GetOperation memoryRepository = memGetOperation"
  "repo_FindByIdempotencyKey memoryRepository = memFindByIdempotencyKey"
  "repo_UpdateOperation memoryRepository = memUpdateOperation"
  by (simp_all add: memoryRepository_def)

lemmas memory_ops = memCreate_def memDelete_def memGetIntent_def memGetOperation_def
  memFindByIdempotencyKey_def memUpdateOperation_def memoryRepository_def Let_def

section \<open>It meets both contracts\<close>

definition memInv :: "MemoryRepository \<Rightarrow> bool" where
  "memInv r \<longleftrightarrow> (\<forall>x op. mr_operations r x = Some op \<longrightarrow> op_ID op = x)"

definition memKeyed :: "MemoryRepository \<Rightarrow> bool" where
  "memKeyed r \<longleftrightarrow> mr_idempotency r [] = None \<and>
     (\<forall>k x. mr_idempotency r k = Some x \<longrightarrow>
        (\<exists>op. mr_operations r x = Some op \<and> op_IdempotencyKey op = k))"

lemma memInv_New [simp]: "memInv NewMemoryRepository"
  by (simp add: memInv_def NewMemoryRepository_def)

lemma memKeyed_New [simp]: "memKeyed NewMemoryRepository"
  by (simp add: memKeyed_def NewMemoryRepository_def)

lemma memInv_create: "memInv r \<Longrightarrow> memCreate i op r = (r', eo) \<Longrightarrow> memInv r'"
  by (auto simp: memInv_def memory_ops split: if_splits option.splits)

lemma memInv_update: "memInv r \<Longrightarrow> memUpdateOperation op r = (r', eo) \<Longrightarrow> memInv r'"
  by (auto simp: memInv_def memory_ops split: if_splits option.splits)

lemma memInv_delete: "memInv r \<Longrightarrow> memDelete iid oid r = (r', eo) \<Longrightarrow> memInv r'"
  by (auto simp: memInv_def memory_ops split: if_splits option.splits)

lemma memDelete_fields:
  assumes "memDelete iid oid r = (r', None)"
  shows "mr_operations r' = (mr_operations r)(oid := None)"
    and "mr_idempotency r' =
           (case mr_operations r oid of
              Some op \<Rightarrow> (if op_IdempotencyKey op \<noteq> [] then (mr_idempotency r)(op_IdempotencyKey op := None)
                         else mr_idempotency r)
            | None \<Rightarrow> mr_idempotency r)"
  using assms by (auto simp: memDelete_def Let_def split: if_splits option.splits)

lemma memCreate_fields:
  assumes "memCreate i op r = (r', None)"
  shows "mr_operations r' = (mr_operations r)(op_ID op \<mapsto> op)"
    and "mr_idempotency r' =
           (if fi_IdempotencyKey i \<noteq> [] then (mr_idempotency r)(fi_IdempotencyKey i \<mapsto> op_ID op)
            else mr_idempotency r)"
  using assms by (auto simp: memCreate_def Let_def split: if_splits option.splits)

lemma memUpdate_fields:
  assumes "memUpdateOperation op r = (r', None)"
  shows "mr_operations r' = (mr_operations r)(op_ID op \<mapsto> op)" and "mr_idempotency r' = mr_idempotency r"
  using assms by (auto simp: memUpdateOperation_def split: if_splits)

lemma memGet_iff: "memGetOperation x r = Inr op \<longleftrightarrow> mr_operations r x = Some op"
  by (simp add: memGetOperation_def split: option.split)

lemma memGet_cong: "mr_operations r' x = mr_operations r x \<Longrightarrow> memGetOperation x r' = memGetOperation x r"
  by (simp add: memGetOperation_def)

lemma memCreate_get:
  "memCreate i op r = (r', None) \<Longrightarrow>
   memGetOperation x r' = (if x = op_ID op then Inr op else memGetOperation x r)"
  by (simp add: memGetOperation_def memCreate_fields)

lemma memUpdate_get:
  "memUpdateOperation op r = (r', None) \<Longrightarrow>
   memGetOperation x r' = (if x = op_ID op then Inr op else memGetOperation x r)"
  by (simp add: memGetOperation_def memUpdate_fields)

lemma memCreate_err: "memCreate i op r = (r', Some e) \<Longrightarrow> r' = r"
  by (auto simp: memCreate_def Let_def split: if_splits option.splits)

lemma memUpdate_err: "memUpdateOperation op r = (r', Some e) \<Longrightarrow> r' = r"
  by (auto simp: memUpdateOperation_def split: if_splits)

lemma memDelete_err: "memDelete iid oid r = (r', Some e) \<Longrightarrow> r' = r"
  by (auto simp: memDelete_def Let_def split: if_splits)

lemma memDelete_get:
  assumes "memDelete iid oid r = (r', eo)" and "memGetOperation x r' = Inr op"
  shows "memGetOperation x r = Inr op"
proof (cases eo)
  case None
  with assms show ?thesis by (auto simp: memGet_iff memDelete_fields split: if_splits)
next
  case (Some e)
  with assms memDelete_err show ?thesis by blast
qed

lemma memInvD: "memInv r \<Longrightarrow> mr_operations r x = Some op \<Longrightarrow> op_ID op = x"
  unfolding memInv_def by blast

interpretation mem: operation_store memoryRepository memInv
proof unfold_locales
  show "memInv r'" if "memInv r" "repo_Create memoryRepository i op r = (r', eo)" for r i op r' eo
    using that unfolding memoryRepository_sel by (rule memInv_create)
  show "memInv r'" if "memInv r" "repo_UpdateOperation memoryRepository op r = (r', eo)" for r op r' eo
    using that unfolding memoryRepository_sel by (rule memInv_update)
  show "memInv r'" if "memInv r" "repo_Delete memoryRepository iid oid r = (r', eo)" for r iid oid r' eo
    using that unfolding memoryRepository_sel by (rule memInv_delete)
  show "repo_GetOperation memoryRepository x r = Inr op"
    if "repo_Delete memoryRepository iid oid r = (r', eo)"
      and "repo_GetOperation memoryRepository x r' = Inr op" for r iid oid r' eo x op
    using that unfolding memoryRepository_sel by (rule memDelete_get)
  show "op_ID op = x" if "memInv r" "repo_GetOperation memoryRepository x r = Inr op" for r x op
    using that unfolding memoryRepository_sel memGet_iff by (rule memInvD)
qed (unfold memoryRepository_sel, (rule memCreate_get memUpdate_get memCreate_err memUpdate_err, assumption)+)

lemma memKeyedD:
  assumes "memKeyed r" and "mr_idempotency r k = Some x"
  shows "k \<noteq> []" and "\<exists>op. mr_operations r x = Some op \<and> op_IdempotencyKey op = k"
  using assms unfolding memKeyed_def by auto

lemma memKeyed_at:
  assumes "memKeyed r" and "mr_idempotency r k = Some x" and "mr_operations r x = Some op"
  shows "op_IdempotencyKey op = k"
  using memKeyedD(2) [OF assms(1,2)] assms(3) by auto

lemma memKeyed_fresh:
  assumes "memKeyed r" and "mr_operations r x = None"
  shows "mr_idempotency r k \<noteq> Some x"
proof
  assume "mr_idempotency r k = Some x"
  from memKeyedD(2) [OF assms(1) this] assms(2) show False by simp
qed

lemma memKeyedI:
  assumes "mr_idempotency r [] = None"
    and "\<And>k x. mr_idempotency r k = Some x \<Longrightarrow>
           \<exists>op. mr_operations r x = Some op \<and> op_IdempotencyKey op = k"
  shows "memKeyed r"
  using assms unfolding memKeyed_def by blast

lemma memKeyed_empty: "memKeyed r \<Longrightarrow> mr_idempotency r [] = None"
  unfolding memKeyed_def by (rule conjunct1)

lemma memKeyed_delete:
  assumes keyed: "memKeyed r" and del: "memDelete iid oid r = (r', eo)"
  shows "memKeyed r'"
proof (cases eo)
  case (Some e)
  with del have "r' = r" by (auto simp: memDelete_def Let_def split: if_splits)
  with keyed show ?thesis by simp
next
  case None
  note f = memDelete_fields [OF del [unfolded None]]
  show ?thesis
  proof (rule memKeyedI)
    show "mr_idempotency r' [] = None"
      using memKeyed_empty [OF keyed] by (simp add: f split: option.split)
    fix k x assume k: "mr_idempotency r' k = Some x"
    then have old: "mr_idempotency r k = Some x"
      by (auto simp: f split: option.splits if_splits)
    have "x \<noteq> oid"
    proof
      assume x: "x = oid"
      from memKeyedD [OF keyed old] x obtain op
        where "mr_operations r oid = Some op" "op_IdempotencyKey op = k" "k \<noteq> []" by blast
      with k show False by (simp add: f)
    qed
    with memKeyedD(2) [OF keyed old] show "\<exists>op. mr_operations r' x = Some op \<and> op_IdempotencyKey op = k"
      by (simp add: f)
  qed
qed

lemma memKeyed_create:
  assumes keyed: "memKeyed r" and create: "memCreate i op r = (r', None)"
    and key: "op_IdempotencyKey op = fi_IdempotencyKey i" and fresh: "mr_operations r (op_ID op) = None"
  shows "memKeyed r'"
proof (rule memKeyedI)
  note f = memCreate_fields [OF create]
  show "mr_idempotency r' [] = None"
    using memKeyed_empty [OF keyed] by (simp add: f)
  fix k x assume "mr_idempotency r' k = Some x"
  then consider "k = fi_IdempotencyKey i" "x = op_ID op" | "mr_idempotency r k = Some x"
    by (cases "fi_IdempotencyKey i = []"; cases "k = fi_IdempotencyKey i") (simp_all add: f)
  then show "\<exists>op. mr_operations r' x = Some op \<and> op_IdempotencyKey op = k"
  proof cases
    case 1 then show ?thesis by (simp add: f key)
  next
    case 2
    then have "x \<noteq> op_ID op" using memKeyed_fresh [OF keyed fresh, of k] by auto
    with memKeyedD(2) [OF keyed 2] show ?thesis by (simp add: f)
  qed
qed

lemma memKeyed_update:
  assumes keyed: "memKeyed r" and upd: "memUpdateOperation op r = (r', None)"
    and old: "memGetOperation (op_ID op) r = Inr old"
    and key: "op_IdempotencyKey op = op_IdempotencyKey old"
  shows "memKeyed r'"
proof (rule memKeyedI)
  note f = memUpdate_fields [OF upd]
  have stored: "mr_operations r (op_ID op) = Some old"
    using old by (simp add: memGetOperation_def split: option.splits)
  show "mr_idempotency r' [] = None"
    using memKeyed_empty [OF keyed] by (simp add: f)
  fix k x assume "mr_idempotency r' k = Some x"
  then have k: "mr_idempotency r k = Some x" by (simp add: f)
  show "\<exists>op. mr_operations r' x = Some op \<and> op_IdempotencyKey op = k"
    using memKeyedD(2) [OF keyed k] stored key by (auto simp: f)
qed

lemma memFind_create:
  assumes "memCreate i op r = (r', None)" and "fi_IdempotencyKey i \<noteq> []"
  shows "memFindByIdempotencyKey (fi_IdempotencyKey i) r' = Inr op"
  using assms by (auto simp: memCreate_def memFindByIdempotencyKey_def Let_def split: if_splits option.splits)

lemma memFind_stored:
  assumes keyed: "memKeyed r" and found: "memFindByIdempotencyKey k r = Inr op"
  obtains x where "mr_idempotency r k = Some x" "mr_operations r x = Some op" "op_IdempotencyKey op = k"
proof -
  obtain x where x: "mr_idempotency r k = Some x"
    using found by (auto simp: memFindByIdempotencyKey_def split: option.splits)
  with memKeyedD(2) [OF keyed x] obtain op' where op': "mr_operations r x = Some op'" "op_IdempotencyKey op' = k"
    by blast
  with found x have "op = op'" by (simp add: memFindByIdempotencyKey_def)
  with x op' show thesis by (intro that) simp_all
qed

lemma memFind_keyed:
  assumes inv: "memInv r" and keyed: "memKeyed r" and found: "memFindByIdempotencyKey k r = Inr op"
  shows "memGetOperation (op_ID op) r = Inr op \<and> op_IdempotencyKey op = k"
  using memFind_stored [OF keyed found]
proof cases
  case (1 x)
  with memInvD [OF inv 1(2)] show ?thesis by (simp add: memGetOperation_def)
qed

lemma memFind_update:
  assumes inv: "memInv r" and keyed: "memKeyed r" and upd: "memUpdateOperation op r = (r', None)"
    and found: "memFindByIdempotencyKey k r = Inr old"
  shows "memFindByIdempotencyKey k r' = Inr (if op_ID old = op_ID op then op else old)"
  using memFind_stored [OF keyed found]
proof cases
  case (1 x)
  with memInvD [OF inv 1(2)] show ?thesis
    by (simp add: memFindByIdempotencyKey_def memUpdate_fields [OF upd])
qed

interpretation mem: idempotent_store memoryRepository memInv memKeyed
proof unfold_locales
  show "memKeyed r'"
    if "memKeyed r" "repo_Create memoryRepository i op r = (r', None)"
      "op_IdempotencyKey op = fi_IdempotencyKey i"
      "\<not> isOk (repo_GetOperation memoryRepository (op_ID op) r)" for r i op r'
  proof (rule memKeyed_create)
    show "mr_operations r (op_ID op) = None"
      using that(4) by (simp add: memGetOperation_def split: option.splits)
  qed (use that in \<open>simp_all\<close>)
  show "memKeyed r'"
    if "memKeyed r" "repo_UpdateOperation memoryRepository op r = (r', None)"
      "repo_GetOperation memoryRepository (op_ID op) r = Inr old"
      "op_IdempotencyKey op = op_IdempotencyKey old" for r op r' old
    using that unfolding memoryRepository_sel by (rule memKeyed_update)
  show "memKeyed r'" if "memKeyed r" "repo_Delete memoryRepository iid oid r = (r', eo)"
    for r iid oid r' eo
    using that unfolding memoryRepository_sel by (rule memKeyed_delete)
qed (unfold memoryRepository_sel, (rule memFind_create memFind_keyed memFind_update, assumption+)+)

end
