(* ===== verification/Go_JSON.thy ===== *)
theory Go_JSON
  imports Go_Base
begin

text \<open>
  What the sources use of package \<open>encoding/json\<close>: the scanner and the string
  unquoting of \<open>json.Decoder\<close>, and the encoding of structs of strings. The parser
  keeps members in order and with their duplicates; the nesting bound is the one
  of the Go scanner.
\<close>

datatype json =
    JNull
  | JBool bool
  | JNumber string
  | JString string
  | JArray "json list"
  | JObject "(string \<times> json) list"

section \<open>String literals\<close>

text \<open>\<open>utf8.AppendRune\<close>: surrogates and values past the last rune are written as
  the replacement rune.\<close>

definition encodeRune :: "nat \<Rightarrow> string" where
  "encodeRune r =
     (let r' = (if 55296 \<le> r \<and> r < 57344 \<or> 1114111 < r then runeError else r)
      in if r' < 128 then [char_of r']
         else if r' < 2048 then [char_of (192 + r' div 64), char_of (128 + r' mod 64)]
         else if r' < 65536 then
           [char_of (224 + r' div 4096), char_of (128 + r' div 64 mod 64), char_of (128 + r' mod 64)]
         else
           [char_of (240 + r' div 262144), char_of (128 + r' div 4096 mod 64),
            char_of (128 + r' div 64 mod 64), char_of (128 + r' mod 64)])"

definition hexVal :: "char \<Rightarrow> nat" where
  "hexVal c =
     (let n = of_char c in
      if n < 58 then n - 48 else if n < 71 then n - 55 else n - 87)"

fun getu4 :: "string \<Rightarrow> (nat \<times> string) option" where
  "getu4 (a # b # c # d # r) =
     (if isHexDigit a \<and> isHexDigit b \<and> isHexDigit c \<and> isHexDigit d
      then Some (4096 * hexVal a + 256 * hexVal b + 16 * hexVal c + hexVal d, r)
      else None)"
| "getu4 _ = None"

text \<open>A second \<open>\u\<close> escape that completes a surrogate pair.\<close>

definition lowSurrogate :: "nat \<Rightarrow> string \<Rightarrow> (nat \<times> string) option" where
  "lowSurrogate u1 s =
     (case s of
        b # u # r \<Rightarrow>
          if b = CHR 0x5C \<and> u = CHR ''u'' then
            (case getu4 r of
               None \<Rightarrow> None
             | Some (u2, r') \<Rightarrow>
                 if u1 < 56320 \<and> 56320 \<le> u2 \<and> u2 < 57344
                 then Some ((u1 - 55296) * 1024 + (u2 - 56320) + 65536, r') else None)
          else None
      | _ \<Rightarrow> None)"

definition escapedByte :: "char \<Rightarrow> char option" where
  "escapedByte e =
     (if e = CHR 0x22 \<or> e = CHR 0x5C \<or> e = CHR ''/'' then Some e
      else if e = CHR ''b'' then Some (CHR 0x08)
      else if e = CHR ''f'' then Some (CHR 0x0C)
      else if e = CHR ''n'' then Some (CHR 0x0A)
      else if e = CHR ''r'' then Some (CHR 0x0D)
      else if e = CHR ''t'' then Some (CHR 0x09)
      else None)"

text \<open>One step of the literal after its opening quote: the end, or the decoded
  bytes of one character or escape and what follows.\<close>

datatype strStep = StrEnd string | StrBytes string string | StrBad

definition stringStep :: "string \<Rightarrow> strStep" where
  "stringStep s =
     (case s of
        [] \<Rightarrow> StrBad
      | c # r \<Rightarrow>
        if c = CHR 0x22 then StrEnd r
        else if c = CHR 0x5C then
          (case r of
             [] \<Rightarrow> StrBad
           | e # r' \<Rightarrow>
             if e = CHR ''u'' then
               (case getu4 r' of
                  None \<Rightarrow> StrBad
                | Some (u1, r1) \<Rightarrow>
                    if 55296 \<le> u1 \<and> u1 < 57344 then
                      (case lowSurrogate u1 r1 of
                         Some (u, r2) \<Rightarrow> StrBytes (encodeRune u) r2
                       | None \<Rightarrow> StrBytes (encodeRune runeError) r1)
                    else StrBytes (encodeRune u1) r1)
             else (case escapedByte e of None \<Rightarrow> StrBad | Some b \<Rightarrow> StrBytes [b] r'))
        else if of_char c < (32::nat) then StrBad
        else (case decodeRune s of (u, w) \<Rightarrow> StrBytes (encodeRune u) (drop w s)))"

lemma getu4_length: "getu4 s = Some (u, r) \<Longrightarrow> length r < length s"
  by (cases s rule: getu4.cases) (auto split: if_splits)

lemma lowSurrogate_length: "lowSurrogate u1 s = Some (u, r) \<Longrightarrow> length r < length s"
  by (auto simp: lowSurrogate_def split: list.splits if_splits option.splits dest!: getu4_length)

lemma stringStep_length:
  assumes "stringStep s = StrBytes b r"
  shows "length r < length s"
proof (cases s)
  case Nil
  with assms show ?thesis by (simp add: stringStep_def)
next
  case (Cons c cs)
  have "0 < snd (decodeRune (c # cs))" by (rule decodeRune_width) simp
  with assms Cons show ?thesis
    by (auto simp: stringStep_def split: list.splits if_splits option.splits prod.splits
        dest!: getu4_length lowSurrogate_length)
qed

function unquote :: "string \<Rightarrow> (string \<times> string) option" where
  "unquote s =
     (case stringStep s of
        StrBad \<Rightarrow> None
      | StrEnd r \<Rightarrow> Some ([], r)
      | StrBytes b r \<Rightarrow> map_option (\<lambda>(x, y). (b @ x, y)) (unquote r))"
  by pat_completeness auto
termination
  by (relation "measure length") (auto dest: stringStep_length)

declare unquote.simps [simp del]

section \<open>Numbers\<close>

definition digits1 :: "string \<Rightarrow> (string \<times> string) option" where
  "digits1 s =
     (let ds = takeWhile isDigit s in if ds = [] then None else Some (ds, dropWhile isDigit s))"

definition scanInt :: "string \<Rightarrow> (string \<times> string) option" where
  "scanInt s =
     (case s of
        c # r \<Rightarrow> if c = CHR ''0'' then Some ([c], r) else digits1 s
      | [] \<Rightarrow> None)"

definition scanFrac :: "string \<Rightarrow> (string \<times> string) option" where
  "scanFrac s =
     (case s of
        c # r \<Rightarrow> if c = CHR ''.'' then map_option (\<lambda>(d, t). (c # d, t)) (digits1 r) else Some ([], s)
      | [] \<Rightarrow> Some ([], s))"

definition scanExp :: "string \<Rightarrow> (string \<times> string) option" where
  "scanExp s =
     (case s of
        c # r \<Rightarrow>
          if c = CHR ''e'' \<or> c = CHR ''E'' then
            (case r of
               g # t \<Rightarrow>
                 if g = CHR ''+'' \<or> g = CHR ''-''
                 then map_option (\<lambda>(d, u). (c # g # d, u)) (digits1 t)
                 else map_option (\<lambda>(d, u). (c # d, u)) (digits1 r)
             | [] \<Rightarrow> None)
          else Some ([], s)
      | [] \<Rightarrow> Some ([], s))"

definition scanNumber :: "string \<Rightarrow> (string \<times> string) option" where
  "scanNumber s =
     (let (sg, r) = (if hasPrefix s ''-'' then (''-'', tl s) else ([], s)) in
      case scanInt r of
        None \<Rightarrow> None
      | Some (i, r1) \<Rightarrow>
          (case scanFrac r1 of
             None \<Rightarrow> None
           | Some (f, r2) \<Rightarrow>
               (case scanExp r2 of None \<Rightarrow> None | Some (e, r3) \<Rightarrow> Some (sg @ i @ f @ e, r3))))"

section \<open>Values\<close>

definition jsonSpace :: "char \<Rightarrow> bool" where
  "jsonSpace c \<longleftrightarrow> c = CHR 0x20 \<or> c = CHR 0x09 \<or> c = CHR 0x0D \<or> c = CHR 0x0A"

abbreviation skipSpace :: "string \<Rightarrow> string" where
  "skipSpace \<equiv> dropWhile jsonSpace"

definition maxNestingDepth :: nat where
  "maxNestingDepth = 10000"

text \<open>\<open>parseValue n d s\<close> reads one value with \<open>d\<close> levels of nesting left; \<open>n\<close>
  bounds the recursion.\<close>

fun parseValue :: "nat \<Rightarrow> nat \<Rightarrow> string \<Rightarrow> (json \<times> string) option"
  and parseElems :: "nat \<Rightarrow> nat \<Rightarrow> string \<Rightarrow> (json list \<times> string) option"
  and parseMembers :: "nat \<Rightarrow> nat \<Rightarrow> string \<Rightarrow> ((string \<times> json) list \<times> string) option" where
  "parseValue 0 d s = None"
| "parseValue (Suc n) d s =
     (case skipSpace s of
        [] \<Rightarrow> None
      | c # r \<Rightarrow>
        if c = CHR 0x22 then map_option (\<lambda>(x, y). (JString x, y)) (unquote r)
        else if c = CHR ''['' then
          (if d = 0 then None
           else case skipSpace r of
                  [] \<Rightarrow> None
                | e # r' \<Rightarrow>
                  if e = CHR '']'' then Some (JArray [], r')
                  else map_option (\<lambda>(x, y). (JArray x, y)) (parseElems n (d - 1) (e # r')))
        else if c = CHR ''{'' then
          (if d = 0 then None
           else case skipSpace r of
                  [] \<Rightarrow> None
                | e # r' \<Rightarrow>
                  if e = CHR ''}'' then Some (JObject [], r')
                  else map_option (\<lambda>(x, y). (JObject x, y)) (parseMembers n (d - 1) (e # r')))
        else if hasPrefix (c # r) ''true'' then Some (JBool True, drop 4 (c # r))
        else if hasPrefix (c # r) ''false'' then Some (JBool False, drop 5 (c # r))
        else if hasPrefix (c # r) ''null'' then Some (JNull, drop 4 (c # r))
        else map_option (\<lambda>(x, y). (JNumber x, y)) (scanNumber (c # r)))"
| "parseElems 0 d s = None"
| "parseElems (Suc n) d s =
     (case parseValue n d s of
        None \<Rightarrow> None
      | Some (v, r) \<Rightarrow>
          (case skipSpace r of
             [] \<Rightarrow> None
           | c # r' \<Rightarrow>
             if c = CHR '']'' then Some ([v], r')
             else if c = CHR '','' then map_option (\<lambda>(vs, t). (v # vs, t)) (parseElems n d r')
             else None))"
| "parseMembers 0 d s = None"
| "parseMembers (Suc n) d s =
     (case skipSpace s of
        [] \<Rightarrow> None
      | q # r \<Rightarrow>
        if q \<noteq> CHR 0x22 then None
        else case unquote r of
               None \<Rightarrow> None
             | Some (k, r1) \<Rightarrow>
                 (case skipSpace r1 of
                    [] \<Rightarrow> None
                  | g # r2 \<Rightarrow>
                    if g \<noteq> CHR '':'' then None
                    else case parseValue n d r2 of
                           None \<Rightarrow> None
                         | Some (v, r3) \<Rightarrow>
                             (case skipSpace r3 of
                                [] \<Rightarrow> None
                              | c # r4 \<Rightarrow>
                                if c = CHR ''}'' then Some ([(k, v)], r4)
                                else if c = CHR '','' then
                                  map_option (\<lambda>(ms, t). ((k, v) # ms, t)) (parseMembers n d r4)
                                else None)))"

text \<open>\<open>Decoder.Decode\<close> followed by a check that nothing but space remains.\<close>

definition jsonDecode :: "string \<Rightarrow> (json \<times> string) option" where
  "jsonDecode s = parseValue (2 * length s + 2) maxNestingDepth s"

definition jsonDecodeAll :: "string \<Rightarrow> json option" where
  "jsonDecodeAll s =
     (case jsonDecode s of
        None \<Rightarrow> None
      | Some (v, r) \<Rightarrow> if skipSpace r = [] then Some v else None)"

section \<open>Encoding structs of strings\<close>

fun jsonMembers :: "(string \<times> string) list \<Rightarrow> string" where
  "jsonMembers [] = []"
| "jsonMembers [(k, v)] = jsonString k @ '':'' @ jsonString v"
| "jsonMembers ((k, v) # ms) = jsonString k @ '':'' @ jsonString v @ '','' @ jsonMembers ms"

definition jsonObject :: "(string \<times> string) list \<Rightarrow> string" where
  "jsonObject ms = ''{'' @ jsonMembers ms @ ''}''"

text \<open>The string that decoding gives back: invalid bytes are replaced.\<close>

definition toValidUTF8 :: "string \<Rightarrow> string" where
  "toValidUTF8 s = concat (map (\<lambda>(r, bs). encodeRune r) (runesOf s))"

lemma toValidUTF8_Nil [simp]: "toValidUTF8 [] = []"
  by (simp add: toValidUTF8_def)

lemma toValidUTF8_Cons:
  assumes "of_char c < (128::nat)"
  shows "toValidUTF8 (c # s) = c # toValidUTF8 s"
proof -
  have "decodeRune (c # s) = (of_char c, 1)" using assms by (simp add: decodeRune_def)
  moreover have "encodeRune (of_char c) = [c]" using assms by (simp add: encodeRune_def)
  ultimately show ?thesis by (simp add: toValidUTF8_def runesOf.simps [of "c # s"])
qed

lemma toValidUTF8_ascii: "list_all (\<lambda>c. of_char c < (128::nat)) s \<Longrightarrow> toValidUTF8 s = s"
  by (induction s) (simp_all add: toValidUTF8_Cons)

section \<open>Decoding what was encoded\<close>

lemma hexDigit_simps [simp]:
  assumes "n < 16"
  shows "isHexDigit (hexDigit n)" "hexVal (hexDigit n) = n"
proof -
  have "n \<in> set [0..<16]" using assms by simp
  then have "isHexDigit (hexDigit n) \<and> hexVal (hexDigit n) = n"
    unfolding upt_conv_Cons_Cons by (simp add: upt_rec) (elim disjE; hypsubst; code_simp)
  then show "isHexDigit (hexDigit n)" "hexVal (hexDigit n) = n" by simp_all
qed

lemma decodeRune_le: "decodeRune s = (r, w) \<Longrightarrow> w \<le> length s"
  by (auto simp: decodeRune_def Let_def split: list.splits if_splits)

lemma decodeRune_ascii:
  "decodeRune s = (r, w) \<Longrightarrow> s \<noteq> [] \<Longrightarrow> r < 128 \<Longrightarrow> w = 1 \<and> of_char (hd s) = r"
  by (auto simp: decodeRune_def secondOk_def Let_def split: list.splits if_splits)

lemma decodeRune_lead:
  "decodeRune s = (r, w) \<Longrightarrow> s \<noteq> [] \<Longrightarrow> 128 \<le> r \<Longrightarrow> (128::nat) \<le> of_char (hd s)"
  by (auto simp: decodeRune_def Let_def split: list.splits if_splits)

lemma decodeRune_local:
  assumes "decodeRune s = (r, w)" and "s \<noteq> []" and "r < 128 \<or> w \<noteq> 1"
  shows "decodeRune (take w s @ t) = (r, w)"
  using assms by (auto simp: decodeRune_def Let_def split: list.splits if_splits)

lemma char_of_small: "r < 256 \<Longrightarrow> char_of r = c \<longleftrightarrow> r = (of_char c :: nat)"
  by (auto simp: char_of_eq_iff take_bit_eq_mod)

lemma jsonRune_ascii:
  assumes "r < 128"
  shows "stringStep (jsonRune (r, [char_of r]) @ t) = StrBytes (encodeRune r) t"
proof -
  consider "r \<in> {34, 92, 8, 12, 10, 13, 9}"
    | (esc) "r \<notin> {34, 92, 8, 12, 10, 13, 9}" "r < 32 \<or> r = 60 \<or> r = 62 \<or> r = 38"
    | (raw) "r \<notin> {34, 92, 8, 12, 10, 13, 9}" "\<not> (r < 32 \<or> r = 60 \<or> r = 62 \<or> r = 38)"
    by blast
  then show ?thesis
  proof cases
    case 1
    then show ?thesis
      by (elim insertE emptyE; hypsubst) (simp_all add: jsonRune_def stringStep_def escapedByte_def encodeRune_def char_of_def bit_0)
  next
    case esc
    have div: "r div 16 < 16" "r mod 16 < 16" using assms by auto
    have "jsonRune (r, [char_of r]) @ t =
        CHR 0x5C # CHR ''u'' # CHR ''0'' # CHR ''0'' # hexDigit (r div 16) # hexDigit (r mod 16) # t"
      using esc by (simp add: jsonRune_def)
    moreover have "isHexDigit (CHR ''0'')" "hexVal (CHR ''0'') = 0"
      by (simp_all add: isHexDigit_def hexVal_def)
    ultimately show ?thesis using assms div by (simp add: stringStep_def)
  next
    case raw
    then have "jsonRune (r, [char_of r]) @ t = char_of r # t"
      using assms by (simp add: jsonRune_def)
    moreover have "char_of r \<noteq> CHR 0x22" "char_of r \<noteq> CHR 0x5C" "of_char (char_of r) = r"
      using raw assms by (simp_all add: char_of_small)
    moreover have "decodeRune (char_of r # t) = (r, 1)" using assms by (simp add: decodeRune_def)
    ultimately show ?thesis using raw by (simp add: stringStep_def)
  qed
qed

lemma jsonRune_wide:
  assumes dec: "decodeRune s = (r, w)" and ne: "s \<noteq> []" and r: "128 \<le> r"
  shows "stringStep (jsonRune (r, take w s) @ t) = StrBytes (encodeRune r) t"
proof -
  have w: "w \<le> length s" "0 < w" using decodeRune_le [OF dec] decodeRune_width [OF ne] dec by auto
  consider (bad) "r = runeError" "w = 1" | (sep) "r = 8232 \<or> r = 8233"
    | (raw) "\<not> (r = runeError \<and> w = 1)" "r \<noteq> 8232" "r \<noteq> 8233"
    by blast
  then show ?thesis
  proof cases
    case bad
    with w show ?thesis by (simp add: jsonRune_def stringStep_def isHexDigit_def hexVal_def)
  next
    case sep
    then show ?thesis
      by (elim disjE; hypsubst) (simp_all add: jsonRune_def stringStep_def hexDigit_def isHexDigit_def hexVal_def char_of_def bit_0)
  next
    case raw
    have "w \<noteq> 1"
    proof
      assume "w = 1"
      with dec ne r raw show False by (auto simp: decodeRune_def Let_def split: list.splits if_splits)
    qed
    then have again: "decodeRune (take w s @ t) = (r, w)" using decodeRune_local [OF dec ne] by blast
    have json: "jsonRune (r, take w s) = take w s" using raw r w \<open>w \<noteq> 1\<close> by (auto simp: jsonRune_def)
    obtain c cs where c: "take w s = c # cs" "c = hd s" using ne w by (cases s; cases w) auto
    then have "(128::nat) \<le> of_char c" using decodeRune_lead [OF dec ne r] by simp
    then have "c \<noteq> CHR 0x22" "c \<noteq> CHR 0x5C" "\<not> of_char c < (32::nat)" by auto
    moreover have "drop w (take w s @ t) = t" using w by simp
    ultimately show ?thesis using json again c by (simp add: stringStep_def)
  qed
qed

lemma jsonRune_step:
  assumes dec: "decodeRune s = (r, w)" and ne: "s \<noteq> []"
  shows "stringStep (jsonRune (r, take w s) @ t) = StrBytes (encodeRune r) t"
proof (cases "r < 128")
  case True
  then have "take w s = [char_of r]"
    using decodeRune_ascii [OF dec ne] ne by (cases s) auto
  with True show ?thesis using jsonRune_ascii by simp
next
  case False
  with jsonRune_wide [OF dec ne] show ?thesis by simp
qed

lemma unquote_jsonString:
  "unquote (concat (map jsonRune (runesOf s)) @ CHR 0x22 # t) = Some (toValidUTF8 s, t)"
proof (induction s rule: runesOf.induct)
  case (1 s)
  show ?case
  proof (cases "s = []")
    case True
    then show ?thesis by (simp add: toValidUTF8_def unquote.simps stringStep_def)
  next
    case False
    obtain r w where rw: "decodeRune s = (r, w)" by (cases "decodeRune s")
    have runes: "runesOf s = (r, take w s) # runesOf (drop w s)"
      using False rw by (simp add: runesOf.simps [of s])
    have "unquote (jsonRune (r, take w s) @ u) = map_option (\<lambda>(x, y). (encodeRune r @ x, y)) (unquote u)" for u
      by (simp add: unquote.simps [of "jsonRune (r, take w s) @ u"] jsonRune_step [OF rw False])
    with 1 [OF False rw [symmetric]] show ?thesis
      by (simp add: runes toValidUTF8_def)
  qed
qed

lemma parseValue_jsonString [simp]:
  "parseValue (Suc n) d (jsonString s @ t) = Some (JString (toValidUTF8 s), t)"
  by (simp add: jsonString_def jsonSpace_def unquote_jsonString)

declare parseValue.simps [simp del] parseElems.simps [simp del] parseMembers.simps [simp del]

lemma parseMembers_member:
  assumes "\<not> jsonSpace c"
  shows "parseMembers (Suc (Suc n)) d (jsonString k @ CHR '':'' # jsonString v @ c # r) =
    (if c = CHR ''}'' then Some ([(toValidUTF8 k, JString (toValidUTF8 v))], r)
     else if c = CHR '','' then
       map_option (\<lambda>(ms, t). ((toValidUTF8 k, JString (toValidUTF8 v)) # ms, t)) (parseMembers (Suc n) d r)
     else None)"
proof -
  have key: "jsonString k @ u = CHR 0x22 # concat (map jsonRune (runesOf k)) @ CHR 0x22 # u" for u
    by (simp add: jsonString_def)
  have space: "\<not> jsonSpace (CHR 0x22)" "\<not> jsonSpace (CHR '':'')" by (simp_all add: jsonSpace_def)
  show ?thesis
    using assms unfolding key
    by (simp only: parseMembers.simps unquote_jsonString)
      (simp add: space unquote_jsonString)
qed

lemma parseMembers_jsonMembers:
  assumes "ms \<noteq> []" and "length ms < n"
  shows "parseMembers n d (jsonMembers ms @ CHR ''}'' # t) =
     Some (map (\<lambda>(k, v). (toValidUTF8 k, JString (toValidUTF8 v))) ms, t)"
  using assms
proof (induction ms arbitrary: n rule: jsonMembers.induct)
  case (2 k v)
  then obtain n' where "n = Suc (Suc n')" by (cases n; cases "n - 1") auto
  then show ?case by (simp add: parseMembers_member jsonSpace_def)
next
  case (3 k v m ms)
  then obtain n' where n: "n = Suc (Suc n')" by (cases n; cases "n - 1") auto
  have "parseMembers (Suc n') d (jsonMembers (m # ms) @ CHR ''}'' # t) =
     Some (map (\<lambda>(k, v). (toValidUTF8 k, JString (toValidUTF8 v))) (m # ms), t)"
    using 3 n by (intro 3(1)) auto
  with n show ?case by (simp add: parseMembers_member jsonSpace_def)
qed simp

lemma jsonMembers_length: "length ms \<le> length (jsonMembers ms)"
  by (induction ms rule: jsonMembers.induct) (simp_all add: jsonString_def)

lemma jsonMembers_Cons_hd:
  "ms \<noteq> [] \<Longrightarrow> \<exists>r. jsonMembers ms = CHR 0x22 # r"
  by (induction ms rule: jsonMembers.induct) (simp_all add: jsonString_def)

text \<open>Decoding a printed struct gives its members back.\<close>

lemma jsonDecode_jsonObject:
  assumes "ms \<noteq> []"
  shows "jsonDecode (jsonObject ms) =
    Some (JObject (map (\<lambda>(k, v). (toValidUTF8 k, JString (toValidUTF8 v))) ms), [])"
proof -
  obtain r where r: "jsonMembers ms = CHR 0x22 # r" using jsonMembers_Cons_hd [OF assms] by blast
  obtain n where n: "2 * length (jsonObject ms) + 2 = Suc n" "length ms < n"
    using jsonMembers_length [of ms] by (simp add: jsonObject_def)
  have "jsonObject ms = CHR ''{'' # CHR 0x22 # r @ ''}''" by (simp add: jsonObject_def r)
  moreover have "maxNestingDepth \<noteq> 0" by (simp add: maxNestingDepth_def)
  ultimately show ?thesis
    using parseMembers_jsonMembers [OF assms n(2), of "maxNestingDepth - 1" "[]"]
    unfolding jsonDecode_def n(1) by (simp add: parseValue.simps jsonSpace_def r)
qed

end
