(* ===== verification/Go_Crypto.thy ===== *)
theory Go_Crypto
  imports Go_Base "HOL-Library.Word"
begin

text \<open>
  Packages \<open>crypto/sha256\<close> and \<open>crypto/hmac\<close> over byte strings: the SHA-256
  compression function on 32-bit words (FIPS 180-4) and HMAC (RFC 2104). The
  sources use the digests as identities of idempotency keys, plans and packages.
\<close>

unbundle bit_operations_syntax

type_synonym word32 = "32 word"

text \<open>The round constants: the first 32 fractional bits of the cube roots of the
  first 64 primes.\<close>

definition sha256K :: "word32 list" where
  "sha256K =
    [1116352408, 1899447441, 3049323471, 3921009573, 961987163, 1508970993,
     2453635748, 2870763221, 3624381080, 310598401, 607225278, 1426881987,
     1925078388, 2162078206, 2614888103, 3248222580, 3835390401, 4022224774,
     264347078, 604807628, 770255983, 1249150122, 1555081692, 1996064986,
     2554220882, 2821834349, 2952996808, 3210313671, 3336571891, 3584528711,
     113926993, 338241895, 666307205, 773529912, 1294757372, 1396182291,
     1695183700, 1986661051, 2177026350, 2456956037, 2730485921, 2820302411,
     3259730800, 3345764771, 3516065817, 3600352804, 4094571909, 275423344,
     430227734, 506948616, 659060556, 883997877, 958139571, 1322822218,
     1537002063, 1747873779, 1955562222, 2024104815, 2227730452, 2361852424,
     2428436474, 2756734187, 3204031479, 3329325298]"

datatype shaState = ShaState word32 word32 word32 word32 word32 word32 word32 word32

definition sha256Init :: shaState where
  "sha256Init =
     ShaState 1779033703 3144134277 1013904242 2773480762
       1359893119 2600822924 528734635 1541459225"

definition rotr :: "nat \<Rightarrow> word32 \<Rightarrow> word32" where
  "rotr n w = (drop_bit n w) OR (push_bit (32 - n) w)"

definition word32Bytes :: "word32 \<Rightarrow> string" where
  "word32Bytes w =
     map (\<lambda>n. char_of (uint (drop_bit n w))) [24, 16, 8, 0]"

fun bytesWords :: "string \<Rightarrow> word32 list" where
  "bytesWords (a # b # c # d # r) =
     (of_char a * 0x1000000 + of_char b * 0x10000 + of_char c * 0x100 + of_char d) # bytesWords r"
| "bytesWords _ = []"

text \<open>The message schedule is built backwards: the head of the list is the
  newest word.\<close>

definition nextWord :: "word32 list \<Rightarrow> word32" where
  "nextWord ws =
     (let w2 = ws ! 1; w15 = ws ! 14;
          s0 = rotr 7 w15 XOR rotr 18 w15 XOR drop_bit 3 w15;
          s1 = rotr 17 w2 XOR rotr 19 w2 XOR drop_bit 10 w2
      in ws ! 15 + s0 + ws ! 6 + s1)"

fun schedule :: "nat \<Rightarrow> word32 list \<Rightarrow> word32 list" where
  "schedule 0 ws = rev ws"
| "schedule (Suc n) ws = schedule n (nextWord ws # ws)"

fun shaRound :: "word32 \<times> word32 \<Rightarrow> shaState \<Rightarrow> shaState" where
  "shaRound (k, w) (ShaState a b c d e f g h) =
     (let s1 = rotr 6 e XOR rotr 11 e XOR rotr 25 e;
          ch = (e AND f) XOR (NOT e AND g);
          t1 = h + s1 + ch + k + w;
          s0 = rotr 2 a XOR rotr 13 a XOR rotr 22 a;
          maj = (a AND b) XOR (a AND c) XOR (b AND c);
          t2 = s0 + maj
      in ShaState (t1 + t2) a b c (d + t1) e f g)"

fun shaAdd :: "shaState \<Rightarrow> shaState \<Rightarrow> shaState" where
  "shaAdd (ShaState a b c d e f g h) (ShaState a' b' c' d' e' f' g' h') =
     ShaState (a + a') (b + b') (c + c') (d + d') (e + e') (f + f') (g + g') (h + h')"

definition shaBlock :: "word32 list \<Rightarrow> shaState \<Rightarrow> shaState" where
  "shaBlock ws st = shaAdd st (fold shaRound (zip sha256K (schedule 48 (rev ws))) st)"

fun shaBlocks :: "nat \<Rightarrow> word32 list \<Rightarrow> shaState \<Rightarrow> shaState" where
  "shaBlocks 0 ws st = st"
| "shaBlocks (Suc n) ws st = shaBlocks n (drop 16 ws) (shaBlock (take 16 ws) st)"

definition shaPad :: "string \<Rightarrow> string" where
  "shaPad m =
     m @ [CHR 0x80] @ replicate ((119 - length m mod 64) mod 64) (CHR 0x00)
       @ map (\<lambda>k. char_of (8 * int (length m) div 256 ^ k)) (rev [0..<8])"

fun shaBytes :: "shaState \<Rightarrow> string" where
  "shaBytes (ShaState a b c d e f g h) = concat (map word32Bytes [a, b, c, d, e, f, g, h])"

definition sha256Sum :: "string \<Rightarrow> string" where
  "sha256Sum m =
     (let p = shaPad m in shaBytes (shaBlocks (length p div 64) (bytesWords p) sha256Init))"

definition xorByte :: "nat \<Rightarrow> char \<Rightarrow> char" where
  "xorByte n c = char_of (n XOR of_char c)"

definition hmacSHA256 :: "string \<Rightarrow> string \<Rightarrow> string" where
  "hmacSHA256 key m =
     (let k0 = (if length key > 64 then sha256Sum key else key);
          k = k0 @ replicate (64 - length k0) (CHR 0x00)
      in sha256Sum (map (xorByte 0x5C) k @ sha256Sum (map (xorByte 0x36) k @ m)))"

lemma length_shaBytes [simp]: "length (shaBytes st) = 32"
  by (cases st) (simp add: word32Bytes_def)

lemma length_sha256Sum [simp]: "length (sha256Sum m) = 32"
  by (simp add: sha256Sum_def Let_def)

lemma length_hmacSHA256 [simp]: "length (hmacSHA256 k m) = 32"
  by (simp add: hmacSHA256_def Let_def)

text \<open>Padding fills whole blocks, so no byte of the message is dropped.\<close>

lemma length_shaPad: "length (shaPad m) mod 64 = 0"
proof -
  define r where "r = length m mod 64"
  have r: "r < 64" by (simp add: r_def)
  have "(r + 9 + (119 - r) mod 64) mod 64 = 0"
  proof (cases "r \<le> 55")
    case True
    then have "119 - r = 64 + (55 - r)" by simp
    then have "(119 - r) mod 64 = (55 - r) mod 64" by (simp only: mod_add_self1)
    with True show ?thesis by simp
  next
    case False
    with r show ?thesis by simp
  qed
  moreover have "length (shaPad m) mod 64 = (r + (9 + (119 - r) mod 64)) mod 64"
    by (simp add: shaPad_def r_def mod_add_left_eq add.commute)
  ultimately show ?thesis by (simp add: add.assoc)
qed

end
