(* ===== verification/Intent_Service.thy ===== *)
theory Intent_Service
  imports Intent_Repository Intent_Validation Go_JSON Go_Crypto
begin

text \<open>
  The operation service of \<open>pkg/intents/service.go\<close>: admission, the operation
  lifecycle, and the evidence each transition needs. A call takes the readings it
  makes of the clocks and of the random source as an \<open>Env\<close>, and the repository as
  explicit state.
\<close>

section \<open>The service\<close>

text \<open>\<open>svc_proofs\<close> is the configured ledger client, or \<open>None\<close> for nil: it maps an
  entry hash and type to its answer.\<close>

type_synonym ProofVerifier = "string \<Rightarrow> string \<Rightarrow> (string, ProofVerification option) res"

record 'r Service =
  svc_repository :: "'r Repository"
  svc_policy :: PolicyConfig
  svc_proofs :: "ProofVerifier option"

definition NewService :: "'r Repository \<Rightarrow> PolicyConfig \<Rightarrow> ProofVerifier list \<Rightarrow> 'r Service" where
  "NewService repository policy proofVerifier =
     \<lparr>svc_repository = repository, svc_policy = policy,
      svc_proofs = (case proofVerifier of [] \<Rightarrow> None | p # _ \<Rightarrow> Some p)\<rparr>"

text \<open>What a call reads from outside: \<open>env_now\<close> is \<open>s.now()\<close>, \<open>env_wall\<close> the
  \<open>time.Now()\<close> of \<open>appendTransition\<close>, and the identifiers of a submission that has
  no idempotency key come from twelve random bytes, or from the clock when the
  random source fails.\<close>

record Env =
  env_now :: time
  env_wall :: time
  env_randIntent :: "string option"
  env_randOperation :: "string option"
  env_nanoIntent :: int64
  env_nanoOperation :: int64

definition newID :: "string option \<Rightarrow> int64 \<Rightarrow> string \<Rightarrow> string" where
  "newID raw nano prefix =
     (case raw of
        None \<Rightarrow> prefix @ ''-'' @ showInt nano
      | Some bytes \<Rightarrow> prefix @ ''-'' @ hexEncode bytes)"

definition operationResourceID :: "string option \<Rightarrow> int64 \<Rightarrow> string \<Rightarrow> string \<Rightarrow> string" where
  "operationResourceID raw nano prefix idempotencyKey =
     (if blank idempotencyKey then newID raw nano prefix
      else let digest = sha256Sum idempotencyKey in prefix @ ''-'' @ hexEncode (take 12 digest))"

section \<open>Lifecycle\<close>

definition allowedFrom :: "OperationState \<Rightarrow> OperationState list" where
  "allowedFrom from =
     (case from of
        StateReceived \<Rightarrow> [StateAccepted, StateDeferred, StateRejected, StateExpired]
      | StateDeferred \<Rightarrow> [StateAccepted, StateRejected, StateExpired, StateFailed]
      | StateAccepted \<Rightarrow> [StatePlanned, StateFailed, StateExpired]
      | StatePlanned \<Rightarrow> [StateGovernancePending, StateFailed]
      | StateGovernancePending \<Rightarrow>
          [StateAuthorized, StateRejected, StateDeferred, StateFailed, StateQuarantined]
      | StateAuthorized \<Rightarrow> [StateActuating, StateFailed, StateExpired, StateQuarantined]
      | StateActuating \<Rightarrow> [StateObserving, StateFailed, StateRollingBack, StateQuarantined]
      | StateObserving \<Rightarrow> [StateVerified, StateFailed, StateRollingBack, StateQuarantined]
      | StateVerified \<Rightarrow> [StateEvidencePending, StateRollingBack, StateQuarantined]
      | StateEvidencePending \<Rightarrow> [StateSucceeded, StateRollingBack, StateQuarantined]
      | StateRollingBack \<Rightarrow> [StateRolledBack, StateQuarantined]
      | _ \<Rightarrow> [])"

definition allowedTransition :: "OperationState \<Rightarrow> OperationState \<Rightarrow> bool" where
  "allowedTransition from to \<longleftrightarrow> to \<in> set (allowedFrom from)"

definition appendTransition ::
  "time \<Rightarrow> FleetOperation \<Rightarrow> OperationState \<Rightarrow> string \<Rightarrow> string \<Rightarrow> FleetOperation" where
  "appendTransition now operation state reason actor =
     operation\<lparr>op_State := state,
       op_UpdatedAt := now,
       op_Transitions := op_Transitions operation @
         [\<lparr>tr_Sequence = int (length (op_Transitions operation) + 1), tr_State = state, tr_At = now,
           tr_Reason = reason, tr_Actor = actor, tr_LedgerEntryID = []\<rparr>]\<rparr>"

definition submissionFromOperation :: "FleetOperation \<Rightarrow> string \<Rightarrow> SubmissionResponse" where
  "submissionFromOperation operation reason =
     \<lparr>sr_IntentID = op_IntentID operation, sr_OperationID = op_ID operation,
      sr_CorrelationID = op_CorrelationID operation, sr_State = op_State operation,
      sr_Reason = reason, sr_StatusURL = ''/api/v2/operations/'' @ op_ID operation\<rparr>"

section \<open>Admission\<close>

definition withDefaults :: "Env \<Rightarrow> FleetIntent \<Rightarrow> FleetIntent" where
  "withDefaults env intent =
     (let i1 = (if fi_ID intent = [] then
                  intent\<lparr>fi_ID := operationResourceID (env_randIntent env) (env_nanoIntent env)
                                    ''intent'' (fi_IdempotencyKey intent)\<rparr>
                else intent);
          i2 = (if fi_CorrelationID i1 = [] then i1\<lparr>fi_CorrelationID := fi_ID i1\<rparr> else i1)
      in if isZeroTime (fi_CreatedAt i2) then i2\<lparr>fi_CreatedAt := env_now env\<rparr> else i2)"

definition receivedOperation :: "Env \<Rightarrow> FleetIntent \<Rightarrow> FleetOperation" where
  "receivedOperation env intent =
     (let oid = operationResourceID (env_randOperation env) (env_nanoOperation env)
                  ''operation'' (fi_IdempotencyKey intent)
      in zeroOperation\<lparr>op_ID := oid, op_ObjectUID := oid, op_IntentID := fi_ID intent,
           op_CorrelationID := fi_CorrelationID intent,
           op_IdempotencyKey := fi_IdempotencyKey intent, op_ActionClass := actionClass (fi_Type intent),
           op_State := StateReceived, op_CreatedAt := env_now env, op_UpdatedAt := env_now env,
           op_Transitions := [\<lparr>tr_Sequence = 1, tr_State = StateReceived, tr_At = env_now env,
              tr_Reason = ''intent received'', tr_Actor = ''fleet-api'', tr_LedgerEntryID = []\<rparr>]\<rparr>)"

definition admission ::
  "PolicyConfig \<Rightarrow> time \<Rightarrow> FleetIntent \<Rightarrow> (IntentError, OperationState \<times> string) res" where
  "admission policy now intent =
     (if (case fi_ExpiresAt intent of None \<Rightarrow> False | Some t \<Rightarrow> \<not> now < t)
      then Inr (StateExpired, ''intent expired before admission'')
      else
        let decision = Evaluate intent policy in
        case ir_Status decision of
          StatusAccepted \<Rightarrow> Inr (StateAccepted, ir_Reason decision)
        | StatusDeferred \<Rightarrow> Inr (StateDeferred, ir_Reason decision)
        | StatusRefused \<Rightarrow> Inr (StateRejected, ir_Reason decision)
        | status \<Rightarrow> Inl (UnsupportedAdmission status))"

definition Submit ::
  "'r Service \<Rightarrow> Env \<Rightarrow> FleetIntent \<Rightarrow> 'r \<Rightarrow> 'r \<times> (IntentError, SubmissionResponse) res" where
  "Submit s env intent r =
     (let repository = svc_repository s;
          key = fi_IdempotencyKey intent;
          proceed = (\<lambda>_::unit.
            let intent = withDefaults env intent;
                operation = receivedOperation env intent
            in case admission (svc_policy s) (env_now env) intent of
                 Inl e \<Rightarrow> (r, Inl e)
               | Inr (next, reason) \<Rightarrow>
                   let operation = appendTransition (env_wall env) operation next reason ''fleet-policy'' in
                   (case repo_Create repository intent operation r of
                      (r', None) \<Rightarrow> (r', Inr (submissionFromOperation operation reason))
                    | (r', Some e) \<Rightarrow>
                        if key \<noteq> [] then
                          (case repo_FindByIdempotencyKey repository key r' of
                             Inr existing \<Rightarrow>
                               (r', Inr (submissionFromOperation existing ''idempotent concurrent replay''))
                           | Inl _ \<Rightarrow> (r', Inl e))
                        else (r', Inl e)))
      in if key \<noteq> [] then
           (case repo_FindByIdempotencyKey repository key r of
              Inr existing \<Rightarrow> (r, Inr (submissionFromOperation existing ''idempotent replay''))
            | Inl e \<Rightarrow> if e \<noteq> ErrNotFound then (r, Inl e) else proceed ())
         else proceed ())"

definition GetIntent :: "'r Service \<Rightarrow> string \<Rightarrow> 'r \<Rightarrow> (IntentError, FleetIntent) res" where
  "GetIntent s x r = repo_GetIntent (svc_repository s) x r"

definition GetOperation :: "'r Service \<Rightarrow> string \<Rightarrow> 'r \<Rightarrow> (IntentError, FleetOperation) res" where
  "GetOperation s x r = repo_GetOperation (svc_repository s) x r"

definition DeleteSubmission ::
  "'r Service \<Rightarrow> string \<Rightarrow> string \<Rightarrow> 'r \<Rightarrow> 'r \<times> IntentError option" where
  "DeleteSubmission s intentID operationID r = repo_Delete (svc_repository s) intentID operationID r"

section \<open>Authorization\<close>

definition authorizationFields :: "AuthorizationReference \<Rightarrow> (string \<times> string) list" where
  "authorizationFields ref =
     [(''grant ID'', ar_GrantID ref), (''subject'', ar_Subject ref),
      (''action class'', ar_ActionClass ref), (''object UID'', ar_ObjectUID ref),
      (''spec digest'', ar_SpecDigest ref), (''audience'', ar_Audience ref),
      (''idempotency key'', ar_IdempotencyKey ref)]"

definition boundObjectUID :: "FleetOperation \<Rightarrow> string" where
  "boundObjectUID operation =
     (if blank (op_ObjectUID operation) then op_ID operation else op_ObjectUID operation)"

definition validateAuthorizationReference ::
  "FleetOperation \<Rightarrow> time \<Rightarrow> AuthorizationError option" where
  "validateAuthorizationReference operation now =
     (case op_AuthorizationRef operation of
        None \<Rightarrow> Some AuthorizationRequired
      | Some ref \<Rightarrow>
        (case find (\<lambda>(name, value). blank value) (authorizationFields ref) of
           Some (name, _) \<Rightarrow> Some (AuthorizationField name)
         | None \<Rightarrow>
           if ar_ActionClass ref \<noteq> op_ActionClass operation then
             Some (AuthorizationAction (ar_ActionClass ref) (op_ActionClass operation))
           else if ar_ObjectUID ref \<noteq> boundObjectUID operation then
             Some (AuthorizationObject (ar_ObjectUID ref) (boundObjectUID operation))
           else if \<not> validSHA256 (op_PlanDigest operation) \<or>
                   \<not> equalFold (ar_SpecDigest ref) (op_PlanDigest operation) then
             Some AuthorizationDigest
           else if ar_Audience ref \<noteq> AuthorizationAudienceFleetController then
             Some (AuthorizationAudience (ar_Audience ref))
           else if ar_IdempotencyKey ref \<noteq> op_IdempotencyKey operation then
             Some AuthorizationIdempotency
           else if isZeroTime (ar_ExpiresAt ref) \<or> \<not> now < ar_ExpiresAt ref then
             Some AuthorizationExpired
           else if ar_BreakGlass ref \<and> blank (ar_IncidentRef ref) then
             Some BreakGlassIncident
           else None))"

section \<open>Ledger receipts\<close>

definition validReceiptPurpose :: "LedgerReceiptPurpose \<Rightarrow> bool" where
  "validReceiptPurpose purpose \<longleftrightarrow>
     (case purpose of
        ReceiptPurposeAdmission \<Rightarrow> True
      | ReceiptPurposeAuthorizationDecision \<Rightarrow> True
      | ReceiptPurposeOutcome \<Rightarrow> True
      | ReceiptPurposeOther _ \<Rightarrow> False)"

definition expectedLedgerEntryType :: "string \<Rightarrow> LedgerReceiptPurpose \<Rightarrow> string" where
  "expectedLedgerEntryType ac purpose =
     (case purpose of
        ReceiptPurposeAdmission \<Rightarrow>
          let action = trimPrefix ac ''fleet.'';
              action = (if action = ''prewarm'' then IntentPreWarm else action)
          in ''fleet.intent.'' @ action
      | ReceiptPurposeAuthorizationDecision \<Rightarrow> LedgerEntryTypeAuthorizationDecision
      | ReceiptPurposeOutcome \<Rightarrow> LedgerEntryTypeOutcome
      | ReceiptPurposeOther _ \<Rightarrow> [])"

definition outcomeEvidenceSchemaV1 :: string where
  "outcomeEvidenceSchemaV1 = ''fleet.llm-d.ai/operation-outcome/v1''"

text \<open>The six string fields of \<open>outcomeEvidenceV1\<close>, in declaration order with
  their JSON names.\<close>

definition outcomeEvidenceFields :: "string list" where
  "outcomeEvidenceFields =
     [''schema_version'', ''operation_id'', ''operation_uid'', ''plan_digest'', ''idempotency_key'',
      ''observed_digest'']"

definition NewOutcomeEvidence :: "FleetOperation \<Rightarrow> (OutcomeError, string) res" where
  "NewOutcomeEvidence operation =
     (let operationID = trimSpace (op_ID operation) in
      if operationID = [] then Inl OutcomeOperationID
      else
        let uid = trimSpace (op_ObjectUID operation);
            operationUID = (if uid = [] then operationID else uid)
        in if \<not> validSHA256 (op_PlanDigest operation) then Inl OutcomePlanDigest
           else if \<not> validSHA256 (op_ObservedDigest operation) then Inl OutcomeObservedDigest
           else Inr (jsonObject (zip outcomeEvidenceFields
                  [outcomeEvidenceSchemaV1, operationID, operationUID, toLower (op_PlanDigest operation),
                   op_IdempotencyKey operation, toLower (op_ObservedDigest operation)])))"

text \<open>Decoding into \<open>outcomeEvidenceV1\<close>: a member sets the field of its name, or
  the first field equal to it up to case; null leaves the field. Any other member
  is a type error, or, for unknown names, an error when these are disallowed.\<close>

definition setEvidenceField ::
  "bool \<Rightarrow> string \<times> json \<Rightarrow> (string \<times> string) list option \<Rightarrow> (string \<times> string) list option" where
  "setEvidenceField strict m st =
     (case st of
        None \<Rightarrow> None
      | Some fs \<Rightarrow>
        (case m of (k, v) \<Rightarrow>
           (case (if map_of fs k \<noteq> None then Some k else find (equalFold k) (map fst fs)) of
              None \<Rightarrow> if strict then None else Some fs
            | Some f \<Rightarrow>
                (case v of
                   JString x \<Rightarrow> Some (AList.update f x fs)
                 | JNull \<Rightarrow> Some fs
                 | _ \<Rightarrow> None))))"

definition decodeOutcomeEvidence :: "bool \<Rightarrow> json \<Rightarrow> (string \<times> string) list option" where
  "decodeOutcomeEvidence strict v =
     (let zero = map (\<lambda>f. (f, [])) outcomeEvidenceFields in
      case v of
        JObject ms \<Rightarrow> fold (setEvidenceField strict) ms (Some zero)
      | JNull \<Rightarrow> Some zero
      | _ \<Rightarrow> None)"

text \<open>\<open>json.Decoder.Decode\<close> with unknown fields disallowed, followed by
  \<open>ensureJSONEOF\<close>; and \<open>json.Unmarshal\<close>.\<close>

definition strictOutcomeDecode :: "string \<Rightarrow> (string \<times> string) list option" where
  "strictOutcomeDecode content =
     (case jsonDecode content of
        None \<Rightarrow> None
      | Some (v, rest) \<Rightarrow>
          (case decodeOutcomeEvidence True v of
             None \<Rightarrow> None
           | Some evidence \<Rightarrow> if skipSpace rest = [] then Some evidence else None))"

definition outcomeUnmarshal :: "string \<Rightarrow> (string \<times> string) list option" where
  "outcomeUnmarshal content =
     (case jsonDecodeAll content of None \<Rightarrow> None | Some v \<Rightarrow> decodeOutcomeEvidence False v)"

definition verifyOutcomeEvidence :: "FleetOperation \<Rightarrow> string \<Rightarrow> OutcomeError option" where
  "verifyOutcomeEvidence operation content =
     (if content = [] then Some OutcomeMissing
      else case strictOutcomeDecode content of
        None \<Rightarrow> Some OutcomeDecode
      | Some evidence \<Rightarrow>
        (case NewOutcomeEvidence operation of
           Inl e \<Rightarrow> Some e
         | Inr expectedContent \<Rightarrow>
           (case outcomeUnmarshal expectedContent of
              None \<Rightarrow> Some OutcomeConstruct
            | Some expected \<Rightarrow>
                if evidence \<noteq> expected \<or> content \<noteq> expectedContent then Some OutcomeNotBound else None)))"

definition verifyProof ::
  "FleetOperation \<Rightarrow> OperationLedgerReceipt \<Rightarrow> ProofVerification \<Rightarrow> ReceiptError option" where
  "verifyProof operation receipt verification =
     (if pv_EntryType verification \<noteq> lr_EntryType receipt then Some ProofTypeMismatch
      else if pv_EntryID verification \<noteq> [] \<and> pv_EntryID verification \<noteq> lr_EntryID receipt then
        Some ProofEntryMismatch
      else if pv_CorrelationID verification \<noteq> op_CorrelationID operation then
        Some (ProofCorrelationMismatch (pv_CorrelationID verification) (op_CorrelationID operation))
      else if pv_InputHash verification \<noteq> lr_InputHash receipt then Some ProofInputMismatch
      else
        case (if lr_Purpose receipt = ReceiptPurposeOutcome then
                (if \<not> validSHA256 (op_ObservedDigest operation) then Some ObservedDigestRequired
                 else if \<not> equalFold (lr_InputHash receipt) (op_ObservedDigest operation) then
                   Some OutcomeNotObserved
                 else map_option OutcomeEvidence
                        (verifyOutcomeEvidence operation (pv_Content verification)))
              else None) of
          Some e \<Rightarrow> Some e
        | None \<Rightarrow>
            if pv_ChainPosition verification \<noteq> lr_ChainPosition receipt then Some ProofPositionMismatch
            else if isZeroTime (pv_WrittenAt verification) \<or>
                    unixMilli (pv_WrittenAt verification) \<noteq> lr_WrittenTS receipt then
              Some ProofTimeMismatch
            else None)"

definition verifyLedgerReceipt ::
  "'r Service \<Rightarrow> FleetOperation \<Rightarrow> OperationLedgerReceipt \<Rightarrow> ReceiptError option" where
  "verifyLedgerReceipt s operation receipt =
     (if blank (lr_EntryID receipt) \<or> blank (lr_EntryHash receipt) \<or> blank (lr_EntryType receipt) \<or>
         lr_ChainPosition receipt < 1 \<or> lr_WrittenTS receipt < 1 \<or>
         \<not> validSHA256 (lr_InputHash receipt) \<or> \<not> validReceiptPurpose (lr_Purpose receipt) then
        Some ReceiptMalformed
      else if lr_EntryType receipt \<noteq>
              expectedLedgerEntryType (op_ActionClass operation) (lr_Purpose receipt) then
        Some (ReceiptEntryType (lr_EntryType receipt) (lr_Purpose receipt)
               (expectedLedgerEntryType (op_ActionClass operation) (lr_Purpose receipt)))
      else case svc_proofs s of
        None \<Rightarrow> Some ProofVerifierMissing
      | Some proofs \<Rightarrow>
        (case proofs (lr_EntryHash receipt) (lr_EntryType receipt) of
           Inl e \<Rightarrow> Some (LedgerFailure e)
         | Inr None \<Rightarrow> Some (LedgerRejected [])
         | Inr (Some verification) \<Rightarrow>
             if \<not> pv_Valid verification then
               Some (LedgerRejected (if blank (pv_FailureReason verification) then []
                                     else pv_FailureReason verification))
             else verifyProof operation receipt verification))"

definition verifyReceiptPurpose ::
  "'r Service \<Rightarrow> FleetOperation \<Rightarrow> LedgerReceiptPurpose \<Rightarrow> ReceiptError option" where
  "verifyReceiptPurpose s operation purpose =
     (let receipts = filter (\<lambda>receipt. lr_Purpose receipt = purpose) (op_LedgerReceipts operation) in
      if receipts = [] then Some (ReceiptPurposeAbsent purpose)
      else if \<exists>receipt \<in> set receipts. verifyLedgerReceipt s operation receipt = None then None
      else verifyLedgerReceipt s operation (last receipts))"

section \<open>Transitions\<close>

definition validateTransitionEvidence ::
  "'r Service \<Rightarrow> time \<Rightarrow> FleetOperation \<Rightarrow> OperationState \<Rightarrow> EvidenceError option" where
  "validateTransitionEvidence s now operation next =
     (if next = StatePlanned then
        (if \<not> validSHA256 (op_PlanDigest operation) then Some PlanDigestRequired
         else if (case op_Provider operation of
                    None \<Rightarrow> True
                  | Some p \<Rightarrow> blank (pr_Type p) \<or> blank (pr_Name p)) then Some ProviderRequired
         else None)
      else if next = StateAuthorized \<or> next = StateActuating then
        map_option AuthorizationInvalid (validateAuthorizationReference operation now)
      else if next = StateSucceeded then
        map_option OutcomeReceiptRequired (verifyReceiptPurpose s operation ReceiptPurposeOutcome)
      else None)"

definition Transition ::
  "'r Service \<Rightarrow> Env \<Rightarrow> string \<Rightarrow> OperationState \<Rightarrow> string \<Rightarrow> string \<Rightarrow> 'r \<Rightarrow>
   'r \<times> (IntentError, FleetOperation) res" where
  "Transition s env x next reason actor r =
     (case repo_GetOperation (svc_repository s) x r of
        Inl e \<Rightarrow> (r, Inl e)
      | Inr operation \<Rightarrow>
        if \<not> allowedTransition (op_State operation) next then
          (r, Inl (ErrInvalidTransition (op_State operation) next))
        else case validateTransitionEvidence s (env_now env) operation next of
          Some e \<Rightarrow> (r, Inl (TransitionEvidence (op_State operation) next e))
        | None \<Rightarrow>
            let operation = appendTransition (env_wall env) operation next reason actor in
            (case repo_UpdateOperation (svc_repository s) operation r of
               (r', Some e) \<Rightarrow> (r', Inl e)
             | (r', None) \<Rightarrow> (r', Inr operation)))"

definition Approve ::
  "'r Service \<Rightarrow> Env \<Rightarrow> string \<Rightarrow> string \<Rightarrow> 'r \<Rightarrow> 'r \<times> (IntentError, FleetOperation) res" where
  "Approve s env x actor r = Transition s env x StateAccepted ''human approval recorded'' actor r"

definition cancelTarget :: "OperationState \<Rightarrow> OperationState" where
  "cancelTarget st =
     (if st \<in> {StateActuating, StateObserving, StateVerified, StateEvidencePending}
      then StateRollingBack else StateFailed)"

definition Cancel ::
  "'r Service \<Rightarrow> Env \<Rightarrow> string \<Rightarrow> string \<Rightarrow> 'r \<Rightarrow> 'r \<times> (IntentError, FleetOperation) res" where
  "Cancel s env x actor r =
     (case repo_GetOperation (svc_repository s) x r of
        Inl e \<Rightarrow> (r, Inl e)
      | Inr operation \<Rightarrow>
          Transition s env x (cancelTarget (op_State operation)) ''operation cancelled'' actor r)"

definition stampLast :: "string \<Rightarrow> OperationTransition list \<Rightarrow> OperationTransition list" where
  "stampLast entry ts =
     (if ts = [] then ts else butlast ts @ [(last ts)\<lparr>tr_LedgerEntryID := entry\<rparr>])"

definition AttachLedgerReceipt ::
  "'r Service \<Rightarrow> Env \<Rightarrow> string \<Rightarrow> OperationLedgerReceipt \<Rightarrow> 'r \<Rightarrow>
   'r \<times> (IntentError, FleetOperation) res" where
  "AttachLedgerReceipt s env x receipt r =
     (case repo_GetOperation (svc_repository s) x r of
        Inl e \<Rightarrow> (r, Inl e)
      | Inr operation \<Rightarrow>
        (case verifyLedgerReceipt s operation receipt of
           Some e \<Rightarrow> (r, Inl (ReceiptRejected e))
         | None \<Rightarrow>
           (case find (\<lambda>existing. lr_EntryID existing = lr_EntryID receipt \<or>
                                  lr_EntryHash existing = lr_EntryHash receipt)
                  (op_LedgerReceipts operation) of
              Some existing \<Rightarrow>
                if existing = receipt then (r, Inr operation)
                else (r, Inl (ReceiptConflict (lr_EntryID existing)))
            | None \<Rightarrow>
                let operation = operation\<lparr>op_LedgerEntryID := lr_EntryID receipt,
                      op_LedgerReceipts := op_LedgerReceipts operation @ [receipt],
                      op_Transitions := stampLast (lr_EntryID receipt) (op_Transitions operation),
                      op_UpdatedAt := env_now env\<rparr>
                in (case repo_UpdateOperation (svc_repository s) operation r of
                      (r', Some e) \<Rightarrow> (r', Inl e)
                    | (r', None) \<Rightarrow> (r', Inr operation)))))"

end
