(* ===== verification/Intent_Lifecycle.thy ===== *)
theory Intent_Lifecycle
  imports Intent_Service "HOL-Library.Sublist"
begin

text \<open>
  What the operation service guarantees: the history invariant of every stored
  operation, the evidence behind authorization and success, idempotent admission
  and receipts. The invariants are proved for any repository that meets the store
  contract and then stated for the in-memory one.
\<close>

section \<open>The evidence of an outcome\<close>

lemma toValidUTF8_fields:
  "map toValidUTF8 outcomeEvidenceFields = outcomeEvidenceFields"
  by (simp add: outcomeEvidenceFields_def toValidUTF8_ascii)

lemma setEvidenceField_known:
  assumes "map_of fs k \<noteq> None"
  shows "setEvidenceField strict (k, JString x) (Some fs) = Some (AList.update k x fs)"
  using assms by (simp add: setEvidenceField_def)

lemma setEvidenceField_fold:
  assumes "set (map fst ms) \<subseteq> set (map fst fs)"
  shows "fold (setEvidenceField strict) (map (\<lambda>(k, x). (k, JString x)) ms) (Some fs) =
    Some (fold (\<lambda>(k, x). AList.update k x) ms fs)"
  using assms
proof (induction ms arbitrary: fs)
  case (Cons m ms)
  obtain k x where m: "m = (k, x)" by (cases m)
  have "map_of fs k \<noteq> None" using Cons.prems m by (auto simp: map_of_eq_None_iff)
  moreover have "set (map fst ms) \<subseteq> set (map fst (AList.update k x fs))"
    using Cons.prems m by (auto simp: dom_update)
  ultimately show ?case using Cons.IH m by (simp add: setEvidenceField_known)
qed simp

text \<open>Decoding printed evidence succeeds, with the same result whether or not
  unknown fields are allowed.\<close>

lemma decode_printed:
  assumes "length vs = length outcomeEvidenceFields"
  shows "\<exists>ev. strictOutcomeDecode (jsonObject (zip outcomeEvidenceFields vs)) = Some ev \<and>
              outcomeUnmarshal (jsonObject (zip outcomeEvidenceFields vs)) = Some ev"
proof -
  let ?ms = "zip outcomeEvidenceFields (map toValidUTF8 vs)"
  have ne: "zip outcomeEvidenceFields vs \<noteq> []"
    using assms by (cases vs) (simp_all add: outcomeEvidenceFields_def)
  have "map (\<lambda>(k, v). (toValidUTF8 k, JString (toValidUTF8 v))) (zip outcomeEvidenceFields vs) =
      map (\<lambda>(k, x). (k, JString x)) (zip (map toValidUTF8 outcomeEvidenceFields) (map toValidUTF8 vs))"
    by (simp add: zip_map_map case_prod_unfold)
  then have dec: "jsonDecode (jsonObject (zip outcomeEvidenceFields vs)) =
      Some (JObject (map (\<lambda>(k, x). (k, JString x)) ?ms), [])"
    by (simp add: jsonDecode_jsonObject [OF ne] toValidUTF8_fields)
  have "set (map fst ?ms) \<subseteq> set (map fst (map (\<lambda>f. (f, [])) outcomeEvidenceFields))"
    by (auto dest: set_zip_leftD)
  then have "decodeOutcomeEvidence strict (JObject (map (\<lambda>(k, x). (k, JString x)) ?ms)) =
      Some (fold (\<lambda>(k, x). AList.update k x) ?ms (map (\<lambda>f. (f, [])) outcomeEvidenceFields))" for strict
    unfolding decodeOutcomeEvidence_def Let_def json.case by (rule setEvidenceField_fold)
  then show ?thesis
    by (simp add: strictOutcomeDecode_def outcomeUnmarshal_def jsonDecodeAll_def dec)
qed

lemma NewOutcomeEvidence_form:
  assumes "NewOutcomeEvidence operation = Inr content"
  shows "\<exists>vs. length vs = length outcomeEvidenceFields \<and>
              content = jsonObject (zip outcomeEvidenceFields vs)"
proof -
  let ?vs = "[outcomeEvidenceSchemaV1, trimSpace (op_ID operation),
    if trimSpace (op_ObjectUID operation) = [] then trimSpace (op_ID operation)
    else trimSpace (op_ObjectUID operation), toLower (op_PlanDigest operation),
    op_IdempotencyKey operation, toLower (op_ObservedDigest operation)]"
  have "content = jsonObject (zip outcomeEvidenceFields ?vs)"
    using assms by (simp add: NewOutcomeEvidence_def Let_def split: if_splits)
  moreover have "length ?vs = length outcomeEvidenceFields" by (simp add: outcomeEvidenceFields_def)
  ultimately show ?thesis by blast
qed

lemma outcome_evidence_iff:
  "verifyOutcomeEvidence operation content = None \<longleftrightarrow> NewOutcomeEvidence operation = Inr content"
proof
  assume "verifyOutcomeEvidence operation content = None"
  then show "NewOutcomeEvidence operation = Inr content"
    by (auto simp: verifyOutcomeEvidence_def split: if_splits option.splits sum.splits)
next
  assume new: "NewOutcomeEvidence operation = Inr content"
  then obtain vs where vs: "length vs = length outcomeEvidenceFields"
      "content = jsonObject (zip outcomeEvidenceFields vs)"
    using NewOutcomeEvidence_form by blast
  obtain ev where "strictOutcomeDecode content = Some ev" "outcomeUnmarshal content = Some ev"
    using decode_printed [OF vs(1)] vs(2) by blast
  moreover have "content \<noteq> []" by (simp add: vs(2) jsonObject_def)
  ultimately show "verifyOutcomeEvidence operation content = None"
    using new by (simp add: verifyOutcomeEvidence_def)
qed

text \<open>C5: A ledger payload is accepted as the evidence of an operation's outcome
  exactly when it is, byte for byte, the canonical evidence of that operation: its
  identity, plan, idempotency key and observed digest.\<close>

theorem verifyOutcomeEvidence_iff:
  "verifyOutcomeEvidence operation content = None \<longleftrightarrow> NewOutcomeEvidence operation = Inr content"
  by (rule outcome_evidence_iff)

section \<open>Histories\<close>

text \<open>A list of states in which every step is allowed.\<close>

fun allowedPath :: "OperationState list \<Rightarrow> bool" where
  "allowedPath (a # b # r) \<longleftrightarrow> allowedTransition a b \<and> allowedPath (b # r)"
| "allowedPath _ \<longleftrightarrow> True"

abbreviation historyOf :: "FleetOperation \<Rightarrow> OperationState list" where
  "historyOf op \<equiv> map tr_State (op_Transitions op)"

text \<open>A well-formed history starts with RECEIVED, numbers its entries from one,
  takes only allowed steps and ends in the operation's state; no two receipts
  share an entry or a hash.\<close>

definition wfHistory :: "FleetOperation \<Rightarrow> bool" where
  "wfHistory op \<longleftrightarrow>
     op_Transitions op \<noteq> [] \<and> hd (historyOf op) = StateReceived \<and>
     allowedPath (historyOf op) \<and> last (historyOf op) = op_State op \<and>
     map tr_Sequence (op_Transitions op) = map int [1..<Suc (length (op_Transitions op))]"

definition wfReceipts :: "FleetOperation \<Rightarrow> bool" where
  "wfReceipts op \<longleftrightarrow>
     distinct (map lr_EntryID (op_LedgerReceipts op)) \<and> distinct (map lr_EntryHash (op_LedgerReceipts op))"

lemma allowedPath_snoc:
  "xs \<noteq> [] \<Longrightarrow> allowedPath (xs @ [b]) \<longleftrightarrow> allowedPath xs \<and> allowedTransition (last xs) b"
  by (induction xs rule: allowedPath.induct) auto

lemma wfHistory_append:
  assumes wf: "wfHistory op" and step: "allowedTransition (op_State op) next"
  shows "wfHistory (appendTransition t op next reason actor)"
  using assms by (auto simp: wfHistory_def appendTransition_def allowedPath_snoc)

lemma wfReceipts_append [simp]: "wfReceipts (appendTransition t op next reason actor) = wfReceipts op"
  by (simp add: wfReceipts_def appendTransition_def)

lemma stampLast_maps [simp]:
  "map tr_State (stampLast e ts) = map tr_State ts"
  "map tr_Sequence (stampLast e ts) = map tr_Sequence ts"
  "length (stampLast e ts) = length ts"
  "stampLast e ts = [] \<longleftrightarrow> ts = []"
  by (cases ts rule: rev_cases; simp add: stampLast_def)+

lemma admission_allowed:
  "admission policy now intent = Inr (next, reason) \<Longrightarrow> allowedTransition StateReceived next"
  by (auto simp: admission_def allowedTransition_def allowedFrom_def Let_def
      split: if_splits option.splits IntentStatus.splits)

lemma wfHistory_received: "wfHistory (receivedOperation env intent)"
  by (simp add: wfHistory_def receivedOperation_def Let_def)

lemma wfReceipts_received: "wfReceipts (receivedOperation env intent)"
  by (simp add: wfReceipts_def receivedOperation_def zeroOperation_def Let_def)

lemma wfHistory_admitted:
  assumes "admission policy now intent = Inr (next, reason)"
  shows "wfHistory (appendTransition t (receivedOperation env intent') next reason actor)"
proof (rule wfHistory_append [OF wfHistory_received])
  show "allowedTransition (op_State (receivedOperation env intent')) next"
    using admission_allowed [OF assms] by (simp add: receivedOperation_def Let_def)
qed

text \<open>The milestones every history that ends in a state has passed.\<close>

definition milestones :: "OperationState \<Rightarrow> OperationState list" where
  "milestones st =
     (let success = [StateReceived, StateAccepted, StatePlanned, StateGovernancePending, StateAuthorized,
                     StateActuating, StateObserving, StateVerified, StateEvidencePending, StateSucceeded]
      in if st \<in> set success then takeWhile (\<lambda>x. x \<noteq> st) success @ [st]
         else if st = StateRollingBack then take 6 success @ [st]
         else if st = StateRolledBack then take 6 success @ [StateRollingBack, st]
         else [StateReceived])"

lemma milestones_step:
  assumes "allowedTransition a b"
  shows "subseq (milestones b) (milestones a @ [b])"
  using assms by (cases a; simp add: allowedTransition_def allowedFrom_def; elim disjE; hypsubst; code_simp)

lemma milestones_history:
  assumes "xs \<noteq> []" and "hd xs = StateReceived" and "allowedPath xs"
  shows "subseq (milestones (last xs)) xs"
  using assms
proof (induction xs rule: rev_nonempty_induct)
  case (single x)
  then show ?case by (simp add: milestones_def)
next
  case (snoc x xs)
  then have "subseq (milestones (last xs)) xs" and step: "allowedTransition (last xs) x"
    by (auto simp: allowedPath_snoc)
  then have "subseq (milestones (last xs) @ [x]) (xs @ [x])" by (simp add: subseq_append)
  with milestones_step [OF step] show ?case
    unfolding last_snoc by (rule subseq_order.trans)
qed

section \<open>Steps of the service\<close>

abbreviation serviceOn :: "'r Repository \<Rightarrow> PolicyConfig \<Rightarrow> ProofVerifier option \<Rightarrow> 'r Service" where
  "serviceOn R policy p \<equiv> \<lparr>svc_repository = R, svc_policy = policy, svc_proofs = p\<rparr>"

text \<open>One call of the service with any arguments, clock readings, random bytes and
  ledger answers; or a controller recording the plan, provider, authorization or
  observation of a stored operation.\<close>

inductive serviceStep :: "'r Repository \<Rightarrow> PolicyConfig \<Rightarrow> 'r \<Rightarrow> 'r \<Rightarrow> bool" for R policy where
  submit: "Submit (serviceOn R policy p) env intent r = (r', out) \<Longrightarrow> serviceStep R policy r r'"
| attach: "AttachLedgerReceipt (serviceOn R policy p) env x receipt r = (r', out') \<Longrightarrow> serviceStep R policy r r'"
| transition: "Transition (serviceOn R policy p) env x next reason actor r = (r', out') \<Longrightarrow> serviceStep R policy r r'"
| approve: "Approve (serviceOn R policy p) env x actor r = (r', out') \<Longrightarrow> serviceStep R policy r r'"
| cancel: "Cancel (serviceOn R policy p) env x actor r = (r', out') \<Longrightarrow> serviceStep R policy r r'"
| delete: "DeleteSubmission (serviceOn R policy p) iid oid r = (r', eo) \<Longrightarrow> serviceStep R policy r r'"
| recordPlan: "repo_GetOperation R x r = Inr old \<Longrightarrow>
     repo_UpdateOperation R (old\<lparr>op_PlanDigest := d, op_Provider := pr, op_ObservedDigest := ob,
                                op_AuthorizationRef := a\<rparr>) r = (r', eo) \<Longrightarrow>
     serviceStep R policy r r'"

abbreviation serviceReach :: "'r Repository \<Rightarrow> PolicyConfig \<Rightarrow> 'r \<Rightarrow> 'r \<Rightarrow> bool" where
  "serviceReach R policy \<equiv> (serviceStep R policy)\<^sup>*\<^sup>*"

definition storeOk :: "'r Repository \<Rightarrow> 'r \<Rightarrow> bool" where
  "storeOk R r \<longleftrightarrow> (\<forall>x op. repo_GetOperation R x r = Inr op \<longrightarrow> wfHistory op \<and> wfReceipts op)"

lemma storeOkD: "storeOk R r \<Longrightarrow> repo_GetOperation R x r = Inr op \<Longrightarrow> wfHistory op \<and> wfReceipts op"
  unfolding storeOk_def by blast

text \<open>The operation a successful attach stores.\<close>

definition withReceipt :: "time \<Rightarrow> OperationLedgerReceipt \<Rightarrow> FleetOperation \<Rightarrow> FleetOperation" where
  "withReceipt now receipt operation =
     operation\<lparr>op_LedgerEntryID := lr_EntryID receipt,
       op_LedgerReceipts := op_LedgerReceipts operation @ [receipt],
       op_Transitions := stampLast (lr_EntryID receipt) (op_Transitions operation),
       op_UpdatedAt := now\<rparr>"

lemma wf_withReceipt:
  assumes "wfHistory op" and "wfReceipts op"
    and "find (\<lambda>e. lr_EntryID e = lr_EntryID receipt \<or> lr_EntryHash e = lr_EntryHash receipt)
           (op_LedgerReceipts op) = None"
  shows "wfHistory (withReceipt now receipt op)" "wfReceipts (withReceipt now receipt op)"
  using assms by (auto simp: wfHistory_def wfReceipts_def withReceipt_def find_None_iff)

text \<open>Every branch of each call, as the state it returns.\<close>

lemma Transition_cases:
  assumes "Transition s env x next reason actor r = (r', out)"
  obtains (unchanged) "r' = r" "\<not> isOk out"
  | (updated) op eo where "repo_GetOperation (svc_repository s) x r = Inr op"
      "allowedTransition (op_State op) next" "validateTransitionEvidence s (env_now env) op next = None"
      "repo_UpdateOperation (svc_repository s) (appendTransition (env_wall env) op next reason actor) r = (r', eo)"
      "out = (case eo of None \<Rightarrow> Inr (appendTransition (env_wall env) op next reason actor) | Some e \<Rightarrow> Inl e)"
proof (cases "repo_GetOperation (svc_repository s) x r")
  case (Inl e)
  then have "r' = r" "out = Inl e" using assms by (simp_all add: Transition_def)
  then show thesis by (intro unchanged) simp_all
next
  case (Inr op)
  then show thesis
    using assms unchanged updated
    by (auto simp: Transition_def Let_def split: if_splits option.splits prod.splits)
qed

lemma AttachLedgerReceipt_cases:
  assumes "AttachLedgerReceipt s env x receipt r = (r', out)"
  obtains (unchanged) "r' = r"
  | (updated) op eo where "repo_GetOperation (svc_repository s) x r = Inr op"
      "verifyLedgerReceipt s op receipt = None"
      "find (\<lambda>e. lr_EntryID e = lr_EntryID receipt \<or> lr_EntryHash e = lr_EntryHash receipt)
         (op_LedgerReceipts op) = None"
      "repo_UpdateOperation (svc_repository s) (withReceipt (env_now env) receipt op) r = (r', eo)"
      "out = (case eo of None \<Rightarrow> Inr (withReceipt (env_now env) receipt op) | Some e \<Rightarrow> Inl e)"
  using assms
  by (auto simp: AttachLedgerReceipt_def withReceipt_def Let_def
      split: sum.splits if_splits option.splits prod.splits)

abbreviation admittedOperation :: "Env \<Rightarrow> FleetIntent \<Rightarrow> OperationState \<Rightarrow> string \<Rightarrow> FleetOperation" where
  "admittedOperation env intent next reason \<equiv>
     appendTransition (env_wall env) (receivedOperation env (withDefaults env intent)) next reason ''fleet-policy''"

lemma Submit_cases:
  assumes "Submit s env intent r = (r', out)"
  obtains (unchanged) "r' = r"
  | (created) st reason eo where
      "admission (svc_policy s) (env_now env) (withDefaults env intent) = Inr (st, reason)"
      "repo_Create (svc_repository s) (withDefaults env intent) (admittedOperation env intent st reason) r = (r', eo)"
  using assms
  by (auto simp: Submit_def Let_def split: sum.splits if_splits option.splits prod.splits)

context operation_store
begin

lemma update_ok:
  assumes "inv r" and "storeOk R r" and "wfHistory op" and "wfReceipts op"
    and upd: "repo_UpdateOperation R op r = (r', eo)"
  shows "storeOk R r'"
proof (cases eo)
  case None
  with assms show ?thesis by (simp add: storeOk_def update_get)
next
  case (Some e)
  with assms update_err show ?thesis by blast
qed

lemma create_ok:
  assumes "inv r" and "storeOk R r" and "wfHistory op" and "wfReceipts op"
    and "repo_Create R i op r = (r', eo)"
  shows "storeOk R r'"
proof (cases eo)
  case None
  with assms show ?thesis by (simp add: storeOk_def create_get)
next
  case (Some e)
  with assms create_err show ?thesis by blast
qed

lemma Transition_ok:
  assumes "inv r" "storeOk R r" and "Transition (serviceOn R policy p) env x st reason actor r = (r', out)"
  shows "inv r' \<and> storeOk R r'"
  using assms(3)
proof (cases rule: Transition_cases)
  case unchanged
  with assms show ?thesis by simp
next
  case (updated op eo)
  let ?new = "appendTransition (env_wall env) op st reason actor"
  have upd: "repo_UpdateOperation R ?new r = (r', eo)" using updated by simp
  have "wfHistory op" "wfReceipts op" using updated storeOkD [OF assms(2)] by auto
  then have "wfHistory ?new" "wfReceipts ?new" using updated wfHistory_append by auto
  with update_ok [OF assms(1,2) _ _ upd] update_inv [OF assms(1) upd] show ?thesis by blast
qed

lemma Attach_ok:
  assumes "inv r" "storeOk R r" and "AttachLedgerReceipt (serviceOn R policy p) env x receipt r = (r', out)"
  shows "inv r' \<and> storeOk R r'"
  using assms(3)
proof (cases rule: AttachLedgerReceipt_cases)
  case unchanged
  with assms show ?thesis by simp
next
  case (updated op eo)
  then have upd: "repo_UpdateOperation R (withReceipt (env_now env) receipt op) r = (r', eo)" by simp
  have "wfHistory op" "wfReceipts op" using updated storeOkD [OF assms(2)] by auto
  note wf = wf_withReceipt [OF this updated(3)]
  show ?thesis using update_ok [OF assms(1,2) wf upd] update_inv [OF assms(1) upd] by blast
qed

lemma Submit_ok:
  assumes "inv r" "storeOk R r" and "Submit (serviceOn R policy p) env intent r = (r', out)"
  shows "inv r' \<and> storeOk R r'"
  using assms(3)
proof (cases rule: Submit_cases)
  case unchanged
  with assms show ?thesis by simp
next
  case (created st reason eo)
  then have create: "repo_Create R (withDefaults env intent) (admittedOperation env intent st reason) r = (r', eo)"
    by simp
  have wf: "wfHistory (admittedOperation env intent st reason)"
      "wfReceipts (admittedOperation env intent st reason)"
    using wfHistory_admitted [OF created(1)] wfReceipts_received by simp_all
  show ?thesis using create_ok [OF assms(1,2) wf create] create_inv [OF assms(1) create] by blast
qed

lemma step_ok:
  assumes "serviceStep R policy r r'" and "inv r" and "storeOk R r"
  shows "inv r' \<and> storeOk R r'"
  using assms
proof (induction rule: serviceStep.cases)
  case (submit p env intent r r' out)
  then show ?case using Submit_ok by blast
next
  case (attach p env x receipt r r' out')
  then show ?case using Attach_ok by blast
next
  case (transition p env x st reason actor r r' out')
  then show ?case using Transition_ok by blast
next
  case (approve p env x actor r r' out')
  then show ?case using Transition_ok unfolding Approve_def by blast
next
  case (cancel p env x actor r r' out')
  then show ?case
    using Transition_ok [of r policy p env x _ "''operation cancelled''" actor r' out']
    by (cases "repo_GetOperation R x r") (simp_all add: Cancel_def)
next
  case (delete p iid oid r r' eo)
  then show ?case
    using delete_inv delete_get unfolding DeleteSubmission_def storeOk_def by simp blast
next
  case (recordPlan x r old a ob pr d r' eo)
  let ?new = "old\<lparr>op_PlanDigest := d, op_Provider := pr, op_ObservedDigest := ob, op_AuthorizationRef := a\<rparr>"
  have "wfHistory old" "wfReceipts old" using recordPlan storeOkD [of R r x old] by auto
  then have wf: "wfHistory ?new" "wfReceipts ?new" by (simp_all add: wfHistory_def wfReceipts_def)
  show ?case using update_ok [OF _ _ wf] update_inv recordPlan by metis
qed

lemma reach_ok:
  assumes "serviceReach R policy r r'" and "inv r" and "storeOk R r"
  shows "inv r' \<and> storeOk R r'"
  using assms by (induction rule: rtranclp_induct) (auto dest: step_ok)

end

section \<open>Evidence of transitions\<close>

definition authorizedFor :: "FleetOperation \<Rightarrow> time \<Rightarrow> bool" where
  "authorizedFor op now \<longleftrightarrow>
     (\<exists>ref. op_AuthorizationRef op = Some ref \<and>
        (\<forall>f \<in> set (authorizationFields ref). \<not> blank (snd f)) \<and>
        ar_ActionClass ref = op_ActionClass op \<and> ar_ObjectUID ref = boundObjectUID op \<and>
        validSHA256 (op_PlanDigest op) \<and> equalFold (ar_SpecDigest ref) (op_PlanDigest op) \<and>
        ar_Audience ref = AuthorizationAudienceFleetController \<and>
        ar_IdempotencyKey ref = op_IdempotencyKey op \<and>
        \<not> isZeroTime (ar_ExpiresAt ref) \<and> now < ar_ExpiresAt ref \<and>
        (ar_BreakGlass ref \<longrightarrow> \<not> blank (ar_IncidentRef ref)))"

lemma validateAuthorizationReference_iff:
  "validateAuthorizationReference op now = None \<longleftrightarrow> authorizedFor op now"
proof (cases "op_AuthorizationRef op")
  case None
  then show ?thesis by (simp add: validateAuthorizationReference_def authorizedFor_def)
next
  case (Some ref)
  have "find (\<lambda>(name, value). blank value) (authorizationFields ref) = None \<longleftrightarrow>
      (\<forall>f \<in> set (authorizationFields ref). \<not> blank (snd f))"
    by (auto simp: find_None_iff)
  with Some show ?thesis
    unfolding validateAuthorizationReference_def authorizedFor_def
    by (cases "find (\<lambda>(name, value). blank value) (authorizationFields ref)") auto
qed

definition provenOutcome :: "'r Service \<Rightarrow> FleetOperation \<Rightarrow> OperationLedgerReceipt \<Rightarrow> bool" where
  "provenOutcome s op receipt \<longleftrightarrow>
     lr_Purpose receipt = ReceiptPurposeOutcome \<and> lr_EntryType receipt = LedgerEntryTypeOutcome \<and>
     equalFold (lr_InputHash receipt) (op_ObservedDigest op) \<and>
     (\<exists>proofs v. svc_proofs s = Some proofs \<and>
        proofs (lr_EntryHash receipt) (lr_EntryType receipt) = Inr (Some v) \<and> pv_Valid v \<and>
        pv_CorrelationID v = op_CorrelationID op \<and> pv_InputHash v = lr_InputHash receipt \<and>
        NewOutcomeEvidence op = Inr (pv_Content v) \<and> pv_ChainPosition v = lr_ChainPosition receipt \<and>
        unixMilli (pv_WrittenAt v) = lr_WrittenTS receipt)"

lemma verifyProof_outcome:
  assumes "verifyProof op receipt v = None" and "lr_Purpose receipt = ReceiptPurposeOutcome"
  shows "pv_CorrelationID v = op_CorrelationID op \<and> pv_InputHash v = lr_InputHash receipt \<and>
    equalFold (lr_InputHash receipt) (op_ObservedDigest op) \<and>
    NewOutcomeEvidence op = Inr (pv_Content v) \<and> pv_ChainPosition v = lr_ChainPosition receipt \<and>
    unixMilli (pv_WrittenAt v) = lr_WrittenTS receipt"
  using assms outcome_evidence_iff [of op "pv_Content v"]
  by (auto simp: verifyProof_def split: if_splits option.splits)

lemma verifyLedgerReceipt_outcome:
  assumes "verifyLedgerReceipt s op receipt = None" and "lr_Purpose receipt = ReceiptPurposeOutcome"
  shows "provenOutcome s op receipt"
proof -
  obtain proofs v where v: "svc_proofs s = Some proofs"
      "proofs (lr_EntryHash receipt) (lr_EntryType receipt) = Inr (Some v)" "pv_Valid v"
      "verifyProof op receipt v = None"
    using assms(1) by (auto simp: verifyLedgerReceipt_def split: if_splits option.splits sum.splits)
  have "lr_EntryType receipt = LedgerEntryTypeOutcome"
    using assms by (auto simp: verifyLedgerReceipt_def expectedLedgerEntryType_def split: if_splits)
  with v assms(2) verifyProof_outcome [OF v(4) assms(2)] show ?thesis
    by (simp add: provenOutcome_def)
qed

lemma verifyReceiptPurpose_found:
  assumes "verifyReceiptPurpose s op purpose = None"
  shows "\<exists>receipt \<in> set (op_LedgerReceipts op).
    lr_Purpose receipt = purpose \<and> verifyLedgerReceipt s op receipt = None"
proof (cases "\<exists>receipt \<in> set (op_LedgerReceipts op). lr_Purpose receipt = purpose \<and>
    verifyLedgerReceipt s op receipt = None")
  case False
  let ?rs = "filter (\<lambda>receipt. lr_Purpose receipt = purpose) (op_LedgerReceipts op)"
  have ne: "?rs \<noteq> []" using assms by (auto simp: verifyReceiptPurpose_def Let_def)
  then have "last ?rs \<in> set ?rs" by (rule last_in_set)
  moreover have "verifyLedgerReceipt s op (last ?rs) = None"
    using assms ne False by (auto simp: verifyReceiptPurpose_def Let_def split: if_splits)
  ultimately show ?thesis by auto
qed blast

section \<open>Properties of the service\<close>

text \<open>C3: A transition to AUTHORIZED or ACTUATING succeeds only for an operation that
  carries a complete, unexpired authorization for its own action class, object,
  plan digest, audience and idempotency key, with an incident for break-glass.\<close>

theorem Transition_authorized:
  assumes "Transition s env x st reason actor r = (r', Inr op)"
    and "st = StateAuthorized \<or> st = StateActuating"
  shows "\<exists>old. repo_GetOperation (svc_repository s) x r = Inr old \<and> authorizedFor old (env_now env)"
  using assms(1)
proof (cases rule: Transition_cases)
  case (updated old eo)
  then have "validateAuthorizationReference old (env_now env) = None"
    using assms(2) by (auto simp: validateTransitionEvidence_def)
  with updated validateAuthorizationReference_iff show ?thesis by blast
qed simp

text \<open>C2: An operation reaches SUCCEEDED only from EVIDENCE\_PENDING and only with a
  stored outcome receipt that the ledger verifies: of the outcome entry type, bound
  to the observed digest and the correlation, and committing the canonical evidence
  of this operation.\<close>

theorem Transition_succeeded:
  assumes "Transition s env x StateSucceeded reason actor r = (r', Inr op)"
  shows "\<exists>old. repo_GetOperation (svc_repository s) x r = Inr old \<and>
    op_State old = StateEvidencePending \<and>
    (\<exists>receipt. receipt \<in> set (op_LedgerReceipts old) \<and> provenOutcome s old receipt)"
  using assms
proof (cases rule: Transition_cases)
  case (updated old eo)
  then have "verifyReceiptPurpose s old ReceiptPurposeOutcome = None"
    by (auto simp: validateTransitionEvidence_def)
  then obtain receipt where "receipt \<in> set (op_LedgerReceipts old)" "provenOutcome s old receipt"
    using verifyReceiptPurpose_found verifyLedgerReceipt_outcome by blast
  moreover have "op_State old = StateEvidencePending"
    using updated(2)
    by (cases "op_State old") (simp_all add: allowedTransition_def allowedFrom_def)
  ultimately show ?thesis using updated by blast
qed simp

abbreviation memoryService :: "PolicyConfig \<Rightarrow> ProofVerifier option \<Rightarrow> MemoryRepository Service" where
  "memoryService \<equiv> serviceOn memoryRepository"

lemma withReceipt_sel [simp]:
  "op_ActionClass (withReceipt now receipt op) = op_ActionClass op"
  "op_CorrelationID (withReceipt now receipt op) = op_CorrelationID op"
  "op_ObservedDigest (withReceipt now receipt op) = op_ObservedDigest op"
  "NewOutcomeEvidence (withReceipt now receipt op) = NewOutcomeEvidence op"
  by (simp_all add: withReceipt_def NewOutcomeEvidence_def Let_def cong: if_cong)

lemma verifyLedgerReceipt_withReceipt [simp]:
  "verifyLedgerReceipt s (withReceipt now receipt op) receipt' = verifyLedgerReceipt s op receipt'"
  unfolding verifyLedgerReceipt_def verifyProof_def verifyOutcomeEvidence_def withReceipt_sel by (rule refl)

lemma find_snoc: "find P (xs @ [x]) = (case find P xs of None \<Rightarrow> (if P x then Some x else None) | Some y \<Rightarrow> Some y)"
  by (induction xs) auto

lemma storeOk_New: "storeOk memoryRepository NewMemoryRepository"
  by (simp add: storeOk_def memGetOperation_def NewMemoryRepository_def)

lemma mem_reach:
  assumes "serviceReach memoryRepository policy NewMemoryRepository r" and "memGetOperation x r = Inr op"
  shows "op_ID op = x" and "wfHistory op" and "wfReceipts op"
proof -
  have "memInv r \<and> storeOk memoryRepository r"
    using mem.reach_ok [OF assms(1) memInv_New storeOk_New] .
  then show "op_ID op = x" "wfHistory op" "wfReceipts op"
    using storeOkD [of memoryRepository r x op] mem.get_ID [of r x op] assms(2) by auto
qed

text \<open>C6: In every state the service can reach from an empty repository, under any
  interleaving of its calls with plan recording, each stored operation is filed
  under its identifier, its history starts with RECEIVED, is numbered from one,
  takes only allowed steps and ends in the current state, and no two of its
  receipts share an entry or a hash.\<close>

theorem reachable_wellformed:
  assumes "serviceReach memoryRepository policy NewMemoryRepository r" and "memGetOperation x r = Inr op"
  shows "op_ID op = x \<and> wfHistory op \<and> wfReceipts op"
  using mem_reach [OF assms] by blast

text \<open>C1: The history of every reachable operation contains, in order, the milestones
  of its state. For SUCCEEDED these are the whole path RECEIVED, ACCEPTED, PLANNED,
  GOVERNANCE\_PENDING, AUTHORIZED, ACTUATING, OBSERVING, VERIFIED, EVIDENCE\_PENDING,
  SUCCEEDED: no operation succeeds around governance, authorization or evidence.\<close>

theorem reachable_milestones:
  assumes "serviceReach memoryRepository policy NewMemoryRepository r" and "memGetOperation x r = Inr op"
  shows "subseq (milestones (op_State op)) (historyOf op)"
  using mem_reach(2) [OF assms] milestones_history [of "historyOf op"] by (auto simp: wfHistory_def)

text \<open>C8: A failed transition leaves the repository as it was. A successful one
  keeps the whole history of the addressed operation and appends one entry to it,
  numbered by the new length, with the new state, the reason, the actor and the
  clock reading; of the rest of the operation only the state and the update time
  change, and every other operation, every intent and every idempotency key stays
  the same.\<close>

theorem Transition_frame:
  assumes inv: "memInv r" and tr: "Transition (memoryService policy p) env x st reason actor r = (r', out)"
  shows "case out of
      Inl e \<Rightarrow> r' = r
    | Inr op \<Rightarrow> mr_intents r' = mr_intents r \<and> mr_idempotency r' = mr_idempotency r \<and>
        (\<exists>old entry. memGetOperation x r = Inr old \<and> op_Transitions op = op_Transitions old @ [entry] \<and>
           tr_Sequence entry = int (length (op_Transitions op)) \<and> tr_State entry = st \<and> tr_At entry = env_wall env \<and>
           tr_Reason entry = reason \<and> tr_Actor entry = actor \<and>
           op = old\<lparr>op_State := st, op_UpdatedAt := env_wall env, op_Transitions := op_Transitions op\<rparr>) \<and>
        (\<forall>y. memGetOperation y r' = (if y = x then Inr op else memGetOperation y r))"
  using tr
proof (cases rule: Transition_cases)
  case unchanged
  then show ?thesis by (cases out) simp_all
next
  case (updated old eo)
  let ?new = "appendTransition (env_wall env) old st reason actor"
  have get: "memGetOperation x r = Inr old" and upd: "memUpdateOperation ?new r = (r', eo)"
    using updated by simp_all
  have "op_ID old = x" using mem.get_ID [OF inv, of x old] get by simp
  then have id: "op_ID ?new = x" by (simp add: appendTransition_def)
  show ?thesis
  proof (cases eo)
    case None
    then have "mr_intents r' = mr_intents r" "mr_idempotency r' = mr_idempotency r"
      using upd by (auto simp: memUpdateOperation_def split: if_splits)
    moreover have "\<forall>y. memGetOperation y r' = (if y = x then Inr ?new else memGetOperation y r)"
      using None id memUpdate_get [of ?new r r'] upd by simp
    moreover have "out = Inr ?new" using None updated by simp
    ultimately show ?thesis using get by (simp add: appendTransition_def)
  next
    case (Some e)
    with upd updated show ?thesis using memUpdate_err by simp
  qed
qed

text \<open>C9: Cancelling a stored operation succeeds exactly in the states DEFERRED to
  AUTHORIZED, which then fail, and ACTUATING to EVIDENCE\_PENDING, which then roll
  back; in every other state it is refused and nothing changes.\<close>

theorem Cancel_outcome:
  assumes inv: "memInv r" and get: "memGetOperation x r = Inr old"
  shows "Cancel (memoryService policy p) env x actor r =
    (if op_State old \<in> {StateDeferred, StateAccepted, StatePlanned, StateGovernancePending, StateAuthorized}
     then let op = appendTransition (env_wall env) old StateFailed ''operation cancelled'' actor
          in (r\<lparr>mr_operations := (mr_operations r)(x \<mapsto> op)\<rparr>, Inr op)
     else if op_State old \<in> {StateActuating, StateObserving, StateVerified, StateEvidencePending}
     then let op = appendTransition (env_wall env) old StateRollingBack ''operation cancelled'' actor
          in (r\<lparr>mr_operations := (mr_operations r)(x \<mapsto> op)\<rparr>, Inr op)
     else (r, Inl (ErrInvalidTransition (op_State old) StateFailed)))"
proof -
  have id: "op_ID (appendTransition t old st reason actor) = x" for t st reason
    using mem.get_ID [OF inv, of x old] get by (simp add: appendTransition_def)
  have stored: "mr_operations r x = Some old" using get by (simp add: memGet_iff)
  have none: "validateTransitionEvidence s now old StateFailed = None"
      "validateTransitionEvidence s now old StateRollingBack = None" for s :: "MemoryRepository Service" and now
    by (simp_all add: validateTransitionEvidence_def)
  show ?thesis
    by (cases "op_State old")
      (simp_all add: Cancel_def Transition_def get none id stored memUpdateOperation_def cancelTarget_def
        allowedTransition_def allowedFrom_def Let_def)
qed

text \<open>C4: Admission is idempotent: after a submission with an idempotency key has
  been answered, submitting again with the same key, at any time and with any
  other content, changes nothing and names the same intent, operation,
  correlation and state.\<close>

theorem Submit_idempotent:
  assumes inv: "memInv r" and key: "fi_IdempotencyKey intent \<noteq> []"
    and first: "Submit (memoryService policy p) env intent r = (r', Inr resp)"
    and same: "fi_IdempotencyKey intent' = fi_IdempotencyKey intent"
  shows "Submit (memoryService policy p') env' intent' r' = (r', Inr (resp\<lparr>sr_Reason := ''idempotent replay''\<rparr>))"
proof -
  let ?k = "fi_IdempotencyKey intent"
  have k: "fi_IdempotencyKey (withDefaults env intent) = ?k" by (simp add: withDefaults_def Let_def)
  have "\<exists>op reason. memFindByIdempotencyKey ?k r' = Inr op \<and> resp = submissionFromOperation op reason"
    using first key memFind_create [of "withDefaults env intent" _ r r'] k
    by (auto simp: Submit_def Let_def split: sum.splits if_splits option.splits prod.splits)
  then obtain op reason where "memFindByIdempotencyKey ?k r' = Inr op" "resp = submissionFromOperation op reason"
    by blast
  with key same show ?thesis by (simp add: Submit_def submissionFromOperation_def)
qed

text \<open>C10: Attaching a receipt is idempotent: attaching it again returns the same
  operation and changes nothing.\<close>

theorem AttachLedgerReceipt_idempotent:
  assumes inv: "memInv r"
    and first: "AttachLedgerReceipt (memoryService policy p) env x receipt r = (r', Inr op)"
  shows "AttachLedgerReceipt (memoryService policy p) env' x receipt r' = (r', Inr op)"
proof -
  let ?P = "\<lambda>e. lr_EntryID e = lr_EntryID receipt \<or> lr_EntryHash e = lr_EntryHash receipt"
  obtain old where old: "memGetOperation x r = Inr old"
    using first by (cases "memGetOperation x r") (simp_all add: AttachLedgerReceipt_def)
  have ver: "verifyLedgerReceipt (memoryService policy p) old receipt = None"
    using first old by (auto simp: AttachLedgerReceipt_def split: option.splits)
  show ?thesis
  proof (cases "find ?P (op_LedgerReceipts old)")
    case (Some existing)
    with first old ver have "r' = r" "op = old" "existing = receipt"
      by (auto simp: AttachLedgerReceipt_def split: if_splits)
    with first old ver Some show ?thesis by (simp add: AttachLedgerReceipt_def)
  next
    case None
    let ?new = "withReceipt (env_now env) receipt old"
    have "memUpdateOperation ?new r = (r', None)" and op: "op = ?new"
      using first old ver None
      by (auto simp: AttachLedgerReceipt_def withReceipt_def Let_def split: option.splits prod.splits)
    moreover have "op_ID ?new = x"
      using mem.get_ID [OF inv, of x old] old by (simp add: withReceipt_def)
    ultimately have "memGetOperation x r' = Inr ?new" using memUpdate_get by simp
    moreover have "find ?P (op_LedgerReceipts ?new) = Some receipt"
      using None by (simp add: withReceipt_def find_snoc)
    ultimately show ?thesis using ver op by (simp add: AttachLedgerReceipt_def)
  qed
qed

section \<open>Concrete runs\<close>

definition sampleDigest :: string where
  "sampleDigest = replicate 64 (CHR ''a'')"

definition sampleReceipt :: OperationLedgerReceipt where
  "sampleReceipt = \<lparr>lr_EntryID = ''e-1'', lr_EntryHash = ''h-1'', lr_EntryType = LedgerEntryTypeOutcome,
     lr_ChainPosition = 7, lr_WrittenTS = unixMilli (10 ^ 20), lr_InputHash = sampleDigest,
     lr_Purpose = ReceiptPurposeOutcome\<rparr>"

definition sampleOperation :: "OperationState \<Rightarrow> FleetOperation" where
  "sampleOperation st = zeroOperation\<lparr>op_ID := ''op-1'', op_ObjectUID := ''op-1'', op_IntentID := ''i-1'',
     op_CorrelationID := ''c-1'', op_IdempotencyKey := ''k-1'', op_ActionClass := ''fleet.scale'',
     op_State := st, op_PlanDigest := sampleDigest, op_ObservedDigest := sampleDigest,
     op_AuthorizationRef := Some \<lparr>ar_GrantID = ''g'', ar_Subject = ''s'', ar_ActionClass = ''fleet.scale'',
       ar_ObjectUID = ''op-1'', ar_SpecDigest = sampleDigest,
       ar_Audience = AuthorizationAudienceFleetController, ar_ExpiresAt = 100, ar_IdempotencyKey = ''k-1'',
       ar_BreakGlass = False, ar_IncidentRef = []\<rparr>,
     op_LedgerReceipts := [sampleReceipt]\<rparr>"

definition sampleRepository :: "OperationState \<Rightarrow> MemoryRepository" where
  "sampleRepository st = NewMemoryRepository\<lparr>mr_operations := [''op-1'' \<mapsto> sampleOperation st]\<rparr>"

definition sampleEnv :: Env where
  "sampleEnv = \<lparr>env_now = 50, env_wall = 60, env_randIntent = None, env_randOperation = None,
     env_nanoIntent = 5, env_nanoOperation = 6\<rparr>"

definition sampleVerifier :: ProofVerifier where
  "sampleVerifier hash type = Inr (Some \<lparr>pv_Valid = True, pv_EntryID = [], pv_EntryType = type,
     pv_AgentID = [], pv_SourceID = [], pv_CorrelationID = ''c-1'', pv_InputHash = sampleDigest,
     pv_Content = (case NewOutcomeEvidence (sampleOperation StateEvidencePending) of Inr c \<Rightarrow> c | Inl _ \<Rightarrow> []),
     pv_ChainPosition = 7, pv_FailureReason = [], pv_WrittenAt = 10 ^ 20\<rparr>)"

lemma sample_stored:
  "memGetOperation ''op-1'' (sampleRepository st) = Inr (sampleOperation st)" "memInv (sampleRepository st)"
  "op_State (sampleOperation st) = st" "op_ID (sampleOperation st) = ''op-1''"
  by (simp_all add: memGetOperation_def sampleRepository_def memInv_def NewMemoryRepository_def sampleOperation_def)

lemma sampleDigest_valid: "validSHA256 sampleDigest"
  unfolding validSHA256_iff sampleDigest_def by code_simp

lemma sample_authorized: "authorizedFor (sampleOperation st) 50"
proof -
  have "\<not> blank sampleDigest" by (simp only: sampleDigest_def) code_simp
  moreover have "\<not> blank ''g''" "\<not> blank ''s''" "\<not> blank ''fleet.scale''" "\<not> blank ''op-1''"
      "\<not> blank ''k-1''" "\<not> blank AuthorizationAudienceFleetController"
    by code_simp+
  ultimately show ?thesis
    by (simp add: authorizedFor_def sampleOperation_def authorizationFields_def boundObjectUID_def
        sampleDigest_valid)
qed

lemma sample_transition:
  assumes "allowedTransition st st'"
    and "validateTransitionEvidence (memoryService DefaultPolicyConfig (Some sampleVerifier)) 50
           (sampleOperation st) st' = None"
  shows "\<exists>r' op. Transition (memoryService DefaultPolicyConfig (Some sampleVerifier)) sampleEnv ''op-1'' st'
           ''next'' ''tester'' (sampleRepository st) = (r', Inr op)"
proof -
  have "op_ID (appendTransition t (sampleOperation st) st' reason actor) = ''op-1''" for t reason actor
    by (simp add: appendTransition_def sample_stored)
  moreover have "mr_operations (sampleRepository st) ''op-1'' = Some (sampleOperation st)"
    using sample_stored by (simp add: memGet_iff)
  ultimately show ?thesis
    using assms by (simp add: Transition_def sample_stored sampleEnv_def memUpdateOperation_def Let_def)
qed

theorem Transition_authorized_witness:
  "\<exists>r' op. Transition (memoryService DefaultPolicyConfig (Some sampleVerifier)) sampleEnv ''op-1''
      StateAuthorized ''next'' ''tester'' (sampleRepository StateGovernancePending) = (r', Inr op) \<and>
    (\<exists>old. memGetOperation ''op-1'' (sampleRepository StateGovernancePending) = Inr old \<and>
      authorizedFor old (env_now sampleEnv))"
proof -
  have "allowedTransition StateGovernancePending StateAuthorized"
    by (simp add: allowedTransition_def allowedFrom_def)
  moreover have "validateTransitionEvidence (memoryService DefaultPolicyConfig (Some sampleVerifier)) 50
      (sampleOperation StateGovernancePending) StateAuthorized = None"
    using sample_authorized by (simp add: validateTransitionEvidence_def validateAuthorizationReference_iff)
  ultimately obtain r' op where tr: "Transition (memoryService DefaultPolicyConfig (Some sampleVerifier)) sampleEnv
      ''op-1'' StateAuthorized ''next'' ''tester'' (sampleRepository StateGovernancePending) = (r', Inr op)"
    using sample_transition by blast
  show ?thesis using Transition_authorized [OF tr] tr by (auto)
qed

lemma sample_outcome:
  "verifyLedgerReceipt (memoryService policy (Some sampleVerifier)) (sampleOperation StateEvidencePending)
     sampleReceipt = None"
proof -
  let ?op = "sampleOperation StateEvidencePending"
  have "\<not> blank ''e-1''" "\<not> blank ''h-1''" "\<not> blank LedgerEntryTypeOutcome" "trimSpace ''op-1'' = ''op-1''"
    by code_simp+
  note nb = this
  obtain c where c: "NewOutcomeEvidence ?op = Inr c"
    using sampleDigest_valid nb by (simp add: NewOutcomeEvidence_def sampleOperation_def Let_def)
  then have v: "verifyOutcomeEvidence ?op c = None" by (simp add: outcome_evidence_iff)
  have sel: "op_CorrelationID ?op = ''c-1''" "op_ObservedDigest ?op = sampleDigest"
    by (simp_all add: sampleOperation_def)
  show ?thesis
    by (simp add: verifyLedgerReceipt_def verifyProof_def sampleReceipt_def sampleVerifier_def sel c v nb
        sampleDigest_valid validReceiptPurpose_def expectedLedgerEntryType_def unixMilli_def)
qed

theorem Transition_succeeded_witness:
  "\<exists>r' op. Transition (memoryService DefaultPolicyConfig (Some sampleVerifier)) sampleEnv ''op-1''
      StateSucceeded ''next'' ''tester'' (sampleRepository StateEvidencePending) = (r', Inr op) \<and>
    (\<exists>old. memGetOperation ''op-1'' (sampleRepository StateEvidencePending) = Inr old \<and>
      op_State old = StateEvidencePending \<and>
      (\<exists>receipt. receipt \<in> set (op_LedgerReceipts old) \<and>
        provenOutcome (memoryService DefaultPolicyConfig (Some sampleVerifier)) old receipt))"
proof -
  have "allowedTransition StateEvidencePending StateSucceeded"
    by (simp add: allowedTransition_def allowedFrom_def)
  moreover have "validateTransitionEvidence (memoryService DefaultPolicyConfig (Some sampleVerifier)) 50
      (sampleOperation StateEvidencePending) StateSucceeded = None"
  proof -
    have "op_LedgerReceipts (sampleOperation StateEvidencePending) = [sampleReceipt]"
      "lr_Purpose sampleReceipt = ReceiptPurposeOutcome"
      by (simp_all add: sampleOperation_def sampleReceipt_def)
    then show ?thesis
      by (simp add: validateTransitionEvidence_def verifyReceiptPurpose_def sample_outcome)
  qed
  ultimately obtain r' op where tr: "Transition (memoryService DefaultPolicyConfig (Some sampleVerifier)) sampleEnv
      ''op-1'' StateSucceeded ''next'' ''tester'' (sampleRepository StateEvidencePending) = (r', Inr op)"
    using sample_transition by blast
  show ?thesis using Transition_succeeded [OF tr] tr by auto
qed

definition sampleAdmitted :: FleetOperation where
  "sampleAdmitted = admittedOperation sampleEnv sampleIntent StateAccepted
     (ir_Reason (Evaluate sampleIntent DefaultPolicyConfig))"

definition sampleSubmitted :: MemoryRepository where
  "sampleSubmitted = \<lparr>mr_intents = [fi_ID sampleIntent \<mapsto> sampleIntent],
     mr_operations = [op_ID sampleAdmitted \<mapsto> sampleAdmitted],
     mr_idempotency = [''key-1'' \<mapsto> op_ID sampleAdmitted]\<rparr>"

lemma sample_submit:
  "Submit (memoryService DefaultPolicyConfig None) sampleEnv sampleIntent NewMemoryRepository =
     (sampleSubmitted,
      Inr (submissionFromOperation sampleAdmitted (ir_Reason (Evaluate sampleIntent DefaultPolicyConfig))))"
proof -
  have dflt: "withDefaults sampleEnv sampleIntent = sampleIntent"
    by (simp add: withDefaults_def sampleIntent_def)
  have "ir_Status (Evaluate sampleIntent DefaultPolicyConfig) = StatusAccepted"
    by code_simp
  then have adm: "admission DefaultPolicyConfig (env_now sampleEnv) sampleIntent =
      Inr (StateAccepted, ir_Reason (Evaluate sampleIntent DefaultPolicyConfig))"
    by (simp add: admission_def sampleEnv_def) (simp add: sampleIntent_def)
  have key: "fi_IdempotencyKey sampleIntent = ''key-1''" by (simp add: sampleIntent_def)
  show ?thesis
    by (simp add: Submit_def Let_def dflt adm key memFindByIdempotencyKey_def NewMemoryRepository_def
        memCreate_def sampleSubmitted_def sampleAdmitted_def)
qed

lemma sample_reach: "serviceReach memoryRepository DefaultPolicyConfig NewMemoryRepository sampleSubmitted"
  using serviceStep.submit [OF sample_submit] by blast

lemma sample_submitted_get: "memGetOperation (op_ID sampleAdmitted) sampleSubmitted = Inr sampleAdmitted"
  by (simp add: memGetOperation_def sampleSubmitted_def)

theorem reachable_wellformed_witness:
  "serviceReach memoryRepository DefaultPolicyConfig NewMemoryRepository sampleSubmitted \<and>
   memGetOperation (op_ID sampleAdmitted) sampleSubmitted = Inr sampleAdmitted \<and>
   wfHistory sampleAdmitted \<and> wfReceipts sampleAdmitted"
  using sample_reach sample_submitted_get reachable_wellformed [OF sample_reach sample_submitted_get] by blast

theorem reachable_milestones_witness:
  "serviceReach memoryRepository DefaultPolicyConfig NewMemoryRepository sampleSubmitted \<and>
   memGetOperation (op_ID sampleAdmitted) sampleSubmitted = Inr sampleAdmitted \<and>
   subseq (milestones (op_State sampleAdmitted)) (historyOf sampleAdmitted)"
  using sample_reach sample_submitted_get reachable_milestones [OF sample_reach sample_submitted_get] by blast

theorem Transition_frame_witness:
  "\<exists>r' op. Transition (memoryService DefaultPolicyConfig (Some sampleVerifier)) sampleEnv ''op-1'' StateAccepted ''next'' ''tester''
       (sampleRepository StateDeferred) = (r', Inr op) \<and>
     (\<exists>entry. op_Transitions op = op_Transitions (sampleOperation StateDeferred) @ [entry] \<and> tr_State entry = StateAccepted)"
proof -
  obtain r' op where tr: "Transition (memoryService DefaultPolicyConfig (Some sampleVerifier)) sampleEnv ''op-1'' StateAccepted
      ''next'' ''tester'' (sampleRepository StateDeferred) = (r', Inr op)"
    using sample_transition [of StateDeferred StateAccepted]
    by (auto simp: allowedTransition_def allowedFrom_def validateTransitionEvidence_def)
  with Transition_frame [OF sample_stored(2) tr] show ?thesis by (auto simp: sample_stored)
qed

theorem Cancel_outcome_witness:
  "memInv (sampleRepository StateReceived) \<and>
   memGetOperation ''op-1'' (sampleRepository StateReceived) = Inr (sampleOperation StateReceived) \<and>
   Cancel (memoryService DefaultPolicyConfig None) sampleEnv ''op-1'' ''human'' (sampleRepository StateReceived) =
     (sampleRepository StateReceived, Inl (ErrInvalidTransition StateReceived StateFailed))"
  using Cancel_outcome [OF sample_stored(2) sample_stored(1)]
  by (simp add: sample_stored)

theorem Submit_idempotent_witness:
  "Submit (memoryService DefaultPolicyConfig None) sampleEnv (sampleIntent\<lparr>fi_ID := []\<rparr>) sampleSubmitted =
     (sampleSubmitted, Inr ((submissionFromOperation sampleAdmitted
        (ir_Reason (Evaluate sampleIntent DefaultPolicyConfig)))\<lparr>sr_Reason := ''idempotent replay''\<rparr>))"
  by (rule Submit_idempotent [OF memInv_New _ sample_submit]) (simp_all add: sampleIntent_def)

theorem AttachLedgerReceipt_idempotent_witness:
  "\<exists>r' op. memInv (sampleRepository StateEvidencePending) \<and>
     AttachLedgerReceipt (memoryService DefaultPolicyConfig (Some sampleVerifier)) sampleEnv ''op-1'' sampleReceipt
       (sampleRepository StateEvidencePending) = (r', Inr op) \<and>
     AttachLedgerReceipt (memoryService DefaultPolicyConfig (Some sampleVerifier)) sampleEnv ''op-1'' sampleReceipt r'
       = (r', Inr op)"
proof -
  have "op_LedgerReceipts (sampleOperation StateEvidencePending) = [sampleReceipt]"
    by (simp add: sampleOperation_def)
  then have first: "AttachLedgerReceipt (memoryService DefaultPolicyConfig (Some sampleVerifier)) sampleEnv ''op-1''
      sampleReceipt (sampleRepository StateEvidencePending) =
      (sampleRepository StateEvidencePending, Inr (sampleOperation StateEvidencePending))"
    by (simp add: AttachLedgerReceipt_def sample_stored sample_outcome)
  show ?thesis using AttachLedgerReceipt_idempotent [OF sample_stored(2) first] first sample_stored(2) by blast
qed

end
