(* ===== verification/Fleet_API.thy ===== *)
theory Fleet_API
  imports Go_Float
begin

text \<open>
  The declarative API of the fleet, \<open>pkg/apis/fleet/v1alpha1/types.go\<close>: one record
  for each struct, in dependency order. A pointer field is an option, a slice a
  list.
\<close>

record ModelSpec =
  mspec_Name :: string
  mspec_Source :: string
  mspec_Version :: string
  mspec_OciRef :: string

record PolicyReference =
  polref_Name :: string
  polref_Namespace :: string

record PlacementRef =
  plref_PolicyRef :: PolicyReference
  plref_MinClusters :: int64
  plref_MaxClusters :: int64

record RoutingRef =
  rtref_PolicyRef :: PolicyReference

record ScalingRef =
  scref_PolicyRef :: PolicyReference

record KServeServingSpec =
  ksss_ModelURI :: string
  ksss_Replicas :: int64
  ksss_Criticality :: string

record EndpointPickerRef =
  epr_Name :: string

record InferencePoolTemplateSpec =
  ipts_TargetPorts :: "int64 list"
  ipts_EndpointPickerRef :: EndpointPickerRef

record InferencePoolTemplate =
  ipt_Spec :: InferencePoolTemplateSpec

record ServingSpec =
  serv_Target :: string
  serv_InferencePoolTemplate :: InferencePoolTemplate
  serv_KServe :: "KServeServingSpec option"

definition ServingTargetInferencePool :: string where
  "ServingTargetInferencePool = ''inferencePool''"

definition ServingTargetKServeLLMInferenceService :: string where
  "ServingTargetKServeLLMInferenceService = ''kserveLLMInferenceService''"

definition EffectiveTarget :: "ServingSpec \<Rightarrow> string" where
  "EffectiveTarget s = (if serv_Target s = [] then ServingTargetInferencePool else serv_Target s)"

record CanarySpec =
  cans_Weight :: int64
  cans_PauseDuration :: string

record LifecycleRef =
  lcref_RolloutStrategy :: string
  lcref_Canary :: "CanarySpec option"

record FleetInferencePoolSpec =
  fips_Model :: ModelSpec
  fips_Placement :: PlacementRef
  fips_Routing :: RoutingRef
  fips_Scaling :: ScalingRef
  fips_Serving :: ServingSpec
  fips_Lifecycle :: LifecycleRef

record ResolvedModelConfig =
  rmc_ParamSize :: string
  rmc_Precision :: string
  rmc_Format :: string
  rmc_GPUMemoryGB :: float64
  rmc_RecommendedGPUs :: int64

record ClusterAssignment =
  cas_Name :: string
  cas_Replicas :: int64
  cas_GPUType :: string
  cas_Status :: string

record AggregatedMetrics =
  aggm_TotalThroughput :: string
  aggm_AvgTTFT :: string
  aggm_KVCacheHitRate :: string

record Condition =
  cond_Type :: string
  cond_Status :: string
  cond_LastTransitionTime :: time
  cond_Reason :: string
  cond_Message :: string

datatype FleetPhase =
  FleetPhasePending | FleetPhasePlacing | FleetPhaseRunning | FleetPhaseDegraded | FleetPhaseFailed

record FleetInferencePoolStatus =
  fipst_Phase :: FleetPhase
  fipst_Clusters :: "ClusterAssignment list"
  fipst_AggregatedMetrics :: "AggregatedMetrics option"
  fipst_Conditions :: "Condition list"
  fipst_ResolvedConfig :: "ResolvedModelConfig option"

record PlacementConstraint =
  plc_Type :: string
  plc_Rule :: string

record AffinityRule =
  afr_Type :: string
  afr_Weight :: float64

record SpreadingRule =
  spr_MaxSkew :: int64
  spr_TopologyKey :: string

record PlacementPolicySpec =
  pps_Constraints :: "PlacementConstraint list"
  pps_Affinity :: "AffinityRule list"
  pps_Spreading :: "SpreadingRule option"

record GPUBudget =
  gpub_MaxGPUs :: int64
  gpub_GPUTypes :: "string list"

record TenantQuota =
  tq_MaxTokensPerMinute :: int64
  tq_MaxConcurrentRequests :: int64
  tq_MaxModels :: int64
  tq_GPUBudget :: GPUBudget

record RateLimitSpec =
  rls_RequestsPerSecond :: int64
  rls_BurstSize :: int64

record CostControlSpec =
  ccs_MonthlyBudget :: string
  ccs_AlertThreshold :: float64

record ClusterScope =
  clsc_Allowed :: "string list"
  clsc_Denied :: "string list"

record TenantProfileSpec =
  tps_Quotas :: TenantQuota
  tps_RateLimit :: RateLimitSpec
  tps_Priority :: int64
  tps_CostControl :: "CostControlSpec option"
  tps_Clusters :: "ClusterScope option"

record TenantUsage =
  tusage_CurrentMonthCost :: string
  tusage_TokensConsumed :: int64
  tusage_AvgLatency :: string

record TenantProfileStatus =
  tpst_Usage :: TenantUsage

record RoutingMatch =
  rm_Headers :: "(string, string) gomap"
  rm_Source :: string
  rm_SemanticTier :: string
  rm_MinConfidence :: float64

record Failover =
  fo_Clusters :: "string list"

record RoutingAction =
  ra_PreferLocal :: bool
  ra_PreferCheapest :: bool
  ra_KVCacheAffinity :: bool
  ra_SessionAffinity :: bool
  ra_MaxLatencyMs :: int64
  ra_Failover :: "Failover option"
  ra_TargetModelTier :: string

record RoutingRule =
  rrule_Match :: RoutingMatch
  rrule_Action :: RoutingAction

record HealthCheckSpec =
  hcs_Interval :: string
  hcs_UnhealthyThreshold :: int64

record FleetRoutingPolicySpec =
  frps_Strategy :: string
  frps_Rules :: "RoutingRule list"
  frps_HealthCheck :: "HealthCheckSpec option"

record ScalingObjective =
  sobj_Metric :: string
  sobj_Target :: string

record ScalingConstraints =
  scon_GlobalMaxGPUs :: int64
  scon_MaxScaleUpRate :: int64

record CrossClusterScaling =
  xcs_EnableMigration :: bool
  xcs_MigrationThreshold :: float64

record ScaleToZeroSpec =
  stzs_Enabled :: bool
  stzs_CooldownPeriod :: string

record FleetScalingPolicySpec =
  fsps_Objectives :: "ScalingObjective list"
  fsps_Constraints :: ScalingConstraints
  fsps_Strategy :: string
  fsps_CrossCluster :: "CrossClusterScaling option"
  fsps_ScaleToZero :: "ScaleToZeroSpec option"

record ModelRef =
  mref_Name :: string
  mref_Version :: string

record SLOGate =
  slog_MaxTTFTRegression :: string
  slog_MaxErrorRateIncrease :: string

record CanaryConfig =
  cc_InitialWeight :: int64
  cc_WeightIncrement :: int64
  cc_Interval :: string
  cc_SLOGate :: "SLOGate option"
  cc_RollbackOnFailure :: bool

record RolloutStrategy =
  rstrat_Type :: string
  rstrat_Canary :: "CanaryConfig option"

record ClusterOrder =
  co_Order :: "string list"

record ModelLifecycleSpec =
  mls_Model :: ModelRef
  mls_FleetPoolRef :: string
  mls_Strategy :: RolloutStrategy
  mls_Clusters :: "ClusterOrder option"

record ClusterRolloutStatus =
  crs_Cluster :: string
  crs_Phase :: string
  crs_CurrentWeight :: int64
  crs_SLOMet :: bool

record ModelLifecycleStatus =
  mlst_Phase :: string
  mlst_CurrentWeight :: int64
  mlst_ClusterStatus :: "ClusterRolloutStatus list"

record TransferTrigger =
  trig_Type :: string
  trig_Action :: string

record TransportSpec =
  trans_Protocol :: string
  trans_MaxBandwidthMbps :: int64

record RetentionSpec =
  rets_SourceRetentionAfterTransfer :: string

record KVCacheTransferPolicySpec =
  kvctps_Triggers :: "TransferTrigger list"
  kvctps_Transport :: TransportSpec
  kvctps_Retention :: RetentionSpec

end
