(* ===== verification/Store_Memory.thy ===== *)
theory Store_Memory
  imports Go_Any
begin

text \<open>
  The records and the in-memory repositories of \<open>pkg/store/postgres\<close>
  (\<open>records.go\<close>, \<open>repository.go\<close>, \<open>inmemory.go\<close>). Each mutex-protected method is
  one atomic operation. \<open>raw\<close> are the sixteen random bytes of \<open>generateID\<close> and
  \<open>now\<close> the reading of the clock. The four keyed repositories meet one contract,
  a locale, and refine finite maps.
\<close>

section \<open>Records\<close>

definition ClusterStatusRunning :: string where "ClusterStatusRunning = ''Running''"
definition ClusterStatusHealthy :: string where "ClusterStatusHealthy = ''Healthy''"
definition ClusterStatusDraining :: string where "ClusterStatusDraining = ''Draining''"
definition ClusterStatusDrained :: string where "ClusterStatusDrained = ''Drained''"
definition ClusterStatusDegraded :: string where "ClusterStatusDegraded = ''Degraded''"

record ClusterRecord =
  cl_ID :: string
  cl_Name :: string
  cl_Region :: string
  cl_Labels :: "(string, string) gomap"
  cl_GPUAvailable :: int64
  cl_GPUTotal :: int64
  cl_Status :: string
  cl_RegisteredAt :: time
  cl_UpdatedAt :: time

record FleetPoolRecord =
  fp_ID :: string
  fp_Name :: string
  fp_ModelName :: string
  fp_ModelSource :: string
  fp_DesiredClusters :: "string list"
  fp_TargetPorts :: "int64 list"
  fp_PlacementPolicy :: string
  fp_RoutingPolicy :: string
  fp_ScalingPolicy :: string
  fp_Status :: string
  fp_CreatedAt :: time
  fp_UpdatedAt :: time

record TenantRecord =
  tn_ID :: string
  tn_Name :: string
  tn_Priority :: int64
  tn_Quotas :: "(string, goany) gomap"
  tn_RateLimit :: "(string, goany) gomap"
  tn_CostControl :: "(string, goany) gomap"
  tn_ClusterScope :: "(string, goany) gomap"
  tn_CreatedAt :: time

record TenantUsageRecord =
  us_ID :: string
  us_TenantID :: string
  us_Model :: string
  us_ClusterID :: string
  us_TokensConsumed :: int64
  us_CostUSD :: float64
  us_RequestCount :: int64
  us_PeriodStart :: time
  us_PeriodEnd :: time

record QuotaReservation =
  qr_Allowed :: bool
  qr_TokensReserved :: int64
  qr_ActiveRequests :: int64
  qr_BudgetSpent :: int64

text \<open>The strategy map of a rollout is open; \<open>'v\<close> is what its owner stores.\<close>

record 'v RolloutRecord =
  ro_ID :: string
  ro_PoolID :: string
  ro_ModelVersion :: string
  ro_Strategy :: "(string, 'v) gomap option"
  ro_Status :: string
  ro_CurrentWeight :: int64
  ro_StartedAt :: time
  ro_CompletedAt :: "time option"

record EventRecord =
  ev_ID :: string
  ev_EventType :: string
  ev_Payload :: "(string, goany) gomap"
  ev_Source :: string
  ev_CreatedAt :: time

record EventFilter =
  ef_EventType :: string
  ef_Source :: string
  ef_Since :: "time option"
  ef_Until :: "time option"
  ef_Limit :: int64

datatype StoreError =
    ErrClusterNotFound string | ErrClusterAlreadyExists string
  | PoolNotFound string | PoolAlreadyExists string
  | TenantNotFound string | TenantAlreadyExists string
  | RolloutNotFound string | RolloutAlreadyExists string

definition generateID :: "string \<Rightarrow> string" where
  "generateID raw = hexEncode raw"

section \<open>Clusters\<close>

type_synonym InMemoryClusterRepository = "(string, ClusterRecord) gomap"

definition NewInMemoryClusterRepository :: InMemoryClusterRepository where
  "NewInMemoryClusterRepository = []"

definition clusterStored :: "string \<times> time \<Rightarrow> ClusterRecord \<Rightarrow> ClusterRecord" where
  "clusterStored env cluster =
     (case env of (raw, now) \<Rightarrow>
        let c1 = (if cl_ID cluster = [] then cluster\<lparr>cl_ID := generateID raw\<rparr> else cluster);
            c2 = (if isZeroTime (cl_RegisteredAt c1) then c1\<lparr>cl_RegisteredAt := now\<rparr> else c1)
        in if isZeroTime (cl_UpdatedAt c2) then c2\<lparr>cl_UpdatedAt := now\<rparr> else c2)"

definition clusterCreate ::
  "string \<times> time \<Rightarrow> ClusterRecord \<Rightarrow> InMemoryClusterRepository \<Rightarrow> InMemoryClusterRepository \<times> StoreError option" where
  "clusterCreate env cluster r =
     (let c = clusterStored env cluster in
      if map_of r (cl_ID c) \<noteq> None then (r, Some (ErrClusterAlreadyExists (cl_ID c)))
      else (AList.update (cl_ID c) c r, None))"

definition clusterGet :: "string \<Rightarrow> InMemoryClusterRepository \<Rightarrow> (StoreError, ClusterRecord) res" where
  "clusterGet x r = (case map_of r x of None \<Rightarrow> Inl (ErrClusterNotFound x) | Some c \<Rightarrow> Inr c)"

definition clusterList :: "InMemoryClusterRepository \<Rightarrow> ClusterRecord list" where
  "clusterList r = map snd r"

definition clusterTouched :: "time \<Rightarrow> ClusterRecord \<Rightarrow> ClusterRecord" where
  "clusterTouched now cluster = cluster\<lparr>cl_UpdatedAt := now\<rparr>"

definition clusterUpdate ::
  "time \<Rightarrow> ClusterRecord \<Rightarrow> InMemoryClusterRepository \<Rightarrow> InMemoryClusterRepository \<times> StoreError option" where
  "clusterUpdate now cluster r =
     (if map_of r (cl_ID cluster) = None then (r, Some (ErrClusterNotFound (cl_ID cluster)))
      else (AList.update (cl_ID cluster) (clusterTouched now cluster) r, None))"

definition clusterDelete ::
  "string \<Rightarrow> InMemoryClusterRepository \<Rightarrow> InMemoryClusterRepository \<times> StoreError option" where
  "clusterDelete x r =
     (if map_of r x = None then (r, Some (ErrClusterNotFound x)) else (AList.delete x r, None))"

section \<open>Fleet pools\<close>

type_synonym InMemoryFleetPoolRepository = "(string, FleetPoolRecord) gomap"

definition NewInMemoryFleetPoolRepository :: InMemoryFleetPoolRepository where
  "NewInMemoryFleetPoolRepository = []"

definition cloneFleetPoolRecord :: "FleetPoolRecord \<Rightarrow> FleetPoolRecord" where
  "cloneFleetPoolRecord pool =
     pool\<lparr>fp_DesiredClusters := [] @ fp_DesiredClusters pool, fp_TargetPorts := [] @ fp_TargetPorts pool\<rparr>"

definition poolStored :: "string \<times> time \<Rightarrow> FleetPoolRecord \<Rightarrow> FleetPoolRecord" where
  "poolStored env pool =
     (case env of (raw, now) \<Rightarrow>
        let p1 = (if fp_ID pool = [] then pool\<lparr>fp_ID := generateID raw\<rparr> else pool);
            p2 = (if isZeroTime (fp_CreatedAt p1) then p1\<lparr>fp_CreatedAt := now\<rparr> else p1);
            p3 = (if isZeroTime (fp_UpdatedAt p2) then p2\<lparr>fp_UpdatedAt := now\<rparr> else p2)
        in cloneFleetPoolRecord p3)"

definition poolCreate ::
  "string \<times> time \<Rightarrow> FleetPoolRecord \<Rightarrow> InMemoryFleetPoolRepository \<Rightarrow>
   InMemoryFleetPoolRepository \<times> StoreError option" where
  "poolCreate env pool r =
     (let p = poolStored env pool in
      if map_of r (fp_ID p) \<noteq> None then (r, Some (PoolAlreadyExists (fp_ID p)))
      else (AList.update (fp_ID p) p r, None))"

definition poolGet :: "string \<Rightarrow> InMemoryFleetPoolRepository \<Rightarrow> (StoreError, FleetPoolRecord) res" where
  "poolGet x r =
     (case map_of r x of None \<Rightarrow> Inl (PoolNotFound x) | Some p \<Rightarrow> Inr (cloneFleetPoolRecord p))"

definition poolList :: "InMemoryFleetPoolRepository \<Rightarrow> FleetPoolRecord list" where
  "poolList r = map (\<lambda>(k, p). cloneFleetPoolRecord p) r"

definition poolTouched :: "time \<Rightarrow> FleetPoolRecord \<Rightarrow> FleetPoolRecord" where
  "poolTouched now pool = cloneFleetPoolRecord (pool\<lparr>fp_UpdatedAt := now\<rparr>)"

definition poolUpdate ::
  "time \<Rightarrow> FleetPoolRecord \<Rightarrow> InMemoryFleetPoolRepository \<Rightarrow> InMemoryFleetPoolRepository \<times> StoreError option" where
  "poolUpdate now pool r =
     (if map_of r (fp_ID pool) = None then (r, Some (PoolNotFound (fp_ID pool)))
      else (AList.update (fp_ID pool) (poolTouched now pool) r, None))"

definition poolDelete ::
  "string \<Rightarrow> InMemoryFleetPoolRepository \<Rightarrow> InMemoryFleetPoolRepository \<times> StoreError option" where
  "poolDelete x r =
     (if map_of r x = None then (r, Some (PoolNotFound x)) else (AList.delete x r, None))"

section \<open>Tenants\<close>

record InMemoryTenantRepository =
  itr_tenants :: "(string, TenantRecord) gomap"
  itr_usage :: "TenantUsageRecord list"

definition NewInMemoryTenantRepository :: InMemoryTenantRepository where
  "NewInMemoryTenantRepository = \<lparr>itr_tenants = [], itr_usage = []\<rparr>"

definition tenantStored :: "string \<times> time \<Rightarrow> TenantRecord \<Rightarrow> TenantRecord" where
  "tenantStored env tenant =
     (case env of (raw, now) \<Rightarrow>
        let t1 = (if tn_ID tenant = [] then tenant\<lparr>tn_ID := generateID raw\<rparr> else tenant)
        in if isZeroTime (tn_CreatedAt t1) then t1\<lparr>tn_CreatedAt := now\<rparr> else t1)"

definition tenantCreate ::
  "string \<times> time \<Rightarrow> TenantRecord \<Rightarrow> InMemoryTenantRepository \<Rightarrow> InMemoryTenantRepository \<times> StoreError option" where
  "tenantCreate env tenant r =
     (let t = tenantStored env tenant in
      if map_of (itr_tenants r) (tn_ID t) \<noteq> None then (r, Some (TenantAlreadyExists (tn_ID t)))
      else (r\<lparr>itr_tenants := AList.update (tn_ID t) t (itr_tenants r)\<rparr>, None))"

definition tenantGet :: "string \<Rightarrow> InMemoryTenantRepository \<Rightarrow> (StoreError, TenantRecord) res" where
  "tenantGet x r = (case map_of (itr_tenants r) x of None \<Rightarrow> Inl (TenantNotFound x) | Some t \<Rightarrow> Inr t)"

definition tenantList :: "InMemoryTenantRepository \<Rightarrow> TenantRecord list" where
  "tenantList r = map snd (itr_tenants r)"

definition tenantUpdate ::
  "time \<Rightarrow> TenantRecord \<Rightarrow> InMemoryTenantRepository \<Rightarrow> InMemoryTenantRepository \<times> StoreError option" where
  "tenantUpdate now tenant r =
     (if map_of (itr_tenants r) (tn_ID tenant) = None then (r, Some (TenantNotFound (tn_ID tenant)))
      else (r\<lparr>itr_tenants := AList.update (tn_ID tenant) tenant (itr_tenants r)\<rparr>, None))"

definition tenantDelete ::
  "string \<Rightarrow> InMemoryTenantRepository \<Rightarrow> InMemoryTenantRepository \<times> StoreError option" where
  "tenantDelete x r =
     (if map_of (itr_tenants r) x = None then (r, Some (TenantNotFound x))
      else (r\<lparr>itr_tenants := AList.delete x (itr_tenants r)\<rparr>, None))"

definition recordUsage ::
  "string \<Rightarrow> TenantUsageRecord \<Rightarrow> InMemoryTenantRepository \<Rightarrow> InMemoryTenantRepository" where
  "recordUsage raw usage r =
     (let u = (if us_ID usage = [] then usage\<lparr>us_ID := generateID raw\<rparr> else usage)
      in r\<lparr>itr_usage := itr_usage r @ [u]\<rparr>)"

definition getUsage :: "string \<Rightarrow> time \<Rightarrow> time \<Rightarrow> InMemoryTenantRepository \<Rightarrow> TenantUsageRecord list" where
  "getUsage tenantID start end r =
     filter (\<lambda>u. us_TenantID u = tenantID \<and> \<not> (us_PeriodStart u < start \<or> end < us_PeriodEnd u)) (itr_usage r)"

section \<open>Rollouts\<close>

type_synonym 'v InMemoryRolloutRepository = "(string, 'v RolloutRecord) gomap"

definition NewInMemoryRolloutRepository :: "'v InMemoryRolloutRepository" where
  "NewInMemoryRolloutRepository = []"

definition cloneRolloutRecord :: "'v RolloutRecord \<Rightarrow> 'v RolloutRecord" where
  "cloneRolloutRecord rollout =
     rollout\<lparr>ro_Strategy := map_option (map (\<lambda>(k, v). (k, v))) (ro_Strategy rollout),
             ro_CompletedAt := map_option (\<lambda>t. t) (ro_CompletedAt rollout)\<rparr>"

definition rolloutStored :: "string \<times> time \<Rightarrow> 'v RolloutRecord \<Rightarrow> 'v RolloutRecord" where
  "rolloutStored env rollout =
     (case env of (raw, now) \<Rightarrow>
        let r1 = (if ro_ID rollout = [] then rollout\<lparr>ro_ID := generateID raw\<rparr> else rollout);
            r2 = (if isZeroTime (ro_StartedAt r1) then r1\<lparr>ro_StartedAt := now\<rparr> else r1)
        in cloneRolloutRecord r2)"

definition rolloutCreate ::
  "string \<times> time \<Rightarrow> 'v RolloutRecord \<Rightarrow> 'v InMemoryRolloutRepository \<Rightarrow>
   'v InMemoryRolloutRepository \<times> StoreError option" where
  "rolloutCreate env rollout r =
     (let ro = rolloutStored env rollout in
      if map_of r (ro_ID ro) \<noteq> None then (r, Some (RolloutAlreadyExists (ro_ID ro)))
      else (AList.update (ro_ID ro) ro r, None))"

definition rolloutGet :: "string \<Rightarrow> 'v InMemoryRolloutRepository \<Rightarrow> (StoreError, 'v RolloutRecord) res" where
  "rolloutGet x r =
     (case map_of r x of None \<Rightarrow> Inl (RolloutNotFound x) | Some ro \<Rightarrow> Inr (cloneRolloutRecord ro))"

definition rolloutList :: "'v InMemoryRolloutRepository \<Rightarrow> 'v RolloutRecord list" where
  "rolloutList r = map (\<lambda>(k, ro). cloneRolloutRecord ro) r"

definition rolloutUpdate ::
  "time \<Rightarrow> 'v RolloutRecord \<Rightarrow> 'v InMemoryRolloutRepository \<Rightarrow>
   'v InMemoryRolloutRepository \<times> StoreError option" where
  "rolloutUpdate now rollout r =
     (if map_of r (ro_ID rollout) = None then (r, Some (RolloutNotFound (ro_ID rollout)))
      else (AList.update (ro_ID rollout) (cloneRolloutRecord rollout) r, None))"

section \<open>Events\<close>

type_synonym InMemoryEventRepository = "EventRecord list"

definition eventCreate :: "string \<times> time \<Rightarrow> EventRecord \<Rightarrow> InMemoryEventRepository \<Rightarrow> InMemoryEventRepository" where
  "eventCreate env event r =
     (case env of (raw, now) \<Rightarrow>
        let e1 = (if ev_ID event = [] then event\<lparr>ev_ID := generateID raw\<rparr> else event);
            e2 = (if isZeroTime (ev_CreatedAt e1) then e1\<lparr>ev_CreatedAt := now\<rparr> else e1)
        in r @ [e2])"

definition eventMatches :: "EventFilter \<Rightarrow> EventRecord \<Rightarrow> bool" where
  "eventMatches f e \<longleftrightarrow>
     \<not> (ef_EventType f \<noteq> [] \<and> ev_EventType e \<noteq> ef_EventType f) \<and>
     \<not> (ef_Source f \<noteq> [] \<and> ev_Source e \<noteq> ef_Source f) \<and>
     (case ef_Since f of None \<Rightarrow> True | Some t \<Rightarrow> \<not> ev_CreatedAt e < t) \<and>
     (case ef_Until f of None \<Rightarrow> True | Some t \<Rightarrow> \<not> t < ev_CreatedAt e)"

text \<open>The loop of \<open>Query\<close>, with the matches found so far.\<close>

fun queryLoop :: "EventFilter \<Rightarrow> EventRecord list \<Rightarrow> EventRecord list \<Rightarrow> EventRecord list" where
  "queryLoop f [] out = out"
| "queryLoop f (e # es) out =
     (if \<not> eventMatches f e then queryLoop f es out
      else let out = out @ [e] in
           if 0 < ef_Limit f \<and> ef_Limit f \<le> int (length out) then out else queryLoop f es out)"

definition eventQuery :: "EventFilter \<Rightarrow> InMemoryEventRepository \<Rightarrow> EventRecord list" where
  "eventQuery f r = queryLoop f r []"

section \<open>The contract of a keyed repository\<close>

text \<open>A repository abstracts to a map from identifiers to records. \<open>stored\<close> is
  what a create files (identifier and timestamps filled in), \<open>touched\<close> what an
  update files.\<close>

locale record_store =
  fixes key :: "'a \<Rightarrow> string"
    and stored :: "string \<times> time \<Rightarrow> 'a \<Rightarrow> 'a"
    and touched :: "time \<Rightarrow> 'a \<Rightarrow> 'a"
    and abs :: "'s \<Rightarrow> string \<rightharpoonup> 'a"
    and inv :: "'s \<Rightarrow> bool"
    and create :: "string \<times> time \<Rightarrow> 'a \<Rightarrow> 's \<Rightarrow> 's \<times> StoreError option"
    and get :: "string \<Rightarrow> 's \<Rightarrow> (StoreError, 'a) res"
    and list :: "'s \<Rightarrow> 'a list"
    and update :: "time \<Rightarrow> 'a \<Rightarrow> 's \<Rightarrow> 's \<times> StoreError option"
  assumes key_touched: "key (touched now x) = key x"
    and get_abs: "get k s = Inr x \<longleftrightarrow> abs s k = Some x"
    and list_abs: "inv s \<Longrightarrow> set (list s) = ran (abs s) \<and> length (list s) = card (dom (abs s))"
    and create_abs: "abs (fst (create env x s)) =
      (if abs s (key (stored env x)) = None then (abs s)(key (stored env x) \<mapsto> stored env x) else abs s)"
    and create_ok: "snd (create env x s) = None \<longleftrightarrow> abs s (key (stored env x)) = None"
    and create_inv: "inv s \<Longrightarrow> inv (fst (create env x s))"
    and update_abs: "abs (fst (update now x s)) =
      (if abs s (key x) = None then abs s else (abs s)(key x \<mapsto> touched now x))"
    and update_ok: "snd (update now x s) = None \<longleftrightarrow> abs s (key x) \<noteq> None"
    and update_inv: "inv s \<Longrightarrow> inv (fst (update now x s))"
begin

lemma create_get: "snd (create env x s) = None \<Longrightarrow>
   get k (fst (create env x s)) = Inr y \<longleftrightarrow>
   (if k = key (stored env x) then y = stored env x else get k s = Inr y)"
  by (auto simp: get_abs create_abs create_ok)

lemma create_twice: "snd (create env x s) = None \<Longrightarrow> key (stored env' y) = key (stored env x) \<Longrightarrow>
   snd (create env' y (fst (create env x s))) \<noteq> None"
  by (simp add: create_ok create_abs)

lemma list_create: "inv s \<Longrightarrow> snd (create env x s) = None \<Longrightarrow> finite (dom (abs s)) \<Longrightarrow>
   length (list (fst (create env x s))) = Suc (length (list s))"
  by (simp add: list_abs create_inv create_abs create_ok domIff)

lemma list_update: "inv s \<Longrightarrow> length (list (fst (update now x s))) = length (list s)"
  by (simp add: list_abs update_inv update_abs insert_absorb domIff)

end

locale deletable_store = record_store key stored touched abs inv create get list update
  for key :: "'a \<Rightarrow> string" and stored and touched and abs :: "'s \<Rightarrow> string \<rightharpoonup> 'a" and inv and create and get
    and list and update +
  fixes delete :: "string \<Rightarrow> 's \<Rightarrow> 's \<times> StoreError option"
  assumes delete_abs: "abs (fst (delete k s)) = (abs s)(k := None)"
    and delete_ok: "snd (delete k s) = None \<longleftrightarrow> abs s k \<noteq> None"
    and delete_inv: "inv s \<Longrightarrow> inv (fst (delete k s))"

text \<open>Commands of a client, their effect on a repository and on a map.\<close>

datatype 'a storeCmd =
    CmdCreate "string \<times> time" 'a
  | CmdUpdate time 'a
  | CmdDelete string

definition storeStep ::
  "(string \<times> time \<Rightarrow> 'a \<Rightarrow> 's \<Rightarrow> 's \<times> StoreError option) \<Rightarrow> (time \<Rightarrow> 'a \<Rightarrow> 's \<Rightarrow> 's \<times> StoreError option) \<Rightarrow>
   (string \<Rightarrow> 's \<Rightarrow> 's \<times> StoreError option) \<Rightarrow> 'a storeCmd \<Rightarrow> 's \<Rightarrow> 's" where
  "storeStep create update delete cmd s =
     (case cmd of
        CmdCreate env x \<Rightarrow> fst (create env x s)
      | CmdUpdate now x \<Rightarrow> fst (update now x s)
      | CmdDelete k \<Rightarrow> fst (delete k s))"

definition mapStep ::
  "('a \<Rightarrow> string) \<Rightarrow> (string \<times> time \<Rightarrow> 'a \<Rightarrow> 'a) \<Rightarrow> (time \<Rightarrow> 'a \<Rightarrow> 'a) \<Rightarrow>
   'a storeCmd \<Rightarrow> (string \<rightharpoonup> 'a) \<Rightarrow> (string \<rightharpoonup> 'a)" where
  "mapStep key stored touched cmd m =
     (case cmd of
        CmdCreate env x \<Rightarrow>
          if m (key (stored env x)) = None then m(key (stored env x) \<mapsto> stored env x) else m
      | CmdUpdate now x \<Rightarrow> if m (key x) = None then m else m(key x \<mapsto> touched now x)
      | CmdDelete k \<Rightarrow> m(k := None))"

context deletable_store
begin

lemma step_refines: "abs (storeStep create update delete cmd s) = mapStep key stored touched cmd (abs s)"
  by (cases cmd) (simp_all add: storeStep_def mapStep_def create_abs update_abs delete_abs)

lemma step_inv: "inv s \<Longrightarrow> inv (storeStep create update delete cmd s)"
  by (cases cmd) (simp_all add: storeStep_def create_inv update_inv delete_inv)

lemma run_refines:
  "abs (fold (storeStep create update delete) cmds s) = fold (mapStep key stored touched) cmds (abs s)"
  by (induction cmds arbitrary: s) (simp_all add: step_refines)

lemma run_inv: "inv s \<Longrightarrow> inv (fold (storeStep create update delete) cmds s)"
  by (induction cmds arbitrary: s) (simp_all add: step_inv)

end

section \<open>The repositories meet it\<close>

text \<open>Every repository keeps distinct keys and files a record under its own
  identifier.\<close>

definition keyedBy :: "('a \<Rightarrow> string) \<Rightarrow> (string, 'a) gomap \<Rightarrow> bool" where
  "keyedBy key m \<longleftrightarrow> validMap m \<and> (\<forall>(k, x) \<in> set m. key x = k)"

lemma keyedBy_Nil [simp]: "keyedBy key []"
  by (simp add: keyedBy_def)

lemma set_aupdate: "set (AList.update k v m) \<subseteq> insert (k, v) (set m)"
  by (induction m) auto

lemma keyedBy_update [simp]: "keyedBy key m \<Longrightarrow> key v = k \<Longrightarrow> keyedBy key (AList.update k v m)"
  using set_aupdate [of k v m] by (fastforce simp: keyedBy_def)

lemma keyedBy_delete [simp]: "keyedBy key m \<Longrightarrow> keyedBy key (AList.delete k m)"
proof -
  have "set (AList.delete k m) \<subseteq> set m" by (auto simp: AList.delete_eq)
  then show "keyedBy key m \<Longrightarrow> keyedBy key (AList.delete k m)" unfolding keyedBy_def by auto
qed

lemma keyedBy_list:
  assumes "keyedBy key m"
  shows "snd ` set m = ran (map_of m)" and "length m = card (dom (map_of m))"
proof -
  have "distinct (map fst m)" using assms by (simp add: keyedBy_def)
  then show "snd ` set m = ran (map_of m)" by (simp add: ran_distinct)
  have "card (set (map fst m)) = length (map fst m)"
    using \<open>distinct (map fst m)\<close> by (rule distinct_card)
  then show "length m = card (dom (map_of m))" by (simp add: dom_map_of_conv_image_fst)
qed

lemma upd_None [simp]: "m k = None \<Longrightarrow> m(k := None) = m"
  by (simp add: fun_upd_idem_iff)

lemma clone_id [simp]: "cloneFleetPoolRecord p = p"
  by (simp add: cloneFleetPoolRecord_def)

lemma cloneRollout_id [simp]: "cloneRolloutRecord ro = ro"
  by (cases "ro_Strategy ro"; cases "ro_CompletedAt ro") (simp_all add: cloneRolloutRecord_def)

lemma list_clones:
  "poolList r = map snd r" "rolloutList ro = map snd ro"
  by (simp_all add: poolList_def rolloutList_def case_prod_unfold)

lemmas cluster_ops = clusterCreate_def clusterGet_def clusterList_def clusterUpdate_def clusterDelete_def
  clusterTouched_def
lemmas pool_ops = poolCreate_def poolGet_def list_clones(1) poolUpdate_def poolDelete_def poolTouched_def
lemmas tenant_ops = tenantCreate_def tenantGet_def tenantList_def tenantUpdate_def tenantDelete_def
lemmas rollout_ops = rolloutCreate_def rolloutGet_def list_clones(2) rolloutUpdate_def

interpretation clusters: deletable_store cl_ID clusterStored clusterTouched map_of "keyedBy cl_ID"
  clusterCreate clusterGet clusterList clusterUpdate clusterDelete
  by unfold_locales
    (simp_all add: cluster_ops Let_def map_of_aupdate map_of_adelete keyedBy_list [of cl_ID] split: option.split)

interpretation pools: deletable_store fp_ID poolStored poolTouched map_of "keyedBy fp_ID"
  poolCreate poolGet poolList poolUpdate poolDelete
  by unfold_locales
    (simp_all add: pool_ops Let_def map_of_aupdate map_of_adelete keyedBy_list [of fp_ID] split: option.split)

interpretation tenants: deletable_store tn_ID tenantStored "\<lambda>_ t. t" "map_of \<circ> itr_tenants"
  "keyedBy tn_ID \<circ> itr_tenants" tenantCreate tenantGet tenantList tenantUpdate tenantDelete
  by unfold_locales
    (simp_all add: tenant_ops Let_def map_of_aupdate map_of_adelete keyedBy_list [of tn_ID] split: option.split)

interpretation rollouts: record_store ro_ID rolloutStored "\<lambda>_ ro. ro" map_of "keyedBy ro_ID"
  rolloutCreate rolloutGet rolloutList rolloutUpdate
  by unfold_locales
    (simp_all add: rollout_ops Let_def map_of_aupdate keyedBy_list [of ro_ID] split: option.split)

section \<open>Properties\<close>

text \<open>C25: The cluster repository refines a finite map: after any sequence of
  creates, updates and deletes, failed ones included, lookups and the listing are
  those of the map that the same commands build.\<close>

theorem cluster_store_refines:
  "let r = fold (storeStep clusterCreate clusterUpdate clusterDelete) cmds NewInMemoryClusterRepository;
       m = fold (mapStep cl_ID clusterStored clusterTouched) cmds Map.empty
   in (\<forall>k. clusterGet k r = (case m k of None \<Rightarrow> Inl (ErrClusterNotFound k) | Some c \<Rightarrow> Inr c)) \<and>
      set (clusterList r) = ran m \<and> length (clusterList r) = card (dom m)"
proof -
  let ?r = "fold (storeStep clusterCreate clusterUpdate clusterDelete) cmds NewInMemoryClusterRepository"
  have abs: "map_of ?r = fold (mapStep cl_ID clusterStored clusterTouched) cmds Map.empty"
    using clusters.run_refines [of cmds NewInMemoryClusterRepository]
    by (simp add: NewInMemoryClusterRepository_def)
  have "keyedBy cl_ID ?r"
    by (rule clusters.run_inv) (simp add: NewInMemoryClusterRepository_def)
  from clusters.list_abs [OF this] show ?thesis
    by (simp add: Let_def clusterGet_def abs)
qed

text \<open>C26: Querying events gives the matching events in the order they were
  recorded, cut at the limit when the limit is positive.\<close>

theorem eventQuery_eq:
  "eventQuery f r =
     (let found = filter (eventMatches f) r
      in if 0 < ef_Limit f then take (nat (ef_Limit f)) found else found)"
proof -
  have "queryLoop f es out =
      (if 0 < ef_Limit f then take (nat (ef_Limit f)) (out @ filter (eventMatches f) es)
       else out @ filter (eventMatches f) es)"
    if "\<not> (0 < ef_Limit f \<and> ef_Limit f \<le> int (length out))" for es out
    using that
  proof (induction es arbitrary: out)
    case (Cons e es)
    show ?case
    proof (cases "eventMatches f e \<and> 0 < ef_Limit f \<and> ef_Limit f \<le> int (length (out @ [e]))")
      case True
      then have "nat (ef_Limit f) = Suc (length out)" using Cons.prems by auto
      with True show ?thesis by (simp add: Let_def)
    next
      case False
      with Cons show ?thesis by (auto simp: Let_def)
    qed
  qed auto
  from this [of "[]" r] show ?thesis by (simp add: eventQuery_def Let_def)
qed

end
