(* ===== verification/Rollout.thy ===== *)
theory Rollout
  imports Fleet_API Store_Memory Go_JSON
begin

text \<open>
  The rollout controller of \<open>pkg/lifecycle/rollout/controller.go\<close>: canary rollouts
  with an SLO gate, kept in a cache and persisted in a rollout repository. The
  state of a call is the cache and the repository; the clock reading of the call
  and its random bytes are arguments.
\<close>

section \<open>State\<close>

record ClusterRolloutState =
  ct_ClusterID :: string
  ct_Phase :: string
  ct_Weight :: int64
  ct_SLOMet :: bool

record RolloutState =
  rt_ID :: string
  rt_Phase :: string
  rt_CurrentWeight :: int64
  rt_ClusterStates :: "ClusterRolloutState list"
  rt_StartedAt :: time
  rt_UpdatedAt :: time

record rolloutRecord =
  rec_state :: RolloutState
  rec_lifecycle :: ModelLifecycleSpec

record persistedRolloutSnapshot =
  ps_Lifecycle :: ModelLifecycleSpec
  ps_ClusterStates :: "ClusterRolloutState list"

text \<open>The values of a strategy map: the configured type, the snapshot this
  controller writes, or another stored value with whether it decodes as a
  snapshot and the snapshot decoding leaves, complete or up to the error.\<close>

datatype StrategyValue =
    SVString string
  | SVSnapshot persistedRolloutSnapshot
  | SVRaw bool persistedRolloutSnapshot

type_synonym RolloutRow = "StrategyValue RolloutRecord"

record 'r RolloutRepository =
  rrepo_Create :: "RolloutRow \<Rightarrow> 'r \<Rightarrow> 'r \<times> StoreError option"
  rrepo_Get :: "string \<Rightarrow> 'r \<Rightarrow> (StoreError, RolloutRow) res"
  rrepo_Update :: "RolloutRow \<Rightarrow> 'r \<Rightarrow> 'r \<times> StoreError option"

type_synonym rolloutCache = "string \<rightharpoonup> rolloutRecord"

datatype RolloutError =
    RolloutIDFailure
  | PersistRollout string StoreError
  | ErrRolloutNotFound string
  | NotCanary string
  | PersistRollback string StoreError
  | PersistPromotion string StoreError

definition NewRolloutController :: rolloutCache where
  "NewRolloutController = Map.empty"

definition cloneRolloutState :: "RolloutState \<Rightarrow> RolloutState" where
  "cloneRolloutState state = state\<lparr>rt_ClusterStates := [] @ rt_ClusterStates state\<rparr>"

section \<open>Snapshots\<close>

text \<open>Writing a snapshot as JSON and reading it back replaces invalid UTF-8 in its
  strings and keeps everything else.\<close>

definition reencodeCanary :: "CanaryConfig \<Rightarrow> CanaryConfig" where
  "reencodeCanary c =
     c\<lparr>cc_Interval := toValidUTF8 (cc_Interval c),
       cc_SLOGate := map_option (\<lambda>g. g\<lparr>slog_MaxTTFTRegression := toValidUTF8 (slog_MaxTTFTRegression g),
          slog_MaxErrorRateIncrease := toValidUTF8 (slog_MaxErrorRateIncrease g)\<rparr>) (cc_SLOGate c)\<rparr>"

definition reencodeLifecycle :: "ModelLifecycleSpec \<Rightarrow> ModelLifecycleSpec" where
  "reencodeLifecycle l =
     \<lparr>mls_Model = \<lparr>mref_Name = toValidUTF8 (mref_Name (mls_Model l)),
                   mref_Version = toValidUTF8 (mref_Version (mls_Model l))\<rparr>,
      mls_FleetPoolRef = toValidUTF8 (mls_FleetPoolRef l),
      mls_Strategy = \<lparr>rstrat_Type = toValidUTF8 (rstrat_Type (mls_Strategy l)),
                      rstrat_Canary = map_option reencodeCanary (rstrat_Canary (mls_Strategy l))\<rparr>,
      mls_Clusters = map_option (\<lambda>c. c\<lparr>co_Order := map toValidUTF8 (co_Order c)\<rparr>) (mls_Clusters l)\<rparr>"

definition reencodeClusters :: "ClusterRolloutState list \<Rightarrow> ClusterRolloutState list" where
  "reencodeClusters cs =
     map (\<lambda>c. c\<lparr>ct_ClusterID := toValidUTF8 (ct_ClusterID c), ct_Phase := toValidUTF8 (ct_Phase c)\<rparr>) cs"

definition emptyLifecycle :: ModelLifecycleSpec where
  "emptyLifecycle =
     \<lparr>mls_Model = \<lparr>mref_Name = [], mref_Version = []\<rparr>, mls_FleetPoolRef = [],
      mls_Strategy = \<lparr>rstrat_Type = [], rstrat_Canary = None\<rparr>, mls_Clusters = None\<rparr>"

text \<open>Decoding a strategy value into an empty snapshot: whether it succeeds and
  what the snapshot then holds. Loading uses the snapshot only on success;
  persisting uses whatever decoding left in it.\<close>

definition decodeSnapshot :: "StrategyValue \<Rightarrow> bool \<times> persistedRolloutSnapshot" where
  "decodeSnapshot v =
     (case v of
        SVString _ \<Rightarrow> (False, \<lparr>ps_Lifecycle = emptyLifecycle, ps_ClusterStates = []\<rparr>)
      | SVSnapshot s \<Rightarrow> (True, \<lparr>ps_Lifecycle = reencodeLifecycle (ps_Lifecycle s),
                            ps_ClusterStates = reencodeClusters (ps_ClusterStates s)\<rparr>)
      | SVRaw ok s \<Rightarrow> (ok, s))"

definition defaultLifecycle :: "RolloutRow \<Rightarrow> ModelLifecycleSpec" where
  "defaultLifecycle row =
     (let strategyType =
            (case (case ro_Strategy row of None \<Rightarrow> None | Some m \<Rightarrow> map_of m ''type'') of
               Some (SVString t) \<Rightarrow> if t \<noteq> [] then t else ''Canary''
             | _ \<Rightarrow> ''Canary'')
      in \<lparr>mls_Model = \<lparr>mref_Name = [], mref_Version = ro_ModelVersion row\<rparr>,
          mls_FleetPoolRef = ro_PoolID row,
          mls_Strategy = \<lparr>rstrat_Type = strategyType,
             rstrat_Canary = Some \<lparr>cc_InitialWeight = 0, cc_WeightIncrement = 20, cc_Interval = [],
                                   cc_SLOGate = None, cc_RollbackOnFailure = False\<rparr>\<rparr>,
          mls_Clusters = None\<rparr>)"

definition rowSnapshot :: "RolloutRow \<Rightarrow> persistedRolloutSnapshot option" where
  "rowSnapshot row =
     (case ro_Strategy row of
        None \<Rightarrow> None
      | Some m \<Rightarrow>
        (case map_of m ''snapshot'' of
           None \<Rightarrow> None
         | Some v \<Rightarrow> (case decodeSnapshot v of (ok, s) \<Rightarrow> if ok then Some s else None)))"

definition recordOfRow :: "time \<Rightarrow> RolloutRow \<Rightarrow> rolloutRecord" where
  "recordOfRow now row =
     (let (lifecycle, clusterStates) =
            (case rowSnapshot row of
               None \<Rightarrow> (emptyLifecycle, [])
             | Some s \<Rightarrow> (ps_Lifecycle s, [] @ ps_ClusterStates s));
          lifecycle = (if rstrat_Type (mls_Strategy lifecycle) = [] then defaultLifecycle row else lifecycle)
      in \<lparr>rec_state = \<lparr>rt_ID = ro_ID row, rt_Phase = ro_Status row, rt_CurrentWeight = ro_CurrentWeight row,
                       rt_ClusterStates = clusterStates, rt_StartedAt = ro_StartedAt row, rt_UpdatedAt = now\<rparr>,
          rec_lifecycle = lifecycle\<rparr>)"

definition loadFromRepo ::
  "'r RolloutRepository option \<Rightarrow> time \<Rightarrow> string \<Rightarrow> rolloutCache \<times> 'r \<Rightarrow>
   rolloutCache \<times> rolloutRecord option" where
  "loadFromRepo repo now rolloutID st =
     (case st of (rollouts, r) \<Rightarrow>
        (case repo of
           None \<Rightarrow> (rollouts, None)
         | Some R \<Rightarrow>
           (case rrepo_Get R rolloutID r of
              Inl _ \<Rightarrow> (rollouts, None)
            | Inr row \<Rightarrow>
                let rec = recordOfRow now row in (rollouts(rolloutID \<mapsto> rec), Some rec))))"

definition findRollout ::
  "'r RolloutRepository option \<Rightarrow> time \<Rightarrow> string \<Rightarrow> rolloutCache \<times> 'r \<Rightarrow>
   rolloutCache \<times> rolloutRecord option" where
  "findRollout repo now rolloutID st =
     (case fst st rolloutID of
        Some rec \<Rightarrow> (fst st, Some rec)
      | None \<Rightarrow> loadFromRepo repo now rolloutID st)"

section \<open>Creating\<close>

definition initialPhase :: "ModelLifecycleSpec \<Rightarrow> string \<times> int64" where
  "initialPhase lifecycle =
     (if equalFold (rstrat_Type (mls_Strategy lifecycle)) ''Canary'' then
        (case rstrat_Canary (mls_Strategy lifecycle) of
           Some canary \<Rightarrow> (''Canary'', cc_InitialWeight canary)
         | None \<Rightarrow> (''Pending'', 0))
      else (''Pending'', 0))"

definition initialClusters :: "ModelLifecycleSpec \<Rightarrow> ClusterRolloutState list" where
  "initialClusters lifecycle =
     (case mls_Clusters lifecycle of
        None \<Rightarrow> []
      | Some c \<Rightarrow> map (\<lambda>cid. \<lparr>ct_ClusterID = cid, ct_Phase = fst (initialPhase lifecycle),
                              ct_Weight = snd (initialPhase lifecycle), ct_SLOMet = False\<rparr>) (co_Order c))"

definition createdRecord :: "string \<Rightarrow> time \<Rightarrow> ModelLifecycleSpec \<Rightarrow> rolloutRecord" where
  "createdRecord rid now lifecycle =
     \<lparr>rec_state = \<lparr>rt_ID = rid, rt_Phase = fst (initialPhase lifecycle),
                   rt_CurrentWeight = snd (initialPhase lifecycle),
                   rt_ClusterStates = initialClusters lifecycle, rt_StartedAt = now, rt_UpdatedAt = now\<rparr>,
      rec_lifecycle = lifecycle\<rparr>"

definition createdRow :: "string \<Rightarrow> time \<Rightarrow> ModelLifecycleSpec \<Rightarrow> RolloutRow" where
  "createdRow rid now lifecycle =
     \<lparr>ro_ID = rid,
      ro_PoolID = (if mls_FleetPoolRef lifecycle = [] then mref_Name (mls_Model lifecycle)
                   else mls_FleetPoolRef lifecycle),
      ro_ModelVersion = mref_Version (mls_Model lifecycle),
      ro_Strategy = Some [(''type'', SVString (rstrat_Type (mls_Strategy lifecycle))),
        (''snapshot'', SVSnapshot \<lparr>ps_Lifecycle = lifecycle,
           ps_ClusterStates = [] @ initialClusters lifecycle\<rparr>)],
      ro_Status = fst (initialPhase lifecycle), ro_CurrentWeight = snd (initialPhase lifecycle),
      ro_StartedAt = now, ro_CompletedAt = None\<rparr>"

definition CreateRollout ::
  "'r RolloutRepository option \<Rightarrow> string option \<Rightarrow> time \<Rightarrow> ModelLifecycleSpec \<Rightarrow> rolloutCache \<times> 'r \<Rightarrow>
   (rolloutCache \<times> 'r) \<times> (RolloutError, RolloutState) res" where
  "CreateRollout repo randomSuffix now lifecycle st =
     (case randomSuffix of
        None \<Rightarrow> (st, Inl RolloutIDFailure)
      | Some raw \<Rightarrow>
        let rid = ''rollout-'' @ mref_Name (mls_Model lifecycle) @ ''-'' @
                  mref_Version (mls_Model lifecycle) @ ''-'' @ hexEncode raw;
            rec = createdRecord rid now lifecycle;
            cached = (fst st)(rid \<mapsto> rec)
        in (case repo of
              None \<Rightarrow> ((cached, snd st), Inr (cloneRolloutState (rec_state rec)))
            | Some R \<Rightarrow>
                (case rrepo_Create R (createdRow rid now lifecycle) (snd st) of
                   (r', Some e) \<Rightarrow> ((cached(rid := None), r'), Inl (PersistRollout rid e))
                 | (r', None) \<Rightarrow> ((cached, r'), Inr (cloneRolloutState (rec_state rec))))))"

section \<open>Advancing and rolling back\<close>

definition persistedRow :: "RolloutState \<Rightarrow> RolloutRow \<Rightarrow> RolloutRow" where
  "persistedRow state row =
     (let strategy = (case ro_Strategy row of None \<Rightarrow> [] | Some m \<Rightarrow> m);
          snapshot = (case map_of strategy ''snapshot'' of
                        None \<Rightarrow> \<lparr>ps_Lifecycle = emptyLifecycle, ps_ClusterStates = []\<rparr>
                      | Some v \<Rightarrow> snd (decodeSnapshot v));
          snapshot = snapshot\<lparr>ps_ClusterStates := [] @ rt_ClusterStates state\<rparr>;
          row = row\<lparr>ro_Status := rt_Phase state, ro_CurrentWeight := rt_CurrentWeight state,
                    ro_Strategy := Some (AList.update ''snapshot'' (SVSnapshot snapshot) strategy)\<rparr>
      in if equalFold (rt_Phase state) ''Complete'' \<or> equalFold (rt_Phase state) ''RolledBack''
         then row\<lparr>ro_CompletedAt := Some (rt_UpdatedAt state)\<rparr> else row)"

definition persistState ::
  "'r RolloutRepository option \<Rightarrow> RolloutState \<Rightarrow> 'r \<Rightarrow> 'r \<times> StoreError option" where
  "persistState repo state r =
     (case repo of
        None \<Rightarrow> (r, None)
      | Some R \<Rightarrow>
        (case rrepo_Get R (rt_ID state) r of
           Inl e \<Rightarrow> (r, Some e)
         | Inr row \<Rightarrow> rrepo_Update R (persistedRow state row) r))"

definition parsePercent :: "string \<Rightarrow> float64" where
  "parsePercent s =
     (case parseFloat (trimSuffix (trimSpace s) ''%'') of None \<Rightarrow> fZero | Some v \<Rightarrow> v)"

definition checkSLOGate :: "SLOGate option \<Rightarrow> bool" where
  "checkSLOGate gate =
     (case gate of
        None \<Rightarrow> True
      | Some g \<Rightarrow>
          let ttftPct = parsePercent (slog_MaxTTFTRegression g);
              errorPct = parsePercent (slog_MaxErrorRateIncrease g)
          in if fLe ttftPct fZero \<or> fLe errorPct fZero then False else True)"

definition rolledBack :: "bool \<Rightarrow> time \<Rightarrow> RolloutState \<Rightarrow> RolloutState" where
  "rolledBack resetSLO now state =
     state\<lparr>rt_Phase := ''RolledBack'', rt_CurrentWeight := 0, rt_UpdatedAt := now,
       rt_ClusterStates :=
         map (\<lambda>c. let c' = c\<lparr>ct_Phase := ''RolledBack'', ct_Weight := 0\<rparr>
                  in if resetSLO then c'\<lparr>ct_SLOMet := False\<rparr> else c') (rt_ClusterStates state)\<rparr>"

definition promoted :: "time \<Rightarrow> int64 \<Rightarrow> RolloutState \<Rightarrow> RolloutState" where
  "promoted now increment state =
     (let sum = wrap64 (rt_CurrentWeight state + increment);
          newWeight = (if 100 < sum then 100 else sum)
      in state\<lparr>rt_CurrentWeight := newWeight,
           rt_Phase := (if newWeight = 100 then ''Complete'' else ''Canary''),
           rt_UpdatedAt := now,
           rt_ClusterStates := map (\<lambda>c. c\<lparr>ct_Weight := newWeight, ct_SLOMet := True\<rparr>) (rt_ClusterStates state)\<rparr>)"

definition AdvanceRollout ::
  "'r RolloutRepository option \<Rightarrow> time \<Rightarrow> string \<Rightarrow> rolloutCache \<times> 'r \<Rightarrow>
   (rolloutCache \<times> 'r) \<times> (RolloutError, RolloutState) res" where
  "AdvanceRollout repo now rolloutID st =
     (case findRollout repo now rolloutID st of
        (rollouts, None) \<Rightarrow> ((rollouts, snd st), Inl (ErrRolloutNotFound rolloutID))
      | (rollouts, Some rec) \<Rightarrow>
        let r = snd st;
            state = cloneRolloutState (rec_state rec);
            lifecycle = rec_lifecycle rec
        in if \<not> equalFold (rstrat_Type (mls_Strategy lifecycle)) ''Canary'' then
             ((rollouts, r), Inl (NotCanary rolloutID))
           else (case rstrat_Canary (mls_Strategy lifecycle) of
             None \<Rightarrow> ((rollouts, r), Inl (NotCanary rolloutID))
           | Some canary \<Rightarrow>
             if \<not> checkSLOGate (cc_SLOGate canary) then
               (if cc_RollbackOnFailure canary then
                  let state = rolledBack True now state in
                  (case persistState repo state r of
                     (r', Some e) \<Rightarrow> ((rollouts, r'), Inl (PersistRollback rolloutID e))
                   | (r', None) \<Rightarrow>
                       ((rollouts(rolloutID \<mapsto> rec\<lparr>rec_state := state\<rparr>), r'), Inr (cloneRolloutState state)))
                else ((rollouts, r), Inr (cloneRolloutState (rec_state rec))))
             else
               let state = promoted now (cc_WeightIncrement canary) state in
               (case persistState repo state r of
                  (r', Some e) \<Rightarrow> ((rollouts, r'), Inl (PersistPromotion rolloutID e))
                | (r', None) \<Rightarrow>
                    ((rollouts(rolloutID \<mapsto> rec\<lparr>rec_state := state\<rparr>), r'), Inr (cloneRolloutState state)))))"

definition RollbackRollout ::
  "'r RolloutRepository option \<Rightarrow> time \<Rightarrow> string \<Rightarrow> rolloutCache \<times> 'r \<Rightarrow>
   (rolloutCache \<times> 'r) \<times> (RolloutError, RolloutState) res" where
  "RollbackRollout repo now rolloutID st =
     (case findRollout repo now rolloutID st of
        (rollouts, None) \<Rightarrow> ((rollouts, snd st), Inl (ErrRolloutNotFound rolloutID))
      | (rollouts, Some rec) \<Rightarrow>
        let state = rolledBack False now (cloneRolloutState (rec_state rec)) in
        (case persistState repo state (snd st) of
           (r', Some e) \<Rightarrow> ((rollouts, r'), Inl (PersistRollback rolloutID e))
         | (r', None) \<Rightarrow>
             ((rollouts(rolloutID \<mapsto> rec\<lparr>rec_state := state\<rparr>), r'), Inr (cloneRolloutState state))))"

definition GetRolloutState ::
  "'r RolloutRepository option \<Rightarrow> time \<Rightarrow> string \<Rightarrow> rolloutCache \<times> 'r \<Rightarrow>
   (rolloutCache \<times> 'r) \<times> (RolloutError, RolloutState) res" where
  "GetRolloutState repo now rolloutID st =
     (case findRollout repo now rolloutID st of
        (rollouts, None) \<Rightarrow> ((rollouts, snd st), Inl (ErrRolloutNotFound rolloutID))
      | (rollouts, Some rec) \<Rightarrow> ((rollouts, snd st), Inr (cloneRolloutState (rec_state rec))))"

section \<open>The contract of a rollout repository\<close>

locale rollout_store =
  fixes R :: "'r RolloutRepository"
    and inv :: "'r \<Rightarrow> bool"
  assumes create_inv: "inv r \<Longrightarrow> rrepo_Create R row r = (r', eo) \<Longrightarrow> inv r'"
    and create_get: "rrepo_Create R row r = (r', None) \<Longrightarrow> ro_ID row \<noteq> [] \<Longrightarrow> ro_StartedAt row \<noteq> 0 \<Longrightarrow>
      rrepo_Get R x r' = (if x = ro_ID row then Inr row else rrepo_Get R x r)"
    and create_fresh: "rrepo_Create R row r = (r', None) \<Longrightarrow> ro_ID row \<noteq> [] \<Longrightarrow> \<not> isOk (rrepo_Get R (ro_ID row) r)"
    and create_err: "rrepo_Create R row r = (r', Some e) \<Longrightarrow> r' = r"
    and update_inv: "inv r \<Longrightarrow> rrepo_Update R row r = (r', eo) \<Longrightarrow> inv r'"
    and update_get: "rrepo_Update R row r = (r', None) \<Longrightarrow>
      rrepo_Get R x r' = (if x = ro_ID row then Inr row else rrepo_Get R x r)"
    and update_err: "rrepo_Update R row r = (r', Some e) \<Longrightarrow> r' = r"
    and get_ID: "inv r \<Longrightarrow> rrepo_Get R x r = Inr row \<Longrightarrow> ro_ID row = x"

definition memRollouts :: "time \<Rightarrow> (StrategyValue InMemoryRolloutRepository) RolloutRepository" where
  "memRollouts now = \<lparr>rrepo_Create = rolloutCreate ([], now), rrepo_Get = rolloutGet, rrepo_Update = rolloutUpdate now\<rparr>"

lemma rolloutStored_id: "ro_ID row \<noteq> [] \<Longrightarrow> ro_StartedAt row \<noteq> 0 \<Longrightarrow> rolloutStored env row = row"
  by (cases env) (simp add: rolloutStored_def)

lemma rolloutStored_ID: "ro_ID row \<noteq> [] \<Longrightarrow> ro_ID (rolloutStored env row) = ro_ID row"
  by (cases env) (simp add: rolloutStored_def Let_def)

lemma rolloutGet_err: "rolloutGet x r = Inl e \<longleftrightarrow> map_of r x = None \<and> e = RolloutNotFound x"
  by (auto simp: rolloutGet_def split: option.splits)

lemma keyedBy_map_of: "keyedBy key m \<Longrightarrow> map_of m k = Some x \<Longrightarrow> key x = k"
  by (auto simp: keyedBy_def dest!: map_of_SomeD)

interpretation memrollouts: rollout_store "memRollouts now" "keyedBy ro_ID"
proof unfold_locales
  show "keyedBy ro_ID r'" if "keyedBy ro_ID r" "rrepo_Create (memRollouts now) row r = (r', eo)" for r row r' eo
    using rollouts.create_inv [OF that(1), of "([], now)" row] that(2) by (simp add: memRollouts_def)
  show "keyedBy ro_ID r'" if "keyedBy ro_ID r" "rrepo_Update (memRollouts now) row r = (r', eo)" for r row r' eo
    using rollouts.update_inv [OF that(1), of now row] that(2) by (simp add: memRollouts_def)
  show "ro_ID row = x" if "keyedBy ro_ID r" "rrepo_Get (memRollouts now) x r = Inr row" for r x row
    using that keyedBy_map_of [of ro_ID r x row] by (simp add: memRollouts_def rolloutGet_def split: option.splits)
qed (auto simp: memRollouts_def rolloutCreate_def rolloutUpdate_def rolloutGet_def rolloutStored_id
    rolloutStored_ID Let_def map_of_aupdate split: option.splits if_splits)

section \<open>Invariant\<close>

text \<open>A canary configuration whose weights are percentages and whose increment
  cannot overflow the sum with one.\<close>

definition goodLifecycle :: "ModelLifecycleSpec \<Rightarrow> bool" where
  "goodLifecycle l \<longleftrightarrow>
     (case rstrat_Canary (mls_Strategy l) of
        None \<Rightarrow> True
      | Some c \<Rightarrow> 0 \<le> cc_InitialWeight c \<and> cc_InitialWeight c \<le> 100 \<and> 0 \<le> cc_WeightIncrement c \<and>
                  in64 (100 + cc_WeightIncrement c))"

text \<open>A configuration that its JSON form determines: valid UTF-8 and a strategy
  type.\<close>

definition cleanLifecycle :: "ModelLifecycleSpec \<Rightarrow> bool" where
  "cleanLifecycle l \<longleftrightarrow> reencodeLifecycle l = l \<and> rstrat_Type (mls_Strategy l) \<noteq> []"

definition weightOk :: "RolloutState \<Rightarrow> bool" where
  "weightOk s \<longleftrightarrow>
     0 \<le> rt_CurrentWeight s \<and> rt_CurrentWeight s \<le> 100 \<and>
     (\<forall>c \<in> set (rt_ClusterStates s). ct_Weight c = rt_CurrentWeight s) \<and>
     (rt_Phase s = ''Complete'' \<longrightarrow> rt_CurrentWeight s = 100) \<and>
     (rt_Phase s = ''RolledBack'' \<longrightarrow> rt_CurrentWeight s = 0)"

text \<open>A stored row carries its snapshot.\<close>

definition rowGood :: "RolloutRow \<Rightarrow> bool" where
  "rowGood row \<longleftrightarrow>
     (\<exists>m s. ro_Strategy row = Some m \<and> map_of m ''snapshot'' = Some (SVSnapshot s) \<and>
        cleanLifecycle (ps_Lifecycle s) \<and> goodLifecycle (ps_Lifecycle s) \<and>
        reencodeClusters (ps_ClusterStates s) = ps_ClusterStates s) \<and>
     weightOk (rec_state (recordOfRow 0 row))"

definition sysOk :: "'r RolloutRepository \<Rightarrow> rolloutCache \<times> 'r \<Rightarrow> bool" where
  "sysOk R st \<longleftrightarrow>
     (\<forall>x row. rrepo_Get R x (snd st) = Inr row \<longrightarrow> rowGood row) \<and>
     (\<forall>x rec. fst st x = Some rec \<longrightarrow>
        (\<exists>row. rrepo_Get R x (snd st) = Inr row \<and> rec = recordOfRow (rt_UpdatedAt (rec_state rec)) row))"

lemma clone_state [simp]: "cloneRolloutState st = st"
  by (simp add: cloneRolloutState_def)

lemma reencodeClusters_iff:
  "reencodeClusters cs = cs \<longleftrightarrow>
     (\<forall>c \<in> set cs. toValidUTF8 (ct_ClusterID c) = ct_ClusterID c \<and> toValidUTF8 (ct_Phase c) = ct_Phase c)"
proof -
  have "c\<lparr>ct_ClusterID := a, ct_Phase := b\<rparr> = c \<longleftrightarrow> a = ct_ClusterID c \<and> b = ct_Phase c"
    for c :: ClusterRolloutState and a b
    by (cases c) auto
  then show ?thesis
    by (simp add: reencodeClusters_def map_eq_conv [of _ _ "\<lambda>c. c", simplified])
qed

lemma phase_utf8 [simp]:
  "toValidUTF8 ''RolledBack'' = ''RolledBack''" "toValidUTF8 ''Canary'' = ''Canary''"
  "toValidUTF8 ''Pending'' = ''Pending''"
  by (simp_all add: toValidUTF8_ascii)

lemma recordOfRow_snapshot:
  assumes "ro_Strategy row = Some m" and "map_of m ''snapshot'' = Some (SVSnapshot s)"
    and "cleanLifecycle (ps_Lifecycle s)" and "reencodeClusters (ps_ClusterStates s) = ps_ClusterStates s"
  shows "recordOfRow t row =
    \<lparr>rec_state = \<lparr>rt_ID = ro_ID row, rt_Phase = ro_Status row, rt_CurrentWeight = ro_CurrentWeight row,
                  rt_ClusterStates = ps_ClusterStates s, rt_StartedAt = ro_StartedAt row, rt_UpdatedAt = t\<rparr>,
     rec_lifecycle = ps_Lifecycle s\<rparr>"
  using assms by (simp add: recordOfRow_def rowSnapshot_def decodeSnapshot_def cleanLifecycle_def)

lemma weightOk_time [simp]: "weightOk (st\<lparr>rt_UpdatedAt := t\<rparr>) = weightOk st"
  by (simp add: weightOk_def)

lemma recordOfRow_time: "rec_state (recordOfRow t row) = (rec_state (recordOfRow 0 row))\<lparr>rt_UpdatedAt := t\<rparr>"
  "rec_lifecycle (recordOfRow t row) = rec_lifecycle (recordOfRow 0 row)"
  by (simp_all add: recordOfRow_def Let_def split: prod.splits)

lemma rowGood_record:
  assumes "rowGood row"
  shows "weightOk (rec_state (recordOfRow t row))" "goodLifecycle (rec_lifecycle (recordOfRow t row))"
    "reencodeClusters (rt_ClusterStates (rec_state (recordOfRow t row))) = rt_ClusterStates (rec_state (recordOfRow t row))"
proof -
  obtain m s where *: "ro_Strategy row = Some m" "map_of m ''snapshot'' = Some (SVSnapshot s)"
      "cleanLifecycle (ps_Lifecycle s)" "goodLifecycle (ps_Lifecycle s)"
      "reencodeClusters (ps_ClusterStates s) = ps_ClusterStates s" "weightOk (rec_state (recordOfRow 0 row))"
    using assms unfolding rowGood_def by blast
  show "weightOk (rec_state (recordOfRow t row))" using *(6) by (simp add: recordOfRow_time [of t])
  show "goodLifecycle (rec_lifecycle (recordOfRow t row))"
    "reencodeClusters (rt_ClusterStates (rec_state (recordOfRow t row))) = rt_ClusterStates (rec_state (recordOfRow t row))"
    using * by (simp_all add: recordOfRow_snapshot [OF *(1-3,5)])
qed

lemma persistedRow_good:
  assumes row: "rowGood row" and "rt_ID st = ro_ID row" and "rt_StartedAt st = ro_StartedAt row"
    and "weightOk st" and cs: "reencodeClusters (rt_ClusterStates st) = rt_ClusterStates st"
  shows "rowGood (persistedRow st row)" and "ro_ID (persistedRow st row) = ro_ID row"
    and "recordOfRow (rt_UpdatedAt st) (persistedRow st row) =
      \<lparr>rec_state = st, rec_lifecycle = rec_lifecycle (recordOfRow t row)\<rparr>"
proof -
  obtain m s where *: "ro_Strategy row = Some m" "map_of m ''snapshot'' = Some (SVSnapshot s)"
      "cleanLifecycle (ps_Lifecycle s)" "goodLifecycle (ps_Lifecycle s)"
      "reencodeClusters (ps_ClusterStates s) = ps_ClusterStates s"
    using row unfolding rowGood_def by blast
  let ?s = "s\<lparr>ps_ClusterStates := rt_ClusterStates st\<rparr>"
  have dec: "decodeSnapshot (SVSnapshot s) = (True, s)"
    using * by (simp add: decodeSnapshot_def cleanLifecycle_def)
  have strat: "ro_Strategy (persistedRow st row) = Some (AList.update ''snapshot'' (SVSnapshot ?s) m)"
    using *(1,2) dec by (simp add: persistedRow_def Let_def)
  have snap: "map_of (AList.update ''snapshot'' (SVSnapshot ?s) m) ''snapshot'' = Some (SVSnapshot ?s)"
    by (simp add: map_of_aupdate)
  have fields: "ro_ID (persistedRow st row) = ro_ID row" "ro_Status (persistedRow st row) = rt_Phase st"
      "ro_CurrentWeight (persistedRow st row) = rt_CurrentWeight st"
      "ro_StartedAt (persistedRow st row) = ro_StartedAt row"
    by (simp_all add: persistedRow_def Let_def)
  have rec: "recordOfRow u (persistedRow st row) =
      \<lparr>rec_state = st\<lparr>rt_UpdatedAt := u\<rparr>, rec_lifecycle = ps_Lifecycle s\<rparr>" for u
    using recordOfRow_snapshot [OF strat snap, of u] * cs assms(2,3) by (simp add: fields)
  show "rowGood (persistedRow st row)"
    unfolding rowGood_def using strat snap * cs assms(4) by (auto simp: rec)
  show "ro_ID (persistedRow st row) = ro_ID row" by (rule fields)
  show "recordOfRow (rt_UpdatedAt st) (persistedRow st row) =
      \<lparr>rec_state = st, rec_lifecycle = rec_lifecycle (recordOfRow t row)\<rparr>"
    using recordOfRow_snapshot [OF *(1-3,5), of t] by (simp add: rec)
qed

lemma rolledBack_ok:
  assumes "reencodeClusters (rt_ClusterStates st) = rt_ClusterStates st"
  shows "weightOk (rolledBack b now st)"
    "reencodeClusters (rt_ClusterStates (rolledBack b now st)) = rt_ClusterStates (rolledBack b now st)"
  using assms by (auto simp: weightOk_def rolledBack_def reencodeClusters_iff Let_def)

lemma promoted_ok:
  assumes "weightOk st" and "0 \<le> inc" and "in64 (100 + inc)"
    and "reencodeClusters (rt_ClusterStates st) = rt_ClusterStates st"
  shows "weightOk (promoted now inc st)"
    "reencodeClusters (rt_ClusterStates (promoted now inc st)) = rt_ClusterStates (promoted now inc st)"
proof -
  show "reencodeClusters (rt_ClusterStates (promoted now inc st)) = rt_ClusterStates (promoted now inc st)"
    using assms(4) by (auto simp: promoted_def reencodeClusters_iff Let_def)
  have w: "0 \<le> rt_CurrentWeight st" "rt_CurrentWeight st \<le> 100" using assms(1) by (auto simp: weightOk_def)
  then have "in64 (rt_CurrentWeight st + inc)"
    using assms(2,3) by (simp add: in64_def)
  with w assms(2) show "weightOk (promoted now inc st)"
    by (simp add: promoted_def weightOk_def Let_def wrap64_id)
qed

text \<open>One call of the controller with any arguments; creates take a usable
  configuration. A restart loses the cache.\<close>

inductive rolloutStep :: "'r RolloutRepository \<Rightarrow> rolloutCache \<times> 'r \<Rightarrow> rolloutCache \<times> 'r \<Rightarrow> bool" for R where
  create: "cleanLifecycle l \<Longrightarrow> goodLifecycle l \<Longrightarrow> now \<noteq> 0 \<Longrightarrow>
     CreateRollout (Some R) raw now l st = (st', out) \<Longrightarrow> rolloutStep R st st'"
| advance: "AdvanceRollout (Some R) now x st = (st', out) \<Longrightarrow> rolloutStep R st st'"
| rollback: "RollbackRollout (Some R) now x st = (st', out) \<Longrightarrow> rolloutStep R st st'"
| read: "GetRolloutState (Some R) now x st = (st', out) \<Longrightarrow> rolloutStep R st st'"
| restart: "rolloutStep R (c, r) (NewRolloutController, r)"

lemma cleanLifecycle_order:
  assumes "cleanLifecycle l" and "mls_Clusters l = Some c" and "cid \<in> set (co_Order c)"
  shows "toValidUTF8 cid = cid"
proof -
  have "mls_Clusters (reencodeLifecycle l) = mls_Clusters l" using assms(1) by (simp add: cleanLifecycle_def)
  then have "c\<lparr>co_Order := map toValidUTF8 (co_Order c)\<rparr> = c" using assms(2) by (simp add: reencodeLifecycle_def)
  then have "co_Order (c\<lparr>co_Order := map toValidUTF8 (co_Order c)\<rparr>) = co_Order c" by simp
  then show ?thesis using assms(3) by (simp add: map_eq_conv [of _ _ "\<lambda>c. c", simplified])
qed

lemma createdRow_good:
  assumes clean: "cleanLifecycle l" and good: "goodLifecycle l"
  shows "rowGood (createdRow rid now l)" and "recordOfRow now (createdRow rid now l) = createdRecord rid now l"
proof -
  have phase: "fst (initialPhase l) = ''Canary'' \<or> fst (initialPhase l) = ''Pending''"
    and w: "0 \<le> snd (initialPhase l)" "snd (initialPhase l) \<le> 100"
    using good by (auto simp: goodLifecycle_def initialPhase_def split: option.splits)
  have clusters: "reencodeClusters (initialClusters l) = initialClusters l"
    using cleanLifecycle_order [OF clean] phase
    by (cases "mls_Clusters l") (auto simp: reencodeClusters_iff initialClusters_def)
  let ?s = "\<lparr>ps_Lifecycle = l, ps_ClusterStates = initialClusters l\<rparr>"
  obtain m where m: "ro_Strategy (createdRow rid now l) = Some m" "map_of m ''snapshot'' = Some (SVSnapshot ?s)"
    by (simp add: createdRow_def)
  have rec: "recordOfRow t (createdRow rid now l) =
      \<lparr>rec_state = (rec_state (createdRecord rid now l))\<lparr>rt_UpdatedAt := t\<rparr>, rec_lifecycle = l\<rparr>" for t
    using recordOfRow_snapshot [OF m, of t] clean clusters by (simp add: createdRow_def createdRecord_def)
  then show "recordOfRow now (createdRow rid now l) = createdRecord rid now l" by (simp add: createdRecord_def)
  have "weightOk (rec_state (createdRecord rid now l))"
    using phase w by (auto simp: weightOk_def createdRecord_def initialClusters_def split: option.splits)
  then show "rowGood (createdRow rid now l)"
    unfolding rowGood_def using m clean good clusters by (auto simp: rec)
qed

context rollout_store
begin

lemma sysOkI:
  assumes "sysOk R (c, r)" and "rowGood row" and "ro_ID row = x"
    and "\<And>y. rrepo_Get R y r' = (if y = x then Inr row else rrepo_Get R y r)"
    and "rec = recordOfRow (rt_UpdatedAt (rec_state rec)) row"
  shows "sysOk R (c(x \<mapsto> rec), r')"
  using assms unfolding sysOk_def by (auto split: if_splits)

lemma find_ok:
  assumes ok: "sysOk R (c, r)" and find: "findRollout (Some R) now x (c, r) = (c', orec)"
  shows "sysOk R (c', r)"
    and "orec = Some rec \<Longrightarrow> \<exists>row. rrepo_Get R x r = Inr row \<and> rec = recordOfRow (rt_UpdatedAt (rec_state rec)) row \<and> rowGood row"
proof -
  have "sysOk R (c', r) \<and> (\<forall>rec. orec = Some rec \<longrightarrow>
      (\<exists>row. rrepo_Get R x r = Inr row \<and> rec = recordOfRow (rt_UpdatedAt (rec_state rec)) row \<and> rowGood row))"
  proof (cases "c x")
    case (Some rec)
    with find have "c' = c" "orec = Some rec" by (simp_all add: findRollout_def)
    moreover obtain row where "rrepo_Get R x r = Inr row" "rec = recordOfRow (rt_UpdatedAt (rec_state rec)) row"
      using Some ok unfolding sysOk_def by fastforce
    moreover have "rowGood row" if "rrepo_Get R x r = Inr row" for row
      using that ok unfolding sysOk_def by simp
    ultimately show ?thesis using ok by blast
  next
    case None
    show ?thesis
    proof (cases "rrepo_Get R x r")
      case (Inl e)
      with None find ok show ?thesis by (simp add: findRollout_def loadFromRepo_def)
    next
      case (Inr row)
      have t: "rt_UpdatedAt (rec_state (recordOfRow now row)) = now" by (simp add: recordOfRow_def Let_def split: prod.splits)
      from None Inr find have "c' = c(x \<mapsto> recordOfRow now row)" "orec = Some (recordOfRow now row)"
        by (auto simp: findRollout_def loadFromRepo_def Let_def)
      with ok Inr t show ?thesis by (auto simp: sysOk_def)
    qed
  qed
  then show "sysOk R (c', r)" and "orec = Some rec \<Longrightarrow>
      \<exists>row. rrepo_Get R x r = Inr row \<and> rec = recordOfRow (rt_UpdatedAt (rec_state rec)) row \<and> rowGood row"
    by blast+
qed

lemma persist_ok:
  assumes inv: "inv r" and ok: "sysOk R (c, r)" and get: "rrepo_Get R x r = Inr row"
    and rec: "rec = recordOfRow t row" and good: "rowGood row"
    and st: "rt_ID st = rt_ID (rec_state rec)" "rt_StartedAt st = rt_StartedAt (rec_state rec)" "weightOk st"
      "reencodeClusters (rt_ClusterStates st) = rt_ClusterStates st"
    and persist: "persistState (Some R) st r = (r', eo)"
  shows "inv r'" and "eo = None \<Longrightarrow> sysOk R (c(x \<mapsto> rec\<lparr>rec_state := st\<rparr>), r')" and "eo = Some e \<Longrightarrow> r' = r"
proof -
  have id: "ro_ID row = x" using get_ID [OF inv get] .
  have st': "rt_ID st = ro_ID row" "rt_StartedAt st = ro_StartedAt row"
    using st rec by (simp_all add: recordOfRow_def Let_def split: prod.splits)
  have upd: "rrepo_Update R (persistedRow st row) r = (r', eo)"
    using persist get id st' by (simp add: persistState_def)
  show "inv r'" using update_inv [OF inv upd] .
  show "eo = Some e \<Longrightarrow> r' = r" using upd update_err by blast
  note pg = persistedRow_good [OF good st' st(3,4)]
  assume None: "eo = None"
  show "sysOk R (c(x \<mapsto> rec\<lparr>rec_state := st\<rparr>), r')"
  proof (rule sysOkI [OF ok pg(1)])
    show "ro_ID (persistedRow st row) = x" using pg(2) id by simp
    show "rrepo_Get R y r' = (if y = x then Inr (persistedRow st row) else rrepo_Get R y r)" for y
      using update_get [of "persistedRow st row" r r' y] upd None pg(2) id by simp
    show "rec\<lparr>rec_state := st\<rparr> = recordOfRow (rt_UpdatedAt (rec_state (rec\<lparr>rec_state := st\<rparr>))) (persistedRow st row)"
      using pg(3) [of t] rec by (cases rec) simp
  qed
qed

lemma Create_ok:
  assumes inv: "inv (snd st)" and ok: "sysOk R st" and l: "cleanLifecycle l" "goodLifecycle l" and now: "now \<noteq> 0"
    and create: "CreateRollout (Some R) raw now l st = (st', out)"
  shows "inv (snd st') \<and> sysOk R st'"
proof (cases raw)
  case None
  with assms show ?thesis by (simp add: CreateRollout_def)
next
  case (Some bytes)
  define rid where "rid = ''rollout-'' @ mref_Name (mls_Model l) @ ''-'' @ mref_Version (mls_Model l) @ ''-'' @ hexEncode bytes"
  obtain c r where st: "st = (c, r)" by (cases st)
  let ?row = "createdRow rid now l" and ?rec = "createdRecord rid now l"
  obtain r' eo where cr: "rrepo_Create R ?row r = (r', eo)" by (cases "rrepo_Create R ?row r")
  have ne: "ro_ID ?row \<noteq> []" "ro_StartedAt ?row \<noteq> 0" by (simp_all add: createdRow_def rid_def now)
  have inv': "inv r'" using create_inv [OF _ cr] inv st by simp
  show ?thesis
  proof (cases eo)
    case None
    have "sysOk R (c(rid \<mapsto> ?rec), r')"
    proof (rule sysOkI [OF _ createdRow_good(1) [OF l]])
      show "sysOk R (c, r)" using ok st by simp
      show "ro_ID ?row = rid" by (simp add: createdRow_def)
      show "rrepo_Get R y r' = (if y = rid then Inr ?row else rrepo_Get R y r)" for y
        using create_get [OF cr [unfolded None] ne] by (simp add: createdRow_def)
      show "?rec = recordOfRow (rt_UpdatedAt (rec_state ?rec)) ?row"
        using createdRow_good(2) [OF l, of now rid] by (simp add: createdRecord_def)
    qed
    moreover have "st' = (c(rid \<mapsto> ?rec), r')"
      using create Some st cr None by (auto simp: CreateRollout_def Let_def rid_def)
    ultimately show ?thesis using inv' by simp
  next
    case (Some e)
    with cr create_err have "r' = r" by blast
    moreover have "st' = (c(rid := None), r')"
      using create \<open>raw = Some bytes\<close> st cr Some by (auto simp: CreateRollout_def Let_def rid_def)
    ultimately show ?thesis using inv' ok st by (auto simp: sysOk_def)
  qed
qed

lemma Rollback_ok:
  assumes inv: "inv (snd st)" and ok: "sysOk R st" and "RollbackRollout (Some R) now x st = (st', out)"
  shows "inv (snd st') \<and> sysOk R st'"
proof -
  obtain c r where st: "st = (c, r)" by (cases st)
  obtain c' orec where find: "findRollout (Some R) now x (c, r) = (c', orec)" by (cases "findRollout (Some R) now x (c, r)")
  have ok': "sysOk R (c', r)" using find_ok(1) [OF _ find] ok st by simp
  show ?thesis
  proof (cases orec)
    case None
    with find assms ok' st show ?thesis by (auto simp: RollbackRollout_def)
  next
    case (Some rec)
    obtain row where row: "rrepo_Get R x r = Inr row" "rec = recordOfRow (rt_UpdatedAt (rec_state rec)) row" "rowGood row"
      using find_ok(2) [OF _ find Some] ok st by auto
    let ?st = "rolledBack False now (rec_state rec)"
    have clean: "reencodeClusters (rt_ClusterStates (rec_state rec)) = rt_ClusterStates (rec_state rec)"
      using rowGood_record(3) [OF row(3)] row(2) by metis
    obtain r' eo where p: "persistState (Some R) ?st r = (r', eo)" by (cases "persistState (Some R) ?st r")
    have sel: "rt_ID ?st = rt_ID (rec_state rec)" "rt_StartedAt ?st = rt_StartedAt (rec_state rec)"
      by (simp_all add: rolledBack_def)
    have "inv r" using inv st by simp
    note pk = persist_ok [OF this ok' row sel rolledBack_ok [OF clean] p]
    show ?thesis using assms(3) find Some p pk ok' st
      by (cases eo) (auto simp: RollbackRollout_def Let_def)
  qed
qed

lemma Advance_ok:
  assumes inv: "inv (snd st)" and ok: "sysOk R st" and adv: "AdvanceRollout (Some R) now x st = (st', out)"
  shows "inv (snd st') \<and> sysOk R st'"
proof -
  obtain c r where st: "st = (c, r)" by (cases st)
  then have inv: "inv r" using inv by simp
  obtain c' orec where find: "findRollout (Some R) now x (c, r) = (c', orec)" by (cases "findRollout (Some R) now x (c, r)")
  have ok': "sysOk R (c', r)" using find_ok(1) [OF _ find] ok st by simp
  show ?thesis
  proof (cases orec)
    case None
    with find adv ok' inv st show ?thesis by (auto simp: AdvanceRollout_def)
  next
    case (Some rec)
    obtain row where row: "rrepo_Get R x r = Inr row" "rec = recordOfRow (rt_UpdatedAt (rec_state rec)) row" "rowGood row"
      using find_ok(2) [OF _ find Some] ok st by auto
    note rg = rowGood_record [OF row(3), of "rt_UpdatedAt (rec_state rec)", folded row(2)]
    let ?rb = "rolledBack True now (rec_state rec)"
    let ?l = "mls_Strategy (rec_lifecycle rec)"
    show ?thesis
    proof (cases "equalFold (rstrat_Type ?l) ''Canary'' \<and> rstrat_Canary ?l \<noteq> None")
      case False
      with adv find Some st inv ok' show ?thesis
        by (auto simp: AdvanceRollout_def Let_def split: if_splits option.splits)
    next
      case True
      then obtain canary where canary: "rstrat_Canary ?l = Some canary" by blast
      let ?pr = "promoted now (cc_WeightIncrement canary) (rec_state rec)"
      obtain r1 e1 where p1: "persistState (Some R) ?rb r = (r1, e1)" by (cases "persistState (Some R) ?rb r")
      obtain r2 e2 where p2: "persistState (Some R) ?pr r = (r2, e2)" by (cases "persistState (Some R) ?pr r")
      have sel: "rt_ID ?rb = rt_ID (rec_state rec)" "rt_StartedAt ?rb = rt_StartedAt (rec_state rec)"
        "rt_ID ?pr = rt_ID (rec_state rec)" "rt_StartedAt ?pr = rt_StartedAt (rec_state rec)"
        by (simp_all add: rolledBack_def promoted_def Let_def)
      have inc: "0 \<le> cc_WeightIncrement canary" "in64 (100 + cc_WeightIncrement canary)"
        using rg(2) canary by (simp_all add: goodLifecycle_def)
      note pk1 = persist_ok [OF inv ok' row sel(1,2) rolledBack_ok [OF rg(3)] p1]
      note pk2 = persist_ok [OF inv ok' row sel(3,4) promoted_ok [OF rg(1) inc rg(3)] p2]
      show ?thesis
      proof (cases "checkSLOGate (cc_SLOGate canary)")
        case pass: True
        with adv find Some st True canary p2 pk2 ok' show ?thesis
          by (cases e2) (auto simp: AdvanceRollout_def Let_def)
      next
        case fail: False
        with adv find Some st True canary p1 pk1 ok' inv show ?thesis
          by (cases e1) (auto simp: AdvanceRollout_def Let_def split: if_splits)
      qed
    qed
  qed
qed

lemma rollout_step_ok:
  assumes "rolloutStep R st st'" and "inv (snd st)" and "sysOk R st"
  shows "inv (snd st') \<and> sysOk R st'"
  using assms
proof (induction rule: rolloutStep.cases)
  case (create l now raw st st' out)
  then show ?case using Create_ok by blast
next
  case (advance now x st st' out)
  then show ?case using Advance_ok by blast
next
  case (rollback now x st st' out)
  then show ?case using Rollback_ok by blast
next
  case (read now x st st' out)
  obtain c r where st: "st = (c, r)" by (cases st)
  obtain c' orec where find: "findRollout (Some R) now x (c, r) = (c', orec)" by (cases "findRollout (Some R) now x (c, r)")
  have "st' = (c', r)" using read st find by (cases orec) (auto simp: GetRolloutState_def)
  with read st find_ok(1) [OF _ find] show ?case by simp
next
  case (restart c r)
  then show ?case by (auto simp: sysOk_def NewRolloutController_def)
qed

lemma rollout_reach_ok:
  assumes "(rolloutStep R)\<^sup>*\<^sup>* st st'" and "inv (snd st)" and "sysOk R st"
  shows "inv (snd st') \<and> sysOk R st'"
  using assms by (induction rule: rtranclp_induct) (auto dest: rollout_step_ok)

end

section \<open>Properties\<close>

abbreviation rolloutReach ::
  "time \<Rightarrow> rolloutCache \<times> StrategyValue InMemoryRolloutRepository \<Rightarrow>
   rolloutCache \<times> StrategyValue InMemoryRolloutRepository \<Rightarrow> bool" where
  "rolloutReach now \<equiv> (rolloutStep (memRollouts now))\<^sup>*\<^sup>*"

lemma mem_rollout_reach:
  assumes "rolloutReach now (NewRolloutController, NewInMemoryRolloutRepository) (c, r)"
  shows "sysOk (memRollouts now) (c, r)" and "keyedBy ro_ID r"
proof -
  have "sysOk (memRollouts now) (NewRolloutController, NewInMemoryRolloutRepository)"
    by (simp add: sysOk_def NewRolloutController_def NewInMemoryRolloutRepository_def memRollouts_def rolloutGet_def)
  moreover have "keyedBy ro_ID (snd (NewRolloutController, NewInMemoryRolloutRepository))"
    by (simp add: NewInMemoryRolloutRepository_def)
  ultimately show "sysOk (memRollouts now) (c, r)" and "keyedBy ro_ID r"
    using memrollouts.rollout_reach_ok [OF assms] by auto
qed

lemma sysOk_cached:
  assumes "sysOk R (c, r)" and "c x = Some rec"
  obtains row where "rrepo_Get R x r = Inr row" "rec = recordOfRow (rt_UpdatedAt (rec_state rec)) row" "rowGood row"
  using assms unfolding sysOk_def by fastforce

text \<open>C23: For rollouts created with percentage weights, any sequence of creations,
  promotions, rollbacks, reads and restarts keeps every cached rollout's weight
  between 0 and 100, gives each of its clusters that same weight, and reports
  Complete only at 100 and RolledBack only at 0.\<close>

theorem rollout_weight_bounds:
  assumes "rolloutReach now (NewRolloutController, NewInMemoryRolloutRepository) (c, r)" and "c x = Some rec"
  shows "weightOk (rec_state rec)"
proof -
  obtain row where "rec = recordOfRow (rt_UpdatedAt (rec_state rec)) row" "rowGood row"
    using sysOk_cached [OF mem_rollout_reach(1) [OF assms(1)] assms(2)] by blast
  then show ?thesis using rowGood_record(1) by metis
qed

text \<open>C22: The repository alone determines every rollout: a controller that starts
  with an empty cache reports, for each rollout another controller held, the same
  phase, weight, cluster states and start time.\<close>

theorem rollout_recovery:
  assumes "rolloutReach now (NewRolloutController, NewInMemoryRolloutRepository) (c, r)" and "c x = Some rec"
  shows "snd (GetRolloutState (Some (memRollouts now)) t x (NewRolloutController, r)) =
    Inr ((rec_state rec)\<lparr>rt_UpdatedAt := t\<rparr>)"
proof -
  obtain row where row: "rrepo_Get (memRollouts now) x r = Inr row"
      "rec = recordOfRow (rt_UpdatedAt (rec_state rec)) row"
    using sysOk_cached [OF mem_rollout_reach(1) [OF assms(1)] assms(2)] by blast
  have "rec_state (recordOfRow t row) = (rec_state rec)\<lparr>rt_UpdatedAt := t\<rparr>"
    unfolding recordOfRow_time(1) [of t] by (subst row(2)) (simp add: recordOfRow_time(1) [of "rt_UpdatedAt (rec_state rec)"])
  with row(1) show ?thesis
    by (simp add: GetRolloutState_def findRollout_def loadFromRepo_def NewRolloutController_def Let_def)
qed

definition advanceAll ::
  "'r RolloutRepository option \<Rightarrow> string \<Rightarrow> time list \<Rightarrow> rolloutCache \<times> 'r \<Rightarrow> rolloutCache \<times> 'r" where
  "advanceAll repo x ts st = fold (\<lambda>now st. fst (AdvanceRollout repo now x st)) ts st"

text \<open>A promotion of a cached rollout is persisted: the row exists, so the update
  succeeds.\<close>

lemma advance_stored:
  assumes reach: "rolloutReach now (NewRolloutController, NewInMemoryRolloutRepository) (c, r)" and x: "c x = Some rec"
    and "equalFold (rstrat_Type (mls_Strategy (rec_lifecycle rec))) ''Canary''"
    and "rstrat_Canary (mls_Strategy (rec_lifecycle rec)) = Some canary" and "checkSLOGate (cc_SLOGate canary)"
  obtains r' row where "fst (AdvanceRollout (Some (memRollouts now)) t x (c, r)) =
      (c(x \<mapsto> rec\<lparr>rec_state := promoted t (cc_WeightIncrement canary) (rec_state rec)\<rparr>), r')"
    and "rolloutGet x r' = Inr (persistedRow (promoted t (cc_WeightIncrement canary) (rec_state rec)) row)"
proof -
  let ?st = "promoted t (cc_WeightIncrement canary) (rec_state rec)"
  obtain row where row: "rrepo_Get (memRollouts now) x r = Inr row" "rec = recordOfRow (rt_UpdatedAt (rec_state rec)) row"
    using sysOk_cached [OF mem_rollout_reach(1) [OF reach] x] by blast
  have id: "ro_ID row = x" using memrollouts.get_ID [OF mem_rollout_reach(2) [OF reach] row(1)] .
  have "rt_ID (rec_state rec) = x" using id by (subst row(2)) (simp add: recordOfRow_def Let_def split: prod.splits)
  then have sid: "rt_ID ?st = x" by (simp add: promoted_def Let_def)
  have pid: "ro_ID (persistedRow ?st row) = x" using id by (simp add: persistedRow_def Let_def)
  have "map_of r x \<noteq> None" using row(1) by (simp add: memRollouts_def rolloutGet_def split: option.splits)
  then obtain r' where upd: "rrepo_Update (memRollouts now) (persistedRow ?st row) r = (r', None)"
    using pid by (auto simp: memRollouts_def rolloutUpdate_def)
  have "persistState (Some (memRollouts now)) ?st r = (r', None)"
    using sid row(1) upd by (simp add: persistState_def)
  then have "fst (AdvanceRollout (Some (memRollouts now)) t x (c, r)) = (c(x \<mapsto> rec\<lparr>rec_state := ?st\<rparr>), r')"
    using assms by (simp add: AdvanceRollout_def findRollout_def Let_def)
  moreover have "rolloutGet x r' = Inr (persistedRow ?st row)"
    using memrollouts.update_get [OF upd, of x] pid by (simp add: memRollouts_def)
  ultimately show thesis using that by blast
qed

lemma promoted_weight:
  assumes "0 \<le> rt_CurrentWeight st" "rt_CurrentWeight st \<le> 100" "0 \<le> inc" "in64 (100 + inc)"
  shows "rt_CurrentWeight (promoted now inc st) = min 100 (rt_CurrentWeight st + inc)"
    and "rt_Phase (promoted now inc st) =
      (if rt_CurrentWeight (promoted now inc st) = 100 then ''Complete'' else ''Canary'')"
proof -
  have "in64 (rt_CurrentWeight st + inc)" using assms by (simp add: in64_def)
  then show "rt_CurrentWeight (promoted now inc st) = min 100 (rt_CurrentWeight st + inc)"
    and "rt_Phase (promoted now inc st) =
      (if rt_CurrentWeight (promoted now inc st) = 100 then ''Complete'' else ''Canary'')"
    by (auto simp: promoted_def Let_def wrap64_id min_def)
qed

lemma advanceAll_weight:
  assumes "rolloutReach now (NewRolloutController, NewInMemoryRolloutRepository) (c, r)" and "c x = Some rec"
    and "equalFold (rstrat_Type (mls_Strategy (rec_lifecycle rec))) ''Canary''"
    and "rstrat_Canary (mls_Strategy (rec_lifecycle rec)) = Some canary" and "checkSLOGate (cc_SLOGate canary)"
    and "0 \<le> rt_CurrentWeight (rec_state rec)" "rt_CurrentWeight (rec_state rec) \<le> 100"
    and "0 \<le> cc_WeightIncrement canary" "in64 (100 + cc_WeightIncrement canary)"
  shows "\<exists>c' r' rec'. advanceAll (Some (memRollouts now)) x ts (c, r) = (c', r') \<and>
    rolloutReach now (NewRolloutController, NewInMemoryRolloutRepository) (c', r') \<and>
    c' x = Some rec' \<and> rec_lifecycle rec' = rec_lifecycle rec \<and>
    rt_CurrentWeight (rec_state rec') = min 100 (rt_CurrentWeight (rec_state rec) + int (length ts) * cc_WeightIncrement canary) \<and>
    (ts \<noteq> [] \<longrightarrow> rt_UpdatedAt (rec_state rec') = last ts \<and>
      rt_Phase (rec_state rec') = (if rt_CurrentWeight (rec_state rec') = 100 then ''Complete'' else ''Canary'') \<and>
      (\<exists>row. rolloutGet x r' = Inr (persistedRow (rec_state rec') row)))"
proof (induction ts rule: rev_induct)
  case Nil
  with assms show ?case by (simp add: advanceAll_def)
next
  case (snoc t ts)
  let ?inc = "cc_WeightIncrement canary"
  from snoc obtain c' r' rec' where all: "advanceAll (Some (memRollouts now)) x ts (c, r) = (c', r')"
    and reach: "rolloutReach now (NewRolloutController, NewInMemoryRolloutRepository) (c', r')"
    and x: "c' x = Some rec'" and l: "rec_lifecycle rec' = rec_lifecycle rec"
    and w: "rt_CurrentWeight (rec_state rec') = min 100 (rt_CurrentWeight (rec_state rec) + int (length ts) * ?inc)"
    by blast
  define st where "st = promoted t ?inc (rec_state rec')"
  define c2 where "c2 = c'(x \<mapsto> rec'\<lparr>rec_state := st\<rparr>)"
  have x2: "c2 x = Some (rec'\<lparr>rec_state := st\<rparr>)" by (simp add: c2_def)
  obtain r2 row where adv: "fst (AdvanceRollout (Some (memRollouts now)) t x (c', r')) = (c2, r2)"
    and get: "rolloutGet x r2 = Inr (persistedRow st row)"
    using advance_stored [OF reach x assms(3-5) [folded l], of t] unfolding c2_def st_def by blast
  obtain out where "AdvanceRollout (Some (memRollouts now)) t x (c', r') = ((c2, r2), out)"
    using adv by (metis prod.collapse)
  from rtranclp.rtrancl_into_rtrancl [OF reach rolloutStep.advance [OF this]]
  have reach2: "rolloutReach now (NewRolloutController, NewInMemoryRolloutRepository) (c2, r2)" .
  have b: "0 \<le> rt_CurrentWeight (rec_state rec')" "rt_CurrentWeight (rec_state rec') \<le> 100"
    using w assms(6,8) by auto
  note pw = promoted_weight [OF b assms(8,9), of t, folded st_def]
  have "min 100 (rt_CurrentWeight (rec_state rec') + ?inc) =
      min 100 (rt_CurrentWeight (rec_state rec) + int (length (ts @ [t])) * ?inc)"
    using w assms(8) by (simp add: min_def algebra_simps)
  moreover have "rt_UpdatedAt st = t" by (simp add: st_def promoted_def Let_def)
  moreover have "advanceAll (Some (memRollouts now)) x (ts @ [t]) (c, r) = (c2, r2)"
    using all adv by (simp add: advanceAll_def)
  ultimately show ?case using reach2 x2 get l pw
    by (intro exI [of _ "c2"] exI [of _ r2] exI [of _ "rec'\<lparr>rec_state := st\<rparr>"]) auto
qed

text \<open>C24: A canary whose gate passes is complete after enough promotions, in the
  cache and in the repository: from any state the controller reaches, once the
  increments cover the missing weight the rollout is Complete at weight 100, and
  its stored row says so, with the time of the last promotion as its completion
  time.\<close>

theorem rollout_completes:
  assumes "rolloutReach now (NewRolloutController, NewInMemoryRolloutRepository) (c, r)" and "c x = Some rec"
    and "equalFold (rstrat_Type (mls_Strategy (rec_lifecycle rec))) ''Canary''"
    and "rstrat_Canary (mls_Strategy (rec_lifecycle rec)) = Some canary" and "checkSLOGate (cc_SLOGate canary)"
    and "ts \<noteq> []" and "100 \<le> rt_CurrentWeight (rec_state rec) + int (length ts) * cc_WeightIncrement canary"
  shows "\<exists>c' r' rec' row. advanceAll (Some (memRollouts now)) x ts (c, r) = (c', r') \<and>
    c' x = Some rec' \<and> rt_Phase (rec_state rec') = ''Complete'' \<and> rt_CurrentWeight (rec_state rec') = 100 \<and>
    rolloutGet x r' = Inr row \<and> ro_Status row = ''Complete'' \<and> ro_CurrentWeight row = 100 \<and>
    ro_CompletedAt row = Some (last ts)"
proof -
  obtain row where row: "rec = recordOfRow (rt_UpdatedAt (rec_state rec)) row" "rowGood row"
    using sysOk_cached [OF mem_rollout_reach(1) [OF assms(1)] assms(2)] by blast
  note rg = rowGood_record [OF row(2), of "rt_UpdatedAt (rec_state rec)", folded row(1)]
  have inc: "0 \<le> cc_WeightIncrement canary" "in64 (100 + cc_WeightIncrement canary)"
    using rg(2) assms(4) by (simp_all add: goodLifecycle_def)
  have w: "0 \<le> rt_CurrentWeight (rec_state rec)" "rt_CurrentWeight (rec_state rec) \<le> 100"
    using rg(1) by (simp_all add: weightOk_def)
  obtain c' r' rec' row' where all: "advanceAll (Some (memRollouts now)) x ts (c, r) = (c', r')" "c' x = Some rec'"
    and st: "rt_CurrentWeight (rec_state rec') = 100" "rt_Phase (rec_state rec') = ''Complete''"
      "rt_UpdatedAt (rec_state rec') = last ts"
    and get: "rolloutGet x r' = Inr (persistedRow (rec_state rec') row')"
    using advanceAll_weight [OF assms(1-5) w inc, of ts] assms(6,7) by (auto simp: min_def)
  have "equalFold ''Complete'' ''Complete''" by (simp add: equalFold_def)
  with st have "ro_Status (persistedRow (rec_state rec') row') = ''Complete''"
    "ro_CurrentWeight (persistedRow (rec_state rec') row') = 100"
    "ro_CompletedAt (persistedRow (rec_state rec') row') = Some (last ts)"
    by (simp_all add: persistedRow_def Let_def)
  with all st get show ?thesis by blast
qed

section \<open>Concrete runs\<close>

definition sampleLifecycle :: ModelLifecycleSpec where
  "sampleLifecycle = \<lparr>mls_Model = \<lparr>mref_Name = ''m'', mref_Version = ''2''\<rparr>, mls_FleetPoolRef = ''p'',
     mls_Strategy = \<lparr>rstrat_Type = ''canary'', rstrat_Canary = Some \<lparr>cc_InitialWeight = 10, cc_WeightIncrement = 30,
        cc_Interval = ''5m'', cc_SLOGate = None, cc_RollbackOnFailure = True\<rparr>\<rparr>,
     mls_Clusters = Some \<lparr>co_Order = [''east'', ''west'']\<rparr>\<rparr>"

definition sampleRollout :: string where
  "sampleRollout = ''rollout-m-2-'' @ hexEncode ''ab''"

definition sampleCache :: rolloutCache where
  "sampleCache = [sampleRollout \<mapsto> createdRecord sampleRollout 7 sampleLifecycle]"

lemma sampleLifecycle_ok: "cleanLifecycle sampleLifecycle" "goodLifecycle sampleLifecycle"
  by (simp_all add: cleanLifecycle_def goodLifecycle_def sampleLifecycle_def reencodeLifecycle_def reencodeCanary_def
      toValidUTF8_ascii in64_def)

lemma sample_rollout_reach:
  "rolloutReach 1 (NewRolloutController, NewInMemoryRolloutRepository)
     (sampleCache, [(sampleRollout, createdRow sampleRollout 7 sampleLifecycle)])"
proof -
  have id: "''rollout-'' @ mref_Name (mls_Model sampleLifecycle) @ ''-'' @ mref_Version (mls_Model sampleLifecycle) @
      ''-'' @ hexEncode ''ab'' = sampleRollout"
    by (simp add: sampleLifecycle_def sampleRollout_def)
  have stored: "rolloutStored ([], 1) (createdRow sampleRollout 7 sampleLifecycle) = createdRow sampleRollout 7 sampleLifecycle"
    "ro_ID (createdRow sampleRollout 7 sampleLifecycle) = sampleRollout"
    by (simp_all add: rolloutStored_def createdRow_def sampleRollout_def)
  have "CreateRollout (Some (memRollouts 1)) (Some ''ab'') 7 sampleLifecycle
      (NewRolloutController, NewInMemoryRolloutRepository) =
    ((sampleCache, [(sampleRollout, createdRow sampleRollout 7 sampleLifecycle)]),
     Inr (rec_state (createdRecord sampleRollout 7 sampleLifecycle)))"
    unfolding CreateRollout_def option.case Let_def id
    by (simp add: memRollouts_def rolloutCreate_def NewInMemoryRolloutRepository_def stored sampleCache_def
        NewRolloutController_def)
  from rolloutStep.create [OF sampleLifecycle_ok _ this] show ?thesis by (intro r_into_rtranclp) simp
qed

theorem rollout_weight_bounds_witness:
  "rolloutReach 1 (NewRolloutController, NewInMemoryRolloutRepository)
     (sampleCache, [(sampleRollout, createdRow sampleRollout 7 sampleLifecycle)]) \<and>
   sampleCache sampleRollout = Some (createdRecord sampleRollout 7 sampleLifecycle) \<and>
   weightOk (rec_state (createdRecord sampleRollout 7 sampleLifecycle))"
  using sample_rollout_reach
    rollout_weight_bounds [OF sample_rollout_reach, of sampleRollout "createdRecord sampleRollout 7 sampleLifecycle"]
  by (simp add: sampleCache_def)

theorem rollout_recovery_witness:
  "rolloutReach 1 (NewRolloutController, NewInMemoryRolloutRepository)
     (sampleCache, [(sampleRollout, createdRow sampleRollout 7 sampleLifecycle)]) \<and>
   sampleCache sampleRollout = Some (createdRecord sampleRollout 7 sampleLifecycle) \<and>
   snd (GetRolloutState (Some (memRollouts 1)) 9 sampleRollout
     (NewRolloutController, [(sampleRollout, createdRow sampleRollout 7 sampleLifecycle)])) =
     Inr ((rec_state (createdRecord sampleRollout 7 sampleLifecycle))\<lparr>rt_UpdatedAt := 9\<rparr>)"
proof -
  have c: "sampleCache sampleRollout = Some (createdRecord sampleRollout 7 sampleLifecycle)"
    by (simp add: sampleCache_def)
  show ?thesis using sample_rollout_reach c rollout_recovery [OF sample_rollout_reach c, of 9] by blast
qed

theorem rollout_completes_witness:
  "\<exists>c' r' rec' row. advanceAll (Some (memRollouts 1)) sampleRollout [50, 60, 70]
      (sampleCache, [(sampleRollout, createdRow sampleRollout 7 sampleLifecycle)]) = (c', r') \<and>
    c' sampleRollout = Some rec' \<and> rt_Phase (rec_state rec') = ''Complete'' \<and> rt_CurrentWeight (rec_state rec') = 100 \<and>
    rolloutGet sampleRollout r' = Inr row \<and> ro_Status row = ''Complete'' \<and> ro_CurrentWeight row = 100 \<and>
    ro_CompletedAt row = Some 70"
proof -
  let ?canary = "\<lparr>cc_InitialWeight = 10, cc_WeightIncrement = 30, cc_Interval = ''5m'', cc_SLOGate = None,
      cc_RollbackOnFailure = True\<rparr>"
  let ?rec = "createdRecord sampleRollout 7 sampleLifecycle"
  have x: "sampleCache sampleRollout = Some ?rec" by (simp add: sampleCache_def)
  have fold: "equalFold (rstrat_Type (mls_Strategy (rec_lifecycle ?rec))) ''Canary''"
    by (simp add: createdRecord_def sampleLifecycle_def) code_simp
  have canary: "rstrat_Canary (mls_Strategy (rec_lifecycle ?rec)) = Some ?canary"
    by (simp add: createdRecord_def sampleLifecycle_def)
  have gate: "checkSLOGate (cc_SLOGate ?canary)" by (simp add: checkSLOGate_def)
  have w: "rt_CurrentWeight (rec_state ?rec) = 10"
    using fold by (simp add: createdRecord_def initialPhase_def sampleLifecycle_def)
  have ts: "[50, 60, 70 :: time] \<noteq> []"
    "100 \<le> rt_CurrentWeight (rec_state ?rec) + int (length [50, 60, 70 :: time]) * cc_WeightIncrement ?canary"
    using w by simp_all
  show ?thesis using rollout_completes [OF sample_rollout_reach x fold canary gate ts] by simp
qed

end
