(* ===== verification/Go_Strings.thy ===== *)
theory Go_Strings
  imports Go_Base
begin

text \<open>
  Further functions of package \<open>strings\<close> on byte strings: searching for one
  byte, cutting at it, lower case, and \<open>net.SplitHostPort\<close>.
\<close>

section \<open>Searching for a byte\<close>

text \<open>\<open>strings.LastIndex\<close> of one byte: -1 when it does not occur.\<close>

definition lastIndexByte :: "char \<Rightarrow> string \<Rightarrow> int" where
  "lastIndexByte c s =
     (if c \<in> set s then int (length s) - 1 - int (length (takeWhile (\<lambda>x. x \<noteq> c) (rev s))) else -1)"

definition uptoByte :: "char \<Rightarrow> string \<Rightarrow> string" where
  "uptoByte c s = takeWhile (\<lambda>x. x \<noteq> c) s"

definition afterByte :: "char \<Rightarrow> string \<Rightarrow> string" where
  "afterByte c s = drop (length (uptoByte c s) + 1) s"

section \<open>Lower case\<close>

text \<open>\<open>strings.ToLower\<close> where the result is compared with ASCII text: the two
  non-ASCII letters whose lower case is an ASCII letter are mapped, every other
  non-ASCII letter stays a non-ASCII letter.\<close>

fun lowerRunes :: "string \<Rightarrow> string" where
  "lowerRunes [] = []"
| "lowerRunes (a # s) =
     (if a = CHR 0xE2 \<and> hasPrefix s [CHR 0x84, CHR 0xAA] then CHR ''k'' # lowerRunes (drop 2 s)
      else if a = CHR 0xC4 \<and> hasPrefix s [CHR 0xB0] then CHR ''i'' # lowerRunes (drop 1 s)
      else asciiLower a # lowerRunes s)"

section \<open>Host and port (\<open>net.SplitHostPort\<close>)\<close>

datatype AddrError = MissingPort | TooManyColons | MissingBracket | UnexpectedOpen | UnexpectedClose

definition splitHostPort :: "string \<Rightarrow> (AddrError, string \<times> string) res" where
  "splitHostPort hostport =
     (let i = lastIndexByte CHR '':'' hostport;
          finish = (\<lambda>host j k.
            if CHR ''['' \<in> set (drop j hostport) then Inl UnexpectedOpen
            else if CHR '']'' \<in> set (drop k hostport) then Inl UnexpectedClose
            else Inr (host, drop (nat i + 1) hostport))
      in if i < 0 then Inl MissingPort
         else if hd hostport = CHR ''['' then
           if CHR '']'' \<notin> set hostport then Inl MissingBracket
           else let endp = length (uptoByte CHR '']'' hostport)
                in if endp + 1 = length hostport then Inl MissingPort
                   else if int endp + 1 = i then finish (take (endp - 1) (tl hostport)) 1 (endp + 1)
                   else if hostport ! (endp + 1) = CHR '':'' then Inl TooManyColons
                   else Inl MissingPort
         else let host = take (nat i) hostport
              in if CHR '':'' \<in> set host then Inl TooManyColons else finish host 0 0)"

section \<open>Lemmas\<close>

lemma lastIndexByte_append [simp]: "c \<notin> set q \<Longrightarrow> lastIndexByte c (p @ c # q) = int (length p)"
  by (simp add: lastIndexByte_def takeWhile_append)

lemma lastIndexByte_absent [simp]: "c \<notin> set s \<Longrightarrow> lastIndexByte c s = -1"
  by (simp add: lastIndexByte_def)

lemma lastIndexByte_split:
  assumes "0 \<le> lastIndexByte c s"
  obtains p q where "s = p @ c # q" and "c \<notin> set q" and "lastIndexByte c s = int (length p)"
proof -
  have "c \<in> set s" using assms by (auto simp: lastIndexByte_def split: if_splits)
  then obtain p q where "s = p @ c # q" and "c \<notin> set q" by (meson split_list_last)
  then show thesis by (intro that) simp_all
qed

lemma uptoByte_append [simp]: "c \<notin> set h \<Longrightarrow> uptoByte c (h @ c # q) = h"
  by (induction h) (auto simp: uptoByte_def)

lemma uptoByte_split: "c \<in> set s \<Longrightarrow> s = uptoByte c s @ c # drop (length (uptoByte c s) + 1) s"
  by (induction s) (auto simp: uptoByte_def)

lemma uptoByte_notin [simp]: "c \<notin> set (uptoByte c s)"
  by (auto simp: uptoByte_def dest: set_takeWhileD)

lemma splitHostPort_plain:
  assumes "set host \<inter> {CHR '':'', CHR ''['', CHR '']''} = {}" and "set port \<inter> {CHR '':'', CHR ''['', CHR '']''} = {}"
  shows "splitHostPort (host @ '':'' @ port) = Inr (host, port)"
proof -
  have "hd (host @ CHR '':'' # port) \<noteq> CHR ''[''" using assms(1) by (cases host) auto
  then show ?thesis using assms by (auto simp: splitHostPort_def Let_def)
qed

lemma splitHostPort_bracketed:
  assumes "set host \<inter> {CHR ''['', CHR '']''} = {}" and "set port \<inter> {CHR '':'', CHR ''['', CHR '']''} = {}"
  shows "splitHostPort (''['' @ host @ '']:'' @ port) = Inr (host, port)"
proof -
  let ?s = "CHR ''['' # host @ CHR '']'' # CHR '':'' # port"
  have "lastIndexByte CHR '':'' ((CHR ''['' # host @ '']'') @ CHR '':'' # port) = int (length (CHR ''['' # host @ '']''))"
    using assms by (intro lastIndexByte_append) auto
  then have i: "lastIndexByte CHR '':'' ?s = int (length host + 2)" by simp
  have "uptoByte CHR '']'' ((CHR ''['' # host) @ CHR '']'' # CHR '':'' # port) = CHR ''['' # host"
    using assms by (intro uptoByte_append) auto
  then have e: "uptoByte CHR '']'' ?s = CHR ''['' # host" by simp
  show ?thesis using assms by (auto simp: splitHostPort_def Let_def i e nat_add_distrib)
qed

end
