(* ===== verification/Modelpack.thy ===== *)
theory Modelpack
  imports Go_Float Go_Strings
begin

text \<open>
  Model packages (\<open>pkg/modelpack\<close>): the estimate of the GPUs a model needs
  (\<open>resources.go\<close>), the parser of OCI references (\<open>resolver.go\<close>) and the
  in-memory model catalog (\<open>catalog.go\<close>). The registry behind the resolver is a
  parameter of the catalog.
\<close>

section \<open>Configuration of a model (\<open>types.go\<close>)\<close>

record ModelDescriptor =
  md_Name :: string
  md_Family :: string
  md_Version :: string
  md_Vendor :: string
  md_License :: string

record ModelTechnicalConfig =
  mtc_Architecture :: string
  mtc_Format :: string
  mtc_ParamSize :: string
  mtc_Precision :: string
  mtc_Quantization :: string
  mtc_InputTypes :: "string list"
  mtc_OutputTypes :: "string list"
  mtc_ToolUsage :: bool
  mtc_Reasoning :: bool
  mtc_Languages :: "string list"

record ModelPackConfig =
  mpc_Descriptor :: ModelDescriptor
  mpc_Config :: ModelTechnicalConfig
  mpc_OciRef :: string

definition zeroModelTechnicalConfig :: ModelTechnicalConfig where
  "zeroModelTechnicalConfig = \<lparr>mtc_Architecture = [], mtc_Format = [], mtc_ParamSize = [],
     mtc_Precision = [], mtc_Quantization = [], mtc_InputTypes = [], mtc_OutputTypes = [],
     mtc_ToolUsage = False, mtc_Reasoning = False, mtc_Languages = []\<rparr>"

section \<open>GPU requirements (\<open>resources.go\<close>)\<close>

record GPURequirements =
  gr_MinGPUMemoryGB :: float64
  gr_RecommendedGPUs :: int64
  gr_SupportedGPUTypes :: "string list"
  gr_TensorParallelism :: int64
  gr_EstimatedThroughput :: float64

record gpuSpec =
  gs_Name :: string
  gs_MemoryGB :: float64

definition knownGPUs :: "gpuSpec list" where
  "knownGPUs =
     [\<lparr>gs_Name = ''B200'', gs_MemoryGB = fLit 192\<rparr>,
      \<lparr>gs_Name = ''MI300X'', gs_MemoryGB = fLit 192\<rparr>,
      \<lparr>gs_Name = ''H200'', gs_MemoryGB = fLit 141\<rparr>,
      \<lparr>gs_Name = ''Gaudi3'', gs_MemoryGB = fLit 128\<rparr>,
      \<lparr>gs_Name = ''Gaudi2'', gs_MemoryGB = fLit 96\<rparr>,
      \<lparr>gs_Name = ''H100'', gs_MemoryGB = fLit 80\<rparr>,
      \<lparr>gs_Name = ''A100'', gs_MemoryGB = fLit 80\<rparr>]"

datatype ModelpackError =
    ConfigNil
  | EmptyParamSize
  | UnknownParamSuffix string
  | BadParamNumber string
  | ParamSizeNotPositive float64
  | UnknownPrecision string

definition parseParamSize :: "string \<Rightarrow> (ModelpackError, float64) res" where
  "parseParamSize s0 =
     (let s = trimSpace (lowerRunes s0);
          num = (\<lambda>t multiplier.
            case parseFloat t of
              None \<Rightarrow> Inl (BadParamNumber t)
            | Some val \<Rightarrow> if fLe val fZero then Inl (ParamSizeNotPositive val) else Inr (fMul val multiplier))
      in if s = [] then Inl EmptyParamSize
         else if hasSuffix s ''b'' then num (trimSuffix s ''b'') (fLit 1000000000)
         else if hasSuffix s ''m'' then num (trimSuffix s ''m'') (fLit 1000000)
         else Inl (UnknownParamSuffix s))"

definition bytesPerParamForPrecision :: "string \<Rightarrow> (ModelpackError, float64) res" where
  "bytesPerParamForPrecision precision =
     (let p = lowerRunes (trimSpace precision) in
      if p = ''fp32'' \<or> p = ''float32'' then Inr (fLit 4)
      else if p = ''fp16'' \<or> p = ''float16'' then Inr (fLit 2)
      else if p = ''bf16'' \<or> p = ''bfloat16'' then Inr (fLit 2)
      else if p = ''int8'' then Inr (fLit 1)
      else if p = ''fp8'' then Inr (fLit 1)
      else if p = ''int4'' then Inr (fLit (1 / 2))
      else if p = [] then Inr (fLit 2)
      else Inl (UnknownPrecision precision))"

definition gpuCount :: "float64 \<Rightarrow> float64 \<Rightarrow> int64" where
  "gpuCount totalMemoryGB memoryGB = fToInt (fCeil (fDiv totalMemoryGB memoryGB))"

definition selectGPUs :: "float64 \<Rightarrow> string list \<times> int64 \<times> int64" where
  "selectGPUs totalMemoryGB =
     (let fits = map gs_Name (filter (\<lambda>gpu. gpuCount totalMemoryGB (gs_MemoryGB gpu) \<le> 8) knownGPUs);
          supported = (if fits = [] then [gs_Name (hd knownGPUs)] else fits);
          bestGPUMem = (case find (\<lambda>gpu. gs_Name gpu = hd supported) knownGPUs of
                          None \<Rightarrow> fZero | Some gpu \<Rightarrow> gs_MemoryGB gpu);
          n = gpuCount totalMemoryGB bestGPUMem;
          recommendedCount = (if n < 1 then 1 else n)
      in (supported, recommendedCount, recommendedCount))"

definition estimateThroughput :: "float64 \<Rightarrow> float64 \<Rightarrow> float64" where
  "estimateThroughput params bytesPerParam =
     (let ratio = fDiv (fMul (fLit 7000000000) (fLit 2)) (fMul params bytesPerParam)
      in fMul (fLit 100) ratio)"

definition totalMemory :: "float64 \<Rightarrow> float64 \<Rightarrow> float64" where
  "totalMemory params bytesPerParam =
     fMul (fDiv (fMul params bytesPerParam) (fLit 1000000000)) (fLit (12 / 10))"

definition ComputeGPURequirements :: "ModelPackConfig option \<Rightarrow> (ModelpackError, GPURequirements) res" where
  "ComputeGPURequirements config =
     (case config of
        None \<Rightarrow> Inl ConfigNil
      | Some c \<Rightarrow>
          case parseParamSize (mtc_ParamSize (mpc_Config c)) of
            Inl e \<Rightarrow> Inl e
          | Inr params \<Rightarrow>
              case bytesPerParamForPrecision (mtc_Precision (mpc_Config c)) of
                Inl e \<Rightarrow> Inl e
              | Inr bytesPerParam \<Rightarrow>
                  let totalMemoryGB = totalMemory params bytesPerParam;
                      (supported, recommendedCount, tp) = selectGPUs totalMemoryGB;
                      throughput = estimateThroughput params bytesPerParam
                  in Inr \<lparr>gr_MinGPUMemoryGB = fCeil totalMemoryGB,
                          gr_RecommendedGPUs = recommendedCount,
                          gr_SupportedGPUTypes = supported,
                          gr_TensorParallelism = tp,
                          gr_EstimatedThroughput = fDiv (fRound (fMul throughput (fLit 10))) (fLit 10)\<rparr>)"

section \<open>OCI references (\<open>resolver.go\<close>)\<close>

record parsedOCIRef =
  po_host :: string
  po_repository :: string
  po_reference :: string

datatype OCIRefError =
    EmptyReference
  | MissingRepository
  | InvalidRegistryHost string
  | MissingTagOrDigest

definition validateOCIRef :: "string \<Rightarrow> OCIRefError option" where
  "validateOCIRef ref =
     (if ref = [] then Some EmptyReference
      else if CHR ''/'' \<notin> set ref then Some MissingRepository
      else let host = uptoByte CHR ''/'' ref;
               hostWithoutPort = hd (splitByte CHR '':'' host)
           in if CHR ''.'' \<notin> set hostWithoutPort \<and> hostWithoutPort \<noteq> ''localhost''
              then Some (InvalidRegistryHost host) else None)"

definition splitReference :: "string \<Rightarrow> string \<times> string" where
  "splitReference remainder =
     (let atSign = lastIndexByte CHR ''@'' remainder;
          colon = lastIndexByte CHR '':'' remainder
      in if 0 \<le> atSign then (take (nat atSign) remainder, drop (nat atSign + 1) remainder)
         else if 0 \<le> colon \<and> lastIndexByte CHR ''/'' remainder < colon
         then (take (nat colon) remainder, drop (nat colon + 1) remainder)
         else (remainder, ''latest''))"

definition parseOCIRef :: "string \<Rightarrow> (OCIRefError, parsedOCIRef) res" where
  "parseOCIRef ref =
     (case validateOCIRef ref of
        Some e \<Rightarrow> Inl e
      | None \<Rightarrow>
          let host = uptoByte CHR ''/'' ref;
              remainder = drop (length host + 1) ref;
              (repository, reference) = splitReference remainder
          in if repository = [] then Inl MissingRepository
             else if reference = [] then Inl MissingTagOrDigest
             else Inr \<lparr>po_host = host, po_repository = repository, po_reference = reference\<rparr>)"

section \<open>The in-memory catalog (\<open>catalog.go\<close>)\<close>

text \<open>The models keyed by name. The resolver is a parameter: \<open>None\<close> is a nil
  resolver; its result is an error or a possibly nil configuration.\<close>

type_synonym InMemoryModelCatalog = "(string, ModelPackConfig) gomap"
type_synonym 'e ModelResolver = "string \<Rightarrow> ('e, ModelPackConfig option) res"

datatype CatalogError =
    ModelNotFound string
  | OciRefEmpty

definition NewInMemoryModelCatalog :: InMemoryModelCatalog where
  "NewInMemoryModelCatalog = []"

definition catalogList :: "InMemoryModelCatalog \<Rightarrow> ModelPackConfig list" where
  "catalogList c = map snd c"

definition catalogGet :: "string \<Rightarrow> InMemoryModelCatalog \<Rightarrow> (CatalogError, ModelPackConfig) res" where
  "catalogGet name c =
     (case map_of c name of None \<Rightarrow> Inl (ModelNotFound name) | Some m \<Rightarrow> Inr m)"

definition placeholderConfig :: "string \<Rightarrow> ModelPackConfig" where
  "placeholderConfig ociRef =
     \<lparr>mpc_Descriptor = \<lparr>md_Name = ociRef, md_Family = [], md_Version = [], md_Vendor = [], md_License = []\<rparr>,
      mpc_Config = zeroModelTechnicalConfig, mpc_OciRef = ociRef\<rparr>"

definition registeredConfig :: "'e ModelResolver option \<Rightarrow> string \<Rightarrow> ModelPackConfig" where
  "registeredConfig resolver ociRef =
     (let resolved = (case resolver of
                        None \<Rightarrow> None
                      | Some resolve \<Rightarrow> (case resolve ociRef of Inl _ \<Rightarrow> None | Inr config \<Rightarrow> config))
      in case resolved of None \<Rightarrow> placeholderConfig ociRef | Some config \<Rightarrow> config)"

definition Register ::
  "'e ModelResolver option \<Rightarrow> string \<Rightarrow> InMemoryModelCatalog \<Rightarrow> InMemoryModelCatalog \<times> (CatalogError, ModelPackConfig) res" where
  "Register resolver ociRef c =
     (if ociRef = [] then (c, Inl OciRefEmpty)
      else let config = registeredConfig resolver ociRef
           in (AList.update (md_Name (mpc_Descriptor config)) config c, Inr config))"

definition Deregister :: "string \<Rightarrow> InMemoryModelCatalog \<Rightarrow> InMemoryModelCatalog \<times> CatalogError option" where
  "Deregister name c =
     (if map_of c name = None then (c, Some (ModelNotFound name)) else (AList.delete name c, None))"

section \<open>Properties of the GPU estimate\<close>

lemma gpu_memories: "map gs_MemoryGB knownGPUs = map (Fin False) [192, 192, 141, 128, 96, 80, 80]"
  using fOfInt_exact [of 192] fOfInt_exact [of 141] fOfInt_exact [of 128] fOfInt_exact [of 96] fOfInt_exact [of 80]
  by (simp add: knownGPUs_def fLit_def fOfInt_def)

lemma gpu_memory_bounds:
  assumes "g \<in> set knownGPUs"
  obtains m where "gs_MemoryGB g = Fin False m" and "80 \<le> m" and "m \<le> 192"
proof -
  have "gs_MemoryGB g \<in> set (map gs_MemoryGB knownGPUs)" using assms by simp
  then show thesis using that by (auto simp: gpu_memories)
qed

text \<open>The number of GPUs a model needs decreases with the memory of one GPU, as
  long as the count stays in the range the conversion to an integer keeps.\<close>

lemma gpuCount_eq:
  assumes "t \<le> 2 ^ 53" and "1 \<le> m"
  shows "gpuCount (Fin False t) (Fin False m) = \<lceil>roundMag (t / m)\<rceil>"
proof -
  have "t / m \<le> 2 ^ 53"
  proof (cases "0 \<le> t")
    case True
    then have "t / m \<le> t / 1" using assms(2) by (intro divide_left_mono) auto
    then show ?thesis using assms(1) by simp
  next
    case False
    then have "t / m \<le> 0" using assms(2) by (simp add: divide_nonpos_pos)
    then show ?thesis by (rule order_trans) simp
  qed
  then have le: "roundMag (t / m) \<le> 2 ^ 53"
    using roundMag_mono [of "t / m" "2 ^ 53"] roundMag_of_int [of "2 ^ 53"] by simp
  then have "roundMag (t / m) < 2 ^ 1024" using pow53_lt by (rule order_le_less_trans)
  then have fin: "toFloat False (t / m) = Fin False (roundMag (t / m))" by (simp add: toFloat_def)
  have "\<lceil>roundMag (t / m)\<rceil> \<le> 2 ^ 53" using le by (simp add: ceiling_le_iff)
  moreover have "0 \<le> \<lceil>roundMag (t / m)\<rceil>"
    using roundMag_nonneg [of "t / m"] by (metis ceiling_mono ceiling_zero)
  ultimately have "in64 \<lceil>roundMag (t / m)\<rceil>" by (simp add: in64_def)
  then show ?thesis using assms(2) fin by (simp add: gpuCount_def)
qed

lemma gpuCount_antimono:
  assumes "0 \<le> t" and "t \<le> 2 ^ 53" and "1 \<le> m" and "m \<le> n"
  shows "gpuCount (Fin False t) (Fin False n) \<le> gpuCount (Fin False t) (Fin False m)"
proof -
  have "t / n \<le> t / m" using assms by (intro divide_left_mono) auto
  then show ?thesis using assms by (simp add: gpuCount_eq ceiling_mono roundMag_mono)
qed

definition fitting :: "float64 \<Rightarrow> string list" where
  "fitting mem = map gs_Name (filter (\<lambda>gpu. gpuCount mem (gs_MemoryGB gpu) \<le> 8) knownGPUs)"

lemma knownGPUs_hd: "knownGPUs = hd knownGPUs # tl knownGPUs" "gs_Name (hd knownGPUs) = ''B200''"
    "gs_MemoryGB (hd knownGPUs) = Fin False 192"
  using gpu_memories by (simp_all add: knownGPUs_def)

lemma fitting_first:
  assumes "0 \<le> t" and "t \<le> 2 ^ 53" and "fitting (Fin False t) \<noteq> []"
  shows "hd (fitting (Fin False t)) = ''B200''"
proof -
  obtain g where g: "g \<in> set knownGPUs" "gpuCount (Fin False t) (gs_MemoryGB g) \<le> 8"
    using assms(3) by (auto simp: fitting_def filter_empty_conv)
  obtain m where m: "gs_MemoryGB g = Fin False m" "80 \<le> m" "m \<le> 192"
    using gpu_memory_bounds [OF g(1)] .
  have "gpuCount (Fin False t) (gs_MemoryGB (hd knownGPUs)) \<le> 8"
    using gpuCount_antimono [OF assms(1,2), of m 192] g(2) m knownGPUs_hd(3) by simp
  then show ?thesis
    using knownGPUs_hd(2) by (subst fitting_def, subst knownGPUs_hd(1)) simp
qed

lemma selectGPUs_shape:
  assumes "selectGPUs mem = (supported, n, tp)"
  shows "1 \<le> n" and "tp = n" and "supported = (if fitting mem = [] then [''B200''] else fitting mem)"
  using assms by (auto simp: selectGPUs_def Let_def fitting_def knownGPUs_hd(2) split: if_splits)

lemma parseFloat_wf: "parseFloat s = Some f \<Longrightarrow> wfFloat f"
  by (auto simp: parseFloat_def parseUnsigned_def Let_def split: if_splits option.splits prod.splits float64.splits)

text \<open>Values that are not negative: the parameter count, the bytes per parameter
  and the memory they need.\<close>

definition nonNeg :: "float64 \<Rightarrow> bool" where
  "nonNeg f \<longleftrightarrow> f = FNaN \<or> f = FInf False \<or> (\<exists>r. f = Fin False r \<and> 0 \<le> r)"

lemma nonNeg_toFloat [simp]: "nonNeg (toFloat False m)"
  by (simp add: nonNeg_def toFloat_def Let_def)

lemma nonNeg_fMul: "nonNeg a \<Longrightarrow> nonNeg b \<Longrightarrow> nonNeg (fMul a b)"
  by (auto simp: nonNeg_def [of a] nonNeg_def [of b]) (auto simp: nonNeg_def)

lemma nonNeg_fDiv: "nonNeg a \<Longrightarrow> nonNeg b \<Longrightarrow> nonNeg (fDiv a b)"
  by (auto simp: nonNeg_def [of a] nonNeg_def [of b]) (auto simp: nonNeg_def)

lemma nonNeg_fLit [simp]: "0 \<le> r \<Longrightarrow> nonNeg (fLit r)"
  by (simp add: fLit_def)

lemma parseFloat_positive: "parseFloat t = Some v \<Longrightarrow> \<not> fLe v fZero \<Longrightarrow> nonNeg v"
  using parseFloat_wf [of t v] by (cases v) (auto simp: nonNeg_def fLe_def split: if_splits)

lemma parseParamSize_nonNeg: "parseParamSize s = Inr p \<Longrightarrow> nonNeg p"
  by (auto simp: parseParamSize_def Let_def parseFloat_positive nonNeg_fMul split: if_splits option.splits)

lemma bytesPerParam_nonNeg: "bytesPerParamForPrecision s = Inr b \<Longrightarrow> nonNeg b"
  by (auto simp: bytesPerParamForPrecision_def Let_def split: if_splits)

lemma totalMemory_nonNeg: "nonNeg p \<Longrightarrow> nonNeg b \<Longrightarrow> nonNeg (totalMemory p b)"
  by (simp add: totalMemory_def nonNeg_fMul nonNeg_fDiv)

lemma nonNeg_bounded:
  assumes "nonNeg f" and "fLe (fCeil f) (Fin False (2 ^ 53))"
  obtains t where "f = Fin False t" and "0 \<le> t" and "t \<le> 2 ^ 53"
proof -
  from assms obtain t where t: "f = Fin False t" "0 \<le> t"
    by (auto simp: nonNeg_def fLe_def)
  with assms(2) have "(of_int \<lceil>t\<rceil> :: rat) \<le> 2 ^ 53" by simp
  then have "t \<le> 2 ^ 53" using le_of_int_ceiling [of t] by (rule order_trans [rotated])
  with t show thesis by (rule that)
qed

lemma ComputeGPURequirements_cases:
  assumes "ComputeGPURequirements (Some c) = Inr req"
  obtains p b where "parseParamSize (mtc_ParamSize (mpc_Config c)) = Inr p"
    and "bytesPerParamForPrecision (mtc_Precision (mpc_Config c)) = Inr b"
    and "gr_MinGPUMemoryGB req = fCeil (totalMemory p b)"
    and "selectGPUs (totalMemory p b) = (gr_SupportedGPUTypes req, gr_RecommendedGPUs req, gr_TensorParallelism req)"
  using assms by (auto simp: ComputeGPURequirements_def Let_def split: sum.splits prod.splits)

text \<open>What the estimator gives an accepted configuration: a tensor parallelism equal
  to the recommended GPU count, and known GPU types. For a model of at most 2^53
  GB the first of them, the one the placement solver turns into a constraint, is
  always the B200.\<close>

lemma ComputeGPURequirements_shape:
  assumes "ComputeGPURequirements (Some c) = Inr req"
  shows "1 \<le> gr_RecommendedGPUs req \<and> gr_TensorParallelism req = gr_RecommendedGPUs req
    \<and> gr_SupportedGPUTypes req \<noteq> [] \<and> set (gr_SupportedGPUTypes req) \<subseteq> gs_Name ` set knownGPUs
    \<and> (fLe (gr_MinGPUMemoryGB req) (Fin False (2 ^ 53)) \<longrightarrow> hd (gr_SupportedGPUTypes req) = ''B200'')"
proof -
  obtain p b where pb: "parseParamSize (mtc_ParamSize (mpc_Config c)) = Inr p"
      "bytesPerParamForPrecision (mtc_Precision (mpc_Config c)) = Inr b"
    and req: "gr_MinGPUMemoryGB req = fCeil (totalMemory p b)"
      "selectGPUs (totalMemory p b) = (gr_SupportedGPUTypes req, gr_RecommendedGPUs req, gr_TensorParallelism req)"
    using assms by (rule ComputeGPURequirements_cases)
  note shape = selectGPUs_shape [OF req(2)]
  have "hd (gr_SupportedGPUTypes req) = ''B200''" if "fLe (gr_MinGPUMemoryGB req) (Fin False (2 ^ 53))"
  proof -
    have "nonNeg (totalMemory p b)"
      using pb by (intro totalMemory_nonNeg parseParamSize_nonNeg bytesPerParam_nonNeg)
    moreover have "fLe (fCeil (totalMemory p b)) (Fin False (2 ^ 53))" using that req(1) by simp
    ultimately obtain t where t: "totalMemory p b = Fin False t" "0 \<le> t" "t \<le> 2 ^ 53"
      by (rule nonNeg_bounded)
    show ?thesis using shape(3) fitting_first [OF t(2,3)] t(1) by (auto split: if_splits)
  qed
  moreover have "set (gr_SupportedGPUTypes req) \<subseteq> gs_Name ` set knownGPUs"
    using shape(3) knownGPUs_hd(2) by (subst shape(3)) (auto simp: fitting_def knownGPUs_def)
  ultimately show ?thesis using shape by auto
qed

definition llama70b :: ModelPackConfig where
  "llama70b = (placeholderConfig ''m'')\<lparr>mpc_Config := zeroModelTechnicalConfig\<lparr>mtc_ParamSize := '' 70B '', mtc_Precision := ''fp16''\<rparr>\<rparr>"

definition requirementsOf :: "ModelPackConfig \<Rightarrow> GPURequirements" where
  "requirementsOf c = projr (ComputeGPURequirements (Some c))"

lemma llama70b_accepted: "ComputeGPURequirements (Some llama70b) = Inr (requirementsOf llama70b)"
  by code_simp

lemma llama70b_fits: "fLe (gr_MinGPUMemoryGB (requirementsOf llama70b)) (Fin False (2 ^ 53))"
  by code_simp

lemma llama70b_B200:
  "ComputeGPURequirements (Some llama70b) = Inr (requirementsOf llama70b)
    \<and> hd (gr_SupportedGPUTypes (requirementsOf llama70b)) = ''B200''
    \<and> 1 \<le> gr_RecommendedGPUs (requirementsOf llama70b)"
  using ComputeGPURequirements_shape [OF llama70b_accepted] llama70b_accepted llama70b_fits by simp

section \<open>Properties of the reference parser\<close>

lemma splitReference_cases:
  assumes "splitReference s = (repo, r)"
  shows "s = repo @ CHR ''@'' # r \<and> CHR ''@'' \<notin> set r
    \<or> s = repo @ CHR '':'' # r \<and> CHR ''@'' \<notin> set s
    \<or> s = repo \<and> r = ''latest'' \<and> CHR ''@'' \<notin> set s"
proof (cases "0 \<le> lastIndexByte CHR ''@'' s")
  case True
  then obtain p q where "s = p @ CHR ''@'' # q" "CHR ''@'' \<notin> set q" by (rule lastIndexByte_split)
  with assms show ?thesis by (simp add: splitReference_def Let_def)
next
  case False
  then have no: "CHR ''@'' \<notin> set s" using lastIndexByte_split [of _ s] lastIndexByte_append split_list_last [of "CHR ''@''" s]
    by fastforce
  show ?thesis
  proof (cases "0 \<le> lastIndexByte CHR '':'' s")
    case True
    then obtain p q where "s = p @ CHR '':'' # q" "CHR '':'' \<notin> set q" by (rule lastIndexByte_split)
    with assms no show ?thesis by (auto simp: splitReference_def Let_def split: if_splits)
  next
    case False
    with assms no show ?thesis by (auto simp: splitReference_def Let_def)
  qed
qed

lemma splitReference_digest [simp]:
  "CHR ''@'' \<notin> set r \<Longrightarrow> splitReference (repo @ CHR ''@'' # r) = (repo, r)"
  by (simp add: splitReference_def Let_def)

definition canonicalRef :: "parsedOCIRef \<Rightarrow> string" where
  "canonicalRef p = po_host p @ ''/'' @ po_repository p @ ''@'' @ po_reference p"

lemma parseOCIRef_cases:
  assumes "parseOCIRef ref = Inr p"
  obtains rest where "ref = po_host p @ ''/'' @ rest" and "CHR ''/'' \<notin> set (po_host p)"
    and "validateOCIRef ref = None" and "splitReference rest = (po_repository p, po_reference p)"
    and "po_repository p \<noteq> []" and "po_reference p \<noteq> []"
proof -
  have v: "validateOCIRef ref = None" and sl: "CHR ''/'' \<in> set ref"
    using assms by (auto simp: parseOCIRef_def validateOCIRef_def Let_def split: option.splits if_splits)
  define h where "h = uptoByte CHR ''/'' ref"
  define rest where "rest = drop (length h + 1) ref"
  have ref: "ref = h @ ''/'' @ rest" using uptoByte_split [OF sl] by (simp add: h_def rest_def)
  obtain repo r where sr: "splitReference rest = (repo, r)" by fastforce
  have "parseOCIRef ref = (if repo = [] then Inl MissingRepository else if r = [] then Inl MissingTagOrDigest
      else Inr \<lparr>po_host = h, po_repository = repo, po_reference = r\<rparr>)"
    using v sr by (simp add: parseOCIRef_def h_def rest_def)
  with assms have p: "p = \<lparr>po_host = h, po_repository = repo, po_reference = r\<rparr>" "repo \<noteq> []" "r \<noteq> []"
    by (auto split: if_splits)
  have "CHR ''/'' \<notin> set h" by (simp add: h_def)
  then show thesis by (intro that [of rest]) (use p sr ref v in simp_all)
qed

lemma validateOCIRef_host:
  "CHR ''/'' \<notin> set h \<Longrightarrow> validateOCIRef (h @ ''/'' @ r) = validateOCIRef (h @ ''/'' @ r')"
  by (simp add: validateOCIRef_def)

text \<open>C29: A reference the parser accepts is the host, a slash, and one of
  \<open>repository@digest\<close>, \<open>repository:tag\<close> or a bare repository (tag \<open>latest\<close>),
  with neither part empty; and printing the parsed parts as
  \<open>host/repository@reference\<close> and parsing again gives the same parts.\<close>

theorem parseOCIRef_roundtrip:
  assumes "parseOCIRef ref = Inr p"
  shows "parseOCIRef (canonicalRef p) = Inr p \<and> po_repository p \<noteq> [] \<and> po_reference p \<noteq> []
    \<and> (ref = po_host p @ ''/'' @ po_repository p @ ''@'' @ po_reference p
       \<or> ref = po_host p @ ''/'' @ po_repository p @ '':'' @ po_reference p
       \<or> ref = po_host p @ ''/'' @ po_repository p \<and> po_reference p = ''latest'')"
proof -
  obtain rest where r: "ref = po_host p @ ''/'' @ rest" "CHR ''/'' \<notin> set (po_host p)"
      "validateOCIRef ref = None" "splitReference rest = (po_repository p, po_reference p)"
      "po_repository p \<noteq> []" "po_reference p \<noteq> []"
    using assms by (rule parseOCIRef_cases)
  note forms = splitReference_cases [OF r(4)]
  then have "CHR ''@'' \<notin> set (po_reference p)" by auto
  then have "splitReference (po_repository p @ ''@'' @ po_reference p) = (po_repository p, po_reference p)" by simp
  moreover have "validateOCIRef (canonicalRef p) = None"
    using validateOCIRef_host [OF r(2), of rest] r(1,3) unfolding canonicalRef_def by simp
  moreover have "canonicalRef p = po_host p @ CHR ''/'' # po_repository p @ ''@'' @ po_reference p"
    by (simp add: canonicalRef_def)
  ultimately have "parseOCIRef (canonicalRef p) = Inr p"
    using r(2,5,6) by (simp add: parseOCIRef_def Let_def)
  then show ?thesis using forms r(1,5,6) by auto
qed

theorem parseOCIRef_roundtrip_witness:
  "parseOCIRef ''quay.io:443/org/m:v1'' = Inr \<lparr>po_host = ''quay.io:443'', po_repository = ''org/m'', po_reference = ''v1''\<rparr>
    \<and> parseOCIRef ''quay.io:443/org/m@v1'' = Inr \<lparr>po_host = ''quay.io:443'', po_repository = ''org/m'', po_reference = ''v1''\<rparr>"
proof -
  let ?p = "\<lparr>po_host = ''quay.io:443'', po_repository = ''org/m'', po_reference = ''v1''\<rparr>"
  have "parseOCIRef ''quay.io:443/org/m:v1'' = Inr ?p" by code_simp
  moreover have "canonicalRef ?p = ''quay.io:443/org/m@v1''" by (simp add: canonicalRef_def)
  ultimately show ?thesis using parseOCIRef_roundtrip [of "''quay.io:443/org/m:v1''" ?p] by metis
qed

section \<open>The catalog\<close>

text \<open>Registering stores the resolved configuration, or the placeholder named by the
  reference, under its descriptor's name; deregistering that name removes it.
  Other names keep their entries.\<close>

lemma catalog_register:
  assumes "ociRef \<noteq> []" and "Register resolver ociRef c = (c', Inr config)"
  shows "config = registeredConfig resolver ociRef
    \<and> catalogGet (md_Name (mpc_Descriptor config)) c' = Inr config
    \<and> config \<in> set (catalogList c')
    \<and> (\<forall>name. name \<noteq> md_Name (mpc_Descriptor config) \<longrightarrow> catalogGet name c' = catalogGet name c)
    \<and> snd (Deregister (md_Name (mpc_Descriptor config)) c') = None
    \<and> (\<forall>name. catalogGet name (fst (Deregister (md_Name (mpc_Descriptor config)) c'))
         = (if name = md_Name (mpc_Descriptor config) then Inl (ModelNotFound name) else catalogGet name c))"
proof -
  let ?n = "md_Name (mpc_Descriptor config)"
  have reg: "config = registeredConfig resolver ociRef" and c': "c' = AList.update ?n config c"
    using assms by (auto simp: Register_def Let_def)
  have look: "map_of c' = (map_of c)(?n \<mapsto> config)" by (simp add: c' update_conv')
  then have "(?n, config) \<in> set c'" by (intro map_of_SomeD) simp
  then show ?thesis using look reg
    by (auto simp: catalogGet_def catalogList_def Deregister_def delete_conv' intro: image_eqI [where x = "(?n, config)"])
qed

end
