(* ===== verification/Go_Sort.thy ===== *)
theory Go_Sort
  imports Main "HOL-Library.Multiset"
begin

text \<open>
  Sorting a slice with a comparison function (\<open>sort.Slice\<close>, \<open>sort.Strings\<close>), and
  what the library documents of it: the result is a permutation, and it is
  ordered when the comparison is a strict weak order on the elements.
\<close>

text \<open>\<open>sort.Slice\<close>: insertion from the left as the library does it on slices of
  up to twelve elements, each element moving left past the elements it is less
  than. On longer slices the library may order elements of equal rank
  differently; no theorem depends on the order of equal elements.\<close>

definition insertLeft :: "('a \<Rightarrow> 'a \<Rightarrow> bool) \<Rightarrow> 'a \<Rightarrow> 'a list \<Rightarrow> 'a list" where
  "insertLeft lt x ys =
     (let moved = takeWhile (lt x) (rev ys)
      in take (length ys - length moved) ys @ x # rev moved)"

definition sortSlice :: "('a \<Rightarrow> 'a \<Rightarrow> bool) \<Rightarrow> 'a list \<Rightarrow> 'a list" where
  "sortSlice lt xs = fold (insertLeft lt) xs []"

lemma insertLeft_append:
  "insertLeft lt x ys = rev (dropWhile (lt x) (rev ys)) @ x # rev (takeWhile (lt x) (rev ys))"
proof -
  have "take (length ys - length (takeWhile (lt x) (rev ys))) ys
      = rev (drop (length (takeWhile (lt x) (rev ys))) (rev ys))"
    by (simp add: rev_drop)
  then show ?thesis by (simp add: insertLeft_def Let_def flip: dropWhile_eq_drop)
qed

lemma mset_insertLeft [simp]: "mset (insertLeft lt x ys) = add_mset x (mset ys)"
proof -
  have "mset ys = mset (takeWhile (lt x) (rev ys)) + mset (dropWhile (lt x) (rev ys))"
    by (metis mset_append mset_rev takeWhile_dropWhile_id)
  then show ?thesis by (simp add: insertLeft_append)
qed

lemma mset_fold_insertLeft: "mset (fold (insertLeft lt) xs ys) = mset xs + mset ys"
  by (induction xs arbitrary: ys) simp_all

lemma mset_sortSlice [simp]: "mset (sortSlice lt xs) = mset xs"
  by (simp add: sortSlice_def mset_fold_insertLeft)

lemma set_sortSlice [simp]: "set (sortSlice lt xs) = set xs"
  by (metis mset_sortSlice set_mset_mset)

lemma length_sortSlice [simp]: "length (sortSlice lt xs) = length xs"
  by (metis mset_sortSlice size_mset)

lemma sortSlice_eq_Nil [simp]: "sortSlice lt xs = [] \<longleftrightarrow> xs = []"
  by (metis length_0_conv length_sortSlice)

text \<open>A strict weak order on a set, given by the relation ``not after''.\<close>

definition weakOrder :: "('a \<Rightarrow> 'a \<Rightarrow> bool) \<Rightarrow> 'a set \<Rightarrow> bool" where
  "weakOrder lt A \<longleftrightarrow> asymp_on A lt \<and> transp_on A (\<lambda>x y. \<not> lt y x)"

lemma weakOrder_asym: "weakOrder lt A \<Longrightarrow> x \<in> A \<Longrightarrow> y \<in> A \<Longrightarrow> lt x y \<Longrightarrow> \<not> lt y x"
  unfolding weakOrder_def by (elim conjE, erule (3) asymp_onD)

lemma weakOrder_trans:
  "weakOrder lt A \<Longrightarrow> x \<in> A \<Longrightarrow> y \<in> A \<Longrightarrow> z \<in> A \<Longrightarrow> \<not> lt y x \<Longrightarrow> \<not> lt z y \<Longrightarrow> \<not> lt z x"
  unfolding weakOrder_def by (elim conjE, erule (5) transp_onD)

lemma weakOrder_subset: "weakOrder lt A \<Longrightarrow> B \<subseteq> A \<Longrightarrow> weakOrder lt B"
  unfolding weakOrder_def by (blast intro: asymp_on_subset transp_on_subset)

lemma insertLeft_sorted:
  assumes wo: "weakOrder lt (insert x (set ys))" and srt: "sorted_wrt (\<lambda>a b. \<not> lt b a) ys"
  shows "sorted_wrt (\<lambda>a b. \<not> lt b a) (insertLeft lt x ys)"
proof -
  define later where "later = takeWhile (lt x) (rev ys)"
  define early where "early = dropWhile (lt x) (rev ys)"
  have ys: "ys = rev early @ rev later"
    by (metis later_def early_def rev_append rev_rev_ident takeWhile_dropWhile_id)
  have later: "\<forall>b\<in>set later. lt x b" by (auto simp: later_def dest: set_takeWhileD)
  have hd: "early = [] \<or> \<not> lt x (hd early)" using hd_dropWhile [of "lt x" "rev ys"] by (auto simp: early_def)
  have early: "\<not> lt x a" if "a \<in> set early" for a
  proof -
    from that obtain f fs where f: "early = f # fs" by (cases early) auto
    have "\<not> lt x f" using hd f by simp
    moreover have "a = f \<or> \<not> lt f a"
      using srt [unfolded ys f] that [unfolded f] by (auto simp: sorted_wrt_append)
    moreover have "a \<in> set ys" "f \<in> set ys" using that f arg_cong [OF ys, of set] by auto
    ultimately show ?thesis using weakOrder_trans [OF wo, of a f x] by auto
  qed
  have asym: "\<not> lt b x" if "b \<in> set later" for b
  proof -
    have "b \<in> set ys" using that by (subst ys) simp
    then show ?thesis using weakOrder_asym [OF wo, of x b] later that by simp
  qed
  have "insertLeft lt x ys = rev early @ x # rev later" by (simp add: insertLeft_append later_def early_def)
  moreover have "sorted_wrt (\<lambda>a b. \<not> lt b a) (rev early @ rev later)" using srt ys by simp
  ultimately show ?thesis using early asym by (simp add: sorted_wrt_append)
qed

lemma fold_insertLeft_sorted:
  "weakOrder lt (set xs \<union> set ys) \<Longrightarrow> sorted_wrt (\<lambda>a b. \<not> lt b a) ys \<Longrightarrow>
    sorted_wrt (\<lambda>a b. \<not> lt b a) (fold (insertLeft lt) xs ys)"
proof (induction xs arbitrary: ys)
  case (Cons x xs)
  have "set (insertLeft lt x ys) = insert x (set ys)"
    by (metis mset_insertLeft set_mset_add_mset_insert set_mset_mset)
  moreover have "weakOrder lt (insert x (set ys))"
    by (rule weakOrder_subset [OF Cons.prems(1)]) auto
  ultimately show ?case
    using Cons.IH [of "insertLeft lt x ys"] Cons.prems insertLeft_sorted [of lt x ys] by simp
qed simp

lemma sortSlice_sorted:
  "weakOrder lt (set xs) \<Longrightarrow> sorted_wrt (\<lambda>a b. \<not> lt b a) (sortSlice lt xs)"
  by (simp add: sortSlice_def fold_insertLeft_sorted)

end
