(* ===== verification/Placement.thy ===== *)
theory Placement
  imports Fleet_API Modelpack Go_Sort
begin

text \<open>
  Placement of a pool on clusters (\<open>pkg/placement\<close>): the constraint solver
  (\<open>solver/constraint_solver.go\<close>), its wrapper that adds the constraint derived
  from the model package, and the cluster scorers
  (\<open>scorer/cluster_scorer.go\<close>). An external scorer and the model resolver are
  parameters.
\<close>

section \<open>Data (\<open>constraint_solver.go\<close>)\<close>

record GPUCapacity =
  gc_Available :: int64
  gc_Total :: int64
  gc_Types :: "string list"

record ClusterInfo =
  ci_ID :: string
  ci_Name :: string
  ci_Region :: string
  ci_Labels :: "(string, string) gomap"
  ci_Status :: string
  ci_GPUCapacity :: GPUCapacity
  ci_Utilization :: float64

record PlacementDecision =
  pd_ClusterID :: string
  pd_Replicas :: int64
  pd_GPUType :: string
  pd_Score :: float64
  pd_Reasons :: "string list"

datatype 'e SolveError =
    NoClusterSatisfiesConstraints
  | NoClusterHasCapacity
  | ScorerError string 'e

type_synonym 'e ExternalScorer =
  "ClusterInfo \<Rightarrow> FleetInferencePoolSpec \<Rightarrow> PlacementPolicySpec \<Rightarrow> ('e, float64) res"

type_synonym 'e ConstraintSolver =
  "FleetInferencePoolSpec \<Rightarrow> ClusterInfo list \<Rightarrow> PlacementPolicySpec \<Rightarrow> ('e SolveError, PlacementDecision list) res"

section \<open>Filters\<close>

definition filterRegulatory :: "ClusterInfo list \<Rightarrow> string \<Rightarrow> ClusterInfo list" where
  "filterRegulatory clusters rule =
     (let parts = splitN2 CHR ''='' rule in
      if length parts \<noteq> 2 then clusters
      else filter (\<lambda>c. mapGet (ci_Labels c) (parts ! 0) = parts ! 1) clusters)"

definition parseCPUFeatureConstraint :: "string \<Rightarrow> string option" where
  "parseCPUFeatureConstraint rule0 =
     (let rule = trimSpace rule0 in
      if \<not> hasPrefix rule ''cpu in ['' \<or> \<not> hasSuffix rule '']'' then None
      else let value = trimCutset [CHR 0x27, CHR 0x22]
                         (trimSpace (trimSuffix (trimPrefix rule ''cpu in ['') '']''))
           in if value = [] \<or> CHR '','' \<in> set value then None else Some value)"

definition cpuFeatures :: "ClusterInfo \<Rightarrow> string list" where
  "cpuFeatures c =
     (let configured = mapGet (ci_Labels c) ''fleet.llm-d.ai/cpu-features'';
          configured' = (if configured = [] then mapGet (ci_Labels c) ''cpu-features'' else configured)
      in map trimSpace (splitByte CHR '','' configured'))"

definition filterHardware :: "ClusterInfo list \<Rightarrow> string \<Rightarrow> ClusterInfo list" where
  "filterHardware clusters rule =
     (case parseCPUFeatureConstraint rule of
        Some feature \<Rightarrow> filter (\<lambda>c. feature \<in> set (cpuFeatures c)) clusters
      | None \<Rightarrow>
          let fields = goFields rule in
          if length fields = 3 \<and> fields ! 0 = ''nvidia.com/gpu'' \<and> fields ! 1 = ''>='' then
            (case atoi (fields ! 2) of
               None \<Rightarrow> []
             | Some minimum \<Rightarrow>
                 if minimum < 0 then []
                 else filter (\<lambda>c. minimum \<le> gc_Available (ci_GPUCapacity c)) clusters)
          else
            let parts = splitN2 CHR ''='' rule in
            if length parts \<noteq> 2 then []
            else if trimSpace (parts ! 0) \<noteq> ''gpu-type'' then []
            else filter (\<lambda>c. trimSpace (parts ! 1) \<in> set (gc_Types (ci_GPUCapacity c))) clusters)"

text \<open>One round of the loop over the constraints: the clusters still eligible and
  the GPU type requested so far.\<close>

definition applyConstraint ::
  "PlacementConstraint \<Rightarrow> ClusterInfo list \<times> string \<Rightarrow> ClusterInfo list \<times> string" where
  "applyConstraint constraint st =
     (let (eligible, requestedGPUType) = st in
      if plc_Type constraint = ''regulatory'' then
        (filterRegulatory eligible (plc_Rule constraint), requestedGPUType)
      else if plc_Type constraint = ''hardware'' then
        (filterHardware eligible (plc_Rule constraint),
         let parts = splitN2 CHR ''='' (plc_Rule constraint) in
         if length parts = 2 \<and> hasPrefix (plc_Rule constraint) ''gpu-type='' then parts ! 1
         else requestedGPUType)
      else st)"

definition applyConstraints ::
  "PlacementConstraint list \<Rightarrow> ClusterInfo list \<Rightarrow> ClusterInfo list \<times> string" where
  "applyConstraints constraints clusters = fold applyConstraint constraints (clusters, [])"

section \<open>Scores and decisions\<close>

definition scoreCluster :: "ClusterInfo \<Rightarrow> AffinityRule list \<Rightarrow> float64" where
  "scoreCluster cluster affinity =
     (let idle = fSub fOne (ci_Utilization cluster) in
      if affinity = [] then idle
      else let (score, totalWeight) =
             fold (\<lambda>rule (score, totalWeight).
                     if afr_Type rule = ''cost-optimization''
                     then (fAdd score (fMul (afr_Weight rule) idle), fAdd totalWeight (afr_Weight rule))
                     else (score, totalWeight)) affinity (fZero, fZero)
           in if fLt fZero totalWeight then fDiv score totalWeight else idle)"

definition clusterScore ::
  "'e ExternalScorer option \<Rightarrow> FleetInferencePoolSpec \<Rightarrow> PlacementPolicySpec \<Rightarrow> ClusterInfo \<Rightarrow> ('e SolveError, float64) res" where
  "clusterScore scorer pool policy cluster =
     (case scorer of
        None \<Rightarrow> Inr (scoreCluster cluster (pps_Affinity policy))
      | Some score \<Rightarrow>
          (case score cluster pool policy of
             Inl err \<Rightarrow> Inl (ScorerError (ci_ID cluster) err)
           | Inr s \<Rightarrow> Inr s))"

definition decisionFor ::
  "FleetInferencePoolSpec \<Rightarrow> string \<Rightarrow> ClusterInfo \<Rightarrow> float64 \<Rightarrow> PlacementDecision" where
  "decisionFor pool requestedGPUType cluster score =
     (let cap = ci_GPUCapacity cluster;
          gpuType = (if requestedGPUType = [] \<and> gc_Types cap \<noteq> [] then hd (gc_Types cap) else requestedGPUType);
          minClusters = plref_MinClusters (fips_Placement pool);
          replicas = (if requestedGPUType \<noteq> [] \<and> 0 < minClusters
                      then max 1 (goDiv (gc_Available cap) (max minClusters 1)) else 1);
          base = (if requestedGPUType \<noteq> []
                  then [''gpu-type='' @ gpuType @ '' available='' @ showInt (gc_Available cap)]
                  else [''passed constraints'']);
          reasons = (if fLt fZero score then base @ [''affinity-score='' @ fmt2f score] else base)
      in \<lparr>pd_ClusterID = ci_ID cluster, pd_Replicas = replicas, pd_GPUType = gpuType,
          pd_Score = score, pd_Reasons = reasons\<rparr>)"

fun buildDecisions ::
  "(ClusterInfo \<Rightarrow> ('e, float64) res) \<Rightarrow> (ClusterInfo \<Rightarrow> float64 \<Rightarrow> PlacementDecision) \<Rightarrow> ClusterInfo list
     \<Rightarrow> ('e, PlacementDecision list) res" where
  "buildDecisions score mk [] = Inr []"
| "buildDecisions score mk (c # cs) =
     (case score c of
        Inl e \<Rightarrow> Inl e
      | Inr s \<Rightarrow>
          (case buildDecisions score mk cs of Inl e \<Rightarrow> Inl e | Inr ds \<Rightarrow> Inr (mk c s # ds)))"

section \<open>Solve\<close>

definition limitClusters :: "int64 \<Rightarrow> 'a list \<Rightarrow> 'a list" where
  "limitClusters maxClusters ds =
     (if 0 < maxClusters \<and> maxClusters < int (length ds) then take (nat maxClusters) ds else ds)"

definition Solve :: "'e ExternalScorer option \<Rightarrow> 'e ConstraintSolver" where
  "Solve scorer pool clusters policy =
     (let (eligible, requestedGPUType) = applyConstraints (pps_Constraints policy) clusters in
      if eligible = [] then Inl NoClusterSatisfiesConstraints
      else
        let eligible' = (if requestedGPUType \<noteq> []
                         then filter (\<lambda>c. 0 < gc_Available (ci_GPUCapacity c)) eligible else eligible)
        in if eligible' = [] then Inl NoClusterHasCapacity
           else case buildDecisions (clusterScore scorer pool policy) (decisionFor pool requestedGPUType) eligible' of
                  Inl e \<Rightarrow> Inl e
                | Inr decisions \<Rightarrow>
                    let sorted = sortSlice (\<lambda>a b. fLt (pd_Score b) (pd_Score a)) decisions
                    in Inr (limitClusters (plref_MaxClusters (fips_Placement pool)) sorted))"

subsection \<open>The wrapper for model packages\<close>

definition hasHardwareConstraint :: "PlacementPolicySpec \<Rightarrow> bool" where
  "hasHardwareConstraint policy = list_ex (\<lambda>c. plc_Type c = ''hardware'') (pps_Constraints policy)"

definition enrichedPolicy ::
  "'r ModelResolver option \<Rightarrow> FleetInferencePoolSpec \<Rightarrow> PlacementPolicySpec \<Rightarrow> PlacementPolicySpec" where
  "enrichedPolicy resolver pool policy =
     (case resolver of
        None \<Rightarrow> policy
      | Some resolve \<Rightarrow>
          if mspec_OciRef (fips_Model pool) = [] then policy
          else case resolve (mspec_OciRef (fips_Model pool)) of
            Inl _ \<Rightarrow> policy
          | Inr None \<Rightarrow> policy
          | Inr (Some config) \<Rightarrow>
              (case ComputeGPURequirements (Some config) of
                 Inl _ \<Rightarrow> policy
               | Inr gpuReqs \<Rightarrow>
                   if \<not> hasHardwareConstraint policy \<and> gr_SupportedGPUTypes gpuReqs \<noteq> []
                   then policy\<lparr>pps_Constraints := pps_Constraints policy @
                     [\<lparr>plc_Type = ''hardware'', plc_Rule = ''gpu-type='' @ hd (gr_SupportedGPUTypes gpuReqs)\<rparr>]\<rparr>
                   else policy))"

definition ModelPackAwareSolve :: "'e ConstraintSolver \<Rightarrow> 'r ModelResolver option \<Rightarrow> 'e ConstraintSolver" where
  "ModelPackAwareSolve inner resolver pool clusters policy =
     inner pool clusters (enrichedPolicy resolver pool policy)"

section \<open>Scorers (\<open>cluster_scorer.go\<close>)\<close>

record 'e WeightedScorer =
  ws_Scorer :: "'e ExternalScorer"
  ws_Weight :: float64

fun weightedSums ::
  "('e ExternalScorer \<Rightarrow> ('e, float64) res) \<Rightarrow> 'e WeightedScorer list \<Rightarrow> float64 \<Rightarrow> float64
     \<Rightarrow> ('e, float64 \<times> float64) res" where
  "weightedSums run [] weightedSum totalWeight = Inr (weightedSum, totalWeight)"
| "weightedSums run (ws # rest) weightedSum totalWeight =
     (case run (ws_Scorer ws) of
        Inl e \<Rightarrow> Inl e
      | Inr score \<Rightarrow>
          weightedSums run rest (fAdd weightedSum (fMul (ws_Weight ws) score)) (fAdd totalWeight (ws_Weight ws)))"

definition CompositeScore :: "'e WeightedScorer list \<Rightarrow> 'e ExternalScorer" where
  "CompositeScore scorers cluster pool policy =
     (case weightedSums (\<lambda>score. score cluster pool policy) scorers fZero fZero of
        Inl e \<Rightarrow> Inl e
      | Inr (weightedSum, totalWeight) \<Rightarrow>
          if fEq totalWeight fZero then Inr fZero
          else let normalized = fDiv weightedSum totalWeight
               in Inr (fDiv (fRound (fMul normalized (fLit 10))) (fLit 10)))"

definition CostScore :: "'e ExternalScorer" where
  "CostScore cluster pool policy =
     (let cap = ci_GPUCapacity cluster in
      if gc_Total cap = 0 then Inr fZero
      else let availRatio = fDiv (fOfInt (gc_Available cap)) (fOfInt (gc_Total cap))
           in Inr (fAdd (fAdd (fMul (fLit (1 / 2)) (fSub fOne (ci_Utilization cluster)))
                          (fMul (fLit (4 / 10)) availRatio)) (fLit (1 / 10))))"

definition CapacityScore :: "'e ExternalScorer" where
  "CapacityScore cluster pool policy =
     (let cap = ci_GPUCapacity cluster in
      if gc_Total cap = 0 then Inr fZero
      else Inr (fDiv (fOfInt (gc_Available cap)) (fOfInt (gc_Total cap))))"

fun localityOf :: "ClusterInfo \<Rightarrow> AffinityRule list \<Rightarrow> float64" where
  "localityOf cluster [] = fLit (1 / 2)"
| "localityOf cluster (aff # rest) =
     (let preferred = mapGet (ci_Labels cluster) ''preferred_region'' in
      if afr_Type aff = ''dataLocality'' then
        if preferred \<noteq> [] \<and> ci_Region cluster = preferred then fOne
        else if preferred \<noteq> [] then fLit (3 / 10)
        else localityOf cluster rest
      else localityOf cluster rest)"

definition LocalityScore :: "'e ExternalScorer" where
  "LocalityScore cluster pool policy = Inr (localityOf cluster (pps_Affinity policy))"

definition KVCacheAffinityScore :: "'e ExternalScorer" where
  "KVCacheAffinityScore cluster pool policy =
     (case map_of (ci_Labels cluster) ''kv_cache_hit_rate'' of
        None \<Rightarrow> Inr (fLit (1 / 2))
      | Some rate \<Rightarrow>
          (case parseFloat rate of
             None \<Rightarrow> Inr (fLit (1 / 2))
           | Some parsed \<Rightarrow>
               if fLe fZero parsed \<and> fLe parsed fOne then Inr parsed else Inr (fLit (1 / 2))))"

section \<open>Eligible clusters\<close>

text \<open>Whether a constraint lets one cluster pass, and the clusters a policy leaves.\<close>

definition admits :: "PlacementConstraint \<Rightarrow> ClusterInfo \<Rightarrow> bool" where
  "admits k c \<longleftrightarrow> fst (applyConstraint k ([c], [])) \<noteq> []"

definition requestedType :: "PlacementConstraint list \<Rightarrow> string" where
  "requestedType ks = snd (applyConstraints ks [])"

definition eligibleFor :: "PlacementPolicySpec \<Rightarrow> ClusterInfo list \<Rightarrow> ClusterInfo list" where
  "eligibleFor policy clusters =
     filter (\<lambda>c. (\<forall>k\<in>set (pps_Constraints policy). admits k c)
       \<and> (requestedType (pps_Constraints policy) \<noteq> [] \<longrightarrow> 0 < gc_Available (ci_GPUCapacity c))) clusters"

lemma filterRegulatory_filter: "\<exists>P. \<forall>cs. filterRegulatory cs rule = filter P cs"
  by (rule exI [of _ "\<lambda>c. length (splitN2 CHR ''='' rule) = 2 \<longrightarrow>
        mapGet (ci_Labels c) (splitN2 CHR ''='' rule ! 0) = splitN2 CHR ''='' rule ! 1"])
    (simp add: filterRegulatory_def Let_def)

lemma filterHardware_filter: "\<exists>P. \<forall>cs. filterHardware cs rule = filter P cs"
proof (cases "parseCPUFeatureConstraint rule")
  case (Some feature)
  then show ?thesis by (intro exI [of _ "\<lambda>c. feature \<in> set (cpuFeatures c)"]) (simp add: filterHardware_def)
next
  case None
  define gpus where "gpus \<longleftrightarrow> length (goFields rule) = 3 \<and> goFields rule ! 0 = ''nvidia.com/gpu'' \<and> goFields rule ! 1 = ''>=''"
  define typed where "typed \<longleftrightarrow> length (splitN2 CHR ''='' rule) = 2 \<and> trimSpace (splitN2 CHR ''='' rule ! 0) = ''gpu-type''"
  have "filterHardware cs rule =
     (if gpus then
        (case atoi (goFields rule ! 2) of
           None \<Rightarrow> []
         | Some minimum \<Rightarrow>
             if minimum < 0 then [] else filter (\<lambda>c. minimum \<le> gc_Available (ci_GPUCapacity c)) cs)
      else if typed
      then filter (\<lambda>c. trimSpace (splitN2 CHR ''='' rule ! 1) \<in> set (gc_Types (ci_GPUCapacity c))) cs
      else [])" for cs
    unfolding filterHardware_def None option.case Let_def gpus_def typed_def by argo
  then show ?thesis
    by (intro exI [of _ "\<lambda>c. if gpus then (case atoi (goFields rule ! 2) of None \<Rightarrow> False
          | Some minimum \<Rightarrow> \<not> minimum < 0 \<and> minimum \<le> gc_Available (ci_GPUCapacity c))
        else typed \<and> trimSpace (splitN2 CHR ''='' rule ! 1) \<in> set (gc_Types (ci_GPUCapacity c))"])
      (simp split: option.split)
qed

lemma filter_each:
  assumes "\<exists>P. \<forall>cs. f cs = filter P cs"
  shows "f cs = filter (\<lambda>c. f [c] \<noteq> []) cs"
proof -
  obtain P where "f = filter P" using assms by (auto simp: fun_eq_iff)
  then show ?thesis by simp
qed

lemmas filterRegulatory_each = filter_each [OF filterRegulatory_filter]
  and filterHardware_each = filter_each [OF filterHardware_filter]

lemma applyConstraint_eq:
  "applyConstraint k (cs, g) = (filter (admits k) cs, snd (applyConstraint k ([], g)))"
proof -
  have "admits k = (\<lambda>c. filterRegulatory [c] (plc_Rule k) \<noteq> [])" if "plc_Type k = ''regulatory''"
    using that by (simp add: fun_eq_iff admits_def applyConstraint_def)
  moreover have "admits k = (\<lambda>c. filterHardware [c] (plc_Rule k) \<noteq> [])" if "plc_Type k = ''hardware''"
    using that by (simp add: fun_eq_iff admits_def applyConstraint_def)
  moreover have "admits k = (\<lambda>c. True)" if "plc_Type k \<noteq> ''regulatory''" "plc_Type k \<noteq> ''hardware''"
    using that by (simp add: fun_eq_iff admits_def applyConstraint_def)
  ultimately show ?thesis
    using filterRegulatory_each [where rule = "plc_Rule k" and cs = cs]
      filterHardware_each [where rule = "plc_Rule k" and cs = cs]
    by (simp add: applyConstraint_def)
qed

lemma fold_applyConstraint:
  "fold applyConstraint ks (cs, g) =
    (filter (\<lambda>c. \<forall>k\<in>set ks. admits k c) cs, snd (fold applyConstraint ks ([], g)))"
proof (induction ks arbitrary: cs g)
  case (Cons k ks)
  define g' where "g' = snd (applyConstraint k ([], g))"
  have "applyConstraint k (cs, g) = (filter (admits k) cs, g')" "applyConstraint k ([], g) = ([], g')"
    using applyConstraint_eq [of k cs g] applyConstraint_eq [of k "[]" g] by (simp_all add: g'_def prod_eq_iff)
  then show ?case using Cons.IH [of "filter (admits k) cs" g'] by (simp add: conj_commute)
qed simp

lemma applyConstraints_eq:
  "applyConstraints ks cs = (filter (\<lambda>c. \<forall>k\<in>set ks. admits k c) cs, requestedType ks)"
  using fold_applyConstraint [of ks cs "[]"] by (simp add: applyConstraints_def requestedType_def)

lemma buildDecisions_Inr:
  "buildDecisions score mk cs = Inr ds \<Longrightarrow> list_all2 (\<lambda>c d. \<exists>s. score c = Inr s \<and> d = mk c s) cs ds"
  by (induction cs arbitrary: ds) (auto split: sum.splits)

lemma buildDecisions_Inl:
  "buildDecisions score mk cs = Inl e \<Longrightarrow> \<exists>c\<in>set cs. score c = Inl e"
  by (induction cs) (auto split: sum.splits)

lemma Solve_cases:
  "Solve scorer pool clusters policy =
     (if filter (\<lambda>c. \<forall>k\<in>set (pps_Constraints policy). admits k c) clusters = [] then Inl NoClusterSatisfiesConstraints
      else if eligibleFor policy clusters = [] then Inl NoClusterHasCapacity
      else case buildDecisions (clusterScore scorer pool policy)
             (decisionFor pool (requestedType (pps_Constraints policy))) (eligibleFor policy clusters) of
          Inl e \<Rightarrow> Inl e
        | Inr ds \<Rightarrow> Inr (limitClusters (plref_MaxClusters (fips_Placement pool))
                         (sortSlice (\<lambda>a b. fLt (pd_Score b) (pd_Score a)) ds)))"
proof -
  have "(if requestedType (pps_Constraints policy) \<noteq> [] then
      filter (\<lambda>c. 0 < gc_Available (ci_GPUCapacity c)) (filter (\<lambda>c. \<forall>k\<in>set (pps_Constraints policy). admits k c) clusters)
      else filter (\<lambda>c. \<forall>k\<in>set (pps_Constraints policy). admits k c) clusters) = eligibleFor policy clusters"
    by (auto simp: eligibleFor_def intro: filter_cong)
  then show ?thesis unfolding Solve_def applyConstraints_eq Let_def prod.case by (simp only:)
qed

lemma list_all2_right: "list_all2 P xs ys \<Longrightarrow> y \<in> set ys \<Longrightarrow> \<exists>x\<in>set xs. P x y"
  by (induction rule: list_all2_induct) auto

lemma list_all2_left: "list_all2 P xs ys \<Longrightarrow> x \<in> set xs \<Longrightarrow> \<exists>y\<in>set ys. P x y"
  by (induction rule: list_all2_induct) auto

lemma limitClusters_prefix:
  obtains rest where "xs = limitClusters n xs @ rest" and "rest = [] \<or> int (length (limitClusters n xs)) = n"
proof (cases "0 < n \<and> n < int (length xs)")
  case True
  then have "xs = limitClusters n xs @ drop (nat n) xs" "int (length (limitClusters n xs)) = n"
    by (auto simp: limitClusters_def)
  then show thesis by (rule that [OF _ disjI2])
qed (auto simp: limitClusters_def intro: that [of "[]"])

lemma Solve_Inr:
  assumes "Solve scorer pool clusters policy = Inr ds"
  obtains full rest where "list_all2 (\<lambda>c d. \<exists>s. clusterScore scorer pool policy c = Inr s
        \<and> d = decisionFor pool (requestedType (pps_Constraints policy)) c s) (eligibleFor policy clusters) full"
    and "sortSlice (\<lambda>a b. fLt (pd_Score b) (pd_Score a)) full = ds @ rest"
    and "rest = [] \<or> int (length ds) = plref_MaxClusters (fips_Placement pool)"
    and "0 < plref_MaxClusters (fips_Placement pool) \<Longrightarrow> int (length ds) \<le> plref_MaxClusters (fips_Placement pool)"
    and "ds \<noteq> []"
proof -
  obtain full where full: "buildDecisions (clusterScore scorer pool policy)
        (decisionFor pool (requestedType (pps_Constraints policy))) (eligibleFor policy clusters) = Inr full"
    and ne: "eligibleFor policy clusters \<noteq> []"
    and ds: "ds = limitClusters (plref_MaxClusters (fips_Placement pool)) (sortSlice (\<lambda>a b. fLt (pd_Score b) (pd_Score a)) full)"
    using assms by (auto simp: Solve_cases split: if_splits sum.splits)
  note rel = buildDecisions_Inr [OF full]
  have ne': "full \<noteq> []" using rel ne by auto
  obtain rest where rest: "sortSlice (\<lambda>a b. fLt (pd_Score b) (pd_Score a)) full = ds @ rest"
      "rest = [] \<or> int (length ds) = plref_MaxClusters (fips_Placement pool)"
    unfolding ds by (rule limitClusters_prefix)
  have le: "0 < plref_MaxClusters (fips_Placement pool) \<Longrightarrow> int (length ds) \<le> plref_MaxClusters (fips_Placement pool)"
    by (auto simp: ds limitClusters_def)
  have "ds \<noteq> []" using ne' by (auto simp: ds limitClusters_def)
  with le show thesis by (rule that [OF rel rest])
qed

section \<open>The contract of a solver\<close>

text \<open>What the callers of the \<open>ConstraintSolver\<close> interface rely on.\<close>

locale constraint_solver =
  fixes solve :: "'e ConstraintSolver"
  assumes solve_admitted: "solve pool clusters policy = Inr ds \<Longrightarrow> d \<in> set ds \<Longrightarrow>
      \<exists>c\<in>set clusters. pd_ClusterID d = ci_ID c \<and> 1 \<le> pd_Replicas d
        \<and> (\<forall>k\<in>set (pps_Constraints policy). admits k c)"
    and solve_bounded: "solve pool clusters policy = Inr ds \<Longrightarrow>
      ds \<noteq> [] \<and> (0 < plref_MaxClusters (fips_Placement pool) \<longrightarrow> int (length ds) \<le> plref_MaxClusters (fips_Placement pool))"
begin

text \<open>The wrapper keeps the contract, since the policy it passes on has every
  constraint of the policy it was given.\<close>

lemma aware_admitted:
  assumes "ModelPackAwareSolve solve resolver pool clusters policy = Inr ds" and "d \<in> set ds"
  shows "\<exists>c\<in>set clusters. pd_ClusterID d = ci_ID c \<and> 1 \<le> pd_Replicas d
        \<and> (\<forall>k\<in>set (pps_Constraints (enrichedPolicy resolver pool policy)). admits k c)"
  using solve_admitted [OF assms [unfolded ModelPackAwareSolve_def]] .

lemma aware_bounded:
  assumes "ModelPackAwareSolve solve resolver pool clusters policy = Inr ds"
  shows "ds \<noteq> [] \<and> (0 < plref_MaxClusters (fips_Placement pool) \<longrightarrow> int (length ds) \<le> plref_MaxClusters (fips_Placement pool))"
  using solve_bounded [OF assms [unfolded ModelPackAwareSolve_def]] .

end

lemma enrichedPolicy_constraints:
  "set (pps_Constraints policy) \<subseteq> set (pps_Constraints (enrichedPolicy resolver pool policy))"
  by (auto simp: enrichedPolicy_def split: option.splits sum.splits)

lemma decisionFor_replicas: "1 \<le> pd_Replicas (decisionFor pool g c s)" "pd_ClusterID (decisionFor pool g c s) = ci_ID c"
    "pd_Score (decisionFor pool g c s) = s"
  by (simp_all add: decisionFor_def Let_def)

lemma Solve_decision:
  assumes "Solve scorer pool clusters policy = Inr ds" and "d \<in> set ds"
  shows "\<exists>c\<in>set (eligibleFor policy clusters). \<exists>s. clusterScore scorer pool policy c = Inr s
    \<and> d = decisionFor pool (requestedType (pps_Constraints policy)) c s"
proof -
  obtain full rest where full: "list_all2 (\<lambda>c d. \<exists>s. clusterScore scorer pool policy c = Inr s
        \<and> d = decisionFor pool (requestedType (pps_Constraints policy)) c s) (eligibleFor policy clusters) full"
    and ds: "sortSlice (\<lambda>a b. fLt (pd_Score b) (pd_Score a)) full = ds @ rest"
    using assms(1) by (rule Solve_Inr)
  have "d \<in> set full" using assms(2) arg_cong [OF ds, of set] by auto
  then show ?thesis by (rule list_all2_right [OF full])
qed

interpretation default_solver: constraint_solver "Solve scorer" for scorer
proof
  fix pool clusters policy ds d
  assume "Solve scorer pool clusters policy = Inr ds" and "d \<in> set ds"
  from Solve_decision [OF this]
  show "\<exists>c\<in>set clusters. pd_ClusterID d = ci_ID c \<and> 1 \<le> pd_Replicas d
        \<and> (\<forall>k\<in>set (pps_Constraints policy). admits k c)"
    by (auto simp: eligibleFor_def decisionFor_replicas)
qed (erule Solve_Inr, blast)

interpretation aware_solver: constraint_solver "ModelPackAwareSolve (Solve scorer) resolver" for scorer resolver
proof
  fix pool clusters policy ds d
  assume "ModelPackAwareSolve (Solve scorer) resolver pool clusters policy = Inr ds" and "d \<in> set ds"
  from default_solver.aware_admitted [OF this] enrichedPolicy_constraints
  show "\<exists>c\<in>set clusters. pd_ClusterID d = ci_ID c \<and> 1 \<le> pd_Replicas d
        \<and> (\<forall>k\<in>set (pps_Constraints policy). admits k c)" by blast
qed (rule default_solver.aware_bounded)

section \<open>Properties of the solver\<close>

lemma score_weakOrder:
  "(\<And>d. d \<in> A \<Longrightarrow> \<not> isNaN (pd_Score d)) \<Longrightarrow> weakOrder (\<lambda>a b. fLt (pd_Score b) (pd_Score a)) A"
  unfolding weakOrder_def
proof (intro conjI asymp_onI transp_onI)
  fix x y
  assume "fLt (pd_Score y) (pd_Score x)"
  then show "\<not> fLt (pd_Score x) (pd_Score y)" by (auto simp: fLt_def)
next
  fix x y z
  assume nan: "\<And>d. d \<in> A \<Longrightarrow> \<not> isNaN (pd_Score d)" and "x \<in> A" "y \<in> A" "z \<in> A"
    and le: "\<not> fLt (pd_Score x) (pd_Score y)" "\<not> fLt (pd_Score y) (pd_Score z)"
  then have "fLe (pd_Score y) (pd_Score x)" "fLe (pd_Score z) (pd_Score y)" by (simp_all add: not_fLt)
  then have "fLe (pd_Score z) (pd_Score x)" by (meson fLe_trans)
  then show "\<not> fLt (pd_Score x) (pd_Score z)" using nan \<open>x \<in> A\<close> \<open>z \<in> A\<close> by (simp add: not_fLt)
qed

text \<open>C20: When no eligible cluster has an undefined score, the solver's decisions
  are in descending order of score, each is the decision of an eligible cluster
  at its score, and they are the best ones: an eligible cluster without a decision
  means that the limit on clusters is reached and that it scores no higher than
  any chosen one.\<close>

theorem Solve_best:
  assumes "Solve scorer pool clusters policy = Inr ds"
    and "\<forall>c\<in>set clusters. \<forall>s. clusterScore scorer pool policy c = Inr s \<longrightarrow> \<not> isNaN s"
  shows "sorted_wrt (\<lambda>a b. fLe (pd_Score b) (pd_Score a)) ds
    \<and> (\<forall>d\<in>set ds. \<exists>c\<in>set (eligibleFor policy clusters). \<exists>s. clusterScore scorer pool policy c = Inr s
         \<and> d = decisionFor pool (requestedType (pps_Constraints policy)) c s)
    \<and> (\<forall>c\<in>set (eligibleFor policy clusters). \<exists>s. clusterScore scorer pool policy c = Inr s
         \<and> (decisionFor pool (requestedType (pps_Constraints policy)) c s \<in> set ds
            \<or> int (length ds) = plref_MaxClusters (fips_Placement pool) \<and> (\<forall>d\<in>set ds. fLe s (pd_Score d))))"
proof -
  let ?lt = "\<lambda>a b. fLt (pd_Score b) (pd_Score a)" and ?mk = "decisionFor pool (requestedType (pps_Constraints policy))"
  obtain full rest where full: "list_all2 (\<lambda>c d. \<exists>s. clusterScore scorer pool policy c = Inr s \<and> d = ?mk c s)
        (eligibleFor policy clusters) full"
    and srt: "sortSlice ?lt full = ds @ rest"
    and lim: "rest = [] \<or> int (length ds) = plref_MaxClusters (fips_Placement pool)"
    using assms(1) by (rule Solve_Inr)
  have mem: "set full = set ds \<union> set rest" using arg_cong [OF srt, of set] by simp
  have of_full: "\<exists>c\<in>set (eligibleFor policy clusters). \<exists>s. clusterScore scorer pool policy c = Inr s \<and> d = ?mk c s"
    if "d \<in> set full" for d
    by (rule list_all2_right [OF full that])
  have to_full: "\<exists>s. clusterScore scorer pool policy c = Inr s \<and> ?mk c s \<in> set full"
    if "c \<in> set (eligibleFor policy clusters)" for c
    using list_all2_left [OF full that] by blast
  have nan: "\<not> isNaN (pd_Score d)" if "d \<in> set full" for d
    using of_full [OF that] assms(2) by (auto simp: eligibleFor_def decisionFor_replicas)
  have "sorted_wrt (\<lambda>a b. \<not> ?lt b a) (ds @ rest)"
    using sortSlice_sorted [OF score_weakOrder, of full] nan srt by simp
  then have sorted: "sorted_wrt (\<lambda>a b. fLe (pd_Score b) (pd_Score a)) (ds @ rest)"
    by (rule sorted_wrt_mono_rel [rotated]) (use nan mem in \<open>auto simp: not_fLt\<close>)
  have "?mk c s \<in> set ds \<or> int (length ds) = plref_MaxClusters (fips_Placement pool) \<and> (\<forall>d\<in>set ds. fLe s (pd_Score d))"
    if "?mk c s \<in> set full" for c s
  proof (cases "?mk c s \<in> set ds")
    case False
    then have "?mk c s \<in> set rest" using that mem by simp
    then have "\<forall>d\<in>set ds. fLe (pd_Score (?mk c s)) (pd_Score d)" and "rest \<noteq> []"
      using sorted by (auto simp: sorted_wrt_append)
    then show ?thesis using lim by (simp add: decisionFor_replicas)
  qed simp
  note best = this
  show ?thesis
  proof (intro conjI ballI)
    show "sorted_wrt (\<lambda>a b. fLe (pd_Score b) (pd_Score a)) ds" using sorted by (simp add: sorted_wrt_append)
  next
    fix d assume "d \<in> set ds"
    then show "\<exists>c\<in>set (eligibleFor policy clusters). \<exists>s. clusterScore scorer pool policy c = Inr s \<and> d = ?mk c s"
      using of_full mem by simp
  next
    fix c assume "c \<in> set (eligibleFor policy clusters)"
    then obtain s where s: "clusterScore scorer pool policy c = Inr s" "?mk c s \<in> set full" using to_full by blast
    show "\<exists>s. clusterScore scorer pool policy c = Inr s \<and> (?mk c s \<in> set ds
        \<or> int (length ds) = plref_MaxClusters (fips_Placement pool) \<and> (\<forall>d\<in>set ds. fLe s (pd_Score d)))"
      using s(1) best [OF s(2)] by (intro exI [of _ s] conjI)
  qed
qed

definition exampleCluster :: "string \<Rightarrow> int \<Rightarrow> rat \<Rightarrow> ClusterInfo" where
  "exampleCluster name free load = \<lparr>ci_ID = name, ci_Name = name, ci_Region = ''eu'', ci_Labels = [(''zone'', ''eu'')],
     ci_Status = ''healthy'', ci_GPUCapacity = \<lparr>gc_Available = free, gc_Total = 8, gc_Types = [''H100'', ''B200'']\<rparr>,
     ci_Utilization = fLit load\<rparr>"

definition examplePolicy :: PlacementPolicySpec where
  "examplePolicy = \<lparr>pps_Constraints = [\<lparr>plc_Type = ''regulatory'', plc_Rule = ''zone=eu''\<rparr>],
     pps_Affinity = [], pps_Spreading = None\<rparr>"

definition examplePool :: FleetInferencePoolSpec where
  "examplePool =
     (let ref = \<lparr>polref_Name = [], polref_Namespace = []\<rparr> in
      \<lparr>fips_Model = \<lparr>mspec_Name = ''llama'', mspec_Source = [], mspec_Version = [], mspec_OciRef = ''quay.io/llama''\<rparr>,
       fips_Placement = \<lparr>plref_PolicyRef = ref, plref_MinClusters = 1, plref_MaxClusters = 1\<rparr>,
       fips_Routing = \<lparr>rtref_PolicyRef = ref\<rparr>,
       fips_Scaling = \<lparr>scref_PolicyRef = ref\<rparr>,
       fips_Serving = \<lparr>serv_Target = [],
         serv_InferencePoolTemplate = \<lparr>ipt_Spec = \<lparr>ipts_TargetPorts = [], ipts_EndpointPickerRef = \<lparr>epr_Name = []\<rparr>\<rparr>\<rparr>,
         serv_KServe = None\<rparr>,
       fips_Lifecycle = \<lparr>lcref_RolloutStrategy = [], lcref_Canary = None\<rparr>\<rparr>)"

definition exampleClusters :: "ClusterInfo list" where
  "exampleClusters = [exampleCluster ''a'' 4 (1 / 2), exampleCluster ''b'' 2 (1 / 4)]"

definition exampleDecisions :: "PlacementDecision list" where
  "exampleDecisions =
     [\<lparr>pd_ClusterID = ''b'', pd_Replicas = 1, pd_GPUType = ''H100'', pd_Score = Fin False (3 / 4),
       pd_Reasons = [''passed constraints'', ''affinity-score=0.75'']\<rparr>]"

lemma example_solved:
  "Solve (None :: string ExternalScorer option) examplePool exampleClusters examplePolicy = Inr exampleDecisions"
  by code_simp

theorem Solve_best_witness:
  "Solve (None :: string ExternalScorer option) examplePool exampleClusters examplePolicy = Inr exampleDecisions
    \<and> (\<exists>s. clusterScore (None :: string ExternalScorer option) examplePool examplePolicy (exampleCluster ''a'' 4 (1 / 2)) = Inr s
        \<and> (\<forall>d\<in>set exampleDecisions. fLe s (pd_Score d)))"
proof -
  have nan: "\<forall>c\<in>set exampleClusters. \<forall>s.
      clusterScore (None :: string ExternalScorer option) examplePool examplePolicy c = Inr s \<longrightarrow> \<not> isNaN s"
    by (auto simp: exampleClusters_def clusterScore_def scoreCluster_def examplePolicy_def
        exampleCluster_def fSub_def fLit_def toFloat_def Let_def split: if_splits)
  have "exampleCluster ''a'' 4 (1 / 2) \<in> set (eligibleFor examplePolicy exampleClusters)" by code_simp
  moreover have "decisionFor examplePool g (exampleCluster ''a'' 4 (1 / 2)) s \<notin> set exampleDecisions" for g s
    by (simp add: exampleDecisions_def decisionFor_def exampleCluster_def Let_def)
  ultimately show ?thesis
    using Solve_best [OF example_solved nan] example_solved by blast
qed

definition passesAll :: "PlacementPolicySpec \<Rightarrow> ClusterInfo \<Rightarrow> bool" where
  "passesAll policy c = list_all (\<lambda>k. admits k c) (pps_Constraints policy)"

lemma clusterScore_Inl: "clusterScore scorer pool policy c = Inl e \<Longrightarrow> \<exists>err. e = ScorerError (ci_ID c) err"
  by (cases scorer) (auto simp: clusterScore_def split: sum.splits)

lemma buildDecisions_scorerError:
  assumes "buildDecisions (clusterScore scorer pool policy) mk cs = Inl e"
  shows "\<exists>cid err. e = ScorerError cid err"
proof -
  obtain c where "clusterScore scorer pool policy c = Inl e" using buildDecisions_Inl [OF assms] by blast
  from clusterScore_Inl [OF this] show ?thesis by blast
qed

text \<open>C27: Without an external scorer the solver fails exactly when no cluster is
  eligible; it reports unsatisfied constraints exactly when no cluster passes
  every constraint, and missing capacity exactly when some cluster does but none
  of those has a free GPU while a GPU type is requested.\<close>

theorem Solve_errors:
  fixes scorer :: "'e ExternalScorer option"
  shows "((\<exists>ds. Solve (None :: 'e ExternalScorer option) pool clusters policy = Inr ds) \<longleftrightarrow> eligibleFor policy clusters \<noteq> [])
    \<and> (Solve scorer pool clusters policy = Inl NoClusterSatisfiesConstraints \<longleftrightarrow> filter (passesAll policy) clusters = [])
    \<and> (Solve scorer pool clusters policy = Inl NoClusterHasCapacity \<longleftrightarrow>
         filter (passesAll policy) clusters \<noteq> [] \<and> requestedType (pps_Constraints policy) \<noteq> []
         \<and> filter (\<lambda>c. passesAll policy c \<and> 0 < gc_Available (ci_GPUCapacity c)) clusters = [])"
proof -
  have pass: "passesAll policy = (\<lambda>c. \<forall>k\<in>set (pps_Constraints policy). admits k c)"
    by (simp add: fun_eq_iff passesAll_def list_all_iff)
  have elig: "eligibleFor policy clusters = (if requestedType (pps_Constraints policy) \<noteq> []
      then filter (\<lambda>c. passesAll policy c \<and> 0 < gc_Available (ci_GPUCapacity c)) clusters else filter (passesAll policy) clusters)"
    by (simp add: eligibleFor_def pass)
  have total: "\<exists>ds. buildDecisions (clusterScore (None :: 'e ExternalScorer option) pool policy) mk cs = Inr ds" for mk cs
    by (induction cs) (auto simp: clusterScore_def)
  define F where "F = filter (passesAll policy) clusters"
  define E where "E = eligibleFor policy clusters"
  define B where "B = (\<lambda>scorer :: 'e ExternalScorer option. buildDecisions (clusterScore scorer pool policy)
    (decisionFor pool (requestedType (pps_Constraints policy))) E)"
  have F_E: "F = [] \<Longrightarrow> E = []" by (auto simp: F_def E_def elig filter_empty_conv)
  have sol: "Solve sc pool clusters policy = (if F = [] then Inl NoClusterSatisfiesConstraints
      else if E = [] then Inl NoClusterHasCapacity
      else case B sc of Inl e \<Rightarrow> Inl e
        | Inr ds \<Rightarrow> Inr (limitClusters (plref_MaxClusters (fips_Placement pool))
                         (sortSlice (\<lambda>a b. fLt (pd_Score b) (pd_Score a)) ds)))" for sc
    unfolding Solve_cases F_def E_def B_def pass ..
  obtain ds where "B None = Inr ds" using total unfolding B_def by blast
  then have "(\<exists>ds. Solve (None :: 'e ExternalScorer option) pool clusters policy = Inr ds) \<longleftrightarrow> E \<noteq> []" using F_E by (auto simp: sol)
  moreover have "B scorer \<noteq> Inl NoClusterSatisfiesConstraints" "B scorer \<noteq> Inl NoClusterHasCapacity"
    using buildDecisions_scorerError unfolding B_def by fastforce+
  then have "Solve scorer pool clusters policy = Inl NoClusterSatisfiesConstraints \<longleftrightarrow> F = []"
    "Solve scorer pool clusters policy = Inl NoClusterHasCapacity \<longleftrightarrow> F \<noteq> [] \<and> E = []"
    unfolding sol by (cases "B scorer", simp_all)+
  ultimately show ?thesis unfolding F_def E_def elig by simp
qed

subsection \<open>The constraint derived from the model\<close>

definition typeRuleOk :: "string \<Rightarrow> bool" where
  "typeRuleOk t \<longleftrightarrow> parseCPUFeatureConstraint (''gpu-type='' @ t) = None \<and> length (goFields (''gpu-type='' @ t)) = 1
     \<and> splitN2 CHR ''='' (''gpu-type='' @ t) = [''gpu-type'', t] \<and> trimSpace t = t \<and> t \<noteq> []"

lemma known_typeRules: "list_all typeRuleOk [''B200'', ''MI300X'', ''H200'', ''Gaudi3'', ''Gaudi2'', ''H100'', ''A100'']"
  by code_simp

lemma gpuType_rule:
  assumes "t \<in> gs_Name ` set knownGPUs"
  shows "parseCPUFeatureConstraint (''gpu-type='' @ t) = None" and "length (goFields (''gpu-type='' @ t)) = 1"
    and "splitN2 CHR ''='' (''gpu-type='' @ t) = [''gpu-type'', t]" and "trimSpace t = t" and "t \<noteq> []"
proof -
  have "t \<in> set [''B200'', ''MI300X'', ''H200'', ''Gaudi3'', ''Gaudi2'', ''H100'', ''A100'']"
    using assms by (simp add: knownGPUs_def)
  then have "typeRuleOk t" using known_typeRules unfolding list_all_iff by (rule bspec [rotated])
  then show "parseCPUFeatureConstraint (''gpu-type='' @ t) = None" "length (goFields (''gpu-type='' @ t)) = 1"
    "splitN2 CHR ''='' (''gpu-type='' @ t) = [''gpu-type'', t]" "trimSpace t = t" "t \<noteq> []"
    unfolding typeRuleOk_def by blast+
qed

lemma trimSpace_gpuType: "trimSpace ''gpu-type'' = ''gpu-type''"
  by code_simp

definition gpuTypeConstraint :: "string \<Rightarrow> PlacementConstraint" where
  "gpuTypeConstraint t = \<lparr>plc_Type = ''hardware'', plc_Rule = ''gpu-type='' @ t\<rparr>"

lemma admits_gpuType:
  assumes "t \<in> gs_Name ` set knownGPUs"
  shows "admits (gpuTypeConstraint t) c \<longleftrightarrow> t \<in> set (gc_Types (ci_GPUCapacity c))"
proof -
  have "filterHardware [c] (''gpu-type='' @ t) = filter (\<lambda>c. t \<in> set (gc_Types (ci_GPUCapacity c))) [c]"
    using gpuType_rule [OF assms] trimSpace_gpuType by (simp add: filterHardware_def Let_def)
  then show ?thesis by (simp add: admits_def applyConstraint_def gpuTypeConstraint_def)
qed

lemma requestedType_snoc:
  assumes "t \<in> gs_Name ` set knownGPUs"
  shows "requestedType (ks @ [gpuTypeConstraint t]) = t"
  using gpuType_rule [OF assms]
  by (simp add: requestedType_def applyConstraints_def applyConstraint_def gpuTypeConstraint_def hasPrefix_def split: prod.split)

lemma supported_known:
  assumes "ComputeGPURequirements (Some config) = Inr req"
  shows "gr_SupportedGPUTypes req \<noteq> []" and "hd (gr_SupportedGPUTypes req) \<in> gs_Name ` set knownGPUs"
proof -
  obtain mem where "selectGPUs mem = (gr_SupportedGPUTypes req, gr_RecommendedGPUs req, gr_TensorParallelism req)"
    using assms by (rule ComputeGPURequirements_cases)
  note sup = selectGPUs_shape(3) [OF this]
  show ne: "gr_SupportedGPUTypes req \<noteq> []" using sup by simp
  have "set (gr_SupportedGPUTypes req) \<subseteq> gs_Name ` set knownGPUs"
    using sup knownGPUs_hd(2) by (subst sup) (auto simp: fitting_def knownGPUs_def)
  with ne show "hd (gr_SupportedGPUTypes req) \<in> gs_Name ` set knownGPUs" by (meson hd_in_set subsetD)
qed


definition exampleResolver :: "string ModelResolver" where
  "exampleResolver ref = Inr (Some llama70b)"

definition awareDecisions :: "PlacementDecision list" where
  "awareDecisions =
     [\<lparr>pd_ClusterID = ''b'', pd_Replicas = 2, pd_GPUType = ''B200'', pd_Score = Fin False (3 / 4),
       pd_Reasons = [''gpu-type=B200 available=2'', ''affinity-score=0.75'']\<rparr>]"

lemma aware_solved:
  "ModelPackAwareSolve (Solve (None :: string ExternalScorer option)) (Some exampleResolver) examplePool exampleClusters
     examplePolicy = Inr awareDecisions"
  by code_simp


section \<open>Properties of the scorers\<close>

definition unitScore :: "float64 \<Rightarrow> bool" where
  "unitScore f \<longleftrightarrow> fLe fZero f \<and> fLe f fOne"

lemma unitScore_cases:
  assumes "wfFloat f" and "unitScore f"
  obtains r where "0 \<le> r" and "r \<le> 1" and "f = Fin False r \<or> f = Fin True 0 \<and> r = 0"
proof (cases f)
  case (Fin s m)
  with assms show thesis by (cases s) (auto simp: unitScore_def intro: that [of m])
next
  case (FInf s)
  with assms show thesis by (cases s) (auto simp: unitScore_def fLe_def)
qed (use assms in \<open>simp add: unitScore_def\<close>)

lemma unitScore_toFloat: "0 \<le> m \<Longrightarrow> m \<le> 1 \<Longrightarrow> \<exists>r. toFloat False m = Fin False r \<and> 0 \<le> r \<and> r \<le> 1"
  using toFloat_le_exact [of m 1 False] by (simp add: power_strict_increasing)

lemma idle_unit:
  assumes "wfFloat u" and "unitScore u"
  shows "\<exists>r. fSub fOne u = Fin False r \<and> 0 \<le> r \<and> r \<le> 1"
proof -
  obtain r where r: "0 \<le> r" "r \<le> 1" "u = Fin False r \<or> u = Fin True 0 \<and> r = 0"
    using unitScore_cases [OF assms] .
  have "fSub fOne u = (if r = 1 then fZero else toFloat False (1 - r))"
    using r by (auto simp: fSub_def Let_def)
  then show ?thesis using r unitScore_toFloat [of "1 - r"] by auto
qed

lemma ratio_unit:
  assumes "0 \<le> a" and "a \<le> t" and "0 < t" and "t \<le> 2 ^ 53"
  shows "\<exists>r. fDiv (fOfInt a) (fOfInt t) = Fin False r \<and> 0 \<le> r \<and> r \<le> 1"
proof -
  have "fDiv (fOfInt a) (fOfInt t) = toFloat False (of_int a / of_int t)"
    using assms by (simp add: fOfInt_exact)
  moreover have "(0::rat) \<le> of_int a / of_int t" "(of_int a / of_int t :: rat) \<le> 1"
    using assms by (simp_all add: divide_le_eq)
  ultimately show ?thesis using unitScore_toFloat by simp
qed

lemma toFloat_below:
  assumes "m \<le> n" and "roundMag n \<le> 1"
  shows "\<exists>w. toFloat False m = Fin False w \<and> 0 \<le> w \<and> w \<le> roundMag n"
proof -
  have le: "roundMag m \<le> roundMag n" using assms(1) by (rule roundMag_mono)
  also have "\<dots> < 2 ^ 1024" using assms(2) by (rule order_le_less_trans) (rule one_less_power, simp_all)
  finally show ?thesis using le roundMag_nonneg [of m] by (simp add: toFloat_def Let_def)
qed

lemma fAdd_below:
  assumes "0 \<le> a" and "a \<le> a'" and "0 \<le> b" and "b \<le> b'" and "roundMag (a' + b') \<le> 1"
  shows "\<exists>w. fAdd (Fin False a) (Fin False b) = Fin False w \<and> 0 \<le> w \<and> w \<le> roundMag (a' + b')"
proof (cases "a + b = 0")
  case True
  then show ?thesis by (simp add: roundMag_nonneg)
next
  case False
  then have "fAdd (Fin False a) (Fin False b) = toFloat False (a + b)" using assms(1,3) by simp
  then show ?thesis using toFloat_below [of "a + b" "a' + b'"] assms by simp
qed

lemma scorer_literals:
  "fLit (1 / 2) = Fin False (1 / 2)" "fLit (4 / 10) = Fin False (roundMag (4 / 10))"
  "fLit (1 / 10) = Fin False (roundMag (1 / 10))"
  by code_simp+

lemma scorer_roundings:
  "roundMag (1 / 2) = 1 / 2" "roundMag (roundMag (4 / 10)) = roundMag (4 / 10)" "roundMag (4 / 10) \<le> 1"
  "roundMag (1 / 2 + roundMag (4 / 10)) \<le> 1" "roundMag (roundMag (1 / 2 + roundMag (4 / 10)) + roundMag (1 / 10)) = 1"
  by code_simp+

text \<open>C28: For a cluster whose free GPUs lie between zero and its total (at most
  2^53) and whose utilization lies between zero and one, the cost, capacity,
  locality and cache-affinity scorers all return a score between zero and one,
  rounding included.\<close>

theorem scorers_unit:
  fixes score :: "'e ExternalScorer"
  assumes "0 \<le> gc_Available (ci_GPUCapacity c)" and "gc_Available (ci_GPUCapacity c) \<le> gc_Total (ci_GPUCapacity c)"
    and "gc_Total (ci_GPUCapacity c) \<le> 2 ^ 53" and "wfFloat (ci_Utilization c)" and "unitScore (ci_Utilization c)"
    and "score \<in> {CostScore, CapacityScore, LocalityScore, KVCacheAffinityScore}"
  shows "\<exists>v. score c pool policy = Inr v \<and> unitScore v"
proof -
  have lits: "unitScore (fLit (1 / 2))" "unitScore (fLit (3 / 10))" "unitScore fZero" "unitScore fOne"
    by (code_simp, code_simp, simp_all add: unitScore_def)
  have "unitScore (localityOf c affs)" for affs
    by (induction affs) (simp_all add: lits Let_def)
  then have loc: "\<exists>v. (LocalityScore :: 'e ExternalScorer) c pool policy = Inr v \<and> unitScore v" by (simp add: LocalityScore_def)
  have kv: "\<exists>v. (KVCacheAffinityScore :: 'e ExternalScorer) c pool policy = Inr v \<and> unitScore v"
    using lits(1) by (auto simp: KVCacheAffinityScore_def unitScore_def split: option.split)
  have "(\<exists>v. (CapacityScore :: 'e ExternalScorer) c pool policy = Inr v \<and> unitScore v) \<and> (\<exists>v. (CostScore :: 'e ExternalScorer) c pool policy = Inr v \<and> unitScore v)"
  proof (cases "gc_Total (ci_GPUCapacity c) = 0")
    case True
    then show ?thesis using lits(3) by (simp add: CapacityScore_def CostScore_def)
  next
    case False
    then have "0 < gc_Total (ci_GPUCapacity c)" using assms(1,2) by simp
    then obtain q where q: "fDiv (fOfInt (gc_Available (ci_GPUCapacity c))) (fOfInt (gc_Total (ci_GPUCapacity c))) = Fin False q"
        "0 \<le> q" "q \<le> 1"
      using ratio_unit [OF assms(1,2) _ assms(3)] by blast
    obtain u where u: "fSub fOne (ci_Utilization c) = Fin False u" "0 \<le> u" "u \<le> 1"
      using idle_unit [OF assms(4,5)] by blast
    obtain a where a: "fMul (fLit (1 / 2)) (Fin False u) = Fin False a" "0 \<le> a" "a \<le> 1 / 2"
      using toFloat_below [of "1 / 2 * u" "1 / 2"] u scorer_literals(1) scorer_roundings(1) by auto
    have "roundMag (4 / 10) * q \<le> roundMag (4 / 10)"
      using q roundMag_nonneg [of "4 / 10"] by (simp add: mult_left_le)
    then obtain b where b: "fMul (fLit (4 / 10)) (Fin False q) = Fin False b" "0 \<le> b" "b \<le> roundMag (4 / 10)"
      using toFloat_below [of "roundMag (4 / 10) * q" "roundMag (4 / 10)"] scorer_literals(2) scorer_roundings(2,3) by auto
    obtain w where w: "fAdd (Fin False a) (Fin False b) = Fin False w" "0 \<le> w" "w \<le> roundMag (1 / 2 + roundMag (4 / 10))"
      using fAdd_below [OF a(2,3) b(2,3)] scorer_roundings(4) by blast
    obtain v where v: "fAdd (Fin False w) (Fin False (roundMag (1 / 10))) = Fin False v" "0 \<le> v" "v \<le> 1"
      using fAdd_below [OF w(2,3) roundMag_nonneg [of "1 / 10"] order_refl, unfolded scorer_roundings(5)] by blast
    have "(CapacityScore :: 'e ExternalScorer) c pool policy = Inr (Fin False q)" "(CostScore :: 'e ExternalScorer) c pool policy = Inr (Fin False v)"
      using False q(1) u(1) a(1) b(1) w(1) v(1) scorer_literals(3) unfolding CapacityScore_def CostScore_def Let_def by simp_all
    then show ?thesis using q v by (simp add: unitScore_def)
  qed
  then show ?thesis using loc kv assms(6) by blast
qed

theorem scorers_unit_witness:
  "\<exists>v. CostScore (exampleCluster ''a'' 4 (1 / 2)) examplePool examplePolicy = (Inr v :: (string, float64) res) \<and> unitScore v"
proof -
  have "wfFloat (fLit (1 / 2))" "unitScore (fLit (1 / 2))" by code_simp+
  then show ?thesis
    by (intro scorers_unit) (simp_all add: exampleCluster_def)
qed

end
