(* ===== verification/Auth_Access.thy ===== *)
theory Auth_Access
  imports Go_Strings Go_Any
begin

text \<open>
  Identities, roles and the authorization middleware (\<open>pkg/auth\<close>:
  \<open>identity.go\<close>, \<open>roles.go\<close> and the role-based part of \<open>middleware.go\<close>). An HTTP
  request is the record of what the middlewares read of it; a middleware maps a
  request to a decision, either the request it passes to the next handler or the
  error response it writes.
\<close>

section \<open>Claims and identities\<close>

record Claims =
  clm_Subject :: string
  clm_Role :: string
  clm_Tenant :: string
  clm_Issuer :: string
  clm_Audience :: string
  clm_RequestID :: string
  clm_IssuedAt :: time
  clm_ExpiresAt :: time

datatype Method = MethodHMAC | MethodTrustedProxy

record Identity =
  id_Subject :: string
  id_Tenant :: string
  id_Roles :: "string list"
  id_Groups :: "string list"
  id_Subscription :: string
  id_Entitlements :: "string list"
  id_Issuer :: string
  id_Audience :: string
  id_RequestID :: string
  id_Method :: Method

definition RoleAdmin :: string where "RoleAdmin = ''admin''"
definition RoleOperator :: string where "RoleOperator = ''operator''"
definition RoleViewer :: string where "RoleViewer = ''viewer''"
definition RoleTenant :: string where "RoleTenant = ''tenant''"

definition HasRole :: "Identity option \<Rightarrow> string \<Rightarrow> bool" where
  "HasRole i role = (case i of None \<Rightarrow> False | Some i \<Rightarrow> role \<in> set (id_Roles i))"

definition identityFromClaims :: "Claims option \<Rightarrow> Identity option" where
  "identityFromClaims claims =
     (case claims of
        None \<Rightarrow> None
      | Some c \<Rightarrow>
          Some \<lparr>id_Subject = clm_Subject c,
                id_Tenant = (if clm_Tenant c = [] \<and> clm_Role c = RoleTenant then clm_Subject c else clm_Tenant c),
                id_Roles = [clm_Role c], id_Groups = [], id_Subscription = [], id_Entitlements = [],
                id_Issuer = clm_Issuer c, id_Audience = clm_Audience c, id_RequestID = clm_RequestID c,
                id_Method = MethodHMAC\<rparr>)"

section \<open>Requests\<close>

text \<open>The headers under their canonical names, the peer address, whether the TLS
  handshake verified a client certificate, and the values the middlewares store
  in the request context.\<close>

record httpRequest =
  hr_Method :: string
  hr_Path :: string
  hr_RemoteAddr :: string
  hr_Header :: "(string, string list) gomap"
  hr_VerifiedTLS :: bool
  hr_Identity :: "Identity option"
  hr_Claims :: "Claims option"

definition headerGet :: "(string, string list) gomap \<Rightarrow> string \<Rightarrow> string" where
  "headerGet h name = (case map_of h name of Some (v # _) \<Rightarrow> v | _ \<Rightarrow> [])"

abbreviation GetIdentity :: "httpRequest \<Rightarrow> Identity option" where "GetIdentity \<equiv> hr_Identity"
abbreviation GetClaims :: "httpRequest \<Rightarrow> Claims option" where "GetClaims \<equiv> hr_Claims"

datatype httpDecision =
    Forward httpRequest
  | Respond int string string \<comment> \<open>status, error and detail of the JSON body\<close>

definition writeAuthError :: "string \<Rightarrow> httpDecision" where
  "writeAuthError detail = Respond 401 ''unauthorized'' detail"

definition writeAuthorizationError :: "string \<Rightarrow> httpDecision" where
  "writeAuthorizationError detail = Respond 403 ''forbidden'' detail"

definition internalRequestHeaders :: "string list" where
  "internalRequestHeaders =
     [''X-Fleet-Identity-Assertion'', ''X-Fleet-Actor'', ''X-Fleet-Tenant'', ''X-Fleet-Target-Cluster'',
      ''X-Fleet-Routing-Reason'', ''X-Fleet-Data-Plane'', ''X-Fleet-Router-Upstream'',
      ''X-Gateway-Destination-Endpoint'']"

definition stripInternalRequestHeaders :: "httpRequest \<Rightarrow> httpRequest" where
  "stripInternalRequestHeaders r = r\<lparr>hr_Header := fold AList.delete internalRequestHeaders (hr_Header r)\<rparr>"

section \<open>Roles\<close>

definition CheckPermission :: "string \<Rightarrow> string \<Rightarrow> bool" where
  "CheckPermission role method =
     (if role = RoleAdmin then True
      else if role = RoleOperator then method \<in> {''GET'', ''POST'', ''PUT'', ''PATCH''}
      else if role = RoleViewer \<or> role = RoleTenant then method = ''GET''
      else False)"

definition primaryRole :: "string list \<Rightarrow> string" where
  "primaryRole roles =
     (case find (\<lambda>role. role \<in> set roles) [RoleAdmin, RoleOperator, RoleViewer, RoleTenant] of
        Some role \<Rightarrow> role
      | None \<Rightarrow> [])"

definition tenantRequestAllowed :: "string \<Rightarrow> string \<Rightarrow> string \<Rightarrow> bool" where
  "tenantRequestAllowed subject method path =
     (if method \<noteq> ''GET'' then False
      else if \<not> hasPrefix path ''/api/v1/tenants/'' \<or> \<not> hasSuffix path ''/usage'' then False
      else let tenantID = trimSuffix (trimPrefix path ''/api/v1/tenants/'') ''/usage''
           in tenantID \<noteq> [] \<and> tenantID = subject)"

definition inferenceRequest :: "httpRequest \<Rightarrow> bool" where
  "inferenceRequest r \<longleftrightarrow>
     hr_Method r = ''POST'' \<and> (hr_Path r = ''/v1/chat/completions'' \<or> hr_Path r = ''/v1/completions'')"

definition AuthorizationMiddleware :: "string list \<Rightarrow> httpRequest \<Rightarrow> httpDecision" where
  "AuthorizationMiddleware exempt r =
     (if hr_Path r \<in> set exempt then Forward r
      else
        let identity = (case GetIdentity r of None \<Rightarrow> identityFromClaims (GetClaims r) | Some i \<Rightarrow> Some i)
        in case identity of
             None \<Rightarrow> Forward r
           | Some i \<Rightarrow>
               let role = primaryRole (id_Roles i) in
               if \<not> CheckPermission role (hr_Method r) \<and> (role \<noteq> RoleTenant \<or> \<not> inferenceRequest r)
               then writeAuthorizationError ''role is not allowed to perform this action''
               else if role = RoleTenant \<and> \<not> inferenceRequest r \<and>
                       \<not> tenantRequestAllowed (id_Tenant i) (hr_Method r) (hr_Path r)
               then writeAuthorizationError ''tenant is not allowed to access this resource''
               else Forward r)"

section \<open>Properties\<close>

lemmas role_defs = RoleAdmin_def RoleOperator_def RoleViewer_def RoleTenant_def

lemma role_distinct [simp]:
  "RoleAdmin \<noteq> RoleOperator" "RoleAdmin \<noteq> RoleViewer" "RoleAdmin \<noteq> RoleTenant"
  "RoleOperator \<noteq> RoleViewer" "RoleOperator \<noteq> RoleTenant" "RoleViewer \<noteq> RoleTenant"
  "RoleOperator \<noteq> RoleAdmin" "RoleViewer \<noteq> RoleAdmin" "RoleTenant \<noteq> RoleAdmin"
  "RoleViewer \<noteq> RoleOperator" "RoleTenant \<noteq> RoleOperator" "RoleTenant \<noteq> RoleViewer"
  by (simp_all add: role_defs)

lemma primaryRole_simps:
  "primaryRole roles = RoleAdmin \<longleftrightarrow> RoleAdmin \<in> set roles"
  "primaryRole roles = RoleTenant \<longleftrightarrow>
     RoleTenant \<in> set roles \<and> RoleAdmin \<notin> set roles \<and> RoleOperator \<notin> set roles \<and> RoleViewer \<notin> set roles"
  by (auto simp: primaryRole_def role_defs)

text \<open>The usage path of a tenant. The tenant named \<open>usage\<close> is a special case: the
  prefix and the suffix of the path may overlap in one slash.\<close>

definition usagePath :: "string \<Rightarrow> string" where
  "usagePath tenant = ''/api/v1/tenants/'' @ tenant @ ''/usage''"

lemma usage_overlap:
  assumes "''/api/v1/tenants/'' @ t = u @ ''/usage''"
  shows "t = ''usage'' \<or> hasSuffix t ''/usage''"
proof -
  have "\<exists>v. (''/api/v1/tenants/'' = u @ v \<and> v @ t = ''/usage'') \<or> (''/api/v1/tenants/'' @ v = u \<and> t = v @ ''/usage'')"
    using assms unfolding append_eq_append_conv2 .
  then obtain v where "(''/api/v1/tenants/'' = u @ v \<and> v @ t = ''/usage'') \<or> t = v @ ''/usage''" by blast
  then show ?thesis
  proof (elim disjE conjE)
    assume p: "''/api/v1/tenants/'' = u @ v" and s: "v @ t = ''/usage''"
    show ?thesis
    proof (cases "v = []")
      case False
      then have "last v = last ''/api/v1/tenants/''" using arg_cong [OF p, of last] by simp
      with s False show ?thesis by (auto simp: append_eq_Cons_conv)
    qed (use s in \<open>simp add: hasSuffix_iff\<close>)
  qed (auto simp: hasSuffix_iff)
qed

lemma tenantRequestAllowed_iff:
  "tenantRequestAllowed subject method path \<longleftrightarrow>
     method = ''GET'' \<and> subject \<noteq> [] \<and>
     (path = usagePath subject \<or> subject = ''usage'' \<and> path = ''/api/v1/tenants/usage'')"
proof
  assume allowed: "tenantRequestAllowed subject method path"
  then have m: "method = ''GET''" and pre: "hasPrefix path ''/api/v1/tenants/''" and suf: "hasSuffix path ''/usage''"
    by (auto simp: tenantRequestAllowed_def split: if_splits)
  obtain t where path: "path = ''/api/v1/tenants/'' @ t" using pre unfolding hasPrefix_iff by blast
  obtain u where "path = u @ ''/usage''" using suf unfolding hasSuffix_iff by blast
  with path have "t = ''usage'' \<or> hasSuffix t ''/usage''" using usage_overlap [of t u] by (simp only:)
  moreover have tid: "trimSuffix t ''/usage'' = subject" "subject \<noteq> []"
    using allowed m pre suf trimPrefix_append [of "''/api/v1/tenants/''" t]
    by (auto simp only: tenantRequestAllowed_def path Let_def if_False simp_thms)
  ultimately show "method = ''GET'' \<and> subject \<noteq> [] \<and>
     (path = usagePath subject \<or> subject = ''usage'' \<and> path = ''/api/v1/tenants/usage'')"
    using m path by (auto simp: trimSuffix_def hasSuffix_iff usagePath_def)
next
  assume "method = ''GET'' \<and> subject \<noteq> [] \<and>
     (path = usagePath subject \<or> subject = ''usage'' \<and> path = ''/api/v1/tenants/usage'')"
  then show "tenantRequestAllowed subject method path"
  proof (elim conjE disjE)
    assume m: "method = ''GET''" and ne: "subject \<noteq> []" and path: "path = usagePath subject"
    have "hasPrefix path ''/api/v1/tenants/''" unfolding path usagePath_def by (rule hasPrefix_append)
    moreover have "hasSuffix path ''/usage''" unfolding path usagePath_def hasSuffix_iff by (metis append_assoc)
    moreover have "trimPrefix path ''/api/v1/tenants/'' = subject @ ''/usage''"
      unfolding path usagePath_def by (rule trimPrefix_append)
    moreover have "trimSuffix (subject @ ''/usage'') ''/usage'' = subject"
      by (auto simp: trimSuffix_def hasSuffix_iff)
    ultimately show ?thesis using m ne unfolding tenantRequestAllowed_def by (simp only: Let_def) simp
  next
    assume "method = ''GET''" "subject = ''usage''" "path = ''/api/v1/tenants/usage''"
    then show ?thesis by (simp only:) code_simp
  qed
qed

text \<open>The identity the middleware acts on.\<close>

definition effectiveIdentity :: "httpRequest \<Rightarrow> Identity option" where
  "effectiveIdentity r = (case GetIdentity r of None \<Rightarrow> identityFromClaims (GetClaims r) | Some i \<Rightarrow> Some i)"

lemma primaryRole_cases:
  "primaryRole roles =
     (if RoleAdmin \<in> set roles then RoleAdmin
      else if RoleOperator \<in> set roles then RoleOperator
      else if RoleViewer \<in> set roles then RoleViewer
      else if RoleTenant \<in> set roles then RoleTenant else [])"
  by (simp add: primaryRole_def)

lemma no_role [simp]: "RoleAdmin \<noteq> []" "RoleOperator \<noteq> []" "RoleViewer \<noteq> []" "RoleTenant \<noteq> []"
    "\<not> CheckPermission [] m"
  by (simp_all add: role_defs CheckPermission_def)

lemma inferenceRequest_post: "inferenceRequest r \<Longrightarrow> hr_Method r \<noteq> ''GET''"
  by (simp add: inferenceRequest_def)

text \<open>C13: For a request outside the exempt paths that carries an identity, the
  authorization middleware decides by the strongest of the four roles: an admin
  may do everything, an operator everything but other methods than GET, POST,
  PUT and PATCH, a viewer only GET, and a tenant only an inference request or the
  GET of its own usage (with the exception of the tenant named \<open>usage\<close>). Every
  other request gets a 403 response.\<close>

theorem AuthorizationMiddleware_iff:
  assumes "hr_Path r \<notin> set exempt" and "effectiveIdentity r = Some i"
  shows "(AuthorizationMiddleware exempt r = Forward r \<longleftrightarrow>
      RoleAdmin \<in> set (id_Roles i)
    \<or> primaryRole (id_Roles i) = RoleOperator \<and> hr_Method r \<in> {''GET'', ''POST'', ''PUT'', ''PATCH''}
    \<or> primaryRole (id_Roles i) = RoleViewer \<and> hr_Method r = ''GET''
    \<or> primaryRole (id_Roles i) = RoleTenant
        \<and> (inferenceRequest r \<or> hr_Method r = ''GET'' \<and> id_Tenant i \<noteq> []
             \<and> (hr_Path r = usagePath (id_Tenant i)
                \<or> id_Tenant i = ''usage'' \<and> hr_Path r = ''/api/v1/tenants/usage'')))
    \<and> (AuthorizationMiddleware exempt r = Forward r
         \<or> (\<exists>detail. AuthorizationMiddleware exempt r = Respond 403 ''forbidden'' detail))"
proof -
  define role where "role = primaryRole (id_Roles i)"
  have eq: "AuthorizationMiddleware exempt r =
      (if \<not> CheckPermission role (hr_Method r) \<and> (role \<noteq> RoleTenant \<or> \<not> inferenceRequest r)
       then writeAuthorizationError ''role is not allowed to perform this action''
       else if role = RoleTenant \<and> \<not> inferenceRequest r \<and> \<not> tenantRequestAllowed (id_Tenant i) (hr_Method r) (hr_Path r)
       then writeAuthorizationError ''tenant is not allowed to access this resource'' else Forward r)"
    using assms unfolding AuthorizationMiddleware_def effectiveIdentity_def role_def by simp
  have admin: "RoleAdmin \<in> set (id_Roles i) \<longleftrightarrow> role = RoleAdmin"
    by (simp add: role_def primaryRole_simps)
  have known: "role \<in> {RoleAdmin, RoleOperator, RoleViewer, RoleTenant, []}"
    by (simp add: role_def primaryRole_cases)
  have "AuthorizationMiddleware exempt r = Forward r
      \<or> (\<exists>detail. AuthorizationMiddleware exempt r = Respond 403 ''forbidden'' detail)"
    unfolding eq writeAuthorizationError_def by auto
  moreover have "AuthorizationMiddleware exempt r = Forward r \<longleftrightarrow> role = RoleAdmin
    \<or> role = RoleOperator \<and> hr_Method r \<in> {''GET'', ''POST'', ''PUT'', ''PATCH''}
    \<or> role = RoleViewer \<and> hr_Method r = ''GET''
    \<or> role = RoleTenant \<and> (inferenceRequest r \<or> tenantRequestAllowed (id_Tenant i) (hr_Method r) (hr_Path r))"
    unfolding eq writeAuthorizationError_def
    using known by (elim insertE emptyE) (auto simp: CheckPermission_def tenantRequestAllowed_def)
  ultimately show ?thesis unfolding admin tenantRequestAllowed_iff role_def [symmetric] by (intro conjI)
qed

definition exampleRequest :: "string \<Rightarrow> string \<Rightarrow> string \<Rightarrow> httpRequest" where
  "exampleRequest meth path addr = \<lparr>hr_Method = meth, hr_Path = path, hr_RemoteAddr = addr, hr_Header = [],
     hr_VerifiedTLS = False, hr_Identity = None, hr_Claims = None\<rparr>"

definition tenantClaims :: Claims where
  "tenantClaims = \<lparr>clm_Subject = ''acme'', clm_Role = ''tenant'', clm_Tenant = [], clm_Issuer = [], clm_Audience = [],
     clm_RequestID = [], clm_IssuedAt = 0, clm_ExpiresAt = 0\<rparr>"

theorem AuthorizationMiddleware_iff_witness:
  "AuthorizationMiddleware [''/healthz''] ((exampleRequest ''GET'' (usagePath ''acme'') ''10.0.0.1:5'')\<lparr>hr_Claims := Some tenantClaims\<rparr>)
     = Forward ((exampleRequest ''GET'' (usagePath ''acme'') ''10.0.0.1:5'')\<lparr>hr_Claims := Some tenantClaims\<rparr>)"
proof -
  let ?r = "(exampleRequest ''GET'' (usagePath ''acme'') ''10.0.0.1:5'')\<lparr>hr_Claims := Some tenantClaims\<rparr>"
  have "hr_Path ?r \<notin> set [''/healthz'']" by (simp add: exampleRequest_def usagePath_def)
  moreover have "effectiveIdentity ?r = identityFromClaims (Some tenantClaims)"
    by (simp add: effectiveIdentity_def exampleRequest_def)
  ultimately show ?thesis
    using AuthorizationMiddleware_iff [of ?r "[''/healthz'']" "the (identityFromClaims (Some tenantClaims))"]
    by (simp add: identityFromClaims_def tenantClaims_def exampleRequest_def primaryRole_cases role_defs)
qed

end
