(* ===== verification/Go_Time.thy ===== *)
theory Go_Time
  imports Go_Float Go_Strings
begin

text \<open>
  Package \<open>time\<close>: durations and the Gregorian calendar. An instant is the number
  of nanoseconds since the start of year 1 (UTC), a duration is a 64-bit number
  of nanoseconds.
\<close>

section \<open>Durations\<close>

definition goRem :: "int \<Rightarrow> int \<Rightarrow> int" where
  "goRem a b = a - b * goDiv a b"

text \<open>\<open>t.Sub(u)\<close> saturates at the limits of a duration.\<close>

definition timeSub :: "time \<Rightarrow> time \<Rightarrow> int64" where
  "timeSub t u = max minInt64 (min maxInt64 (t - u))"

text \<open>\<open>d.Seconds()\<close>: the whole seconds plus the fraction.\<close>

definition durationSeconds :: "int64 \<Rightarrow> float64" where
  "durationSeconds d =
     fAdd (fOfInt (goDiv d nanosPerSecond)) (fDiv (fOfInt (goRem d nanosPerSecond)) (fLit 1000000000))"

lemma timeSub_refl [simp]: "timeSub t t = 0"
  by (simp add: timeSub_def)

lemma timeSub_nonneg: "u \<le> t \<Longrightarrow> 0 \<le> timeSub t u"
  by (simp add: timeSub_def)

lemma goDiv_pos: "0 \<le> a \<Longrightarrow> 0 < b \<Longrightarrow> goDiv a b = a div b"
  by (cases "a = 0") (simp_all add: goDiv_def)

lemma goRem_nonneg: "0 \<le> a \<Longrightarrow> 0 < b \<Longrightarrow> goRem a b = a mod b"
  by (simp add: goRem_def goDiv_pos minus_mult_div_eq_mod)

lemma goDiv_0 [simp]: "goDiv 0 b = 0"
  by (simp add: goDiv_def)

lemma goRem_0 [simp]: "goRem 0 b = 0"
  by (simp add: goRem_def)

lemma durationSeconds_0 [simp]: "durationSeconds 0 = fZero"
proof -
  have "fLit 1000000000 = fOfInt 1000000000" by (simp add: fLit_def fOfInt_def)
  then show ?thesis by (simp add: durationSeconds_def fOfInt_exact toFloat_def roundMag_def)
qed

section \<open>Magnitudes\<close>

text \<open>A finite value of magnitude at most \<open>2 ^ e\<close>: overflow is excluded by
  adding up the exponents.\<close>

definition below :: "nat \<Rightarrow> float64 \<Rightarrow> bool" where
  "below e f \<longleftrightarrow> (\<exists>s m. f = Fin s m \<and> 0 \<le> m \<and> m \<le> 2 ^ e)"

lemma below_toFloat:
  assumes "m \<le> 2 ^ e" and "e < 1024"
  shows "below e (toFloat s m)"
proof -
  have "roundMag m \<le> 2 ^ e"
  proof (cases "0 < m")
    case True
    then show ?thesis using roundMag_le_power [of m "int e"] assms(1) by simp
  next
    case False
    then show ?thesis by (simp add: roundMag_def)
  qed
  moreover have "(2::rat) ^ e < 2 ^ 1024" using assms(2) by (rule power_strict_increasing) simp
  ultimately show ?thesis using roundMag_nonneg [of m] by (auto simp: below_def toFloat_def Let_def)
qed

lemma below_mono:
  assumes "below a f" and "a \<le> b"
  shows "below b f"
proof -
  obtain s m where f: "f = Fin s m" "0 \<le> m" "m \<le> 2 ^ a" using assms(1) by (auto simp: below_def)
  moreover have "(2::rat) ^ a \<le> 2 ^ b" using assms(2) by (rule power_increasing) simp
  ultimately show ?thesis unfolding below_def by (blast intro: order_trans)
qed

lemma below_fOfInt:
  assumes "\<bar>i\<bar> \<le> 2 ^ e" and "e < 1024"
  shows "below e (fOfInt i)"
proof -
  have "(of_int \<bar>i\<bar> :: rat) \<le> of_int (2 ^ e)" using assms(1) by (simp only: of_int_le_iff)
  then show ?thesis unfolding fOfInt_def using assms(2) by (intro below_toFloat) simp_all
qed

lemma below_fMul: "below a x \<Longrightarrow> below b y \<Longrightarrow> a + b < 1024 \<Longrightarrow> below (a + b) (fMul x y)"
  by (auto simp: below_def [of a] below_def [of b] power_add intro!: below_toFloat mult_mono)

lemma below_fAdd:
  assumes "below a x" and "below a y" and "a + 1 < 1024"
  shows "below (a + 1) (fAdd x y)"
proof -
  obtain s m t n where xy: "x = Fin s m" "0 \<le> m" "m \<le> 2 ^ a" "y = Fin t n" "0 \<le> n" "n \<le> 2 ^ a"
    using assms by (auto simp: below_def)
  have "\<bar>fVal x + fVal y\<bar> \<le> 2 ^ (a + 1)" using xy by auto
  then have "below (a + 1) (toFloat b \<bar>fVal x + fVal y\<bar>)" for b using assms(3) by (rule below_toFloat)
  then show ?thesis using xy by (auto simp: Let_def below_def [of _ "Fin _ 0"])
qed

lemma giga: "fLit 1000000000 = Fin False 1000000000"
proof -
  have "fLit 1000000000 = fOfInt 1000000000" by (simp add: fLit_def fOfInt_def)
  then show ?thesis by (simp add: fOfInt_exact)
qed

lemma below_durationSeconds: "below 35 (durationSeconds (timeSub t u))"
proof -
  let ?d = "timeSub t u"
  have d: "\<bar>?d\<bar> \<le> 9223372036854775808" by (auto simp: timeSub_def)
  have q: "\<bar>goDiv ?d nanosPerSecond\<bar> = \<bar>?d\<bar> div nanosPerSecond"
    by (auto simp: goDiv_def abs_mult sgn_if)
  then have "below 34 (fOfInt (goDiv ?d nanosPerSecond))" using d by (intro below_fOfInt) auto
  moreover have "\<bar>goRem ?d nanosPerSecond\<bar> \<le> nanosPerSecond"
  proof -
    have "?d = sgn ?d * \<bar>?d\<bar>" by (simp add: mult_sgn_abs)
    then have "goRem ?d nanosPerSecond = sgn ?d * (\<bar>?d\<bar> mod nanosPerSecond)"
      unfolding goRem_def goDiv_def by (simp add: right_diff_distrib minus_div_mult_eq_mod [symmetric] mult.commute mult.left_commute)
    then show ?thesis by (auto simp: abs_mult sgn_if intro: less_imp_le)
  qed
  then have "below 0 (fDiv (fOfInt (goRem ?d nanosPerSecond)) (fLit 1000000000))"
    by (simp add: giga fOfInt_exact [of "goRem ?d nanosPerSecond"] below_toFloat divide_le_eq)
  then have "below 34 (fDiv (fOfInt (goRem ?d nanosPerSecond)) (fLit 1000000000))" by (rule below_mono) simp
  ultimately have "below (34 + 1) (durationSeconds ?d)" unfolding durationSeconds_def by (rule below_fAdd) simp
  then show ?thesis by simp
qed

section \<open>The calendar\<close>

text \<open>Days are counted from 1 January of year 1. The year of a day is found by
  cycles of 400, 100, 4 and 1 years; the last year of a 100-year cycle's last
  century, and of a 4-year cycle, keeps the leap day.\<close>

definition isLeap :: "int \<Rightarrow> bool" where
  "isLeap y \<longleftrightarrow> y mod 4 = 0 \<and> (y mod 100 \<noteq> 0 \<or> y mod 400 = 0)"

definition daysBeforeYear :: "int \<Rightarrow> int" where
  "daysBeforeYear y = 365 * (y - 1) + (y - 1) div 4 - (y - 1) div 100 + (y - 1) div 400"

definition yearAndDay :: "int \<Rightarrow> int \<times> int" where
  "yearAndDay days =
     (let a = days div 146097; d1 = days mod 146097;
          c = d1 div 36524 - d1 div 36524 div 4; d2 = d1 - 36524 * c;
          e = d2 div 1461; d3 = d2 mod 1461;
          f = d3 div 365 - d3 div 365 div 4
      in (400 * a + 100 * c + 4 * e + f + 1, d3 - 365 * f))"

definition monthLengths :: "bool \<Rightarrow> int list" where
  "monthLengths leap = [31, if leap then 29 else 28, 31, 30, 31, 30, 31, 31, 30, 31, 30, 31]"

fun monthAndDay :: "int list \<Rightarrow> int \<Rightarrow> int \<Rightarrow> int \<times> int" where
  "monthAndDay [] m d = (m, d + 1)"
| "monthAndDay (l # ls) m d = (if d < l then (m, d + 1) else monthAndDay ls (m + 1) (d - l))"

record civilDate =
  cd_year :: int
  cd_month :: int
  cd_day :: int

definition civilOf :: "int \<Rightarrow> civilDate" where
  "civilOf days =
     (let (y, yd) = yearAndDay days; (m, d) = monthAndDay (monthLengths (isLeap y)) 1 yd
      in \<lparr>cd_year = y, cd_month = m, cd_day = d\<rparr>)"

definition daysOf :: "civilDate \<Rightarrow> int" where
  "daysOf c =
     daysBeforeYear (cd_year c) + sum_list (take (nat (cd_month c) - 1) (monthLengths (isLeap (cd_year c)))) + cd_day c - 1"

abbreviation nanosPerDay :: int where "nanosPerDay \<equiv> 86400000000000"

text \<open>\<open>time.Date(t.Year(), t.Month(), 1, 0, 0, 0, 0, time.UTC)\<close> for an instant \<open>t\<close> in
  UTC.\<close>

definition monthStart :: "time \<Rightarrow> time" where
  "monthStart now = daysOf ((civilOf (now div nanosPerDay))\<lparr>cd_day := 1\<rparr>) * nanosPerDay"

lemma short_cycle:
  fixes d L :: int
  defines "c \<equiv> d div L - d div L div 4"
  assumes "0 < L" and "0 \<le> d" and "d \<le> 4 * L"
  shows "0 \<le> c" and "c \<le> 3" and "0 \<le> d - L * c" and "d - L * c \<le> L" and "c < 3 \<Longrightarrow> d - L * c < L"
proof -
  define n where "n = d div L"
  define r where "r = d mod L"
  have dn: "d = L * n + r" "0 \<le> r" "r < L" using assms(2) by (simp_all add: n_def r_def)
  have "0 \<le> n" using assms by (simp add: n_def pos_imp_zdiv_nonneg_iff)
  moreover have "n \<le> 4"
  proof -
    have "n \<le> (4 * L) div L" unfolding n_def using assms by (intro zdiv_mono1) simp_all
    then show ?thesis using assms by simp
  qed
  ultimately consider "n = 4" | "0 \<le> n" "n \<le> 3" by linarith
  then have "0 \<le> c \<and> c \<le> 3 \<and> 0 \<le> d - L * c \<and> d - L * c \<le> L \<and> (c < 3 \<longrightarrow> d - L * c < L)"
  proof cases
    case 1
    then have "c = 3" by (simp add: c_def flip: n_def)
    moreover have "d = 4 * L" using dn(1,2) assms(4) 1 by simp
    ultimately show ?thesis using assms(2) by simp
  next
    case 2
    then have "c = n" by (simp add: c_def flip: n_def)
    then show ?thesis using 2 dn by auto
  qed
  then show "0 \<le> c" "c \<le> 3" "0 \<le> d - L * c" "d - L * c \<le> L" "c < 3 \<Longrightarrow> d - L * c < L" by simp_all
qed

lemma yearAndDay_parts:
  fixes days :: int
  obtains a c e f g where "yearAndDay days = (400 * a + 100 * c + 4 * e + f + 1, g)"
    and "days = 146097 * a + 36524 * c + 1461 * e + 365 * f + g"
    and "0 \<le> c" "c \<le> 3" "0 \<le> e" "e \<le> 24" "0 \<le> f" "f \<le> 3" "0 \<le> g"
    and "g \<le> (if f = 3 \<and> (e < 24 \<or> c = 3) then 365 else 364)"
proof -
  define a where "a = days div 146097"
  define d1 where "d1 = days mod 146097"
  define c where "c = d1 div 36524 - d1 div 36524 div 4"
  define d2 where "d2 = d1 - 36524 * c"
  define e where "e = d2 div 1461"
  define d3 where "d3 = d2 mod 1461"
  define f where "f = d3 div 365 - d3 div 365 div 4"
  define g where "g = d3 - 365 * f"
  have d: "days = 146097 * a + d1" "0 \<le> d1" "d1 < 146097" by (simp_all add: a_def d1_def)
  have L: "(0::int) < 36524" "d1 \<le> 4 * 36524" "(0::int) < 365" using d(3) by simp_all
  note c = short_cycle [OF L(1) d(2) L(2), folded c_def, folded d2_def]
  have e: "d2 = 1461 * e + d3" "0 \<le> d3" "d3 < 1461" "0 \<le> e"
    using c(3) by (simp_all add: e_def d3_def pos_imp_zdiv_nonneg_iff)
  have e24: "e \<le> 24" using e(1,2) c(4) by linarith
  have "d3 \<le> 4 * 365" using e(3) by simp
  note f = short_cycle [OF L(3) e(2) this, folded f_def, folded g_def]
  have "g \<le> 364" if "f = 3" "e = 24" "c \<noteq> 3"
  proof -
    have "d2 < 36524" using c(2,5) that by auto
    then have "d3 < 1460" using e(1) that by simp
    then show ?thesis using that by (simp add: g_def)
  qed
  then have g: "g \<le> (if f = 3 \<and> (e < 24 \<or> c = 3) then 365 else 364)"
    using f(2,4,5) e24 by (cases "f = 3") (auto simp: less_le)
  have "yearAndDay days = (400 * a + 100 * c + 4 * e + f + 1, g)"
    unfolding yearAndDay_def Let_def g_def f_def d3_def e_def d2_def c_def d1_def a_def ..
  moreover have "days = 146097 * a + 36524 * c + 1461 * e + 365 * f + g"
    using d(1) e(1) by (simp add: g_def d2_def)
  ultimately show thesis using c(1,2) e(4) e24 f(1,2,3) g by (rule that)
qed

lemma yearAndDay_days:
  assumes "yearAndDay days = (y, yd)"
  shows "days = daysBeforeYear y + yd" and "0 \<le> yd" and "yd < (if isLeap y then 366 else 365)"
proof -
  obtain a c e f g where p: "yearAndDay days = (400 * a + 100 * c + 4 * e + f + 1, g)"
    "days = 146097 * a + 36524 * c + 1461 * e + 365 * f + g"
    "0 \<le> c" "c \<le> 3" "0 \<le> e" "e \<le> 24" "0 \<le> f" "f \<le> 3" "0 \<le> g"
    "g \<le> (if f = 3 \<and> (e < 24 \<or> c = 3) then 365 else 364)"
    by (rule yearAndDay_parts)
  have y: "y = 400 * a + 100 * c + 4 * e + f + 1" "yd = g" using assms p(1) by simp_all
  have "(y - 1) div 4 = 100 * a + 25 * c + e" "(y - 1) div 100 = 4 * a + c" "(y - 1) div 400 = a"
    using p(3-8) unfolding y(1) by linarith+
  then show "days = daysBeforeYear y + yd" using p(2) by (simp add: daysBeforeYear_def y)
  show "0 \<le> yd" using p(9) y(2) by simp
  have "isLeap y" if "f = 3" "e < 24 \<or> c = 3"
  proof -
    have "y = 4 * (100 * a + 25 * c + e + 1)" using that(1) y(1) by simp
    then have "y mod 4 = 0" by simp
    moreover have "y mod 100 \<noteq> 0" if "e < 24"
    proof -
      have "y = 100 * (4 * a + c) + (4 * e + 4)" using \<open>f = 3\<close> y(1) by simp
      then have "y mod 100 = (4 * e + 4) mod 100" by (simp only: mod_mult_self4)
      then show ?thesis using that p(5) by simp
    qed
    moreover have "y mod 400 = 0" if "e = 24" "c = 3"
    proof -
      have "y = 400 * (a + 1)" using that \<open>f = 3\<close> y(1) by simp
      then show ?thesis by simp
    qed
    ultimately show ?thesis using that(2) p(6) by (cases "e < 24") (auto simp: isLeap_def)
  qed
  then show "yd < (if isLeap y then 366 else 365)" using p(10) y(2) by (auto split: if_splits)
qed

lemma monthAndDay_sum:
  assumes "monthAndDay ls m d = (m', d')" and "0 \<le> d" and "d < sum_list ls"
  shows "\<exists>k < length ls. m' = m + int k \<and> d = sum_list (take k ls) + d' - 1 \<and> 1 \<le> d' \<and> d' \<le> ls ! k"
  using assms
proof (induction ls m d rule: monthAndDay.induct)
  case (2 l ls m d)
  show ?case
  proof (cases "d < l")
    case True
    then show ?thesis using 2 by (intro exI [of _ 0]) auto
  next
    case False
    then obtain k where "k < length ls" "m' = m + 1 + int k" "d - l = sum_list (take k ls) + d' - 1" "1 \<le> d'" "d' \<le> ls ! k"
      using 2 by auto
    then show ?thesis by (intro exI [of _ "Suc k"]) auto
  qed
qed simp

lemma sum_monthLengths: "sum_list (monthLengths leap) = (if leap then 366 else 365)" "length (monthLengths leap) = 12"
  by (simp_all add: monthLengths_def)

lemma civilOf_valid:
  defines "c \<equiv> \<lambda>days. civilOf days"
  shows "daysOf (c days) = days" and "1 \<le> cd_month (c days)" and "cd_month (c days) \<le> 12"
    and "1 \<le> cd_day (c days)" and "cd_day (c days) \<le> monthLengths (isLeap (cd_year (c days))) ! nat (cd_month (c days) - 1)"
    and "cd_year (c days) = fst (yearAndDay days)"
proof -
  obtain y yd where y: "yearAndDay days = (y, yd)" by fastforce
  obtain m d where m: "monthAndDay (monthLengths (isLeap y)) 1 yd = (m, d)" by fastforce
  note days = yearAndDay_days [OF y]
  obtain k where k: "k < 12" "m = 1 + int k" "yd = sum_list (take k (monthLengths (isLeap y))) + d - 1" "1 \<le> d"
      "d \<le> monthLengths (isLeap y) ! k"
    using monthAndDay_sum [OF m days(2)] days(3) by (auto simp: sum_monthLengths)
  have c: "c days = \<lparr>cd_year = y, cd_month = m, cd_day = d\<rparr>" by (simp add: c_def civilOf_def y m)
  show "daysOf (c days) = days" unfolding c using days(1) k(2,3) by (simp add: daysOf_def nat_add_distrib)
  show "1 \<le> cd_month (c days)" "cd_month (c days) \<le> 12" "1 \<le> cd_day (c days)"
    "cd_day (c days) \<le> monthLengths (isLeap (cd_year (c days))) ! nat (cd_month (c days) - 1)"
    "cd_year (c days) = fst (yearAndDay days)"
    using k by (simp_all add: c y)
qed

end
