(* ===== verification/Rate_Limit.thy ===== *)
theory Rate_Limit
  imports Auth_Access Go_Time
begin

text \<open>
  The per-key token bucket rate limiter and its middleware
  (\<open>pkg/auth/ratelimit.go\<close>). Each locked method is one step on the limiter;
  the clock reading is an argument. The background sweep is the step
  \<open>evictExpiredLocked\<close>, which may happen between any two requests.
\<close>

section \<open>The limiter\<close>

definition DefaultMaxBuckets :: int64 where
  "DefaultMaxBuckets = 50000"

record tokenBucket =
  tb_tokens :: float64
  tb_lastCheck :: time
  tb_lastAccess :: time

record RateLimiter =
  rl_buckets :: "(string, tokenBucket) gomap"
  rl_rate :: float64
  rl_burst :: int64
  rl_ttl :: int64
  rl_maxBuckets :: int64
  rl_trustProxyHeaders :: bool

definition NewRateLimiterWithTTL :: "float64 \<Rightarrow> int64 \<Rightarrow> int64 \<Rightarrow> RateLimiter" where
  "NewRateLimiterWithTTL ratePerSecond burstSize ttl =
     \<lparr>rl_buckets = [], rl_rate = ratePerSecond, rl_burst = burstSize, rl_ttl = ttl,
      rl_maxBuckets = DefaultMaxBuckets, rl_trustProxyHeaders = False\<rparr>"

definition NewRateLimiter :: "float64 \<Rightarrow> int64 \<Rightarrow> RateLimiter" where
  "NewRateLimiter ratePerSecond burstSize = NewRateLimiterWithTTL ratePerSecond burstSize (10 * minuteNanos)"

definition evictExpiredLocked :: "time \<Rightarrow> RateLimiter \<Rightarrow> RateLimiter" where
  "evictExpiredLocked now rl =
     rl\<lparr>rl_buckets := mapDeleteIf (\<lambda>key b. rl_ttl rl < timeSub now (tb_lastAccess b)) (rl_buckets rl)\<rparr>"

definition TrustProxyHeaders :: "bool \<Rightarrow> RateLimiter \<Rightarrow> RateLimiter" where
  "TrustProxyHeaders trust rl = rl\<lparr>rl_trustProxyHeaders := trust\<rparr>"

definition Derive :: "RateLimiter \<Rightarrow> RateLimiter" where
  "Derive rl =
     TrustProxyHeaders (rl_trustProxyHeaders rl) (NewRateLimiterWithTTL (rl_rate rl) (rl_burst rl) (rl_ttl rl))"

definition BucketCount :: "RateLimiter \<Rightarrow> int64" where
  "BucketCount rl = int (length (rl_buckets rl))"

definition saturated :: "RateLimiter \<Rightarrow> bool" where
  "saturated rl \<longleftrightarrow> 0 < rl_maxBuckets rl \<and> rl_maxBuckets rl \<le> int (length (rl_buckets rl))"

text \<open>The refill of an existing bucket.\<close>

definition refill :: "time \<Rightarrow> RateLimiter \<Rightarrow> tokenBucket \<Rightarrow> tokenBucket" where
  "refill now rl b =
     (let elapsed = durationSeconds (timeSub now (tb_lastCheck b));
          tokens = fAdd (tb_tokens b) (fMul elapsed (rl_rate rl));
          tokens' = (if fLt (fOfInt (rl_burst rl)) tokens then fOfInt (rl_burst rl) else tokens)
      in \<lparr>tb_tokens = tokens', tb_lastCheck = now, tb_lastAccess = now\<rparr>)"

definition Allow :: "time \<Rightarrow> string \<Rightarrow> RateLimiter \<Rightarrow> RateLimiter \<times> bool" where
  "Allow now key rl =
     (case map_of (rl_buckets rl) key of
        None \<Rightarrow>
          let rl1 = (if saturated rl then evictExpiredLocked now rl else rl) in
          if saturated rl1 then (rl1, False)
          else (rl1\<lparr>rl_buckets := AList.update key
                  \<lparr>tb_tokens = fSub (fOfInt (rl_burst rl1)) fOne, tb_lastCheck = now, tb_lastAccess = now\<rparr>
                  (rl_buckets rl1)\<rparr>, True)
      | Some b \<Rightarrow>
          let b1 = refill now rl b in
          if fLt (tb_tokens b1) fOne
          then (rl\<lparr>rl_buckets := AList.update key b1 (rl_buckets rl)\<rparr>, False)
          else (rl\<lparr>rl_buckets := AList.update key (b1\<lparr>tb_tokens := fSub (tb_tokens b1) fOne\<rparr>) (rl_buckets rl)\<rparr>, True))"

section \<open>Keys\<close>

definition clientAddrKey :: "httpRequest \<Rightarrow> bool \<Rightarrow> string" where
  "clientAddrKey r trustProxyHeaders =
     (let xff = headerGet (hr_Header r) ''X-Forwarded-For'';
          addr = (case splitHostPort (hr_RemoteAddr r) of Inl _ \<Rightarrow> hr_RemoteAddr r | Inr (host, _) \<Rightarrow> host)
      in if trustProxyHeaders \<and> xff \<noteq> [] then
           if CHR '','' \<in> set xff then ''ip:'' @ trimSpace (uptoByte CHR '','' xff)
           else ''ip:'' @ trimSpace xff
         else ''ip:'' @ addr)"

definition subjectKey :: "httpRequest \<Rightarrow> bool \<Rightarrow> string" where
  "subjectKey r trustProxyHeaders =
     (case GetIdentity r of
        Some identity \<Rightarrow>
          if id_Subject identity \<noteq> [] then ''sub:'' @ id_Subject identity
          else (case GetClaims r of
                  Some claims \<Rightarrow> if clm_Subject claims \<noteq> [] then ''sub:'' @ clm_Subject claims
                                 else clientAddrKey r trustProxyHeaders
                | None \<Rightarrow> clientAddrKey r trustProxyHeaders)
      | None \<Rightarrow>
          (case GetClaims r of
             Some claims \<Rightarrow> if clm_Subject claims \<noteq> [] then ''sub:'' @ clm_Subject claims
                            else clientAddrKey r trustProxyHeaders
           | None \<Rightarrow> clientAddrKey r trustProxyHeaders))"

section \<open>The middleware\<close>

definition rateLimitMiddleware ::
  "string list \<Rightarrow> (httpRequest \<Rightarrow> bool \<Rightarrow> string) \<Rightarrow> time \<Rightarrow> httpRequest \<Rightarrow> RateLimiter \<Rightarrow> RateLimiter \<times> httpDecision" where
  "rateLimitMiddleware exempt keyFn now r limiter =
     (if hr_Path r \<in> set exempt then (limiter, Forward r)
      else let (limiter', allowed) = Allow now (keyFn r (rl_trustProxyHeaders limiter)) limiter
           in (limiter', if allowed then Forward r
                         else Respond 429 ''rate limit exceeded'' ''too many requests, please retry later''))"

definition RateLimitMiddlewareWithExemptions ::
  "string list \<Rightarrow> time \<Rightarrow> httpRequest \<Rightarrow> RateLimiter \<Rightarrow> RateLimiter \<times> httpDecision" where
  "RateLimitMiddlewareWithExemptions exempt = rateLimitMiddleware exempt clientAddrKey"

definition RateLimitMiddleware :: "time \<Rightarrow> httpRequest \<Rightarrow> RateLimiter \<Rightarrow> RateLimiter \<times> httpDecision" where
  "RateLimitMiddleware = RateLimitMiddlewareWithExemptions []"

definition SubjectRateLimitMiddleware ::
  "string list \<Rightarrow> time \<Rightarrow> httpRequest \<Rightarrow> RateLimiter \<Rightarrow> RateLimiter \<times> httpDecision" where
  "SubjectRateLimitMiddleware exempt = rateLimitMiddleware exempt subjectKey"

section \<open>Reachable limiters\<close>

inductive limiterStep :: "RateLimiter \<Rightarrow> RateLimiter \<Rightarrow> bool" where
  allow: "limiterStep rl (fst (Allow now key rl))"
| sweep: "limiterStep rl (evictExpiredLocked now rl)"
| trust: "limiterStep rl (TrustProxyHeaders b rl)"

text \<open>The limits under which the arithmetic stays exact enough: a positive burst
  and a finite, non-negative rate, both at most 2^53.\<close>

definition limitsOk :: "float64 \<Rightarrow> int64 \<Rightarrow> bool" where
  "limitsOk rate burst \<longleftrightarrow> 1 \<le> burst \<and> burst \<le> 2 ^ 53 \<and> below 53 rate \<and> fLe fZero rate"

text \<open>The configuration never changes, the map has one bucket per key, its size
  stays within the cap, and no bucket holds more than the burst.\<close>

definition bucketOk :: "int64 \<Rightarrow> tokenBucket \<Rightarrow> bool" where
  "bucketOk burst b \<longleftrightarrow> wfFloat (tb_tokens b) \<and> fLe (tb_tokens b) (fOfInt burst)"

definition limiterInv :: "float64 \<Rightarrow> int64 \<Rightarrow> int64 \<Rightarrow> int64 \<Rightarrow> RateLimiter \<Rightarrow> bool" where
  "limiterInv rate burst ttl cap rl \<longleftrightarrow>
     rl_rate rl = rate \<and> rl_burst rl = burst \<and> rl_ttl rl = ttl \<and> rl_maxBuckets rl = cap \<and>
     validMap (rl_buckets rl) \<and> (0 < cap \<longrightarrow> int (length (rl_buckets rl)) \<le> cap) \<and>
     (\<forall>b \<in> ran (map_of (rl_buckets rl)). bucketOk burst b)"

section \<open>Token arithmetic\<close>

lemma fSub_one_int:
  assumes "1 \<le> j" and "j \<le> 2 ^ 53"
  shows "fSub (fOfInt j) fOne = fOfInt (j - 1)"
proof -
  have "\<bar>of_int j - (1::rat)\<bar> = of_int \<bar>j - 1\<bar>" and sgn: "of_int j - (1::rat) < 0 \<longleftrightarrow> j - 1 < 0"
    using assms(1) by simp_all
  then show ?thesis using assms
    by (simp add: fSub_def fOfInt_exact [of j] Let_def) (simp add: fOfInt_def)
qed

lemma fOfInt_le: "\<bar>i\<bar> \<le> 2 ^ 53 \<Longrightarrow> \<bar>j\<bar> \<le> 2 ^ 53 \<Longrightarrow> fLe (fOfInt i) (fOfInt j) \<longleftrightarrow> i \<le> j"
  by (auto simp: fLe_def fOfInt_exact)

lemma fLt_int_one: "0 \<le> j \<Longrightarrow> j \<le> 2 ^ 53 \<Longrightarrow> fLt (fOfInt j) fOne \<longleftrightarrow> j = 0"
  by (auto simp: fOfInt_exact)

text \<open>Taking a token from a bucket that holds at least one keeps it below the
  burst.\<close>

lemma take_token:
  assumes "bucketOk burst b" and "\<not> fLt (tb_tokens b) fOne" and "1 \<le> burst" and "burst \<le> 2 ^ 53"
  shows "bucketOk burst (b\<lparr>tb_tokens := fSub (tb_tokens b) fOne\<rparr>)"
proof -
  have burst: "fOfInt burst = Fin False (of_int burst)" using assms(3,4) by (simp add: fOfInt_exact)
  obtain m where m: "tb_tokens b = Fin False m" "1 \<le> m" "m \<le> of_int burst"
  proof (cases "tb_tokens b")
    case (Fin s m)
    with assms(1,2) burst show thesis by (cases s) (auto simp: bucketOk_def intro: that)
  next
    case (FInf s)
    with assms(1,2) burst show thesis by (cases s) (auto simp: bucketOk_def fLe_def fLt_def)
  qed (use assms(1) in \<open>simp add: bucketOk_def\<close>)
  have "of_int burst < (2::rat) ^ 1024"
  proof -
    have "(of_int burst :: rat) \<le> of_int (2 ^ 53)" using assms(4) by (simp only: of_int_le_iff)
    then show ?thesis using pow53_lt by simp
  qed
  moreover have "roundMag (of_int burst) = of_int burst" using roundMag_of_int [of burst] assms(3,4) by simp
  ultimately obtain r where "toFloat False (m - 1) = Fin False r" "0 \<le> r" "r \<le> of_int burst"
    using toFloat_le_exact [of "m - 1" "of_int burst" False] m(3) by auto
  moreover have "fSub (tb_tokens b) fOne = (if m = 1 then Fin False 0 else toFloat False (m - 1))"
    using m(1,2) by (auto simp: fSub_def Let_def)
  ultimately show ?thesis using assms(3) burst wf_fSub [of "tb_tokens b" fOne] assms(1) by (auto simp: bucketOk_def)
qed

lemma refill_ok:
  assumes "bucketOk (rl_burst rl) b" and "limitsOk (rl_rate rl) (rl_burst rl)"
  shows "bucketOk (rl_burst rl) (refill now rl b)"
proof -
  let ?p = "fMul (durationSeconds (timeSub now (tb_lastCheck b))) (rl_rate rl)"
  have "below (35 + 53) ?p" using assms(2) unfolding limitsOk_def by (intro below_fMul below_durationSeconds) auto
  then obtain s m where p: "?p = Fin s m" "0 \<le> m" "m \<le> 2 ^ 88" by (auto simp: below_def)
  have "\<not> isNaN (fAdd (tb_tokens b) ?p)"
    using assms(1) by (cases "tb_tokens b") (auto simp: p(1) bucketOk_def Let_def)
  moreover have "wfFloat (fAdd (tb_tokens b) ?p)" using assms(1) by (auto simp: bucketOk_def intro: wf_fAdd)
  ultimately show ?thesis
    by (auto simp: refill_def Let_def bucketOk_def not_fLt)
qed

section \<open>The invariant\<close>

lemma evict_sel [simp]:
  "rl_rate (evictExpiredLocked now rl) = rl_rate rl" "rl_burst (evictExpiredLocked now rl) = rl_burst rl"
  "rl_ttl (evictExpiredLocked now rl) = rl_ttl rl" "rl_maxBuckets (evictExpiredLocked now rl) = rl_maxBuckets rl"
  "rl_trustProxyHeaders (evictExpiredLocked now rl) = rl_trustProxyHeaders rl"
  by (simp_all add: evictExpiredLocked_def)

lemma evict_inv:
  assumes "limiterInv rate burst ttl cap rl"
  shows "limiterInv rate burst ttl cap (evictExpiredLocked now rl)"
proof -
  let ?m = "rl_buckets rl" and ?P = "\<lambda>key b. rl_ttl rl < timeSub now (tb_lastAccess b)"
  have v: "validMap ?m" using assms by (simp add: limiterInv_def)
  have "ran (map_of (mapDeleteIf ?P ?m)) \<subseteq> ran (map_of ?m)"
    by (auto simp: ran_def map_of_deleteIf [OF v] split: option.splits if_splits)
  moreover have "length (mapDeleteIf ?P ?m) \<le> length ?m" by (rule length_deleteIf)
  ultimately show ?thesis using assms v by (auto simp: limiterInv_def evictExpiredLocked_def)
qed

lemma update_inv:
  assumes "limiterInv rate burst ttl cap rl" and "bucketOk burst b"
    and "map_of (rl_buckets rl) key = None \<Longrightarrow> \<not> saturated rl"
  shows "limiterInv rate burst ttl cap (rl\<lparr>rl_buckets := AList.update key b (rl_buckets rl)\<rparr>)"
proof -
  have "0 < cap \<longrightarrow> int (length (AList.update key b (rl_buckets rl))) \<le> cap"
  proof (cases "map_of (rl_buckets rl) key = None")
    case True
    with assms(1,3) show ?thesis by (auto simp: limiterInv_def saturated_def length_aupdate_new)
  next
    case False
    with assms(1) show ?thesis by (simp add: limiterInv_def length_aupdate_old)
  qed
  moreover have "ran (map_of (AList.update key b (rl_buckets rl))) \<subseteq> insert b (ran (map_of (rl_buckets rl)))"
    by (auto simp: map_of_aupdate ran_def split: if_splits)
  ultimately show ?thesis using assms(1,2) by (auto simp: limiterInv_def)
qed

lemma Allow_inv:
  assumes inv: "limiterInv rate burst ttl cap rl" and ok: "limitsOk rate burst"
  shows "limiterInv rate burst ttl cap (fst (Allow now key rl))"
proof (cases "map_of (rl_buckets rl) key")
  case None
  define rl1 where "rl1 = (if saturated rl then evictExpiredLocked now rl else rl)"
  have inv1: "limiterInv rate burst ttl cap rl1" using inv by (simp add: rl1_def evict_inv)
  have "bucketOk burst \<lparr>tb_tokens = fSub (fOfInt (rl_burst rl1)) fOne, tb_lastCheck = now, tb_lastAccess = now\<rparr>"
    using inv1 ok fSub_one_int [of burst] fOfInt_le [of "burst - 1" burst]
    by (simp add: bucketOk_def limiterInv_def limitsOk_def)
  then have "\<not> saturated rl1 \<Longrightarrow> limiterInv rate burst ttl cap (rl1\<lparr>rl_buckets := AList.update key
      \<lparr>tb_tokens = fSub (fOfInt (rl_burst rl1)) fOne, tb_lastCheck = now, tb_lastAccess = now\<rparr> (rl_buckets rl1)\<rparr>)"
    using inv1 by (intro update_inv)
  then show ?thesis using None inv1 by (simp add: Allow_def Let_def flip: rl1_def)
next
  case (Some b)
  have cfg: "rl_rate rl = rate" "rl_burst rl = burst" using inv by (simp_all add: limiterInv_def)
  have "b \<in> ran (map_of (rl_buckets rl))" using Some by (rule ranI)
  then have "bucketOk burst b" using inv by (simp add: limiterInv_def)
  then have b1: "bucketOk burst (refill now rl b)" using refill_ok [of rl b now] ok cfg by simp
  have burst: "1 \<le> burst" "burst \<le> 2 ^ 53" using ok by (simp_all add: limitsOk_def)
  have upd: "limiterInv rate burst ttl cap (rl\<lparr>rl_buckets := AList.update key b' (rl_buckets rl)\<rparr>)" if "bucketOk burst b'" for b'
    using inv that Some by (intro update_inv) simp_all
  show ?thesis using Some upd [OF b1] upd [OF take_token [OF b1 _ burst]] by (simp add: Allow_def Let_def)
qed

lemma limiterStep_inv:
  "limiterStep rl rl' \<Longrightarrow> limiterInv rate burst ttl cap rl \<Longrightarrow> limitsOk rate burst \<Longrightarrow> limiterInv rate burst ttl cap rl'"
proof (induction rule: limiterStep.induct)
  case (allow rl now key)
  then show ?case by (rule Allow_inv)
next
  case (sweep rl now)
  show ?case using sweep(1) by (rule evict_inv)
next
  case (trust rl b)
  then show ?case by (simp add: limiterInv_def TrustProxyHeaders_def)
qed

lemma limiterInv_New: "limiterInv rate burst ttl DefaultMaxBuckets (NewRateLimiterWithTTL rate burst ttl)"
  by (simp add: limiterInv_def NewRateLimiterWithTTL_def DefaultMaxBuckets_def)

text \<open>C19: Whatever requests, sweeps and configuration calls a limiter with a
  positive burst and a finite non-negative rate sees, in any order and at any
  clock readings, it tracks at most \<open>DefaultMaxBuckets\<close> keys, one bucket per key,
  and no bucket ever holds more tokens than the burst.\<close>

theorem limiter_bounded:
  assumes "limitsOk rate burst" and "limiterStep\<^sup>*\<^sup>* (NewRateLimiterWithTTL rate burst ttl) rl"
  shows "BucketCount rl \<le> DefaultMaxBuckets \<and> validMap (rl_buckets rl)
    \<and> (\<forall>key b. map_of (rl_buckets rl) key = Some b \<longrightarrow> fLe (tb_tokens b) (fOfInt burst))"
proof -
  have "limiterInv rate burst ttl DefaultMaxBuckets rl"
    using assms(2) by (induction rule: rtranclp_induct) (auto intro: limiterInv_New limiterStep_inv assms(1))
  then have "\<forall>b \<in> ran (map_of (rl_buckets rl)). fLe (tb_tokens b) (fOfInt burst)" and "validMap (rl_buckets rl)"
    and "int (length (rl_buckets rl)) \<le> DefaultMaxBuckets"
    by (simp_all add: limiterInv_def bucketOk_def DefaultMaxBuckets_def)
  then show ?thesis unfolding BucketCount_def by (blast intro: ranI)
qed

theorem limiter_bounded_witness:
  "\<exists>rl. limitsOk (fLit 10) 5 \<and> limiterStep\<^sup>*\<^sup>* (NewRateLimiterWithTTL (fLit 10) 5 60) rl \<and> BucketCount rl = 1
    \<and> BucketCount rl \<le> DefaultMaxBuckets"
proof -
  let ?r0 = "NewRateLimiterWithTTL (fLit 10) 5 60"
  have ten: "fLit 10 = Fin False 10" using fOfInt_exact [of 10] by (simp add: fLit_def fOfInt_def)
  have ok: "limitsOk (fLit 10) 5" by (auto simp: limitsOk_def below_def ten)
  have step: "limiterStep\<^sup>*\<^sup>* ?r0 (fst (Allow 7 ''k'' ?r0))" by (rule r_into_rtranclp) (rule limiterStep.allow)
  have "BucketCount (fst (Allow 7 ''k'' ?r0)) = 1"
    by (simp add: Allow_def NewRateLimiterWithTTL_def saturated_def DefaultMaxBuckets_def BucketCount_def Let_def)
  then show ?thesis using limiter_bounded [OF ok step] ok step by blast
qed

section \<open>Bursts\<close>

text \<open>Requests of one client at one clock reading: the bucket counts down exactly.\<close>

definition clientBucket :: "time \<Rightarrow> int \<Rightarrow> tokenBucket" where
  "clientBucket now j = \<lparr>tb_tokens = fOfInt j, tb_lastCheck = now, tb_lastAccess = now\<rparr>"

lemma refill_same_instant:
  assumes "below 53 (rl_rate rl)" and "0 \<le> j" and "j \<le> rl_burst rl" and "rl_burst rl \<le> 2 ^ 53"
  shows "refill now rl (clientBucket now j) = clientBucket now j"
proof -
  obtain s m where "rl_rate rl = Fin s m" using assms(1) by (auto simp: below_def)
  then have "fMul fZero (rl_rate rl) = Fin s 0" by (simp add: toFloat_def)
  moreover have "fAdd (fOfInt j) (Fin s 0) = fOfInt j"
  proof -
    have j: "fOfInt j = Fin False (of_int j)" using assms(2-4) fOfInt_exact [of j] by simp
    then have "toFloat False (of_int j) = Fin False (of_int j)" using assms(2) by (simp add: fOfInt_def)
    then show ?thesis using assms(2) by (simp add: j Let_def)
  qed
  moreover have "\<not> fLt (fOfInt (rl_burst rl)) (fOfInt j)" using assms(2-4) by (simp add: not_fLt fOfInt_le)
  ultimately show ?thesis by (simp add: refill_def clientBucket_def Let_def)
qed

lemma Allow_first:
  assumes "map_of (rl_buckets rl) key = None" and "\<not> saturated rl" and "1 \<le> rl_burst rl" and "rl_burst rl \<le> 2 ^ 53"
  shows "Allow now key rl =
    (rl\<lparr>rl_buckets := AList.update key (clientBucket now (rl_burst rl - 1)) (rl_buckets rl)\<rparr>, True)"
  using assms by (simp add: Allow_def Let_def clientBucket_def fSub_one_int)

lemma Allow_again:
  assumes "map_of (rl_buckets rl) key = Some (clientBucket now j)" and "below 53 (rl_rate rl)"
    and "0 \<le> j" and "j \<le> rl_burst rl" and "rl_burst rl \<le> 2 ^ 53"
  shows "Allow now key rl =
    (rl\<lparr>rl_buckets := AList.update key (clientBucket now (max 0 (j - 1))) (rl_buckets rl)\<rparr>, 0 < j)"
proof -
  have "fLt (tb_tokens (clientBucket now j)) fOne \<longleftrightarrow> j = 0"
    using assms(3-5) by (simp add: clientBucket_def fLt_int_one)
  moreover have "(clientBucket now j)\<lparr>tb_tokens := fSub (tb_tokens (clientBucket now j)) fOne\<rparr> = clientBucket now (j - 1)" if "j \<noteq> 0"
    using that assms(3-5) by (simp add: clientBucket_def fSub_one_int)
  ultimately show ?thesis
    using assms refill_same_instant [OF assms(2-5), of now] by (auto simp: Allow_def Let_def)
qed

text \<open>A run of the middleware over a list of requests at one clock reading.\<close>

fun serveAll ::
  "(httpRequest \<Rightarrow> RateLimiter \<Rightarrow> RateLimiter \<times> httpDecision) \<Rightarrow> httpRequest list \<Rightarrow> RateLimiter
     \<Rightarrow> RateLimiter \<times> httpDecision list" where
  "serveAll h [] rl = (rl, [])"
| "serveAll h (r # rs) rl =
     (let (rl1, d) = h r rl; (rl2, ds) = serveAll h rs rl1 in (rl2, d # ds))"

definition forwarded :: "httpDecision list \<Rightarrow> nat" where
  "forwarded ds = length (filter (\<lambda>d. case d of Forward _ \<Rightarrow> True | Respond _ _ _ \<Rightarrow> False) ds)"

lemma forwarded_simps [simp]:
  "forwarded [] = 0" "forwarded (Forward r # ds) = Suc (forwarded ds)" "forwarded (Respond a b c # ds) = forwarded ds"
  by (simp_all add: forwarded_def)

lemma serveAll_again:
  assumes "\<forall>r\<in>set rs. hr_Path r \<notin> set exempt \<and> keyFn r (rl_trustProxyHeaders rl) = key"
    and "map_of (rl_buckets rl) key = Some (clientBucket now j)" and "below 53 (rl_rate rl)"
    and "0 \<le> j" and "j \<le> rl_burst rl" and "rl_burst rl \<le> 2 ^ 53"
  shows "forwarded (snd (serveAll (rateLimitMiddleware exempt keyFn now) rs rl)) = min (length rs) (nat j)"
  using assms
proof (induction rs arbitrary: rl j)
  case (Cons r rs)
  let ?rl = "rl\<lparr>rl_buckets := AList.update key (clientBucket now (max 0 (j - 1))) (rl_buckets rl)\<rparr>"
  have step: "rateLimitMiddleware exempt keyFn now r rl =
      (?rl, if 0 < j then Forward r else Respond 429 ''rate limit exceeded'' ''too many requests, please retry later'')"
    using Cons.prems(1) Allow_again [OF Cons.prems(2-6)] by (simp add: rateLimitMiddleware_def)
  have "forwarded (snd (serveAll (rateLimitMiddleware exempt keyFn now) rs ?rl)) = min (length rs) (nat (max 0 (j - 1)))"
    using Cons.prems by (intro Cons.IH) (auto simp: map_of_aupdate)
  then show ?case using step Cons.prems(4) by (auto simp: min_def split: prod.split)
qed simp

lemma clientAddrKey_untrusted: "clientAddrKey r False =
    ''ip:'' @ (case splitHostPort (hr_RemoteAddr r) of Inl _ \<Rightarrow> hr_RemoteAddr r | Inr (host, _) \<Rightarrow> host)"
  by (simp add: clientAddrKey_def)

text \<open>A peer address as the server reports it: the host and the port, with an IPv6
  host in brackets.\<close>

definition peerAddr :: "string \<Rightarrow> string \<Rightarrow> string" where
  "peerAddr host port =
     (if CHR '':'' \<in> set host then ''['' @ host @ '']:'' @ port else host @ '':'' @ port)"

lemma splitHostPort_peerAddr:
  assumes "set host \<inter> {CHR ''['', CHR '']''} = {}" and "set port \<inter> {CHR '':'', CHR ''['', CHR '']''} = {}"
  shows "splitHostPort (peerAddr host port) = Inr (host, port)"
  using assms splitHostPort_plain [of host port] splitHostPort_bracketed [of host port]
  unfolding peerAddr_def by auto

text \<open>C18: The client-address limiter cannot be evaded by varying headers or ports:
  of any requests on non-exempt paths from one host, IPv4 or IPv6, at one clock
  reading, whatever their headers, source ports and methods, a fresh limiter that
  does not trust proxy headers forwards exactly the first \<open>burst\<close> and answers 429
  to the rest.\<close>

theorem address_flood_bound:
  assumes "limitsOk rate burst" and "set host \<inter> {CHR ''['', CHR '']''} = {}"
    and "\<forall>r\<in>set rs. hr_Path r \<notin> set exempt
      \<and> (\<exists>port. set port \<inter> {CHR '':'', CHR ''['', CHR '']''} = {} \<and> hr_RemoteAddr r = peerAddr host port)"
  shows "forwarded (snd (serveAll (RateLimitMiddlewareWithExemptions exempt now) rs (NewRateLimiterWithTTL rate burst ttl)))
    = min (length rs) (nat burst)"
proof (cases rs)
  case (Cons r rest)
  let ?rl0 = "NewRateLimiterWithTTL rate burst ttl" and ?key = "''ip:'' @ host"
  have cfg: "1 \<le> burst" "burst \<le> 2 ^ 53" "below 53 rate" using assms(1) by (simp_all add: limitsOk_def)
  have key: "clientAddrKey r False = ?key" if "r \<in> set rs" for r
  proof -
    from bspec [OF assms(3) that] obtain port
      where "set port \<inter> {CHR '':'', CHR ''['', CHR '']''} = {}" "hr_RemoteAddr r = peerAddr host port"
      by (elim conjE exE)
    then show ?thesis using splitHostPort_peerAddr [OF assms(2)] unfolding clientAddrKey_untrusted by (simp only: sum.case prod.case)
  qed
  let ?rl1 = "?rl0\<lparr>rl_buckets := AList.update ?key (clientBucket now (burst - 1)) (rl_buckets ?rl0)\<rparr>"
  have "Allow now ?key ?rl0 = (?rl1, True)"
    using Allow_first [of ?rl0 ?key now] cfg by (simp add: NewRateLimiterWithTTL_def saturated_def DefaultMaxBuckets_def)
  then have first: "rateLimitMiddleware exempt clientAddrKey now r ?rl0 = (?rl1, Forward r)"
    using assms(3) key [of r] Cons by (simp add: rateLimitMiddleware_def NewRateLimiterWithTTL_def)
  have "forwarded (snd (serveAll (rateLimitMiddleware exempt clientAddrKey now) rest ?rl1)) = min (length rest) (nat (burst - 1))"
    using assms(3) key cfg Cons
    by (intro serveAll_again [where key = ?key]) (auto simp: NewRateLimiterWithTTL_def map_of_aupdate)
  then show ?thesis using first Cons cfg by (auto simp: RateLimitMiddlewareWithExemptions_def split: prod.split)
qed simp

theorem address_flood_bound_witness:
  "forwarded (snd (serveAll (RateLimitMiddlewareWithExemptions [''/healthz''] 0)
      [exampleRequest ''GET'' ''/a'' ''[fd00::1]:5'', exampleRequest ''GET'' ''/b'' ''[fd00::1]:6'', exampleRequest ''PUT'' ''/c'' ''[fd00::1]:7'']
      (NewRateLimiterWithTTL (fLit 10) 2 60))) = 2"
proof -
  let ?rs = "[exampleRequest ''GET'' ''/a'' ''[fd00::1]:5'', exampleRequest ''GET'' ''/b'' ''[fd00::1]:6'', exampleRequest ''PUT'' ''/c'' ''[fd00::1]:7'']"
  have ten: "fLit 10 = Fin False 10" using fOfInt_exact [of 10] by (simp add: fLit_def fOfInt_def)
  have ok: "limitsOk (fLit 10) 2" by (auto simp: limitsOk_def below_def ten)
  have "\<exists>port. set port \<inter> {CHR '':'', CHR ''['', CHR '']''} = {} \<and> ''[fd00::1]:'' @ [p] = peerAddr ''fd00::1'' port"
    if "p \<notin> {CHR '':'', CHR ''['', CHR '']''}" for p
    using that by (intro exI [of _ "[p]"]) (simp add: peerAddr_def)
  from this [of "CHR ''5''"] this [of "CHR ''6''"] this [of "CHR ''7''"]
  have "\<forall>r\<in>set ?rs. hr_Path r \<notin> set [''/healthz'']
      \<and> (\<exists>port. set port \<inter> {CHR '':'', CHR ''['', CHR '']''} = {} \<and> hr_RemoteAddr r = peerAddr ''fd00::1'' port)"
    by (simp add: exampleRequest_def)
  from address_flood_bound [OF ok _ this, of 0 60] show ?thesis by simp
qed

section \<open>Recovery\<close>

text \<open>C30: A client that was refused is served again: once the time since its last
  request refills at least one token, the next request is allowed, for any
  positive burst.\<close>

theorem Allow_recovers:
  assumes "map_of (rl_buckets rl) key = Some b" and "tb_tokens b = Fin False m" and "0 \<le> m" and "1 \<le> rl_burst rl"
    and "rl_burst rl \<le> 2 ^ 53"
    and "fLe fOne (fMul (durationSeconds (timeSub now (tb_lastCheck b))) (rl_rate rl))"
  shows "snd (Allow now key rl)"
proof -
  let ?p = "fMul (durationSeconds (timeSub now (tb_lastCheck b))) (rl_rate rl)"
  have burst: "fLe fOne (fOfInt (rl_burst rl))" using assms(4,5) by (simp add: fOfInt_exact)
  have "fLe fOne (fAdd (tb_tokens b) ?p)"
  proof (cases "?p = FInf False")
    case True
    then show ?thesis by (simp add: assms(2) fLe_def)
  next
    case False
    then obtain q where q: "?p = Fin False q" "1 \<le> q"
      using assms(6) wf_fMul [of "durationSeconds (timeSub now (tb_lastCheck b))" "rl_rate rl"]
      by (cases ?p) (auto simp: fLe_def split: if_splits)
    have "toFloat False 1 = fOne" by (simp add: toFloat_def)
    then have "fLe fOne (toFloat False (m + q))" using toFloat_mono [of 1 "m + q"] q(2) assms(3) by simp
    then show ?thesis using q assms(2,3) by (simp add: Let_def)
  qed
  then have "fLe fOne (tb_tokens (refill now rl b))" using burst by (simp add: refill_def Let_def)
  then have "\<not> fLt (tb_tokens (refill now rl b)) fOne"
    using not_fLt [of "tb_tokens (refill now rl b)" fOne] by (auto simp: fLe_def)
  then show ?thesis using assms(1) by (simp add: Allow_def Let_def)
qed

theorem Allow_recovers_witness:
  "snd (Allow 2000000000 ''k'' ((NewRateLimiterWithTTL fOne 2 60)\<lparr>rl_buckets := [(''k'', clientBucket 0 0)]\<rparr>))"
proof -
  have "fLe fOne (fMul (durationSeconds (timeSub 2000000000 0)) fOne)" by code_simp
  then show ?thesis
    by (intro Allow_recovers [where b = "clientBucket 0 0" and m = 0])
      (simp_all add: clientBucket_def NewRateLimiterWithTTL_def)
qed

end
