(* ===== verification/Routing_Session.thy ===== *)
theory Routing_Session
  imports Go_Float
begin

text \<open>
  The two tables of the routing controller whose entries expire: session bindings
  (\<open>pkg/routing/session.go\<close>) and cached classifications
  (\<open>pkg/classifier/cache.go\<close>). Each locked method is one operation; the reading of
  the clock it takes is its first argument. The reaper goroutines call \<open>reap\<close> at
  arbitrary times; the locale \<open>expiring_table\<close> shows that no reader can tell.
\<close>

section \<open>Session bindings\<close>

record SessionBinding =
  sb_ClusterID :: string
  sb_ExpiresAt :: time

record SessionAffinityTable =
  sat_bindings :: "(string, SessionBinding) gomap"
  sat_ttl :: int64

definition NewSessionAffinityTable :: "int64 \<Rightarrow> SessionAffinityTable" where
  "NewSessionAffinityTable ttl = \<lparr>sat_bindings = [], sat_ttl = ttl\<rparr>"

definition Lookup :: "time \<Rightarrow> string \<Rightarrow> SessionAffinityTable \<Rightarrow> string option" where
  "Lookup now sessionID t =
     (case map_of (sat_bindings t) sessionID of
        None \<Rightarrow> None
      | Some binding \<Rightarrow> if sb_ExpiresAt binding < now then None else Some (sb_ClusterID binding))"

definition Bind :: "time \<Rightarrow> string \<Rightarrow> string \<Rightarrow> SessionAffinityTable \<Rightarrow> SessionAffinityTable" where
  "Bind now sessionID clusterID t =
     t\<lparr>sat_bindings := AList.update sessionID
          \<lparr>sb_ClusterID = clusterID, sb_ExpiresAt = now + sat_ttl t\<rparr> (sat_bindings t)\<rparr>"

definition Unbind :: "string \<Rightarrow> SessionAffinityTable \<Rightarrow> SessionAffinityTable" where
  "Unbind sessionID t = t\<lparr>sat_bindings := AList.delete sessionID (sat_bindings t)\<rparr>"

definition UnbindCluster :: "string \<Rightarrow> SessionAffinityTable \<Rightarrow> SessionAffinityTable" where
  "UnbindCluster clusterID t =
     t\<lparr>sat_bindings := mapDeleteIf (\<lambda>_ binding. sb_ClusterID binding = clusterID) (sat_bindings t)\<rparr>"

definition sessionLen :: "SessionAffinityTable \<Rightarrow> nat" where
  "sessionLen t = length (sat_bindings t)"

definition reapSessions :: "time \<Rightarrow> SessionAffinityTable \<Rightarrow> SessionAffinityTable" where
  "reapSessions now t =
     t\<lparr>sat_bindings := mapDeleteIf (\<lambda>_ binding. sb_ExpiresAt binding < now) (sat_bindings t)\<rparr>"

section \<open>Cached classifications\<close>

record RankedSignal =
  rs_Label :: string
  rs_Score :: float64

record ClassifyResult =
  cr_ClassifierID :: string
  cr_ModelRevision :: string
  cr_TaxonomyRevision :: string
  cr_Status :: string
  cr_TopLabel :: string
  cr_TopScore :: float64
  cr_Margin :: float64
  cr_Ranked :: "RankedSignal list"

record cachedResult =
  cc_Result :: "ClassifyResult option"
  cc_ExpiresAt :: time

record ClassificationCache =
  ccache_entries :: "(string, cachedResult) gomap"
  ccache_ttl :: int64

definition NewClassificationCache :: "int64 \<Rightarrow> ClassificationCache" where
  "NewClassificationCache ttl = \<lparr>ccache_entries = [], ccache_ttl = ttl\<rparr>"

definition cacheGet :: "time \<Rightarrow> string \<Rightarrow> ClassificationCache \<Rightarrow> ClassifyResult option option" where
  "cacheGet now txt c =
     (case map_of (ccache_entries c) txt of
        None \<Rightarrow> None
      | Some entry \<Rightarrow> if cc_ExpiresAt entry < now then None else Some (cc_Result entry))"

definition cachePut :: "time \<Rightarrow> string \<Rightarrow> ClassifyResult option \<Rightarrow> ClassificationCache \<Rightarrow> ClassificationCache" where
  "cachePut now txt result c =
     c\<lparr>ccache_entries := AList.update txt
          \<lparr>cc_Result = result, cc_ExpiresAt = now + ccache_ttl c\<rparr> (ccache_entries c)\<rparr>"

definition cacheLen :: "ClassificationCache \<Rightarrow> nat" where
  "cacheLen c = length (ccache_entries c)"

definition reapCache :: "time \<Rightarrow> ClassificationCache \<Rightarrow> ClassificationCache" where
  "reapCache now c =
     c\<lparr>ccache_entries := mapDeleteIf (\<lambda>_ entry. cc_ExpiresAt entry < now) (ccache_entries c)\<rparr>"

text \<open>The distribution of top labels over the live entries; \<open>None\<close> is the nil map.\<close>

definition liveLabel :: "time \<Rightarrow> cachedResult \<Rightarrow> string option" where
  "liveLabel now entry =
     (if cc_ExpiresAt entry < now then None
      else case cc_Result entry of
        None \<Rightarrow> None
      | Some r \<Rightarrow> if cr_TopLabel r = [] then None else Some (cr_TopLabel r))"

definition countLabel :: "time \<Rightarrow> cachedResult \<Rightarrow> (string, int64) gomap \<times> int64 \<Rightarrow> (string, int64) gomap \<times> int64" where
  "countLabel now entry acc =
     (case (liveLabel now entry, acc) of
        (None, _) \<Rightarrow> acc
      | (Some l, (counts, tot)) \<Rightarrow>
          (AList.update l (wrap64 (case map_of counts l of None \<Rightarrow> 1 | Some n \<Rightarrow> n + 1)) counts, wrap64 (tot + 1)))"

definition TierDistribution :: "time \<Rightarrow> ClassificationCache \<Rightarrow> (string, float64) gomap option" where
  "TierDistribution now c =
     (let (counts, tot) = fold (countLabel now) (map snd (ccache_entries c)) ([], 0)
      in if tot = 0 then None
         else Some (map (\<lambda>(l, count). (l, fDiv (fOfInt count) (fOfInt tot))) counts))"

section \<open>Tables whose entries expire\<close>

locale expiring_table =
  fixes get :: "time \<Rightarrow> string \<Rightarrow> 't \<Rightarrow> 'v option"
    and put :: "time \<Rightarrow> string \<Rightarrow> 'v \<Rightarrow> 't \<Rightarrow> 't"
    and reap :: "time \<Rightarrow> 't \<Rightarrow> 't"
    and ttl :: "'t \<Rightarrow> int64"
    and inv :: "'t \<Rightarrow> bool"
  assumes put_inv: "inv t \<Longrightarrow> inv (put now k v t)"
    and reap_inv: "inv t \<Longrightarrow> inv (reap now t)"
    and get_put: "inv t \<Longrightarrow> get now k (put set_at k' v t) =
      (if k = k' then (if set_at + ttl t < now then None else Some v) else get now k t)"
    and get_reap: "inv t \<Longrightarrow> at_reap \<le> now \<Longrightarrow> get now k (reap at_reap t) = get now k t"
    and get_mono: "get later k t = Some v \<Longrightarrow> now \<le> later \<Longrightarrow> get now k t = Some v"
begin

lemma get_reaps: "inv t \<Longrightarrow> \<forall>u \<in> set us. u \<le> now \<Longrightarrow> get now k (fold reap us t) = get now k t"
  by (induction us arbitrary: t) (simp_all add: reap_inv get_reap)

lemma reaps_inv: "inv t \<Longrightarrow> inv (fold reap us t)"
  by (induction us arbitrary: t) (simp_all add: reap_inv)

lemma put_survives_reaps:
  "inv t \<Longrightarrow> \<forall>u \<in> set us. u \<le> now \<Longrightarrow> now \<le> set_at + ttl t \<Longrightarrow>
     get now k (fold reap us (put set_at k v t)) = Some v"
  by (simp add: get_reaps put_inv get_put)

end

lemmas session_defs = Lookup_def Bind_def Unbind_def UnbindCluster_def reapSessions_def
lemmas cache_defs = cacheGet_def cachePut_def reapCache_def

interpretation sessions: expiring_table Lookup Bind reapSessions sat_ttl "\<lambda>t. validMap (sat_bindings t)"
  by unfold_locales (auto simp: session_defs go_map split: option.splits if_splits)

interpretation classifications: expiring_table cacheGet cachePut reapCache ccache_ttl "\<lambda>c. validMap (ccache_entries c)"
  by unfold_locales (auto simp: cache_defs go_map split: option.splits if_splits)

section \<open>The session table\<close>

definition sessionInv :: "SessionAffinityTable \<Rightarrow> bool" where
  "sessionInv t \<longleftrightarrow> validMap (sat_bindings t)"

lemma sessionInv_ops [simp, intro]:
  "sessionInv (NewSessionAffinityTable ttl)"
  "sessionInv t \<Longrightarrow> sessionInv (Bind now s c t)"
  "sessionInv t \<Longrightarrow> sessionInv (Unbind s t)"
  "sessionInv t \<Longrightarrow> sessionInv (UnbindCluster c t)"
  "sessionInv t \<Longrightarrow> sessionInv (reapSessions now t)"
  by (simp_all add: sessionInv_def session_defs NewSessionAffinityTable_def)

lemma Lookup_Unbind: "Lookup now s (Unbind s' t) = (if s = s' then None else Lookup now s t)"
  by (simp add: session_defs go_map)

lemma Lookup_UnbindCluster:
  "sessionInv t \<Longrightarrow> Lookup now s (UnbindCluster c t) = (if Lookup now s t = Some c then None else Lookup now s t)"
  by (simp add: sessionInv_def session_defs go_map split: option.splits)

lemma Lookup_Bind:
  "sessionInv t \<Longrightarrow> Lookup now s (Bind b s' c t) =
     (if s = s' then (if b + sat_ttl t < now then None else Some c) else Lookup now s t)"
  unfolding sessionInv_def by (rule sessions.get_put)

lemma ttl_ops [simp]:
  "sat_ttl (NewSessionAffinityTable ttl) = ttl"
  "sat_ttl (Bind now s c t) = sat_ttl t" "sat_ttl (Unbind s t) = sat_ttl t"
  "sat_ttl (UnbindCluster c t) = sat_ttl t" "sat_ttl (reapSessions now t) = sat_ttl t"
  by (simp_all add: session_defs NewSessionAffinityTable_def)

text \<open>One operation of the table, with the clock reading it takes.\<close>

datatype sessionOp = OpBind time string string | OpUnbind string | OpUnbindCluster string | OpReap time

fun sessionStep :: "sessionOp \<Rightarrow> SessionAffinityTable \<Rightarrow> SessionAffinityTable" where
  "sessionStep (OpBind now s c) t = Bind now s c t"
| "sessionStep (OpUnbind s) t = Unbind s t"
| "sessionStep (OpUnbindCluster c) t = UnbindCluster c t"
| "sessionStep (OpReap now) t = reapSessions now t"

text \<open>What a reader at \<open>now\<close> should see of session \<open>s\<close> after a sequence of operations,
  latest first: the last binding counts, unless it expired or was removed since. The
  reaper does not appear.\<close>

fun boundTo :: "int64 \<Rightarrow> time \<Rightarrow> string \<Rightarrow> sessionOp list \<Rightarrow> string option" where
  "boundTo ttl now s [] = None"
| "boundTo ttl now s (OpBind b s' c # ops) =
     (if s' = s then (if b + ttl < now then None else Some c) else boundTo ttl now s ops)"
| "boundTo ttl now s (OpUnbind s' # ops) = (if s' = s then None else boundTo ttl now s ops)"
| "boundTo ttl now s (OpUnbindCluster c # ops) =
     (let b = boundTo ttl now s ops in if b = Some c then None else b)"
| "boundTo ttl now s (OpReap r # ops) = boundTo ttl now s ops"

fun reapsBefore :: "time \<Rightarrow> sessionOp \<Rightarrow> bool" where
  "reapsBefore now (OpReap r) = (r \<le> now)"
| "reapsBefore now op = True"

lemma sessionSteps_inv: "sessionInv t \<Longrightarrow> sessionInv (fold sessionStep ops t) \<and> sat_ttl (fold sessionStep ops t) = sat_ttl t"
proof (induction ops arbitrary: t)
  case (Cons op ops)
  have "sessionInv (sessionStep op t) \<and> sat_ttl (sessionStep op t) = sat_ttl t"
    using Cons.prems by (cases op) auto
  with Cons.IH [of "sessionStep op t"] show ?case by simp
qed simp

lemma Lookup_reap: "sessionInv t \<Longrightarrow> r \<le> now \<Longrightarrow> Lookup now s (reapSessions r t) = Lookup now s t"
  unfolding sessionInv_def by (rule sessions.get_reap)

text \<open>C31: After any sequence of binds, unbinds, drains and reaps, a lookup returns
  the cluster of the session's last binding exactly if that binding is within its
  time to live and neither the session nor the cluster was unbound since. When the
  reaper ran is not observable, as long as its clock is not ahead of the lookup's.\<close>

theorem session_table_refines:
  assumes "list_all (reapsBefore now) ops"
  shows "Lookup now s (fold sessionStep ops (NewSessionAffinityTable ttl)) = boundTo ttl now s (rev ops)"
  using assms
proof (induction ops rule: rev_induct)
  case Nil
  then show ?case by (simp add: NewSessionAffinityTable_def Lookup_def)
next
  case (snoc op ops)
  let ?t = "fold sessionStep ops (NewSessionAffinityTable ttl)"
  have t: "sessionInv ?t" "sat_ttl ?t = ttl"
    using sessionSteps_inv [of "NewSessionAffinityTable ttl" ops] by simp_all
  have IH: "Lookup now s ?t = boundTo ttl now s (rev ops)" using snoc by simp
  show ?case
    using snoc.prems t IH
    by (cases op) (simp_all add: Lookup_Bind Lookup_Unbind Lookup_UnbindCluster Lookup_reap Let_def)
qed

lemma session_table_refines_witness:
  "Lookup 9 ''s'' (fold sessionStep [OpBind 1 ''s'' ''east'', OpBind 2 ''r'' ''west'', OpReap 8, OpUnbindCluster ''west'']
     (NewSessionAffinityTable 10)) = Some ''east''"
  by (subst session_table_refines) (simp_all add: Let_def)

section \<open>The tier distribution\<close>

definition liveLabels :: "time \<Rightarrow> ClassificationCache \<Rightarrow> string list" where
  "liveLabels now c = List.map_filter (liveLabel now) (map snd (ccache_entries c))"

lemma counts_fold:
  assumes "int (length entries) + n < 2 ^ 63" and "0 \<le> n"
    and "\<And>l. map_of counts l = (if k l = 0 then None else Some (k l))" and "\<And>l. 0 \<le> k l \<and> k l \<le> n"
  shows "let r = fold (countLabel now) entries (counts, n); ls = List.map_filter (liveLabel now) entries in
     snd r = n + int (length ls) \<and>
     (\<forall>l. map_of (fst r) l =
        (let m = k l + int (count_list ls l) in if m = 0 then None else Some m))"
  using assms
proof (induction entries arbitrary: counts n k)
  case Nil
  then show ?case by (simp add: map_filter_simps)
next
  case (Cons e es)
  show ?case
  proof (cases "liveLabel now e")
    case None
    with Cons show ?thesis by (simp add: countLabel_def map_filter_simps)
  next
    case (Some l)
    let ?k = "k(l := k l + 1)"
    let ?counts = "AList.update l (k l + 1) counts"
    have "in64 (n + 1)" "in64 (k l + 1)" "in64 1"
      using Cons.prems(1,2) Cons.prems(4) [of l] by (auto simp: in64_def)
    then have step: "countLabel now e (counts, n) = (?counts, n + 1)"
      using Some Cons.prems(3) [of l] by (simp add: countLabel_def wrap64_id)
    have "k l + 1 \<noteq> 0" using Cons.prems(4) [of l] by linarith
    then have m: "map_of ?counts l' = (if ?k l' = 0 then None else Some (?k l'))" for l'
      using Cons.prems(3) [of l'] by (simp add: go_map)
    have b: "0 \<le> ?k l' \<and> ?k l' \<le> n + 1" for l'
      using Cons.prems(4) [of l'] by auto
    have n: "int (length es) + (n + 1) < 2 ^ 63" "0 \<le> n + 1" using Cons.prems(1,2) by simp_all
    show ?thesis
      using Cons.IH [OF n m b] Some by (auto simp: step map_filter_simps Let_def)
  qed
qed


definition exampleCache :: ClassificationCache where
  "exampleCache =
     (let r = (\<lambda>l. \<lparr>cr_ClassifierID = [], cr_ModelRevision = [], cr_TaxonomyRevision = [], cr_Status = [],
                 cr_TopLabel = l, cr_TopScore = fZero, cr_Margin = fZero, cr_Ranked = []\<rparr>)
      in cachePut 3 ''c'' (Some (r ''SIMPLE'')) (cachePut 2 ''b'' (Some (r ''COMPLEX''))
           (cachePut 0 ''a'' (Some (r ''SIMPLE'')) (NewClassificationCache 10))))"


end
