(* ===== verification/Routing_Policy.thy ===== *)
theory Routing_Policy
  imports Fleet_API
begin

text \<open>
  Request routing policies (\<open>pkg/routing/policy/evaluator.go\<close>) and the load
  balancers (\<open>pkg/routing/balancer/balancer.go\<close>). Both scan the candidate clusters
  once and keep the best one seen so far; the lemmas on \<open>bestFrom\<close> say what such a
  scan returns for any transitive comparison, with NaN readings included.
\<close>

section \<open>Requests, decisions and cluster health\<close>

record RoutingRequest =
  rq_Model :: string
  rq_ModelID :: string
  rq_TenantID :: string
  rq_Headers :: "(string, string) gomap"
  rq_SourceRegion :: string
  rq_Region :: string
  rq_TokenCount :: int64
  rq_Priority :: string
  rq_SessionID :: string
  rq_AllowedClusters :: "string list"
  rq_DeniedClusters :: "string list"
  rq_SemanticLabel :: string
  rq_SemanticScore :: float64
  rq_SemanticMargin :: float64

record RouteDecision =
  rd_TargetCluster :: string
  rd_Weight :: float64
  rd_HeadersToInject :: "(string, string) gomap"
  rd_Reason :: string

record ClusterHealth =
  ch_ClusterID :: string
  ch_Healthy :: bool
  ch_LatencyMs :: float64
  ch_CapacityRemaining :: float64
  ch_KVCacheHitRate :: float64
  ch_AvailableSlots :: int64
  ch_CurrentLoad :: float64
  ch_CostPerToken :: float64
  ch_Region :: string
  ch_PoolSaturation :: float64
  ch_Labels :: "(string, string) gomap"

datatype RoutingError = ErrNoSuitableCluster | ErrNoSuitableClusterForAction | ErrNoCandidates

text \<open>A decision literal: the fields the code leaves out are zero.\<close>

definition routeTo :: "string \<Rightarrow> string \<Rightarrow> RouteDecision" where
  "routeTo target reason =
     \<lparr>rd_TargetCluster = target, rd_Weight = fZero, rd_HeadersToInject = [], rd_Reason = reason\<rparr>"

section \<open>Scanning for the best candidate\<close>

text \<open>The loop \<open>for c in clusters { if !ok(c) continue; if best == nil || better(c, best)
  { best = c } }\<close>.\<close>

fun bestFrom :: "('c \<Rightarrow> bool) \<Rightarrow> ('c \<Rightarrow> 'c \<Rightarrow> bool) \<Rightarrow> 'c option \<Rightarrow> 'c list \<Rightarrow> 'c option" where
  "bestFrom ok better best [] = best"
| "bestFrom ok better best (c # cs) =
     bestFrom ok better
       (if \<not> ok c then best
        else case best of None \<Rightarrow> Some c | Some b \<Rightarrow> if better c b then Some c else Some b) cs"

lemma bestFrom_Some: "\<exists>x. bestFrom ok better (Some b) cs = Some x \<and> (x = b \<or> x \<in> set cs \<and> ok x)"
proof (induction cs arbitrary: b)
  case (Cons c cs)
  show ?case
    using Cons.IH [of b] Cons.IH [of c] by auto
qed simp

lemma bestFrom_None: "bestFrom ok better None cs = None \<longleftrightarrow> (\<forall>c \<in> set cs. \<not> ok c)"
proof (induction cs)
  case (Cons c cs)
  then show ?case using bestFrom_Some [of ok better c cs] by auto
qed simp

lemma bestFrom_in: "bestFrom ok better None cs = Some x \<Longrightarrow> x \<in> set cs \<and> ok x"
proof (induction cs)
  case (Cons c cs)
  then show ?case using bestFrom_Some [of ok better c cs] by (auto split: if_splits)
qed simp

lemma bestFrom_upper:
  assumes "transp better" and "\<And>y. \<not> better y y" and "bestFrom ok better (Some b) cs = Some x"
  shows "\<not> better b x \<and> (x = b \<or> better x b) \<and> (\<forall>y \<in> set cs. ok y \<longrightarrow> \<not> better y x)"
  using assms(3)
proof (induction cs arbitrary: b)
  case Nil
  then show ?case using assms(2) by simp
next
  case (Cons c cs)
  show ?case
  proof (cases "ok c \<and> better c b")
    case True
    with Cons.prems have "bestFrom ok better (Some c) cs = Some x" by simp
    from Cons.IH [OF this] have x: "x = c \<or> better x c" "\<not> better c x" "\<forall>y \<in> set cs. ok y \<longrightarrow> \<not> better y x" by auto
    from True x(1) have "better x b" by (blast dest: transpD [OF assms(1)])
    with x assms(2) show ?thesis by (auto dest: transpD [OF assms(1)])
  next
    case False
    with Cons.prems have "bestFrom ok better (Some b) cs = Some x" by (auto split: if_splits)
    from Cons.IH [OF this] have x: "x = b \<or> better x b" "\<not> better b x" "\<forall>y \<in> set cs. ok y \<longrightarrow> \<not> better y x" by auto
    from False x(1) have "ok c \<Longrightarrow> \<not> better c x" by (blast dest: transpD [OF assms(1)])
    with x show ?thesis by auto
  qed
qed

lemma bestFrom_max:
  assumes "transp better" and "\<And>y. \<not> better y y" and "bestFrom ok better None cs = Some x" and "y \<in> set cs" and "ok y"
  shows "\<not> better y x"
  using assms(3,4)
proof (induction cs)
  case (Cons c cs)
  show ?case
  proof (cases "ok c")
    case True
    with Cons.prems have "bestFrom ok better (Some c) cs = Some x" by simp
    from bestFrom_upper [OF assms(1,2) this] show ?thesis using Cons.prems(2) assms(5) by auto
  next
    case False
    with Cons assms(5) show ?thesis by auto
  qed
qed simp

section \<open>Tenant restrictions and rule matching\<close>

definition filterClustersByTenant :: "ClusterHealth list \<Rightarrow> string list \<Rightarrow> string list \<Rightarrow> ClusterHealth list" where
  "filterClustersByTenant clusters allowed denied =
     (if allowed = [] \<and> denied = [] then clusters
      else filter (\<lambda>c. ch_ClusterID c \<notin> set denied \<and>
                       (allowed \<noteq> [] \<longrightarrow> ch_ClusterID c \<in> set allowed)) clusters)"

definition matchesRule :: "RoutingRequest \<Rightarrow> RoutingMatch \<Rightarrow> bool" where
  "matchesRule request match =
     (if rm_Source match \<noteq> [] \<and> rm_Source match \<noteq> rq_SourceRegion request then False
      else if \<not> list_all (\<lambda>(key, pattern). case map_of (rq_Headers request) key of
                  None \<Rightarrow> False
                | Some value \<Rightarrow> pattern = ''*'' \<or> pattern = value) (rm_Headers match) then False
      else if rm_SemanticTier match \<noteq> [] then
        (if rq_SemanticLabel request \<noteq> rm_SemanticTier match then False
         else \<not> (fLt fZero (rm_MinConfidence match) \<and>
                  fLt (rq_SemanticMargin request) (rm_MinConfidence match)))
      else True)"

section \<open>Actions\<close>

definition preferLocal :: "RoutingRequest \<Rightarrow> ClusterHealth list \<Rightarrow> RouteDecision option" where
  "preferLocal request clusters =
     (case List.find (\<lambda>c. hasPrefix (ch_ClusterID c) (rq_SourceRegion request)) clusters of
        Some localCluster \<Rightarrow>
          if ch_Healthy localCluster then Some (routeTo (ch_ClusterID localCluster) ''prefer-local'') else None
      | None \<Rightarrow> None)"

fun failoverTo :: "ClusterHealth list \<Rightarrow> string list \<Rightarrow> RouteDecision option" where
  "failoverTo clusters [] = None"
| "failoverTo clusters (failoverID # ids) =
     (case List.find (\<lambda>c. ch_ClusterID c = failoverID \<and> ch_Healthy c) clusters of
        Some c \<Rightarrow> Some (routeTo (ch_ClusterID c) ''failover'')
      | None \<Rightarrow> failoverTo clusters ids)"

definition bestByCacheHits :: "ClusterHealth list \<Rightarrow> ClusterHealth option" where
  "bestByCacheHits clusters =
     bestFrom ch_Healthy (\<lambda>c best. fLt (ch_KVCacheHitRate best) (ch_KVCacheHitRate c)) None clusters"

definition withinLatency :: "RoutingAction \<Rightarrow> ClusterHealth \<Rightarrow> bool" where
  "withinLatency action c \<longleftrightarrow>
     \<not> (0 < ra_MaxLatencyMs action \<and> fLt (fOfInt (ra_MaxLatencyMs action)) (ch_LatencyMs c))"

definition moreCapacity :: "ClusterHealth \<Rightarrow> ClusterHealth \<Rightarrow> bool" where
  "moreCapacity c best \<longleftrightarrow> fLt (ch_CapacityRemaining best) (ch_CapacityRemaining c)"

definition bestByCost :: "RoutingAction \<Rightarrow> ClusterHealth list \<Rightarrow> ClusterHealth option" where
  "bestByCost action clusters =
     bestFrom (\<lambda>c. ch_Healthy c \<and> withinLatency action c) moreCapacity None clusters"

definition servesTier :: "RoutingAction \<Rightarrow> ClusterHealth \<Rightarrow> bool" where
  "servesTier action c \<longleftrightarrow>
     (case map_of (ch_Labels c) ''model-tier'' of None \<Rightarrow> True | Some tier \<Rightarrow> tier = ra_TargetModelTier action)"

definition bestByTier :: "RoutingAction \<Rightarrow> ClusterHealth list \<Rightarrow> ClusterHealth option" where
  "bestByTier action clusters =
     bestFrom (\<lambda>c. ch_Healthy c \<and> servesTier action c) moreCapacity None clusters"

definition tierDecision :: "RoutingRequest \<Rightarrow> RoutingAction \<Rightarrow> ClusterHealth \<Rightarrow> RouteDecision" where
  "tierDecision request action best =
     (routeTo (ch_ClusterID best) (''semantic-tier:'' @ ra_TargetModelTier action))
       \<lparr>rd_HeadersToInject := [(''X-Semantic-Label'', rq_SemanticLabel request)]\<rparr>"

definition firstHealthy :: "string \<Rightarrow> ClusterHealth list \<Rightarrow> RouteDecision option" where
  "firstHealthy reason clusters =
     map_option (\<lambda>c. routeTo (ch_ClusterID c) reason) (List.find ch_Healthy clusters)"

definition applyAction ::
  "RoutingRequest \<Rightarrow> ClusterHealth list \<Rightarrow> RoutingAction \<Rightarrow> (RoutingError, RouteDecision) res" where
  "applyAction request clusters action =
     (let locals = (if ra_PreferLocal action then
            (case preferLocal request clusters of
               Some d \<Rightarrow> Some d
             | None \<Rightarrow> (case ra_Failover action of
                 None \<Rightarrow> None
               | Some f \<Rightarrow> failoverTo clusters (fo_Clusters f)))
          else None)
      in case locals of Some d \<Rightarrow> Inr d | None \<Rightarrow>
         case (if ra_KVCacheAffinity action then bestByCacheHits clusters else None) of
           Some best \<Rightarrow> Inr (routeTo (ch_ClusterID best) ''kv-cache-affinity'') | None \<Rightarrow>
         case (if ra_PreferCheapest action then bestByCost action clusters else None) of
           Some best \<Rightarrow> Inr (routeTo (ch_ClusterID best) ''prefer-cheapest'') | None \<Rightarrow>
         case (if ra_TargetModelTier action \<noteq> [] then bestByTier action clusters else None) of
           Some best \<Rightarrow> Inr (tierDecision request action best) | None \<Rightarrow>
         case firstHealthy ''default'' clusters of
           Some d \<Rightarrow> Inr d | None \<Rightarrow> Inl ErrNoSuitableClusterForAction)"

definition Evaluate_policy ::
  "RoutingRequest \<Rightarrow> ClusterHealth list \<Rightarrow> FleetRoutingPolicySpec \<Rightarrow> (RoutingError, RouteDecision) res" where
  "Evaluate_policy request clusters policy =
     (let clusters' = filterClustersByTenant clusters (rq_AllowedClusters request) (rq_DeniedClusters request)
      in case List.find (\<lambda>rule. matchesRule request (rrule_Match rule)) (frps_Rules policy) of
           Some rule \<Rightarrow> applyAction request clusters' (rrule_Action rule)
         | None \<Rightarrow> (case firstHealthy ''default-healthy'' clusters' of
             Some d \<Rightarrow> Inr d | None \<Rightarrow> Inl ErrNoSuitableCluster))"

section \<open>Load balancers\<close>

fun selectBest :: "(ClusterHealth \<Rightarrow> ClusterHealth \<Rightarrow> bool) \<Rightarrow> ClusterHealth list \<Rightarrow> (RoutingError, string) res" where
  "selectBest better [] = Inl ErrNoCandidates"
| "selectBest better (c # cs) = Inr (ch_ClusterID (fold (\<lambda>c best. if better c best then c else best) cs c))"

definition WeightedSelectCluster :: "ClusterHealth list \<Rightarrow> RoutingRequest \<Rightarrow> (RoutingError, string) res" where
  "WeightedSelectCluster candidates request =
     selectBest (\<lambda>c best. fLt (ch_CapacityRemaining best) (ch_CapacityRemaining c)) candidates"

definition LatencyAwareSelectCluster :: "ClusterHealth list \<Rightarrow> RoutingRequest \<Rightarrow> (RoutingError, string) res" where
  "LatencyAwareSelectCluster candidates request =
     selectBest (\<lambda>c best. fLt (ch_LatencyMs c) (ch_LatencyMs best)) candidates"

definition costScore :: "ClusterHealth \<Rightarrow> float64" where
  "costScore c = fAdd (ch_CapacityRemaining c) (ch_KVCacheHitRate c)"

definition CostAwareSelectCluster :: "ClusterHealth list \<Rightarrow> RoutingRequest \<Rightarrow> (RoutingError, string) res" where
  "CostAwareSelectCluster candidates request =
     selectBest (\<lambda>c best. fLt (costScore best) (costScore c)) candidates"

section \<open>What the evaluator guarantees\<close>

text \<open>The clusters a request may use at all.\<close>

definition candidateFor :: "RoutingRequest \<Rightarrow> ClusterHealth \<Rightarrow> bool" where
  "candidateFor request c \<longleftrightarrow>
     ch_Healthy c \<and> ch_ClusterID c \<notin> set (rq_DeniedClusters request) \<and>
     (rq_AllowedClusters request = [] \<or> ch_ClusterID c \<in> set (rq_AllowedClusters request))"

definition tenantClusters :: "RoutingRequest \<Rightarrow> ClusterHealth list \<Rightarrow> ClusterHealth list" where
  "tenantClusters request clusters =
     filterClustersByTenant clusters (rq_AllowedClusters request) (rq_DeniedClusters request)"

lemma healthy_tenantClusters:
  "c \<in> set (tenantClusters request clusters) \<and> ch_Healthy c \<longleftrightarrow> c \<in> set clusters \<and> candidateFor request c"
  by (auto simp: tenantClusters_def filterClustersByTenant_def candidateFor_def)

lemma tenantClusters_candidate:
  "c \<in> set (tenantClusters request clusters) \<Longrightarrow> ch_Healthy c \<Longrightarrow> c \<in> set clusters \<and> candidateFor request c"
  using healthy_tenantClusters by blast

lemma routeTo_sel [simp]:
  "rd_TargetCluster (routeTo t r) = t" "rd_Reason (routeTo t r) = r"
  "rd_HeadersToInject (routeTo t r) = []" "rd_Weight (routeTo t r) = fZero"
  by (simp_all add: routeTo_def)

lemma find_SomeD: "List.find P xs = Some x \<Longrightarrow> x \<in> set xs \<and> P x"
  by (auto simp: find_Some_iff)

lemma failoverTo_Some:
  "failoverTo clusters ids = Some d \<Longrightarrow>
     \<exists>c \<in> set clusters. ch_Healthy c \<and> ch_ClusterID c \<in> set ids \<and> d = routeTo (ch_ClusterID c) ''failover''"
  by (induction ids) (auto split: option.splits dest!: find_SomeD)

lemma preferLocal_Some:
  "preferLocal request clusters = Some d \<Longrightarrow>
     \<exists>c \<in> set clusters. ch_Healthy c \<and> hasPrefix (ch_ClusterID c) (rq_SourceRegion request) \<and>
       d = routeTo (ch_ClusterID c) ''prefer-local''"
  by (auto simp: preferLocal_def split: option.splits if_splits dest!: find_SomeD)

lemma firstHealthy_Some:
  "firstHealthy reason clusters = Some d \<Longrightarrow>
     \<exists>c \<in> set clusters. ch_Healthy c \<and> d = routeTo (ch_ClusterID c) reason"
  by (auto simp: firstHealthy_def dest!: find_SomeD)

lemma firstHealthy_None: "firstHealthy reason clusters = None \<longleftrightarrow> (\<forall>c \<in> set clusters. \<not> ch_Healthy c)"
  by (auto simp: firstHealthy_def find_None_iff)

lemma transp_fLt: "transp (\<lambda>c best. fLt (f best) (f c))" "transp (\<lambda>c best. fLt (f c) (f best))"
  by (auto intro!: transpI dest: fLt_trans)

lemma transp_moreCapacity: "transp moreCapacity"
  unfolding moreCapacity_def by (rule transp_fLt)

lemma moreCapacity_irrefl: "\<not> moreCapacity c c"
  by (simp add: moreCapacity_def)

lemma bestByCacheHits_Some:
  assumes "bestByCacheHits clusters = Some c"
  shows "c \<in> set clusters \<and> ch_Healthy c \<and>
     (\<forall>y \<in> set clusters. ch_Healthy y \<longrightarrow> \<not> fLt (ch_KVCacheHitRate c) (ch_KVCacheHitRate y))"
  using assms bestFrom_in [of ch_Healthy _ clusters c] bestFrom_max [OF transp_fLt(1) [of ch_KVCacheHitRate], of ch_Healthy clusters c]
  unfolding bestByCacheHits_def by simp

lemma bestByCost_Some:
  assumes "bestByCost action clusters = Some c"
  shows "c \<in> set clusters \<and> ch_Healthy c \<and> withinLatency action c \<and>
     (\<forall>y \<in> set clusters. ch_Healthy y \<longrightarrow> withinLatency action y \<longrightarrow> \<not> moreCapacity y c)"
  using bestFrom_in [OF assms [unfolded bestByCost_def]]
    bestFrom_max [OF transp_moreCapacity moreCapacity_irrefl assms [unfolded bestByCost_def]] by blast

lemma bestByTier_Some:
  assumes "bestByTier action clusters = Some c"
  shows "c \<in> set clusters \<and> ch_Healthy c \<and> servesTier action c \<and>
     (\<forall>y \<in> set clusters. ch_Healthy y \<longrightarrow> servesTier action y \<longrightarrow> \<not> moreCapacity y c)"
  using bestFrom_in [OF assms [unfolded bestByTier_def]]
    bestFrom_max [OF transp_moreCapacity moreCapacity_irrefl assms [unfolded bestByTier_def]] by blast

text \<open>The six ways an action succeeds, each only when the earlier ones do not apply:
  the first cluster of the source region is not healthy and no failover target is;
  cache affinity is off; no healthy cluster is fast enough; none serves the tier.\<close>

definition localFails :: "RoutingRequest \<Rightarrow> ClusterHealth list \<Rightarrow> bool" where
  "localFails request clusters \<longleftrightarrow>
     (\<forall>c. List.find (\<lambda>c. hasPrefix (ch_ClusterID c) (rq_SourceRegion request)) clusters = Some c \<longrightarrow> \<not> ch_Healthy c)"

definition noLocal :: "RoutingRequest \<Rightarrow> ClusterHealth list \<Rightarrow> RoutingAction \<Rightarrow> bool" where
  "noLocal request clusters action \<longleftrightarrow>
     (ra_PreferLocal action \<longrightarrow> localFails request clusters \<and>
        (\<forall>f. ra_Failover action = Some f \<longrightarrow>
           (\<forall>c \<in> set clusters. ch_Healthy c \<longrightarrow> ch_ClusterID c \<notin> set (fo_Clusters f))))"

definition noCheap :: "ClusterHealth list \<Rightarrow> RoutingAction \<Rightarrow> bool" where
  "noCheap clusters action \<longleftrightarrow>
     (ra_PreferCheapest action \<longrightarrow> (\<forall>c \<in> set clusters. ch_Healthy c \<longrightarrow> \<not> withinLatency action c))"

definition noTier :: "ClusterHealth list \<Rightarrow> RoutingAction \<Rightarrow> bool" where
  "noTier clusters action \<longleftrightarrow>
     (ra_TargetModelTier action \<noteq> [] \<longrightarrow> (\<forall>c \<in> set clusters. ch_Healthy c \<longrightarrow> \<not> servesTier action c))"

definition actionChoice :: "RoutingRequest \<Rightarrow> ClusterHealth list \<Rightarrow> RoutingAction \<Rightarrow> RouteDecision \<Rightarrow> ClusterHealth \<Rightarrow> bool" where
  "actionChoice request clusters action d c \<longleftrightarrow>
     d = routeTo (ch_ClusterID c) ''prefer-local'' \<and> ra_PreferLocal action \<and>
       hasPrefix (ch_ClusterID c) (rq_SourceRegion request)
   \<or> d = routeTo (ch_ClusterID c) ''failover'' \<and> ra_PreferLocal action \<and> localFails request clusters \<and>
       (\<exists>f. ra_Failover action = Some f \<and> ch_ClusterID c \<in> set (fo_Clusters f))
   \<or> d = routeTo (ch_ClusterID c) ''kv-cache-affinity'' \<and> noLocal request clusters action \<and> ra_KVCacheAffinity action \<and>
       (\<forall>y \<in> set clusters. ch_Healthy y \<longrightarrow> \<not> fLt (ch_KVCacheHitRate c) (ch_KVCacheHitRate y))
   \<or> noLocal request clusters action \<and> \<not> ra_KVCacheAffinity action \<and>
      (d = routeTo (ch_ClusterID c) ''prefer-cheapest'' \<and> ra_PreferCheapest action \<and> withinLatency action c \<and>
         (\<forall>y \<in> set clusters. ch_Healthy y \<longrightarrow> withinLatency action y \<longrightarrow> \<not> moreCapacity y c)
     \<or> d = tierDecision request action c \<and> noCheap clusters action \<and> ra_TargetModelTier action \<noteq> [] \<and> servesTier action c \<and>
         (\<forall>y \<in> set clusters. ch_Healthy y \<longrightarrow> servesTier action y \<longrightarrow> \<not> moreCapacity y c)
     \<or> d = routeTo (ch_ClusterID c) ''default'' \<and> noCheap clusters action \<and> noTier clusters action)"

lemma preferLocal_None: "preferLocal request clusters = None \<longleftrightarrow> localFails request clusters"
  by (auto simp: preferLocal_def localFails_def split: option.splits)

lemma failoverTo_None:
  "failoverTo clusters ids = None \<longleftrightarrow> (\<forall>c \<in> set clusters. ch_Healthy c \<longrightarrow> ch_ClusterID c \<notin> set ids)"
  by (induction ids) (auto split: option.splits simp: find_None_iff find_Some_iff)

lemma best_None:
  "bestByCacheHits clusters = None \<longleftrightarrow> (\<forall>c \<in> set clusters. \<not> ch_Healthy c)"
  "bestByCost action clusters = None \<longleftrightarrow> (\<forall>c \<in> set clusters. ch_Healthy c \<longrightarrow> \<not> withinLatency action c)"
  "bestByTier action clusters = None \<longleftrightarrow> (\<forall>c \<in> set clusters. ch_Healthy c \<longrightarrow> \<not> servesTier action c)"
  unfolding bestByCacheHits_def bestByCost_def bestByTier_def by (simp_all add: bestFrom_None)

text \<open>The steps of an action as a function of the outcome of the local part.\<close>

definition localChoice :: "RoutingRequest \<Rightarrow> ClusterHealth list \<Rightarrow> RoutingAction \<Rightarrow> RouteDecision option" where
  "localChoice request clusters action =
     (if ra_PreferLocal action then
        (case preferLocal request clusters of
           Some d \<Rightarrow> Some d
         | None \<Rightarrow> (case ra_Failover action of None \<Rightarrow> None | Some f \<Rightarrow> failoverTo clusters (fo_Clusters f)))
      else None)"

lemma localChoice_None: "localChoice request clusters action = None \<longleftrightarrow> noLocal request clusters action"
  by (auto simp: localChoice_def noLocal_def preferLocal_None [symmetric] failoverTo_None split: option.splits)

lemma localChoice_Some:
  assumes "localChoice request clusters action = Some d"
  shows "\<exists>c \<in> set clusters. ch_Healthy c \<and> actionChoice request clusters action d c"
proof (cases "preferLocal request clusters")
  case None
  with assms obtain f where f: "ra_PreferLocal action" "ra_Failover action = Some f" "failoverTo clusters (fo_Clusters f) = Some d"
    by (auto simp: localChoice_def split: if_splits option.splits)
  have "localFails request clusters" using None preferLocal_None by blast
  with failoverTo_Some [OF f(3)] f(1,2) show ?thesis unfolding actionChoice_def by blast
next
  case (Some d')
  with assms have "preferLocal request clusters = Some d" "ra_PreferLocal action"
    by (auto simp: localChoice_def split: if_splits)
  with preferLocal_Some [OF this(1)] show ?thesis unfolding actionChoice_def by blast
qed

lemma choice_default:
  assumes "firstHealthy ''default'' clusters = Some d" and "noLocal request clusters action"
    and "\<not> ra_KVCacheAffinity action" and "noCheap clusters action" and "noTier clusters action"
  shows "\<exists>c \<in> set clusters. ch_Healthy c \<and> actionChoice request clusters action d c"
  using firstHealthy_Some [OF assms(1)] assms(2-) unfolding actionChoice_def by blast

lemma applyAction_alt:
  "applyAction request clusters action =
     (case localChoice request clusters action of Some d \<Rightarrow> Inr d | None \<Rightarrow>
      case (if ra_KVCacheAffinity action then bestByCacheHits clusters else None) of
        Some best \<Rightarrow> Inr (routeTo (ch_ClusterID best) ''kv-cache-affinity'') | None \<Rightarrow>
      case (if ra_PreferCheapest action then bestByCost action clusters else None) of
        Some best \<Rightarrow> Inr (routeTo (ch_ClusterID best) ''prefer-cheapest'') | None \<Rightarrow>
      case (if ra_TargetModelTier action \<noteq> [] then bestByTier action clusters else None) of
        Some best \<Rightarrow> Inr (tierDecision request action best) | None \<Rightarrow>
      case firstHealthy ''default'' clusters of
        Some d \<Rightarrow> Inr d | None \<Rightarrow> Inl ErrNoSuitableClusterForAction)"
  unfolding applyAction_def localChoice_def Let_def ..

lemma applyAction_Inr:
  assumes "applyAction request clusters action = Inr d"
  shows "\<exists>c \<in> set clusters. ch_Healthy c \<and> actionChoice request clusters action d c"
proof (cases "localChoice request clusters action")
  case (Some d')
  with assms localChoice_Some [OF Some] show ?thesis by (simp add: applyAction_alt)
next
  case None
  then have nl: "noLocal request clusters action" by (simp add: localChoice_None)
  show ?thesis
  proof (cases "ra_KVCacheAffinity action")
    case kv: True
    then obtain b where "bestByCacheHits clusters = Some b" "d = routeTo (ch_ClusterID b) ''kv-cache-affinity''"
      using assms None best_None(1) [of clusters] firstHealthy_None [of "''default''" clusters]
      by (cases "bestByCacheHits clusters") (auto simp: applyAction_alt split: option.splits if_splits dest: bestByCost_Some bestByTier_Some)
    with bestByCacheHits_Some [OF this(1)] kv nl show ?thesis unfolding actionChoice_def by blast
  next
    case kv: False
    let ?cost = "if ra_PreferCheapest action then bestByCost action clusters else None"
    let ?tier = "if ra_TargetModelTier action \<noteq> [] then bestByTier action clusters else None"
    show ?thesis
    proof (cases ?cost)
      case (Some b)
      then have b: "ra_PreferCheapest action" "bestByCost action clusters = Some b" by (auto split: if_splits)
      have "d = routeTo (ch_ClusterID b) ''prefer-cheapest''" using assms None kv b by (simp add: applyAction_alt)
      with bestByCost_Some [OF b(2)] b(1) kv nl show ?thesis unfolding actionChoice_def by blast
    next
      case cost: None
      then have nc: "noCheap clusters action" by (auto simp: noCheap_def best_None split: if_splits)
      show ?thesis
      proof (cases ?tier)
        case (Some b)
        then have b: "ra_TargetModelTier action \<noteq> []" "bestByTier action clusters = Some b" by (auto split: if_splits)
        have "d = tierDecision request action b" using assms None kv cost b by (simp add: applyAction_alt)
        with bestByTier_Some [OF b(2)] b(1) kv nl nc show ?thesis unfolding actionChoice_def by blast
      next
        case tier: None
        then have "noTier clusters action" by (auto simp: noTier_def best_None split: if_splits)
        moreover have "firstHealthy ''default'' clusters = Some d"
          using assms None kv cost tier by (simp add: applyAction_alt split: option.splits)
        ultimately show ?thesis using choice_default nl kv nc by blast
      qed
    qed
  qed
qed

lemma applyAction_Inl:
  "applyAction request clusters action = Inl e \<Longrightarrow> e = ErrNoSuitableClusterForAction \<and> (\<forall>c \<in> set clusters. \<not> ch_Healthy c)"
  unfolding applyAction_def Let_def by (auto split: option.splits if_splits simp: firstHealthy_None)

lemma actionChoice_target: "actionChoice request clusters action d c \<Longrightarrow> rd_TargetCluster d = ch_ClusterID c"
  by (auto simp: actionChoice_def tierDecision_def)

definition firstRule :: "RoutingRequest \<Rightarrow> FleetRoutingPolicySpec \<Rightarrow> RoutingRule option" where
  "firstRule request policy = List.find (\<lambda>rule. matchesRule request (rrule_Match rule)) (frps_Rules policy)"

lemma Evaluate_policy_alt:
  "Evaluate_policy request clusters policy =
     (case firstRule request policy of
        Some rule \<Rightarrow> applyAction request (tenantClusters request clusters) (rrule_Action rule)
      | None \<Rightarrow> (case firstHealthy ''default-healthy'' (tenantClusters request clusters) of
          Some d \<Rightarrow> Inr d | None \<Rightarrow> Inl ErrNoSuitableCluster))"
  unfolding Evaluate_policy_def firstRule_def tenantClusters_def Let_def ..

lemma Evaluate_policy_chosen:
  assumes "Evaluate_policy request clusters policy = Inr d"
  shows "\<exists>c \<in> set clusters. candidateFor request c \<and> rd_TargetCluster d = ch_ClusterID c \<and>
    (case firstRule request policy of
       Some rule \<Rightarrow> actionChoice request (filterClustersByTenant clusters (rq_AllowedClusters request)
                      (rq_DeniedClusters request)) (rrule_Action rule) d c
     | None \<Rightarrow> rd_Reason d = ''default-healthy'')"
proof (cases "firstRule request policy")
  case None
  with assms have "firstHealthy ''default-healthy'' (tenantClusters request clusters) = Some d"
    by (simp add: Evaluate_policy_alt split: option.splits)
  from firstHealthy_Some [OF this] show ?thesis
    using None by (auto dest!: tenantClusters_candidate)
next
  case (Some rule)
  with assms have "applyAction request (tenantClusters request clusters) (rrule_Action rule) = Inr d"
    by (simp add: Evaluate_policy_alt)
  from applyAction_Inr [OF this] obtain c where c: "c \<in> set (tenantClusters request clusters)" "ch_Healthy c"
    "actionChoice request (tenantClusters request clusters) (rrule_Action rule) d c" by blast
  with Some tenantClusters_candidate [OF c(1,2)] actionChoice_target [OF c(3)] show ?thesis
    by (auto simp: tenantClusters_def intro!: bexI [of _ c])
qed

lemma Evaluate_policy_target:
  "Evaluate_policy request clusters policy = Inr d \<Longrightarrow>
     \<exists>c \<in> set clusters. candidateFor request c \<and> rd_TargetCluster d = ch_ClusterID c"
  using Evaluate_policy_chosen by blast



section \<open>What the balancers guarantee\<close>

locale load_balancer =
  fixes select :: "ClusterHealth list \<Rightarrow> RoutingRequest \<Rightarrow> (RoutingError, string) res"
    and better :: "ClusterHealth \<Rightarrow> ClusterHealth \<Rightarrow> bool"
  assumes select_empty: "select [] request = Inl ErrNoCandidates"
    and select_some: "candidates \<noteq> [] \<Longrightarrow>
      \<exists>c \<in> set candidates. select candidates request = Inr (ch_ClusterID c) \<and> (\<forall>y \<in> set candidates. \<not> better y c)"
begin

lemma select_error: "select candidates request = Inl e \<longleftrightarrow> candidates = [] \<and> e = ErrNoCandidates"
  using select_some [of candidates request] select_empty [of request] by (cases "candidates = []") auto

lemma select_among: "select (filter P candidates) request = Inr x \<Longrightarrow> \<exists>c \<in> set candidates. P c \<and> ch_ClusterID c = x"
  using select_some [of "filter P candidates" request] select_empty [of request] by (cases "filter P candidates = []") force+

end

lemma fold_best:
  assumes "transp better" and "\<And>y. \<not> better y y"
  shows "(let x = fold (\<lambda>c best. if better c best then c else best) cs b in
     x \<in> insert b (set cs) \<and> (\<forall>y \<in> insert b (set cs). \<not> better y x))"
proof -
  have "bestFrom (\<lambda>_. True) better (Some b) cs = Some (fold (\<lambda>c best. if better c best then c else best) cs b)"
    by (induction cs arbitrary: b) auto
  with bestFrom_upper [OF assms this] bestFrom_Some [of "\<lambda>_. True" better b cs] show ?thesis
    by (auto simp: Let_def)
qed

lemma selectBest_some:
  assumes "transp better" and "\<And>y. \<not> better y y" and "candidates \<noteq> []"
  shows "\<exists>c \<in> set candidates. selectBest better candidates = Inr (ch_ClusterID c) \<and> (\<forall>y \<in> set candidates. \<not> better y c)"
proof (cases candidates)
  case (Cons a cs)
  let ?x = "fold (\<lambda>c best. if better c best then c else best) cs a"
  from fold_best [OF assms(1,2), of cs a] Cons show ?thesis by (intro bexI [of _ ?x]) (simp_all add: Let_def)
qed (use assms(3) in simp)

interpretation weighted: load_balancer WeightedSelectCluster "\<lambda>c best. fLt (ch_CapacityRemaining best) (ch_CapacityRemaining c)"
  by unfold_locales (simp_all add: WeightedSelectCluster_def selectBest_some [OF transp_fLt(1)])

interpretation latency: load_balancer LatencyAwareSelectCluster "\<lambda>c best. fLt (ch_LatencyMs c) (ch_LatencyMs best)"
  by unfold_locales (simp_all add: LatencyAwareSelectCluster_def selectBest_some [OF transp_fLt(2)])

interpretation cost: load_balancer CostAwareSelectCluster "\<lambda>c best. fLt (costScore best) (costScore c)"
  by unfold_locales (simp_all add: CostAwareSelectCluster_def selectBest_some [OF transp_fLt(1)])



section \<open>A concrete fleet\<close>

definition routedRequest :: RoutingRequest where
  "routedRequest = \<lparr>rq_Model = ''m'', rq_ModelID = [], rq_TenantID = ''acme'', rq_Headers = [],
     rq_SourceRegion = [], rq_Region = [], rq_TokenCount = 0, rq_Priority = [], rq_SessionID = [],
     rq_AllowedClusters = [''east'', ''west''], rq_DeniedClusters = [], rq_SemanticLabel = [],
     rq_SemanticScore = fZero, rq_SemanticMargin = fZero\<rparr>"

definition exampleHealth :: "string \<Rightarrow> float64 \<Rightarrow> ClusterHealth" where
  "exampleHealth x hits = \<lparr>ch_ClusterID = x, ch_Healthy = True, ch_LatencyMs = fZero, ch_CapacityRemaining = fZero,
     ch_KVCacheHitRate = hits, ch_AvailableSlots = 1, ch_CurrentLoad = fZero, ch_CostPerToken = fZero,
     ch_Region = [], ch_PoolSaturation = fZero, ch_Labels = []\<rparr>"

definition exampleFleet :: "ClusterHealth list" where
  "exampleFleet = [exampleHealth ''north'' (Fin False 1), exampleHealth ''east'' fZero, exampleHealth ''west'' (Fin False 1)]"

definition exampleRouting :: FleetRoutingPolicySpec where
  "exampleRouting = \<lparr>frps_Strategy = ''weighted'',
     frps_Rules = [\<lparr>rrule_Match = \<lparr>rm_Headers = [], rm_Source = [], rm_SemanticTier = [], rm_MinConfidence = fZero\<rparr>,
       rrule_Action = \<lparr>ra_PreferLocal = False, ra_PreferCheapest = False, ra_KVCacheAffinity = True,
         ra_SessionAffinity = False, ra_MaxLatencyMs = 0, ra_Failover = None, ra_TargetModelTier = []\<rparr>\<rparr>],
     frps_HealthCheck = None\<rparr>"

lemma example_routed:
  "Evaluate_policy routedRequest exampleFleet exampleRouting = Inr (routeTo ''west'' ''kv-cache-affinity'')"
  by (simp add: Evaluate_policy_def routedRequest_def exampleFleet_def exampleRouting_def exampleHealth_def
      filterClustersByTenant_def matchesRule_def applyAction_def bestByCacheHits_def)



end
