(* ===== verification/Provider_Health.thy ===== *)
theory Provider_Health
  imports Routing_Policy Store_Memory Go_Time "HOL-Library.Sublist"
begin

text \<open>
  The health of the clusters as routing sees it: the metrics collector
  (\<open>pkg/autoscaling/collector/collector.go\<close>), the health snapshot built from the
  cluster repository and the metrics (\<open>pkg/server/controller.go\<close>,
  \<open>BuildClusterHealth\<close>), and the active probes of inference endpoints with their
  hysteresis (\<open>pkg/server/provider_health.go\<close>). The answer of a probe is a
  parameter: the HTTP status of a URL, or none when the request failed.
\<close>

section \<open>The metrics collector\<close>

record PoolMetrics =
  pm_PoolName :: string
  pm_Model :: string
  pm_Replicas :: int64
  pm_QueueDepth :: int64
  pm_TTFT_P50_Ms :: float64
  pm_TTFT_P99_Ms :: float64
  pm_Throughput_TPS :: float64
  pm_GPUUtilization :: float64
  pm_KVCacheHitRate :: float64
  pm_CPUUtilization :: float64
  pm_InferenceLatencyP99Ms :: float64
  pm_PoolSaturation :: float64
  pm_ReadyEndpoints :: int64
  pm_KVCacheUtilization :: float64
  pm_InflightRequests :: int64

record ClusterMetrics =
  cm_ClusterID :: string
  cm_Pools :: "PoolMetrics list"
  cm_Timestamp :: time

type_synonym InMemoryCollector = "(string, ClusterMetrics) gomap"

definition NewMetricsCollector :: InMemoryCollector where
  "NewMetricsCollector = []"

definition addMetrics :: "ClusterMetrics \<Rightarrow> InMemoryCollector \<Rightarrow> InMemoryCollector" where
  "addMetrics metrics c = AList.update (cm_ClusterID metrics) metrics c"

definition CollectAll :: "InMemoryCollector \<Rightarrow> ClusterMetrics list" where
  "CollectAll c = map snd c"

definition CollectCluster :: "string \<Rightarrow> InMemoryCollector \<Rightarrow> ClusterMetrics option" where
  "CollectCluster clusterID c = map_of c clusterID"

section \<open>The health snapshot\<close>

text \<open>The built-in \<open>max\<close> on \<open>float64\<close>: NaN if either argument is, and the positive
  one of two zeros.\<close>

definition fMax :: "float64 \<Rightarrow> float64 \<Rightarrow> float64" where
  "fMax a b =
     (if isNaN a \<or> isNaN b then FNaN else if fLt a b then b else if fLt b a then a
      else if a = Fin True 0 then b else a)"

definition aggregateMetrics :: "PoolMetrics \<Rightarrow> PoolMetrics \<Rightarrow> PoolMetrics" where
  "aggregateMetrics aggregate pool =
     aggregate\<lparr>pm_TTFT_P99_Ms := fMax (pm_TTFT_P99_Ms aggregate) (pm_TTFT_P99_Ms pool),
       pm_GPUUtilization := fMax (pm_GPUUtilization aggregate) (pm_GPUUtilization pool),
       pm_PoolSaturation := fMax (pm_PoolSaturation aggregate) (pm_PoolSaturation pool),
       pm_ReadyEndpoints := wrap64 (pm_ReadyEndpoints aggregate + pm_ReadyEndpoints pool),
       pm_KVCacheHitRate :=
         (if fEq (pm_KVCacheHitRate aggregate) fZero \<or>
             fLt fZero (pm_KVCacheHitRate pool) \<and> fLt (pm_KVCacheHitRate pool) (pm_KVCacheHitRate aggregate)
          then pm_KVCacheHitRate pool else pm_KVCacheHitRate aggregate)\<rparr>"

definition addPool :: "string \<Rightarrow> PoolMetrics \<Rightarrow> (string, PoolMetrics) gomap \<Rightarrow> (string, PoolMetrics) gomap" where
  "addPool clusterID pool m =
     (case map_of m clusterID of
        None \<Rightarrow> AList.update clusterID pool m
      | Some aggregate \<Rightarrow> AList.update clusterID (aggregateMetrics aggregate pool) m)"

definition metricsByCluster :: "ClusterMetrics list \<Rightarrow> (string, PoolMetrics) gomap" where
  "metricsByCluster allMetrics =
     fold (\<lambda>cm m. fold (addPool (cm_ClusterID cm)) (cm_Pools cm) m) allMetrics []"

definition withMetrics :: "PoolMetrics \<Rightarrow> ClusterHealth \<Rightarrow> ClusterHealth" where
  "withMetrics pm ch =
     ch\<lparr>ch_KVCacheHitRate := pm_KVCacheHitRate pm, ch_LatencyMs := pm_TTFT_P99_Ms pm,
        ch_CurrentLoad := (if fLt fZero (pm_PoolSaturation pm) then pm_PoolSaturation pm else pm_GPUUtilization pm),
        ch_PoolSaturation := pm_PoolSaturation pm,
        ch_AvailableSlots := (if 0 < pm_ReadyEndpoints pm then pm_ReadyEndpoints pm else ch_AvailableSlots ch)\<rparr>"

definition servingStatus :: "string \<Rightarrow> bool" where
  "servingStatus status \<longleftrightarrow> status = ''Running'' \<or> status = ''Healthy''"

definition clusterHealthOf :: "ClusterRecord \<Rightarrow> ClusterHealth" where
  "clusterHealthOf c =
     \<lparr>ch_ClusterID = cl_ID c, ch_Healthy = servingStatus (cl_Status c), ch_LatencyMs = fZero,
      ch_CapacityRemaining =
        (if cl_GPUTotal c = 0 then fOne else fDiv (fOfInt (cl_GPUAvailable c)) (fOfInt (max (cl_GPUTotal c) 1))),
      ch_KVCacheHitRate = fZero, ch_AvailableSlots = cl_GPUAvailable c, ch_CurrentLoad = fZero,
      ch_CostPerToken = fZero, ch_Region = cl_Region c, ch_PoolSaturation = fZero, ch_Labels = cl_Labels c\<rparr>"

definition BuildClusterHealth :: "InMemoryClusterRepository \<Rightarrow> InMemoryCollector \<Rightarrow> ClusterHealth list" where
  "BuildClusterHealth repo metrics =
     (let m = metricsByCluster (CollectAll metrics)
      in map (\<lambda>c. case map_of m (cl_ID c) of
                None \<Rightarrow> clusterHealthOf c
              | Some pm \<Rightarrow> withMetrics pm (clusterHealthOf c)) (clusterList repo))"

section \<open>Active probes\<close>

record providerHealthEntry =
  phe_healthy :: bool
  phe_checkedAt :: time
  phe_consecutiveSuccesses :: int64
  phe_consecutiveFailures :: int64

record ProviderHealthCache =
  phc_urls :: "(string, string) gomap"
  phc_entries :: "(string, providerHealthEntry) gomap"
  phc_ttl :: int64

definition providerHealthyThreshold :: int64 where "providerHealthyThreshold = 2"
definition providerUnhealthyThreshold :: int64 where "providerUnhealthyThreshold = 3"

definition zeroEntry :: providerHealthEntry where
  "zeroEntry = \<lparr>phe_healthy = False, phe_checkedAt = 0, phe_consecutiveSuccesses = 0, phe_consecutiveFailures = 0\<rparr>"

definition NewProviderHealthCache :: "(string, string) gomap \<Rightarrow> ProviderHealthCache" where
  "NewProviderHealthCache urls = \<lparr>phc_urls = urls, phc_entries = [], phc_ttl = 5 * nanosPerSecond\<rparr>"

definition decided :: "providerHealthEntry \<Rightarrow> bool" where
  "decided entry \<longleftrightarrow>
     \<not> (phe_consecutiveSuccesses entry < providerHealthyThreshold \<and>
        phe_consecutiveFailures entry < providerUnhealthyThreshold)"

definition Ready :: "ProviderHealthCache \<Rightarrow> bool" where
  "Ready p \<longleftrightarrow>
     list_all (\<lambda>(clusterID, url). case map_of (phc_entries p) clusterID of
        None \<Rightarrow> False | Some entry \<Rightarrow> decided entry) (phc_urls p)"

definition probeSucceeded :: "int64 option \<Rightarrow> bool" where
  "probeSucceeded response \<longleftrightarrow> (case response of None \<Rightarrow> False | Some status \<Rightarrow> 200 \<le> status \<and> status < 300)"

definition probeEntry :: "time \<Rightarrow> bool \<Rightarrow> providerHealthEntry \<Rightarrow> providerHealthEntry" where
  "probeEntry now success entry =
     (if success then
        let n = wrap64 (phe_consecutiveSuccesses entry + 1)
        in entry\<lparr>phe_checkedAt := now, phe_consecutiveSuccesses := n, phe_consecutiveFailures := 0,
             phe_healthy := (if providerHealthyThreshold \<le> n then True else phe_healthy entry)\<rparr>
      else
        let n = wrap64 (phe_consecutiveFailures entry + 1)
        in entry\<lparr>phe_checkedAt := now, phe_consecutiveFailures := n, phe_consecutiveSuccesses := 0,
             phe_healthy := (if providerUnhealthyThreshold \<le> n then False else phe_healthy entry)\<rparr>)"

definition entryOf :: "ProviderHealthCache \<Rightarrow> string \<Rightarrow> providerHealthEntry" where
  "entryOf p clusterID = (case map_of (phc_entries p) clusterID of None \<Rightarrow> zeroEntry | Some e \<Rightarrow> e)"

text \<open>\<open>respond\<close> gives the answer of a URL and \<open>now\<close> the clock after it.\<close>

definition probe :: "(string \<Rightarrow> int64 option) \<Rightarrow> time \<Rightarrow> string \<Rightarrow> string \<Rightarrow> ProviderHealthCache \<Rightarrow> ProviderHealthCache \<times> bool" where
  "probe respond now clusterID url p =
     (let entry = probeEntry now (probeSucceeded (respond url)) (entryOf p clusterID)
      in (p\<lparr>phc_entries := AList.update clusterID entry (phc_entries p)\<rparr>, phe_healthy entry))"

text \<open>\<open>Healthy\<close> returns the verdict and whether the cluster is configured. \<open>start\<close> is the
  reading at entry and \<open>fin\<close> the one after a probe.\<close>

definition Healthy_provider ::
  "(string \<Rightarrow> int64 option) \<Rightarrow> time \<Rightarrow> time \<Rightarrow> string \<Rightarrow> ProviderHealthCache option \<Rightarrow>
   ProviderHealthCache option \<times> bool \<times> bool" where
  "Healthy_provider respond start fin clusterID po =
     (case po of None \<Rightarrow> (None, False, False)
      | Some p \<Rightarrow> (case map_of (phc_urls p) clusterID of
          None \<Rightarrow> (Some p, False, False)
        | Some url \<Rightarrow>
            let cached = (case map_of (phc_entries p) clusterID of
                  None \<Rightarrow> None
                | Some entry \<Rightarrow> if timeSub start (phe_checkedAt entry) < phc_ttl p then Some (phe_healthy entry) else None)
            in case cached of
                 Some h \<Rightarrow> (Some p, h, True)
               | None \<Rightarrow> (let (p', h) = probe respond fin clusterID url p in (Some p', h, True))))"

definition Snapshot :: "string \<Rightarrow> ProviderHealthCache option \<Rightarrow> bool \<times> bool \<times> time" where
  "Snapshot clusterID po =
     (case po of None \<Rightarrow> (False, False, 0)
      | Some p \<Rightarrow> if map_of (phc_urls p) clusterID = None then (False, False, 0)
         else (case map_of (phc_entries p) clusterID of
             None \<Rightarrow> (False, True, 0)
           | Some entry \<Rightarrow> (phe_healthy entry, True, phe_checkedAt entry)))"

definition probeAll :: "(string \<Rightarrow> int64 option) \<Rightarrow> (string \<Rightarrow> time) \<Rightarrow> ProviderHealthCache \<Rightarrow> ProviderHealthCache" where
  "probeAll respond clock p =
     fold (\<lambda>(clusterID, url) q. fst (probe respond (clock clusterID) clusterID url q)) (phc_urls p) p"

text \<open>The start-up loop: round \<open>i\<close> probes with the answers \<open>respond i\<close>; \<open>finished i\<close> says that the
  context ends before the next round. It returns the error of the context or the
  initialized cache, and may run forever.\<close>

partial_function (option) Initialize ::
  "(nat \<Rightarrow> string \<Rightarrow> int64 option) \<Rightarrow> (nat \<Rightarrow> string \<Rightarrow> time) \<Rightarrow> (nat \<Rightarrow> bool) \<Rightarrow> nat \<Rightarrow> ProviderHealthCache \<Rightarrow>
   (ProviderHealthCache + ProviderHealthCache) option" where
  "Initialize respond clock finished i p =
     (let p' = probeAll (respond i) (clock i) p
      in if Ready p' then Some (Inr p')
         else if finished i then Some (Inl p')
         else Initialize respond clock finished (i + 1) p')"

section \<open>The snapshot for inference\<close>

text \<open>\<open>clock c\<close> has the two readings taken for cluster \<open>c\<close>.\<close>

fun inferenceHealth ::
  "(string \<Rightarrow> int64 option) \<Rightarrow> (string \<Rightarrow> time \<times> time) \<Rightarrow> ClusterHealth list \<Rightarrow> ProviderHealthCache option \<Rightarrow>
   ProviderHealthCache option \<times> ClusterHealth list" where
  "inferenceHealth respond clock [] p = (p, [])"
| "inferenceHealth respond clock (h # hs) p =
     (let (p1, activelyHealthy, configured) =
            Healthy_provider respond (fst (clock (ch_ClusterID h))) (snd (clock (ch_ClusterID h))) (ch_ClusterID h) p;
          h' = (if configured then h\<lparr>ch_Healthy := ch_Healthy h \<and> activelyHealthy\<rparr> else h);
          (p2, hs') = inferenceHealth respond clock hs p1
      in (p2, h' # hs'))"

definition BuildInferenceClusterHealth ::
  "(string \<Rightarrow> int64 option) \<Rightarrow> (string \<Rightarrow> time \<times> time) \<Rightarrow> InMemoryClusterRepository \<Rightarrow> InMemoryCollector \<Rightarrow>
   ProviderHealthCache option \<Rightarrow> ProviderHealthCache option \<times> ClusterHealth list" where
  "BuildInferenceClusterHealth respond clock repo metrics p =
     inferenceHealth respond clock (BuildClusterHealth repo metrics) p"

section \<open>The hysteresis of the probes\<close>

text \<open>The verdict on a provider as a property of its probe history, oldest first: at
  some point two probes in a row succeeded, and since then no three in a row failed.\<close>

definition steadilyHealthy :: "bool list \<Rightarrow> bool" where
  "steadilyHealthy outcomes \<longleftrightarrow>
     (\<exists>pre since. outcomes = pre @ [True, True] @ since \<and> \<not> sublist [False, False, False] since)"

definition trailing :: "bool \<Rightarrow> bool list \<Rightarrow> nat" where
  "trailing b outcomes = length (takeWhile ((=) b) (rev outcomes))"

lemma trailing_Nil [simp]: "trailing b [] = 0"
  by (simp add: trailing_def)

lemma trailing_snoc [simp]: "trailing b (outcomes @ [x]) = (if x = b then Suc (trailing b outcomes) else 0)"
  by (auto simp: trailing_def)

lemma trailing_le: "trailing b outcomes \<le> length outcomes"
  unfolding trailing_def using length_takeWhile_le [of "(=) b" "rev outcomes"] by simp

lemma trailing_ge:
  "Suc n \<le> trailing b outcomes \<longleftrightarrow> (\<exists>zs. outcomes = zs @ [b] \<and> n \<le> trailing b zs)"
  by (cases outcomes rule: rev_cases) auto

lemma sublist_snoc: "sublist xs (ys @ [y]) \<longleftrightarrow> suffix xs (ys @ [y]) \<or> sublist xs ys"
  using sublist_Cons_right [of "rev xs" y "rev ys"] sublist_rev [of xs "ys @ [y]"]
  by (simp add: suffix_to_prefix)

lemma three_failures_snoc:
  "sublist [False, False, False] (ys @ [y]) \<longleftrightarrow>
     \<not> y \<and> suffix [False, False] ys \<or> sublist [False, False, False] ys"
  unfolding sublist_snoc by (auto simp: suffix_def)

lemma steadilyHealthy_Nil [simp]: "\<not> steadilyHealthy []"
  by (simp add: steadilyHealthy_def)

lemma steadilyHealthy_success:
  "steadilyHealthy (os @ [True]) \<longleftrightarrow> steadilyHealthy os \<or> 1 \<le> trailing True os"
proof
  assume "steadilyHealthy (os @ [True])"
  then obtain pre since where o: "os @ [True] = pre @ [True, True] @ since" "\<not> sublist [False, False, False] since"
    unfolding steadilyHealthy_def by blast
  show "steadilyHealthy os \<or> 1 \<le> trailing True os"
  proof (cases since rule: rev_cases)
    case Nil
    with o(1) have "os = pre @ [True]" by simp
    then show ?thesis by simp
  next
    case (snoc since' y)
    with o have "os = pre @ [True, True] @ since'" "\<not> sublist [False, False, False] since'"
      by (auto simp: three_failures_snoc)
    then show ?thesis unfolding steadilyHealthy_def by blast
  qed
next
  assume "steadilyHealthy os \<or> 1 \<le> trailing True os"
  then show "steadilyHealthy (os @ [True])"
  proof
    assume "steadilyHealthy os"
    then obtain pre since where "os = pre @ [True, True] @ since" "\<not> sublist [False, False, False] since"
      unfolding steadilyHealthy_def by blast
    then have "os @ [True] = pre @ [True, True] @ (since @ [True])" "\<not> sublist [False, False, False] (since @ [True])"
      by (simp_all add: three_failures_snoc)
    then show ?thesis unfolding steadilyHealthy_def by blast
  next
    assume "1 \<le> trailing True os"
    then obtain zs where "os = zs @ [True]" using trailing_ge [of 0 True os] by auto
    then have "os @ [True] = zs @ [True, True] @ []" by simp
    then show ?thesis unfolding steadilyHealthy_def by fastforce
  qed
qed

lemma steadilyHealthy_failure:
  "steadilyHealthy (os @ [False]) \<longleftrightarrow> steadilyHealthy os \<and> \<not> 2 \<le> trailing False os"
proof -
  have two: "2 \<le> trailing False os \<longleftrightarrow> suffix [False, False] os"
    by (auto simp: numeral_2_eq_2 trailing_ge suffix_def)
  have cut: "suffix [False, False] (pre @ [True, True] @ since) \<longleftrightarrow> suffix [False, False] since" for pre since
    by (cases since rule: rev_cases) (auto simp: suffix_def append_eq_append_conv2 Cons_eq_append_conv append_eq_Cons_conv)
  have "steadilyHealthy (os @ [False]) \<longleftrightarrow>
     (\<exists>pre since. os = pre @ [True, True] @ since \<and> \<not> sublist [False, False, False] (since @ [False]))"
    (is "?l \<longleftrightarrow> ?r")
  proof
    assume ?l
    then obtain pre since where o: "os @ [False] = pre @ [True, True] @ since" "\<not> sublist [False, False, False] since"
      unfolding steadilyHealthy_def by blast
    then show ?r by (cases since rule: rev_cases) auto
  next
    assume ?r
    then obtain pre since where "os @ [False] = pre @ [True, True] @ (since @ [False])" "\<not> sublist [False, False, False] (since @ [False])"
      by auto
    then show ?l unfolding steadilyHealthy_def by blast
  qed
  moreover have "suffix [False, False] since \<longleftrightarrow> suffix [False, False] os" if "os = pre @ [True, True] @ since" for pre since
    unfolding that by (rule cut [symmetric])
  ultimately show ?thesis unfolding two steadilyHealthy_def three_failures_snoc by blast
qed

lemmas thresholds = providerHealthyThreshold_def providerUnhealthyThreshold_def

definition probeHistory :: "(time \<times> bool) list \<Rightarrow> providerHealthEntry" where
  "probeHistory probes = fold (\<lambda>(now, success). probeEntry now success) probes zeroEntry"

lemma probeHistory_counts:
  assumes "int (length probes) < 2 ^ 63"
  shows "phe_consecutiveSuccesses (probeHistory probes) = int (trailing True (map snd probes)) \<and>
     phe_consecutiveFailures (probeHistory probes) = int (trailing False (map snd probes)) \<and>
     (phe_healthy (probeHistory probes) \<longleftrightarrow> steadilyHealthy (map snd probes))"
  using assms
proof (induction probes rule: rev_induct)
  case Nil
  then show ?case by (simp add: probeHistory_def zeroEntry_def)
next
  case (snoc pr probes)
  obtain now b where pr: "pr = (now, b)" by fastforce
  have IH: "phe_consecutiveSuccesses (probeHistory probes) = int (trailing True (map snd probes))"
    "phe_consecutiveFailures (probeHistory probes) = int (trailing False (map snd probes))"
    "phe_healthy (probeHistory probes) \<longleftrightarrow> steadilyHealthy (map snd probes)"
    using snoc by auto
  have w: "wrap64 (int (trailing c (map snd probes)) + 1) = int (trailing c (map snd probes)) + 1" for c
    using snoc.prems trailing_le [of c "map snd probes"] by (intro wrap64_id) (simp add: in64_def)
  have step: "probeHistory (probes @ [(now, c)]) = probeEntry now c (probeHistory probes)" for c
    by (simp add: probeHistory_def)
  show ?case unfolding pr
    by (cases b) (auto simp: step probeEntry_def IH w Let_def thresholds steadilyHealthy_success steadilyHealthy_failure)
qed

section \<open>Probe sequences\<close>

text \<open>One probe: the cluster, its URL, the answer and the clock after it.\<close>

type_synonym probeEvent = "string \<times> string \<times> int64 option \<times> time"

fun probeStep :: "probeEvent \<Rightarrow> ProviderHealthCache \<Rightarrow> ProviderHealthCache" where
  "probeStep (clusterID, url, response, now) p = fst (probe (\<lambda>_. response) now clusterID url p)"

definition outcomesOf :: "string \<Rightarrow> probeEvent list \<Rightarrow> (time \<times> bool) list" where
  "outcomesOf x events = map (\<lambda>(c, u, r, now). (now, probeSucceeded r)) (filter (\<lambda>e. fst e = x) events)"

lemma entryOf_probe:
  "entryOf (fst (probe respond now c url p)) x =
     (if x = c then probeEntry now (probeSucceeded (respond url)) (entryOf p c) else entryOf p x)"
  by (simp add: probe_def entryOf_def Let_def go_map)

lemma probe_sel [simp]:
  "phc_urls (fst (probe respond now c url p)) = phc_urls p" "phc_ttl (fst (probe respond now c url p)) = phc_ttl p"
  "snd (probe respond now c url p) = phe_healthy (entryOf (fst (probe respond now c url p)) c)"
  by (simp_all add: probe_def Let_def entryOf_def go_map)

lemma entryOf_events:
  "entryOf (fold probeStep events (NewProviderHealthCache urls)) x = probeHistory (outcomesOf x events)"
proof (induction events rule: rev_induct)
  case Nil
  then show ?case by (simp add: entryOf_def NewProviderHealthCache_def probeHistory_def outcomesOf_def)
next
  case (snoc e events)
  obtain c u r now where e: "e = (c, u, r, now)" by (metis prod.collapse)
  show ?case using snoc by (cases "c = x") (simp_all add: e entryOf_probe probeHistory_def outcomesOf_def)
qed

lemma outcomesOf_length: "length (outcomesOf x events) \<le> length events"
  by (simp add: outcomesOf_def)

text \<open>C17: After fewer than 2^63 probes of whatever providers, a provider counts as
  healthy exactly when two of its own probes in a row succeeded and no three in a
  row have failed since. A provider that was never probed is unhealthy.\<close>

theorem provider_verdict:
  assumes "int (length events) < 2 ^ 63"
  shows "phe_healthy (entryOf (fold probeStep events (NewProviderHealthCache urls)) x) \<longleftrightarrow>
     steadilyHealthy (map snd (outcomesOf x events))"
  using probeHistory_counts [of "outcomesOf x events"] assms outcomesOf_length [of x events]
  by (simp add: entryOf_events)

lemma provider_verdict_witness:
  "let ok = (''east'', ''u'', Some 200, 1); bad = (''east'', ''u'', None, 2); other = (''west'', ''v'', Some 503, 3)
   in phe_healthy (entryOf (fold probeStep [ok, other, ok, bad, other, bad] (NewProviderHealthCache [])) ''east'')"
proof -
  have "steadilyHealthy ([] @ [True, True] @ [False, False])"
    unfolding steadilyHealthy_def by (intro exI conjI, rule refl) (simp add: sublist_Cons_right)
  then show ?thesis
    unfolding Let_def by (subst provider_verdict) (simp_all add: outcomesOf_def probeSucceeded_def)
qed

section \<open>Start-up\<close>

definition probeUrls ::
  "(string \<Rightarrow> int64 option) \<Rightarrow> (string \<Rightarrow> time) \<Rightarrow> (string, string) gomap \<Rightarrow> ProviderHealthCache \<Rightarrow> ProviderHealthCache" where
  "probeUrls respond clock urls p = fold (\<lambda>(c, url) q. fst (probe respond (clock c) c url q)) urls p"

lemma probeUrls_simps [simp]:
  "probeUrls respond clock [] p = p"
  "probeUrls respond clock ((c, url) # urls) p = probeUrls respond clock urls (fst (probe respond (clock c) c url p))"
  by (simp_all add: probeUrls_def)

lemma probeUrls_urls [simp]: "phc_urls (probeUrls respond clock urls p) = phc_urls p"
  by (induction urls arbitrary: p) auto

lemma probeUrls_entry:
  "validMap urls \<Longrightarrow> entryOf (probeUrls respond clock urls p) x =
     (case map_of urls x of
        None \<Rightarrow> entryOf p x
      | Some url \<Rightarrow> probeEntry (clock x) (probeSucceeded (respond url)) (entryOf p x))"
proof (induction urls arbitrary: p)
  case (Cons cu urls)
  obtain c url where cu: "cu = (c, url)" by fastforce
  have "map_of urls c = None" using Cons.prems by (simp add: cu map_of_eq_None_iff)
  with Cons show ?case by (cases "x = c") (auto simp: cu entryOf_probe split: option.split)
qed simp

lemma probe_present:
  "map_of (phc_entries (fst (probe respond now c url p))) x = None \<longleftrightarrow> x \<noteq> c \<and> map_of (phc_entries p) x = None"
  by (simp add: probe_def Let_def go_map)

lemma probeUrls_present:
  "map_of (phc_entries (probeUrls respond clock urls p)) x = None \<longleftrightarrow>
     map_of (phc_entries p) x = None \<and> map_of urls x = None"
proof (induction urls arbitrary: p)
  case (Cons cu urls)
  obtain c url where cu: "cu = (c, url)" by fastforce
  show ?case by (simp add: cu Cons.IH probe_present)
qed simp

definition roundsOf :: "(nat \<Rightarrow> string \<Rightarrow> int64 option) \<Rightarrow> string \<Rightarrow> nat \<Rightarrow> (nat \<Rightarrow> time) \<Rightarrow> (time \<times> bool) list" where
  "roundsOf respond url n at_round = map (\<lambda>i. (at_round i, probeSucceeded (respond i url))) [0..<n]"

primrec afterRounds ::
  "(nat \<Rightarrow> string \<Rightarrow> int64 option) \<Rightarrow> (nat \<Rightarrow> string \<Rightarrow> time) \<Rightarrow> nat \<Rightarrow> ProviderHealthCache \<Rightarrow> ProviderHealthCache" where
  "afterRounds respond clock 0 p = p"
| "afterRounds respond clock (Suc n) p = probeAll (respond n) (clock n) (afterRounds respond clock n p)"

lemma afterRounds_urls [simp]: "phc_urls (afterRounds respond clock n p) = phc_urls p"
  by (induction n) (simp_all add: probeAll_def probeUrls_def [symmetric])

lemma NewProviderHealthCache_urls [simp]: "phc_urls (NewProviderHealthCache urls) = urls"
  by (simp add: NewProviderHealthCache_def)

lemma afterRounds_entry:
  assumes "validMap urls" and "map_of urls x = Some url"
  shows "entryOf (afterRounds respond clock n (NewProviderHealthCache urls)) x = probeHistory (roundsOf respond url n (\<lambda>i. clock i x)) \<and>
    (0 < n \<longrightarrow> map_of (phc_entries (afterRounds respond clock n (NewProviderHealthCache urls))) x \<noteq> None)"
proof (induction n)
  case 0
  then show ?case by (simp add: NewProviderHealthCache_def entryOf_def probeHistory_def roundsOf_def)
next
  case (Suc n)
  then show ?case
    using assms by (simp add: probeAll_def probeUrls_def [symmetric] probeUrls_entry probeUrls_present probeHistory_def roundsOf_def)
qed

lemma trailing_append_replicate: "k \<le> trailing b (os @ replicate k b)"
  unfolding trailing_def rev_append by (subst takeWhile_append2) simp_all

lemma steady_decided:
  assumes "\<And>i. i \<in> {n..<n + 3} \<Longrightarrow> probeSucceeded (respond i url) = b" and "int n < 2 ^ 62"
  shows "decided (probeHistory (roundsOf respond url (n + 3) at_round))"
proof -
  have "map snd (roundsOf respond url (n + 3) at_round) =
      map (\<lambda>i. probeSucceeded (respond i url)) [0..<n] @ replicate 3 b"
    using assms(1) [of n] assms(1) [of "n + 1"] assms(1) [of "n + 2"]
    by (simp add: roundsOf_def numeral_3_eq_3 upt_Suc_append)
  then have "3 \<le> trailing b (map snd (roundsOf respond url (n + 3) at_round))"
    by (metis trailing_append_replicate)
  moreover have "int (length (roundsOf respond url (n + 3) at_round)) < 2 ^ 63"
    using assms(2) by (simp add: roundsOf_def)
  ultimately show ?thesis
    using probeHistory_counts [of "roundsOf respond url (n + 3) at_round"] by (cases b) (auto simp: decided_def thresholds)
qed

lemma Initialize_returns:
  assumes "Ready (afterRounds respond clock (Suc n) p)" and "i \<le> n" and "\<And>j. j < n \<Longrightarrow> \<not> finished j"
  shows "\<exists>m. i \<le> m \<and> m \<le> n \<and> Ready (afterRounds respond clock (Suc m) p) \<and>
    Initialize respond clock finished i (afterRounds respond clock i p) = Some (Inr (afterRounds respond clock (Suc m) p))"
  using assms(2)
proof (induction "n - i" arbitrary: i)
  case 0
  then have "i = n" by simp
  with assms(1) show ?case by (subst Initialize.simps) (auto simp: Let_def)
next
  case (Suc d)
  show ?case
  proof (cases "Ready (afterRounds respond clock (Suc i) p)")
    case True
    with Suc.prems show ?thesis by (subst Initialize.simps) (auto simp: Let_def)
  next
    case False
    moreover have "\<not> finished i" using Suc.hyps(2) assms(3) [of i] by simp
    ultimately have "Initialize respond clock finished i (afterRounds respond clock i p) =
        Initialize respond clock finished (Suc i) (afterRounds respond clock (Suc i) p)"
      by (subst Initialize.simps) (simp add: Let_def)
    moreover from Suc.hyps(1) [of "Suc i"] Suc.hyps(2) obtain m where "Suc i \<le> m" "m \<le> n"
      "Ready (afterRounds respond clock (Suc m) p)"
      "Initialize respond clock finished (Suc i) (afterRounds respond clock (Suc i) p) = Some (Inr (afterRounds respond clock (Suc m) p))"
      by force
    ultimately show ?thesis by (intro exI [of _ m]) simp
  qed
qed

text \<open>C34: The start-up loop ends: if there are three rounds in a row, before round
  2^62, in which every configured provider answers its probes the same way each
  time, then \<open>Initialize\<close> has returned a cache that is ready by the last of them,
  unless the context ended before.\<close>

theorem Initialize_terminates:
  assumes "validMap urls" and "int n < 2 ^ 62"
    and steady: "\<And>x url. map_of urls x = Some url \<Longrightarrow>
      \<exists>b. \<forall>i \<in> {n..<n + 3}. probeSucceeded (respond i url) = b"
    and "\<And>j. j < n + 2 \<Longrightarrow> \<not> finished j"
  shows "\<exists>p. Initialize respond clock finished 0 (NewProviderHealthCache urls) = Some (Inr p) \<and> Ready p"
proof -
  let ?p = "afterRounds respond clock (n + 3) (NewProviderHealthCache urls)"
  have e: "\<exists>entry. map_of (phc_entries ?p) x = Some entry \<and> decided entry" if x: "map_of urls x = Some url" for x url
  proof -
    obtain b where b: "\<And>i. i \<in> {n..<n + 3} \<Longrightarrow> probeSucceeded (respond i url) = b" using steady [OF x] by blast
    have "decided (entryOf ?p x)" "map_of (phc_entries ?p) x \<noteq> None"
      using steady_decided [of n respond url b, OF b assms(2)]
        afterRounds_entry [OF assms(1) x, where respond = respond and clock = clock and n = "n + 3"] by simp_all
    then show ?thesis by (auto simp: entryOf_def)
  qed
  have "Ready ?p" unfolding Ready_def afterRounds_urls NewProviderHealthCache_urls list_all_iff
    using e map_of_is_SomeI [OF assms(1)] by fastforce
  then show ?thesis
    using Initialize_returns [of respond clock "n + 2" "NewProviderHealthCache urls" 0 finished] assms(4)
    by (auto simp: numeral_3_eq_3)
qed

lemma Initialize_terminates_witness:
  "\<exists>p. Initialize (\<lambda>i url. if url = ''u'' then Some 204 else None) (\<lambda>i x. int i) (\<lambda>i. False) 0
     (NewProviderHealthCache [(''east'', ''u''), (''west'', ''v'')]) = Some (Inr p) \<and> Ready p"
proof (rule Initialize_terminates [where n = 0])
  fix x url
  show "\<exists>b. \<forall>i \<in> {0..<0 + 3}. probeSucceeded (if url = ''u'' then Some 204 else None) = b" by blast
qed simp_all

section \<open>What the snapshots say\<close>

definition keepsProvider :: "ProviderHealthCache option \<Rightarrow> ProviderHealthCache option \<Rightarrow> string set \<Rightarrow> bool" where
  "keepsProvider po po' touched \<longleftrightarrow>
     (case (po, po') of
        (None, None) \<Rightarrow> True
      | (Some p, Some p') \<Rightarrow> phc_urls p' = phc_urls p \<and> (\<forall>x. x \<notin> touched \<longrightarrow> entryOf p' x = entryOf p x)
      | _ \<Rightarrow> False)"

definition configuredFor :: "ProviderHealthCache option \<Rightarrow> string \<Rightarrow> bool" where
  "configuredFor po x \<longleftrightarrow> (case po of None \<Rightarrow> False | Some p \<Rightarrow> map_of (phc_urls p) x \<noteq> None)"

definition verdictOf :: "ProviderHealthCache option \<Rightarrow> string \<Rightarrow> bool" where
  "verdictOf po x \<longleftrightarrow> (case po of None \<Rightarrow> False | Some p \<Rightarrow> phe_healthy (entryOf p x))"

lemma keepsProvider_trans:
  "keepsProvider a b S \<Longrightarrow> keepsProvider b c T \<Longrightarrow> keepsProvider a c (S \<union> T)"
  by (cases a; cases b; cases c) (auto simp: keepsProvider_def)

lemma keepsProvider_configured: "keepsProvider a b S \<Longrightarrow> configuredFor b x = configuredFor a x"
  by (cases a; cases b) (auto simp: keepsProvider_def configuredFor_def)

lemma keepsProvider_verdict: "keepsProvider a b S \<Longrightarrow> x \<notin> S \<Longrightarrow> verdictOf b x = verdictOf a x"
  by (cases a; cases b) (auto simp: keepsProvider_def verdictOf_def)

lemma Healthy_provider_spec:
  assumes "Healthy_provider respond start fin x po = (po', h, c)"
  shows "keepsProvider po po' {x} \<and> c = configuredFor po x \<and> (c \<longrightarrow> h = verdictOf po' x)"
proof (cases po)
  case None
  with assms show ?thesis by (auto simp: Healthy_provider_def keepsProvider_def configuredFor_def)
next
  case (Some p)
  show ?thesis
  proof (cases "map_of (phc_urls p) x")
    case None
    with Some assms show ?thesis by (auto simp: Healthy_provider_def keepsProvider_def configuredFor_def)
  next
    case (Some url)
    let ?pr = "probe respond fin x url p"
    from Some \<open>po = Some p\<close> assms consider
        entry where "map_of (phc_entries p) x = Some entry" "po' = Some p" "h = phe_healthy entry" "c"
      | "po' = Some (fst ?pr)" "h = snd ?pr" "c"
      by (auto simp: Healthy_provider_def Let_def split: option.splits if_splits prod.splits simp del: probe_sel(3))
    then show ?thesis
    proof cases
      case 1
      with Some \<open>po = Some p\<close> show ?thesis
        by (simp add: keepsProvider_def configuredFor_def verdictOf_def entryOf_def)
    next
      case 2
      with Some \<open>po = Some p\<close> show ?thesis
        by (simp add: keepsProvider_def configuredFor_def verdictOf_def entryOf_probe)
    qed
  qed
qed

lemma inferenceHealth_spec:
  assumes "inferenceHealth respond clock hs po = (po', hs')" and "distinct (map ch_ClusterID hs)"
  shows "keepsProvider po po' (set (map ch_ClusterID hs)) \<and>
    hs' = map (\<lambda>h. h\<lparr>ch_Healthy := ch_Healthy h \<and> (configuredFor po (ch_ClusterID h) \<longrightarrow> verdictOf po' (ch_ClusterID h))\<rparr>) hs"
  using assms
proof (induction hs arbitrary: po po' hs')
  case Nil
  then show ?case by (auto simp: keepsProvider_def split: option.split)
next
  case (Cons h hs)
  let ?x = "ch_ClusterID h"
  obtain p1 a c where p1: "Healthy_provider respond (fst (clock ?x)) (snd (clock ?x)) ?x po = (p1, a, c)" by (metis prod.collapse)
  obtain p2 hs2 where p2: "inferenceHealth respond clock hs p1 = (p2, hs2)" by fastforce
  note s1 = Healthy_provider_spec [OF p1]
  from Cons.IH [OF p2] Cons.prems(2)
  have s2: "keepsProvider p1 p2 (set (map ch_ClusterID hs))"
    "hs2 = map (\<lambda>h. h\<lparr>ch_Healthy := ch_Healthy h \<and> (configuredFor p1 (ch_ClusterID h) \<longrightarrow> verdictOf p2 (ch_ClusterID h))\<rparr>) hs"
    by simp_all
  have v: "verdictOf p2 ?x = verdictOf p1 ?x"
    using keepsProvider_verdict [OF s2(1), of ?x] Cons.prems(2) by simp
  have c: "configuredFor p1 x = configuredFor po x" for x
    using s1 keepsProvider_configured by blast
  have res: "po' = p2" "hs' = (if c then h\<lparr>ch_Healthy := ch_Healthy h \<and> a\<rparr> else h) # hs2"
    using Cons.prems(1) by (simp_all add: p1 p2)
  show ?case
    using keepsProvider_trans [OF conjunct1 [OF s1] s2(1)] s1 by (auto simp: res s2(2) c v)
qed

lemma BuildClusterHealth_ids: "map ch_ClusterID (BuildClusterHealth repo metrics) = map cl_ID (clusterList repo)"
  by (simp add: BuildClusterHealth_def Let_def clusterHealthOf_def withMetrics_def split: option.split)

lemma BuildClusterHealth_healthy:
  "h \<in> set (BuildClusterHealth repo metrics) \<Longrightarrow>
     \<exists>c \<in> set (clusterList repo). ch_ClusterID h = cl_ID c \<and> ch_Healthy h = servingStatus (cl_Status c)"
  by (auto simp: BuildClusterHealth_def Let_def clusterHealthOf_def withMetrics_def split: option.split)

lemma keyed_clusters:
  assumes "keyedBy cl_ID repo"
  shows "distinct (map cl_ID (clusterList repo))"
    and "c \<in> set (clusterList repo) \<Longrightarrow> map_of repo (cl_ID c) = Some c"
proof -
  have "map cl_ID (clusterList repo) = map fst repo"
    using assms by (auto simp: keyedBy_def clusterList_def)
  then show "distinct (map cl_ID (clusterList repo))" using assms by (simp add: keyedBy_def)
  show "c \<in> set (clusterList repo) \<Longrightarrow> map_of repo (cl_ID c) = Some c"
    using assms by (force simp: keyedBy_def clusterList_def intro: map_of_is_SomeI)
qed

text \<open>A cluster that the inference snapshot calls healthy is registered with a serving
  status, and its probes, where it has any, say so too.\<close>

lemma inference_healthy:
  assumes "keyedBy cl_ID repo" and "BuildInferenceClusterHealth respond clock repo metrics po = (po', hs)"
    and "h \<in> set hs" and "ch_Healthy h"
  shows "\<exists>c. map_of repo (ch_ClusterID h) = Some c \<and> servingStatus (cl_Status c) \<and>
     (configuredFor po (ch_ClusterID h) \<longrightarrow> verdictOf po' (ch_ClusterID h))"
proof -
  have "distinct (map ch_ClusterID (BuildClusterHealth repo metrics))"
    using keyed_clusters(1) [OF assms(1)] by (simp add: BuildClusterHealth_ids)
  from inferenceHealth_spec [OF assms(2) [unfolded BuildInferenceClusterHealth_def] this] assms(3)
  obtain h0 where h0: "h0 \<in> set (BuildClusterHealth repo metrics)" and
    h: "h = h0\<lparr>ch_Healthy := ch_Healthy h0 \<and> (configuredFor po (ch_ClusterID h0) \<longrightarrow> verdictOf po' (ch_ClusterID h0))\<rparr>"
    by auto
  from BuildClusterHealth_healthy [OF h0] obtain c where c: "c \<in> set (clusterList repo)" "ch_ClusterID h0 = cl_ID c"
    "ch_Healthy h0 = servingStatus (cl_Status c)" by blast
  with keyed_clusters(2) [OF assms(1) c(1)] assms(4) show ?thesis by (simp add: h)
qed

end
