(* ===== verification/Routing_Control.thy ===== *)
theory Routing_Control
  imports Routing_Session Provider_Health Go_Sort "HOL-Library.Word"
begin

text \<open>
  The routing part of the fleet controller in \<open>pkg/server\<close>: the routing
  controller with its session tiers (\<open>routing_controller.go\<close>), classification and
  routing of a prompt (\<open>handlers_routing.go\<close>), the choice of a provider for an
  inference request (\<open>model_providers.go\<close>, \<open>handlers_inference.go\<close>). A handler is
  one step from a state to a state and a reply. The classifier and the ledger
  recorder are parameters; clock readings and probe answers come with the request.
\<close>

section \<open>Configuration and state\<close>

text \<open>The classification cache is the one the constructor of the controller always
  installs; the session table may be absent.\<close>

record fleetConfig =
  fcfg_CPUPhysicalModel :: string
  fcfg_GPUPhysicalModel :: string
  fcfg_ModelProviderClusters :: "(string, string list) gomap"
  fcfg_CRDWatcher :: "(string \<Rightarrow> FleetRoutingPolicySpec option) option"
  fcfg_ClassifierClient :: "(string \<Rightarrow> string \<Rightarrow> (string, ClassifyResult option) res) option"
  fcfg_FleetRecorder :: "(string \<Rightarrow> string \<Rightarrow> string option) option"
  fcfg_LedgerGatewayURL :: string

record fleetState =
  fs_ClusterRepo :: InMemoryClusterRepository
  fs_MetricsCollector :: InMemoryCollector
  fs_ProviderHealth :: "ProviderHealthCache option"
  fs_SessionTable :: "SessionAffinityTable option"
  fs_ClassifierCache :: ClassificationCache
  fs_sessionTiers :: "(string, string) gomap"
  fs_providerRouteCounter :: "64 word"

text \<open>What a request reads from outside: the clock readings of its cache lookup, cache
  write, session lookup and last session binding (an earlier binding of the same
  request is overwritten by the last one and never read), the microseconds it took, and for its \<open>i\<close>-th health snapshot the probe answers
  and their clocks.\<close>

record requestEnv =
  re_getAt :: time
  re_putAt :: time
  re_lookupAt :: time
  re_bindAt :: time
  re_micros :: int64
  re_respond :: "nat \<Rightarrow> string \<Rightarrow> int64 option"
  re_probeClock :: "nat \<Rightarrow> string \<Rightarrow> time \<times> time"

section \<open>The routing controller\<close>

definition tierRanks :: "(string, int64) gomap" where
  "tierRanks = [(''SIMPLE'', 0), (''MEDIUM'', 1), (''COMPLEX'', 2), (''REASONING'', 3)]"

definition tierRank :: "string \<Rightarrow> int64" where
  "tierRank label = (case map_of tierRanks label of None \<Rightarrow> -1 | Some r \<Rightarrow> r)"

definition SessionTierRank :: "string \<Rightarrow> fleetState \<Rightarrow> int64" where
  "SessionTierRank sessionID st = (case map_of (fs_sessionTiers st) sessionID of None \<Rightarrow> -1 | Some tier \<Rightarrow> tierRank tier)"

definition SetSessionTier :: "string \<Rightarrow> string \<Rightarrow> fleetState \<Rightarrow> fleetState" where
  "SetSessionTier sessionID tier st = st\<lparr>fs_sessionTiers := AList.update sessionID tier (fs_sessionTiers st)\<rparr>"

definition SemanticTierDistribution :: "time \<Rightarrow> fleetState \<Rightarrow> (string, float64) gomap option" where
  "SemanticTierDistribution now st = TierDistribution now (fs_ClassifierCache st)"

definition ClassifyPrompt ::
  "fleetConfig \<Rightarrow> requestEnv \<Rightarrow> string \<Rightarrow> string \<Rightarrow> fleetState \<Rightarrow> fleetState \<times> (string, ClassifyResult option) res" where
  "ClassifyPrompt cfg env txt requestID st =
     (case fcfg_ClassifierClient cfg of
        None \<Rightarrow> (st, Inr None)
      | Some classify \<Rightarrow> (case cacheGet (re_getAt env) txt (fs_ClassifierCache st) of
          Some cached \<Rightarrow> (st, Inr cached)
        | None \<Rightarrow> (case classify txt requestID of
            Inl err \<Rightarrow> (st, Inl err)
          | Inr None \<Rightarrow> (st, Inr None)
          | Inr (Some result) \<Rightarrow>
              (st\<lparr>fs_ClassifierCache := cachePut (re_putAt env) txt (Some result) (fs_ClassifierCache st)\<rparr>, Inr (Some result)))))"

section \<open>Providers of a model\<close>

definition defaultCPUModel :: string where "defaultCPUModel = ''granite-2b-cpu''"
definition defaultGPUModel :: string where "defaultGPUModel = ''ibm-granite/granite-3.1-8b-instruct''"
definition defaultGPUAlias :: string where "defaultGPUAlias = ''granite-8b-gpu''"

definition cpuPhysicalModel :: "fleetConfig \<Rightarrow> string" where
  "cpuPhysicalModel cfg = (if fcfg_CPUPhysicalModel cfg \<noteq> [] then fcfg_CPUPhysicalModel cfg else defaultCPUModel)"

definition gpuPhysicalModel :: "fleetConfig \<Rightarrow> string" where
  "gpuPhysicalModel cfg = (if fcfg_GPUPhysicalModel cfg \<noteq> [] then fcfg_GPUPhysicalModel cfg else defaultGPUModel)"

text \<open>The order of strings by bytes.\<close>

fun bytesLess :: "string \<Rightarrow> string \<Rightarrow> bool" where
  "bytesLess s [] = False"
| "bytesLess [] (b # t) = True"
| "bytesLess (a # s) (b # t) = (a < b \<or> a = b \<and> bytesLess s t)"

definition modelProviders :: "fleetConfig \<Rightarrow> string \<Rightarrow> string list" where
  "modelProviders cfg model = (case map_of (fcfg_ModelProviderClusters cfg) model of None \<Rightarrow> [] | Some ps \<Rightarrow> ps)"

definition providersForModel :: "fleetConfig \<Rightarrow> string \<Rightarrow> string list" where
  "providersForModel cfg model = sortSlice bytesLess (modelProviders cfg model)"

definition providerServesModel :: "fleetConfig \<Rightarrow> string \<Rightarrow> string \<Rightarrow> bool" where
  "providerServesModel cfg provider model \<longleftrightarrow> provider \<in> set (modelProviders cfg model)"

definition inferenceSnapshot :: "requestEnv \<Rightarrow> nat \<Rightarrow> fleetState \<Rightarrow> fleetState \<times> ClusterHealth list" where
  "inferenceSnapshot env i st =
     (let (p, hs) = BuildInferenceClusterHealth (re_respond env i) (re_probeClock env i) (fs_ClusterRepo st)
            (fs_MetricsCollector st) (fs_ProviderHealth st)
      in (st\<lparr>fs_ProviderHealth := p\<rparr>, hs))"

definition eligibleProviders :: "fleetConfig \<Rightarrow> ClusterHealth list \<Rightarrow> string \<Rightarrow> string \<Rightarrow> string list" where
  "eligibleProviders cfg hs model excluded =
     sortSlice bytesLess (map ch_ClusterID
       (filter (\<lambda>c. ch_ClusterID c \<noteq> excluded \<and> ch_ClusterID c \<in> set (modelProviders cfg model) \<and> ch_Healthy c) hs))"

text \<open>The round-robin choice: the counter is a \<open>uint64\<close>, read after its increment.\<close>

definition pickProvider :: "string list \<Rightarrow> 64 word \<Rightarrow> 64 word \<times> string" where
  "pickProvider providers counter =
     (if providers = [] then (counter, [])
      else (counter + 1, providers ! (unat ((counter + 1) - 1) mod length providers)))"

definition nextHealthyProviderExcluding ::
  "fleetConfig \<Rightarrow> requestEnv \<Rightarrow> nat \<Rightarrow> string \<Rightarrow> string \<Rightarrow> fleetState \<Rightarrow> fleetState \<times> string" where
  "nextHealthyProviderExcluding cfg env i model excluded st =
     (let (st1, hs) = inferenceSnapshot env i st;
          (counter, provider) = pickProvider (eligibleProviders cfg hs model excluded) (fs_providerRouteCounter st1)
      in (st1\<lparr>fs_providerRouteCounter := counter\<rparr>, provider))"

definition nextHealthyProvider :: "fleetConfig \<Rightarrow> requestEnv \<Rightarrow> nat \<Rightarrow> string \<Rightarrow> fleetState \<Rightarrow> fleetState \<times> string" where
  "nextHealthyProvider cfg env i model st = nextHealthyProviderExcluding cfg env i model [] st"

section \<open>Classify and route\<close>

record routeRequest =
  rr_Text :: string
  rr_RequestID :: string
  rr_Model :: string
  rr_TenantID :: string
  rr_SessionID :: string
  rr_Policy :: string

record routeResponse =
  rp_TargetCluster :: string
  rp_Reason :: string
  rp_SemanticLabel :: string
  rp_SemanticScore :: float64
  rp_SemanticMargin :: float64
  rp_ClassifierID :: string
  rp_HeadersToInject :: "(string, string) gomap"
  rp_LatencyMs :: float64

definition getRoutingPolicy :: "fleetConfig \<Rightarrow> string \<Rightarrow> FleetRoutingPolicySpec" where
  "getRoutingPolicy cfg name =
     (let fallback = \<lparr>frps_Strategy = ''weighted'', frps_Rules = [], frps_HealthCheck = None\<rparr>
      in case fcfg_CRDWatcher cfg of
           None \<Rightarrow> fallback
         | Some lookup \<Rightarrow> (case lookup name of None \<Rightarrow> fallback | Some p \<Rightarrow> p))"

definition allowedFor :: "fleetConfig \<Rightarrow> string \<Rightarrow> string list" where
  "allowedFor cfg model =
     (if model = defaultCPUModel \<or> fcfg_CPUPhysicalModel cfg \<noteq> [] \<and> model = fcfg_CPUPhysicalModel cfg
      then providersForModel cfg (cpuPhysicalModel cfg)
      else if model = defaultGPUModel \<or> fcfg_GPUPhysicalModel cfg \<noteq> [] \<and> model = fcfg_GPUPhysicalModel cfg
      then providersForModel cfg (gpuPhysicalModel cfg)
      else [])"

definition routingRequestOf :: "fleetConfig \<Rightarrow> routeRequest \<Rightarrow> ClassifyResult option \<Rightarrow> RoutingRequest" where
  "routingRequestOf cfg req result =
     \<lparr>rq_Model = rr_Model req, rq_ModelID = [], rq_TenantID = rr_TenantID req, rq_Headers = [],
      rq_SourceRegion = [], rq_Region = [], rq_TokenCount = 0, rq_Priority = [], rq_SessionID = rr_SessionID req,
      rq_AllowedClusters = allowedFor cfg (rr_Model req), rq_DeniedClusters = [],
      rq_SemanticLabel = (case result of None \<Rightarrow> [] | Some r \<Rightarrow> cr_TopLabel r),
      rq_SemanticScore = (case result of None \<Rightarrow> fZero | Some r \<Rightarrow> cr_TopScore r),
      rq_SemanticMargin = (case result of None \<Rightarrow> fZero | Some r \<Rightarrow> cr_Margin r)\<rparr>"

definition responseOf ::
  "requestEnv \<Rightarrow> ClassifyResult option \<Rightarrow> string \<Rightarrow> string \<Rightarrow> (string, string) gomap \<Rightarrow> routeResponse" where
  "responseOf env result target reason headers =
     \<lparr>rp_TargetCluster = target, rp_Reason = reason,
      rp_SemanticLabel = (case result of None \<Rightarrow> [] | Some r \<Rightarrow> cr_TopLabel r),
      rp_SemanticScore = (case result of None \<Rightarrow> fZero | Some r \<Rightarrow> cr_TopScore r),
      rp_SemanticMargin = (case result of None \<Rightarrow> fZero | Some r \<Rightarrow> cr_Margin r),
      rp_ClassifierID = (case result of None \<Rightarrow> [] | Some r \<Rightarrow> cr_ClassifierID r),
      rp_HeadersToInject = headers,
      rp_LatencyMs = fDiv (fOfInt (re_micros env)) (fOfInt 1000)\<rparr>"

text \<open>The live binding of the request's session, if the session table is consulted.\<close>

definition boundCluster :: "requestEnv \<Rightarrow> string \<Rightarrow> fleetState \<Rightarrow> string option" where
  "boundCluster env sessionID st =
     (if sessionID = [] then None
      else case fs_SessionTable st of None \<Rightarrow> None | Some t \<Rightarrow> Lookup (re_lookupAt env) sessionID t)"

definition escalates :: "ClassifyResult option \<Rightarrow> string \<Rightarrow> fleetState \<Rightarrow> bool" where
  "escalates result sessionID st \<longleftrightarrow>
     (case result of None \<Rightarrow> False | Some r \<Rightarrow> SessionTierRank sessionID st < tierRank (cr_TopLabel r))"

definition bindSession :: "requestEnv \<Rightarrow> string \<Rightarrow> string \<Rightarrow> fleetState \<Rightarrow> fleetState" where
  "bindSession env sessionID target st =
     (if sessionID = [] then st
      else st\<lparr>fs_SessionTable := map_option (Bind (re_bindAt env) sessionID target) (fs_SessionTable st)\<rparr>)"

definition unbindSession :: "string \<Rightarrow> fleetState \<Rightarrow> fleetState" where
  "unbindSession sessionID st =
     (if sessionID = [] then st else st\<lparr>fs_SessionTable := map_option (Unbind sessionID) (fs_SessionTable st)\<rparr>)"

definition recordTier :: "ClassifyResult option \<Rightarrow> string \<Rightarrow> fleetState \<Rightarrow> fleetState" where
  "recordTier result sessionID st =
     (if sessionID = [] \<or> fs_SessionTable st = None then st
      else case result of None \<Rightarrow> st | Some r \<Rightarrow> SetSessionTier sessionID (cr_TopLabel r) st)"

text \<open>The second half of the handler: evaluate the policy on a fresh snapshot, bind the
  session, answer.\<close>

definition routeFresh ::
  "fleetConfig \<Rightarrow> requestEnv \<Rightarrow> routeRequest \<Rightarrow> ClassifyResult option \<Rightarrow> bool \<Rightarrow> fleetState \<Rightarrow>
   fleetState \<times> (RoutingError, routeResponse) res" where
  "routeFresh cfg env req result escalated st =
     (let (st1, health) = inferenceSnapshot env 0 st
      in case Evaluate_policy (routingRequestOf cfg req result) health (getRoutingPolicy cfg (rr_Policy req)) of
           Inl err \<Rightarrow> (st1, Inl err)
         | Inr decision \<Rightarrow>
             (recordTier result (rr_SessionID req) (bindSession env (rr_SessionID req) (rd_TargetCluster decision) st1),
              Inr (responseOf env result (rd_TargetCluster decision)
                (if escalated then ''escalated:'' @ rd_Reason decision else rd_Reason decision)
                (rd_HeadersToInject decision))))"

definition classifyAndRoute ::
  "fleetConfig \<Rightarrow> requestEnv \<Rightarrow> routeRequest \<Rightarrow> fleetState \<Rightarrow> fleetState \<times> (RoutingError, routeResponse) res" where
  "classifyAndRoute cfg env req st =
     (let (st1, classified) = ClassifyPrompt cfg env (rr_Text req) (rr_RequestID req) st;
          result = (case classified of Inl _ \<Rightarrow> None | Inr r \<Rightarrow> r)
      in case boundCluster env (rr_SessionID req) st1 of
           None \<Rightarrow> routeFresh cfg env req result False st1
         | Some c \<Rightarrow>
             if escalates result (rr_SessionID req) st1
             then routeFresh cfg env req result True (unbindSession (rr_SessionID req) st1)
             else (st1, Inr (responseOf env result c ''session-affinity'' [])))"

section \<open>The provider of an inference request\<close>

definition requestedModelClass :: "fleetConfig \<Rightarrow> string \<Rightarrow> string" where
  "requestedModelClass cfg requested =
     (if requested = [] then []
      else if requested = cpuPhysicalModel cfg \<or> requested = defaultCPUModel then ''cpu''
      else if requested = gpuPhysicalModel cfg \<or> requested = defaultGPUModel \<or> requested = defaultGPUAlias then ''gpu''
      else [])"

datatype inferenceError = NoEligibleProvider RoutingError | NoGPUProvider | NoSelectedGPUProvider | NoCPUProvider

definition rebind :: "requestEnv \<Rightarrow> string \<Rightarrow> string \<Rightarrow> fleetState \<Rightarrow> fleetState" where
  "rebind env sessionID target st = bindSession env sessionID target (unbindSession sessionID st)"

definition physicalModelFor :: "fleetConfig \<Rightarrow> string \<Rightarrow> routeResponse \<Rightarrow> string" where
  "physicalModelFor cfg modelClass decision =
     (if modelClass = ''gpu'' \<or> modelClass = [] \<and>
           (rp_SemanticLabel decision = ''COMPLEX'' \<or> rp_SemanticLabel decision = ''REASONING'' \<or>
            providerServesModel cfg (rp_TargetCluster decision) (gpuPhysicalModel cfg))
      then gpuPhysicalModel cfg else cpuPhysicalModel cfg)"

text \<open>An explicit GPU model: a provider is chosen before the physical model is known.\<close>

definition explicitGPU ::
  "fleetConfig \<Rightarrow> requestEnv \<Rightarrow> routeRequest \<Rightarrow> routeResponse \<Rightarrow> fleetState \<Rightarrow> fleetState \<times> (inferenceError, routeResponse) res" where
  "explicitGPU cfg env req decision st =
     (if requestedModelClass cfg (rr_Model req) = ''gpu'' then
        (let (st1, provider) = nextHealthyProvider cfg env 1 (gpuPhysicalModel cfg) st
         in if provider = [] then (st1, Inl NoGPUProvider)
            else (rebind env (rr_SessionID req) provider st1,
                  Inr (decision\<lparr>rp_TargetCluster := provider, rp_Reason := ''explicit-model''\<rparr>)))
      else (st, Inr decision))"

definition gpuStage ::
  "fleetConfig \<Rightarrow> requestEnv \<Rightarrow> routeRequest \<Rightarrow> string \<Rightarrow> routeResponse \<Rightarrow> fleetState \<Rightarrow>
   fleetState \<times> (inferenceError, routeResponse) res" where
  "gpuStage cfg env req physicalModel decision st =
     (if physicalModel \<noteq> cpuPhysicalModel cfg then
        (let (st1, provider) = nextHealthyProvider cfg env 2 physicalModel st
         in if provider = [] then (st1, Inl NoSelectedGPUProvider)
            else (rebind env (rr_SessionID req) provider st1,
                  Inr (decision\<lparr>rp_TargetCluster := provider,
                    rp_Reason := (if requestedModelClass cfg (rr_Model req) = [] then ''semantic-escalation'' else rp_Reason decision)\<rparr>)))
      else (st, Inr decision))"

definition cpuStage ::
  "fleetConfig \<Rightarrow> requestEnv \<Rightarrow> routeRequest \<Rightarrow> string \<Rightarrow> routeResponse \<Rightarrow> fleetState \<Rightarrow>
   fleetState \<times> (inferenceError, routeResponse) res" where
  "cpuStage cfg env req physicalModel decision st =
     (if physicalModel = cpuPhysicalModel cfg \<and> rp_Reason decision \<noteq> ''session-affinity'' then
        (let (st1, selected) = nextHealthyProvider cfg env 3 physicalModel st
         in if selected = [] then (st1, Inl NoCPUProvider)
            else (rebind env (rr_SessionID req) selected st1,
                  Inr (decision\<lparr>rp_TargetCluster := selected, rp_Reason := ''compatible-round-robin''\<rparr>)))
      else (st, Inr decision))"

definition selectInferenceProvider ::
  "fleetConfig \<Rightarrow> requestEnv \<Rightarrow> routeRequest \<Rightarrow> fleetState \<Rightarrow> fleetState \<times> (inferenceError, string \<times> routeResponse) res" where
  "selectInferenceProvider cfg env req st =
     (case classifyAndRoute cfg env req st of
        (st1, Inl err) \<Rightarrow> (st1, Inl (NoEligibleProvider err))
      | (st1, Inr decision) \<Rightarrow>
      (case explicitGPU cfg env req decision st1 of
         (st2, Inl err) \<Rightarrow> (st2, Inl err)
       | (st2, Inr decision2) \<Rightarrow>
       (let physicalModel = physicalModelFor cfg (requestedModelClass cfg (rr_Model req)) decision2
        in case gpuStage cfg env req physicalModel decision2 st2 of
             (st3, Inl err) \<Rightarrow> (st3, Inl err)
           | (st3, Inr decision3) \<Rightarrow>
           (case cpuStage cfg env req physicalModel decision3 st3 of
              (st4, Inl err) \<Rightarrow> (st4, Inl err)
            | (st4, Inr decision4) \<Rightarrow> (st4, Inr (physicalModel, decision4))))))"

section \<open>What each step leaves alone\<close>

text \<open>Routing reads the cluster records and the session table; \<open>sameFleet\<close> says that a
  step changed neither.\<close>

definition sameFleet :: "fleetState \<Rightarrow> fleetState \<Rightarrow> bool" where
  "sameFleet st st' \<longleftrightarrow>
     fs_ClusterRepo st' = fs_ClusterRepo st \<and> fs_SessionTable st' = fs_SessionTable st \<and>
     fs_sessionTiers st' = fs_sessionTiers st"

definition classification :: "fleetConfig \<Rightarrow> requestEnv \<Rightarrow> routeRequest \<Rightarrow> fleetState \<Rightarrow> ClassifyResult option" where
  "classification cfg env req st =
     (case snd (ClassifyPrompt cfg env (rr_Text req) (rr_RequestID req) st) of Inl _ \<Rightarrow> None | Inr r \<Rightarrow> r)"

definition afterClassify :: "fleetConfig \<Rightarrow> requestEnv \<Rightarrow> routeRequest \<Rightarrow> fleetState \<Rightarrow> fleetState" where
  "afterClassify cfg env req st = fst (ClassifyPrompt cfg env (rr_Text req) (rr_RequestID req) st)"

lemma afterClassify_same: "sameFleet st (afterClassify cfg env req st)"
  by (auto simp: afterClassify_def ClassifyPrompt_def sameFleet_def split: option.splits sum.splits)

lemma afterClassify_sel [simp]:
  "fs_ClusterRepo (afterClassify cfg env req st) = fs_ClusterRepo st"
  "fs_SessionTable (afterClassify cfg env req st) = fs_SessionTable st"
  "fs_sessionTiers (afterClassify cfg env req st) = fs_sessionTiers st"
  "fs_MetricsCollector (afterClassify cfg env req st) = fs_MetricsCollector st"
  "fs_ProviderHealth (afterClassify cfg env req st) = fs_ProviderHealth st"
  by (auto simp: afterClassify_def ClassifyPrompt_def split: option.splits sum.splits)

lemma boundCluster_cong: "sameFleet st st' \<Longrightarrow> boundCluster env s st' = boundCluster env s st"
  by (simp add: sameFleet_def boundCluster_def)

lemma escalates_cong: "sameFleet st st' \<Longrightarrow> escalates r s st' = escalates r s st"
  by (simp add: sameFleet_def escalates_def SessionTierRank_def split: option.split)

lemma classifyAndRoute_alt:
  "classifyAndRoute cfg env req st =
     (let result = classification cfg env req st; st1 = afterClassify cfg env req st
      in case boundCluster env (rr_SessionID req) st of
           None \<Rightarrow> routeFresh cfg env req result False st1
         | Some c \<Rightarrow>
             if escalates result (rr_SessionID req) st
             then routeFresh cfg env req result True (unbindSession (rr_SessionID req) st1)
             else (st1, Inr (responseOf env result c ''session-affinity'' [])))"
  unfolding classifyAndRoute_def Let_def case_prod_beta classification_def [symmetric] afterClassify_def [symmetric]
    boundCluster_cong [OF afterClassify_same] escalates_cong [OF afterClassify_same] ..

lemma inferenceSnapshot_sel:
  assumes "inferenceSnapshot env i st = (st', hs)"
  shows "fs_ClusterRepo st' = fs_ClusterRepo st" "fs_SessionTable st' = fs_SessionTable st"
    "fs_sessionTiers st' = fs_sessionTiers st" "fs_MetricsCollector st' = fs_MetricsCollector st"
    "fs_providerRouteCounter st' = fs_providerRouteCounter st"
    "BuildInferenceClusterHealth (re_respond env i) (re_probeClock env i) (fs_ClusterRepo st)
       (fs_MetricsCollector st) (fs_ProviderHealth st) = (fs_ProviderHealth st', hs)"
  using assms by (auto simp: inferenceSnapshot_def Let_def split: prod.splits)

text \<open>A serving cluster, by its record and its probes.\<close>

definition serving :: "fleetState \<Rightarrow> fleetState \<Rightarrow> string \<Rightarrow> bool" where
  "serving st st' x \<longleftrightarrow>
     (\<exists>c. map_of (fs_ClusterRepo st) x = Some c \<and> servingStatus (cl_Status c)) \<and>
     (configuredFor (fs_ProviderHealth st) x \<longrightarrow> verdictOf (fs_ProviderHealth st') x)"

lemma snapshot_serving:
  assumes "keyedBy cl_ID (fs_ClusterRepo st)" and "inferenceSnapshot env i st = (st', hs)" and "h \<in> set hs" and "ch_Healthy h"
  shows "serving st st' (ch_ClusterID h)"
  using inference_healthy [OF assms(1) inferenceSnapshot_sel(6) [OF assms(2)] assms(3,4)] by (auto simp: serving_def)

lemma binds_sel [simp]:
  "fs_ClusterRepo (bindSession env s c st) = fs_ClusterRepo st" "fs_ProviderHealth (bindSession env s c st) = fs_ProviderHealth st"
  "fs_ClusterRepo (unbindSession s st) = fs_ClusterRepo st" "fs_ProviderHealth (unbindSession s st) = fs_ProviderHealth st"
  "fs_ClusterRepo (recordTier r s st) = fs_ClusterRepo st" "fs_ProviderHealth (recordTier r s st) = fs_ProviderHealth st"
  "fs_SessionTable (recordTier r s st) = fs_SessionTable st"
  by (auto simp: bindSession_def unbindSession_def recordTier_def SetSessionTier_def split: option.split)

lemma responseOf_sel [simp]:
  "rp_TargetCluster (responseOf env r t reason hs) = t" "rp_Reason (responseOf env r t reason hs) = reason"
  by (simp_all add: responseOf_def)

lemma routeFresh_target:
  assumes key: "keyedBy cl_ID (fs_ClusterRepo st)" and r: "routeFresh cfg env req result esc st = (st', Inr resp)"
  shows "serving st st' (rp_TargetCluster resp) \<and>
    (allowedFor cfg (rr_Model req) = [] \<or> rp_TargetCluster resp \<in> set (allowedFor cfg (rr_Model req))) \<and>
    fs_SessionTable st' = (if rr_SessionID req = [] then fs_SessionTable st
       else map_option (Bind (re_bindAt env) (rr_SessionID req) (rp_TargetCluster resp)) (fs_SessionTable st)) \<and>
    fs_ClusterRepo st' = fs_ClusterRepo st"
proof -
  obtain st1 hs where snap: "inferenceSnapshot env 0 st = (st1, hs)" by fastforce
  from r obtain d where d: "Evaluate_policy (routingRequestOf cfg req result) hs (getRoutingPolicy cfg (rr_Policy req)) = Inr d"
    and st': "st' = recordTier result (rr_SessionID req) (bindSession env (rr_SessionID req) (rd_TargetCluster d) st1)"
    and t: "rp_TargetCluster resp = rd_TargetCluster d"
    by (auto simp: routeFresh_def snap split: sum.splits)
  from Evaluate_policy_target [OF d] obtain h where h: "h \<in> set hs" "candidateFor (routingRequestOf cfg req result) h"
    "rd_TargetCluster d = ch_ClusterID h" by blast
  from h(2) have "ch_Healthy h" by (simp add: candidateFor_def)
  from snapshot_serving [OF key snap h(1) this] have "serving st st' (rp_TargetCluster resp)"
    by (simp add: serving_def st' t h(3))
  moreover have "allowedFor cfg (rr_Model req) = [] \<or> rp_TargetCluster resp \<in> set (allowedFor cfg (rr_Model req))"
    using h(2,3) by (auto simp: candidateFor_def routingRequestOf_def t)
  ultimately show ?thesis
    using inferenceSnapshot_sel [OF snap] by (simp add: st' t bindSession_def)
qed

lemma routeFresh_error:
  "routeFresh cfg env req result esc st = (st', Inl e) \<Longrightarrow>
     fs_ClusterRepo st' = fs_ClusterRepo st \<and> fs_SessionTable st' = fs_SessionTable st"
proof -
  assume r: "routeFresh cfg env req result esc st = (st', Inl e)"
  obtain st1 hs where snap: "inferenceSnapshot env 0 st = (st1, hs)" by fastforce
  from r have "st' = st1" by (simp add: routeFresh_def snap split: sum.splits)
  then show ?thesis using inferenceSnapshot_sel [OF snap] by simp
qed

lemma serving_unbind [simp]: "serving (unbindSession s st) st' x = serving st st' x"
  by (simp add: serving_def)

lemma serving_afterClassify [simp]: "serving (afterClassify cfg env req st) st' x = serving st st' x"
  by (simp add: serving_def)

lemma classifyAndRoute_cases:
  assumes "keyedBy cl_ID (fs_ClusterRepo st)" and "classifyAndRoute cfg env req st = (st', Inr resp)"
  shows "boundCluster env (rr_SessionID req) st = Some (rp_TargetCluster resp) \<and> rp_Reason resp = ''session-affinity'' \<and>
      \<not> escalates (classification cfg env req st) (rr_SessionID req) st \<and> sameFleet st st'
    \<or> serving st st' (rp_TargetCluster resp) \<and>
      (allowedFor cfg (rr_Model req) = [] \<or> rp_TargetCluster resp \<in> set (allowedFor cfg (rr_Model req)))"
proof (cases "boundCluster env (rr_SessionID req) st")
  case None
  with assms(2) have "routeFresh cfg env req (classification cfg env req st) False (afterClassify cfg env req st) = (st', Inr resp)"
    by (simp add: classifyAndRoute_alt Let_def)
  from routeFresh_target [OF _ this] assms(1) show ?thesis by simp
next
  case (Some c)
  show ?thesis
  proof (cases "escalates (classification cfg env req st) (rr_SessionID req) st")
    case True
    with Some assms(2) have "routeFresh cfg env req (classification cfg env req st) True
        (unbindSession (rr_SessionID req) (afterClassify cfg env req st)) = (st', Inr resp)"
      by (simp add: classifyAndRoute_alt Let_def)
    from routeFresh_target [OF _ this] assms(1) show ?thesis by simp
  next
    case False
    with Some assms(2) show ?thesis
      using afterClassify_same [of st cfg env req] by (auto simp: classifyAndRoute_alt Let_def)
  qed
qed


lemma fresh_binding:
  assumes "keyedBy cl_ID (fs_ClusterRepo st)" and "classifyAndRoute cfg env req st = (st', Inr resp)"
    and "boundCluster env (rr_SessionID req) st = None" and "rr_SessionID req \<noteq> []" and "fs_SessionTable st = Some t"
  shows "fs_SessionTable st' = Some (Bind (re_bindAt env) (rr_SessionID req) (rp_TargetCluster resp) t) \<and>
    (\<forall>r. classification cfg env req st = Some r \<longrightarrow> SessionTierRank (rr_SessionID req) st' = tierRank (cr_TopLabel r))"
proof -
  have f: "routeFresh cfg env req (classification cfg env req st) False (afterClassify cfg env req st) = (st', Inr resp)"
    using assms(2,3) by (simp add: classifyAndRoute_alt Let_def)
  obtain st1 hs where snap: "inferenceSnapshot env 0 (afterClassify cfg env req st) = (st1, hs)" by fastforce
  note sel = inferenceSnapshot_sel [OF snap]
  from f obtain d where
      "Evaluate_policy (routingRequestOf cfg req (classification cfg env req st)) hs (getRoutingPolicy cfg (rr_Policy req)) = Inr d"
    and "st' = recordTier (classification cfg env req st) (rr_SessionID req) (bindSession env (rr_SessionID req) (rd_TargetCluster d) st1)"
    by (auto simp: routeFresh_def snap split: sum.splits)
  from this(2) have "\<forall>r. classification cfg env req st = Some r \<longrightarrow> SessionTierRank (rr_SessionID req) st' = tierRank (cr_TopLabel r)"
    using assms(4,5) sel(2)
    by (auto simp: recordTier_def bindSession_def SetSessionTier_def SessionTierRank_def go_map)
  with routeFresh_target [OF _ f] assms show ?thesis by simp
qed


lemma nextHealthyProvider_spec:
  assumes "keyedBy cl_ID (fs_ClusterRepo st)" and "nextHealthyProvider cfg env i model st = (st', p)"
  shows "sameFleet st st' \<and> (p \<noteq> [] \<longrightarrow> p \<in> set (modelProviders cfg model) \<and> serving st st' p)"
proof -
  obtain st1 hs where snap: "inferenceSnapshot env i st = (st1, hs)" by fastforce
  let ?ps = "eligibleProviders cfg hs model []"
  obtain c where pick: "pickProvider ?ps (fs_providerRouteCounter st1) = (c, p)" and st': "st' = st1\<lparr>fs_providerRouteCounter := c\<rparr>"
    using assms(2) by (auto simp: nextHealthyProvider_def nextHealthyProviderExcluding_def snap Let_def split: prod.splits)
  have same: "sameFleet st st'" using inferenceSnapshot_sel [OF snap] by (simp add: sameFleet_def st')
  moreover have "p \<in> set (modelProviders cfg model) \<and> serving st st' p" if "p \<noteq> []"
  proof -
    have "p \<in> set ?ps" using pick that by (auto simp: pickProvider_def split: if_splits)
    then obtain h where h: "h \<in> set hs" "ch_Healthy h" "ch_ClusterID h = p" "p \<in> set (modelProviders cfg model)"
      by (auto simp: eligibleProviders_def)
    with snapshot_serving [OF assms(1) snap h(1,2)] show ?thesis by (simp add: serving_def st')
  qed
  ultimately show ?thesis by blast
qed

section \<open>A concrete controller\<close>

definition servingCluster :: "string \<Rightarrow> ClusterRecord" where
  "servingCluster x = \<lparr>cl_ID = x, cl_Name = x, cl_Region = [], cl_Labels = [], cl_GPUAvailable = 1, cl_GPUTotal = 1,
     cl_Status = ''Running'', cl_RegisteredAt = 1, cl_UpdatedAt = 1\<rparr>"

definition exampleState :: fleetState where
  "exampleState = \<lparr>fs_ClusterRepo = [(''east'', servingCluster ''east''), (''west'', servingCluster ''west'')],
     fs_MetricsCollector = [], fs_ProviderHealth = None, fs_SessionTable = Some (NewSessionAffinityTable 100),
     fs_ClassifierCache = NewClassificationCache 100, fs_sessionTiers = [], fs_providerRouteCounter = 0\<rparr>"

definition simpleResult :: ClassifyResult where
  "simpleResult = \<lparr>cr_ClassifierID = ''c'', cr_ModelRevision = [], cr_TaxonomyRevision = [], cr_Status = [],
     cr_TopLabel = ''SIMPLE'', cr_TopScore = fOne, cr_Margin = fOne, cr_Ranked = []\<rparr>"

definition exampleConfig :: fleetConfig where
  "exampleConfig = \<lparr>fcfg_CPUPhysicalModel = ''cpu'', fcfg_GPUPhysicalModel = ''gpu'',
     fcfg_ModelProviderClusters = [(''gpu'', [''east'', ''west''])], fcfg_CRDWatcher = None,
     fcfg_ClassifierClient = Some (\<lambda>t r. Inr (Some simpleResult)), fcfg_FleetRecorder = None, fcfg_LedgerGatewayURL = []\<rparr>"

definition exampleEnv :: "time \<Rightarrow> requestEnv" where
  "exampleEnv now = \<lparr>re_getAt = now, re_putAt = now, re_lookupAt = now, re_bindAt = now, re_micros = 5,
     re_respond = (\<lambda>i url. None), re_probeClock = (\<lambda>i x. (now, now))\<rparr>"

definition exampleTurn :: "string \<Rightarrow> routeRequest" where
  "exampleTurn model = \<lparr>rr_Text = ''hi'', rr_RequestID = ''r'', rr_Model = model, rr_TenantID = [], rr_SessionID = ''s'', rr_Policy = []\<rparr>"

lemma example_keyed: "keyedBy cl_ID (fs_ClusterRepo exampleState)"
  by (simp add: exampleState_def keyedBy_def servingCluster_def)

lemmas example_defs = exampleState_def exampleConfig_def exampleEnv_def exampleTurn_def servingCluster_def simpleResult_def

lemma example_health:
  "BuildClusterHealth (fs_ClusterRepo exampleState) (fs_MetricsCollector exampleState) =
     map clusterHealthOf [servingCluster ''east'', servingCluster ''west'']"
  by (simp add: BuildClusterHealth_def exampleState_def clusterList_def CollectAll_def metricsByCluster_def)

lemmas example_run = classifyAndRoute_def ClassifyPrompt_def example_defs cacheGet_def NewClassificationCache_def
  boundCluster_def Lookup_def NewSessionAffinityTable_def routeFresh_def inferenceSnapshot_def BuildInferenceClusterHealth_def
  BuildClusterHealth_def CollectAll_def metricsByCluster_def clusterList_def Healthy_provider_def clusterHealthOf_def servingStatus_def
  Evaluate_policy_def filterClustersByTenant_def routingRequestOf_def allowedFor_def defaultCPUModel_def defaultGPUModel_def
  getRoutingPolicy_def firstHealthy_def Let_def

lemma example_route:
  "\<exists>st resp. classifyAndRoute exampleConfig (exampleEnv 7) (exampleTurn []) exampleState = (st, Inr resp) \<and>
     rp_TargetCluster resp = ''east'' \<and> rp_Reason resp = ''default-healthy''"
  by (simp add: example_run)



end
