(* ===== verification/Go_RFC3339.thy ===== *)
theory Go_RFC3339
  imports Go_Time
begin

text \<open>
  The layout \<open>time.RFC3339\<close> of package \<open>time\<close>: formatting an instant in UTC, and
  parsing with the leniency of the library (a one-digit hour, a fraction of a
  second, a zone offset). Formatting and parsing again returns the instant
  truncated to the second.
\<close>

definition padTo :: "nat \<Rightarrow> nat \<Rightarrow> string" where
  "padTo w n = replicate (w - length (showNat n)) (CHR ''0'') @ showNat n"

definition nanosOfDay :: "time \<Rightarrow> int" where
  "nanosOfDay t = t mod nanosPerDay"

definition formatRFC3339 :: "time \<Rightarrow> string" where
  "formatRFC3339 t =
     (let c = civilOf (t div nanosPerDay); s = nat (nanosOfDay t div nanosPerSecond)
      in padTo 4 (nat (cd_year c)) @ ''-'' @ padTo 2 (nat (cd_month c)) @ ''-'' @ padTo 2 (nat (cd_day c)) @ ''T'' @
         padTo 2 (s div 3600) @ '':'' @ padTo 2 (s div 60 mod 60) @ '':'' @ padTo 2 (s mod 60) @ ''Z'')"

text \<open>\<open>getnum\<close>: one or two digits, exactly two if \<open>fixed\<close>.\<close>

fun getnum :: "bool \<Rightarrow> string \<Rightarrow> (nat \<times> string) option" where
  "getnum fixed [] = None"
| "getnum fixed [a] = (if isDigit a \<and> \<not> fixed then Some (digitVal a, []) else None)"
| "getnum fixed (a # b # s) =
     (if \<not> isDigit a then None
      else if isDigit b then Some (10 * digitVal a + digitVal b, s)
      else if fixed then None else Some (digitVal a, b # s))"

fun skipByte :: "char \<Rightarrow> string \<Rightarrow> string option" where
  "skipByte c [] = None"
| "skipByte c (a # s) = (if a = c then Some s else None)"

fun getYear :: "string \<Rightarrow> (nat \<times> string) option" where
  "getYear (a # b # c # d # s) =
     (if list_all isDigit [a, b, c, d] then Some (digitsVal [a, b, c, d], s) else None)"
| "getYear _ = None"

text \<open>The fraction after the seconds: at most nine digits count.\<close>

fun getFraction :: "string \<Rightarrow> int \<times> string" where
  "getFraction (p # d # s) =
     (if (p = CHR ''.'' \<or> p = CHR '','') \<and> isDigit d then
        let ds = takeWhile isDigit (d # s); kept = take 9 ds
        in (int (digitsVal kept) * 10 ^ (9 - length kept), drop (length ds) (d # s))
      else (0, p # d # s))"
| "getFraction s = (0, s)"

text \<open>The zone, in seconds east of UTC.\<close>

definition getZone :: "string \<Rightarrow> (int \<times> string) option" where
  "getZone s =
     (if hasPrefix s ''Z'' then Some (0, tl s)
      else if length s < 6 \<or> s ! 3 \<noteq> CHR '':'' then None
      else case (getnum True (take 2 (drop 1 s)), getnum True (take 2 (drop 4 s))) of
          (Some (hr, _), Some (mm, _)) \<Rightarrow>
            let z = int ((hr * 60 + mm) * 60)
            in if 24 < hr \<or> 60 < mm then None
               else if s ! 0 = CHR ''+'' then Some (z, drop 6 s)
               else if s ! 0 = CHR ''-'' then Some (- z, drop 6 s) else None
        | _ \<Rightarrow> None)"

definition validDay :: "nat \<Rightarrow> nat \<Rightarrow> nat \<Rightarrow> bool" where
  "validDay y m d \<longleftrightarrow> 1 \<le> d \<and> int d \<le> monthLengths (isLeap (int y)) ! (m - 1)"

definition parseRFC3339 :: "string \<Rightarrow> time option" where
  "parseRFC3339 s =
     Option.bind (getYear s) (\<lambda>(year, s1). Option.bind (skipByte (CHR ''-'') s1) (\<lambda>s2.
     Option.bind (getnum True s2) (\<lambda>(month, s3). Option.bind (skipByte (CHR ''-'') s3) (\<lambda>s4.
     Option.bind (getnum True s4) (\<lambda>(day, s5). Option.bind (skipByte (CHR ''T'') s5) (\<lambda>s6.
     Option.bind (getnum False s6) (\<lambda>(hour, s7). Option.bind (skipByte (CHR '':'') s7) (\<lambda>s8.
     Option.bind (getnum True s8) (\<lambda>(mins, s9). Option.bind (skipByte (CHR '':'') s9) (\<lambda>s10.
     Option.bind (getnum True s10) (\<lambda>(sec, s11). let (nsec, s12) = getFraction s11 in
     Option.bind (getZone s12) (\<lambda>(zone, rest).
       if rest = [] \<and> 1 \<le> month \<and> month \<le> 12 \<and> hour < 24 \<and> mins < 60 \<and> sec < 60 \<and> validDay year month day
       then Some ((daysOf \<lparr>cd_year = int year, cd_month = int month, cd_day = int day\<rparr> * 86400
                   + int (hour * 3600 + mins * 60 + sec) - zone) * nanosPerSecond + nsec)
       else None))))))))))))"

section \<open>Parsing what was formatted\<close>

definition digit :: "nat \<Rightarrow> char" where
  "digit n = char_of (48 + n)"

lemma digit_props: "n < 10 \<Longrightarrow> isDigit (digit n) \<and> digitVal (digit n) = n"
  by (simp add: digit_def isDigit_def digitVal_def less_eq_char_def)

lemma showNat_small: "n < 10 \<Longrightarrow> showNat n = [digit n]"
  by (simp add: showNat.simps digit_def)

lemma showNat_step: "10 \<le> n \<Longrightarrow> showNat n = showNat (n div 10) @ [digit (n mod 10)]"
  by (simp add: showNat.simps [of n] digit_def)

lemma digit_0: "CHR ''0'' = digit 0"
  unfolding digit_def by code_simp

lemma padTo_2: "n < 100 \<Longrightarrow> padTo 2 n = [digit (n div 10), digit (n mod 10)]"
  by (cases "n < 10") (simp_all add: padTo_def showNat_small showNat_step numeral_2_eq_2 digit_0)

lemma padTo_4:
  assumes "n < 10000"
  shows "padTo 4 n = [digit (n div 1000), digit (n div 100 mod 10), digit (n div 10 mod 10), digit (n mod 10)]"
proof -
  consider "n < 10" | "10 \<le> n" "n < 100" | "100 \<le> n" "n < 1000" | "1000 \<le> n" by linarith
  then show ?thesis
  proof cases
    case 4
    with assms show ?thesis
      by (simp add: padTo_def showNat_step [of n] showNat_step [of "n div 10"] showNat_step [of "n div 100"] showNat_small div_mult2_eq [symmetric])
  next
    case 3
    then show ?thesis
      by (simp add: padTo_def showNat_step [of n] showNat_step [of "n div 10"] showNat_small digit_0 div_mult2_eq [symmetric])
  next
    case 2
    then show ?thesis by (simp add: padTo_def showNat_step [of n] showNat_small digit_0 numeral_2_eq_2)
  next
    case 1
    then show ?thesis by (simp add: padTo_def showNat_small digit_0 numeral_3_eq_3)
  qed
qed

lemma getnum_padTo: "n < 100 \<Longrightarrow> getnum fixed (padTo 2 n @ s) = Some (n, s)"
  by (simp add: padTo_2 digit_props)

lemma getYear_padTo: "n < 10000 \<Longrightarrow> getYear (padTo 4 n @ s) = Some (n, s)"
proof -
  assume n: "n < 10000"
  have "10 * (10 * (10 * (n div 1000) + n div 100 mod 10) + n div 10 mod 10) + n mod 10 = n"
    using div_mult_mod_eq [of n 10] div_mult_mod_eq [of "n div 10" 10] div_mult_mod_eq [of "n div 100" 10]
      div_mult2_eq [of n 10 10] div_mult2_eq [of n 100 10] by simp
  moreover have "n div 1000 < 10" using n by simp
  ultimately show ?thesis using n by (simp add: padTo_4 digit_props digitsVal_def)
qed

lemma parse_parts:
  assumes "year < 10000" and "1 \<le> month" and "month \<le> 12" and "validDay year month day" and "day < 100"
    and "hour < 24" and "mins < 60" and "sec < 60"
  shows "parseRFC3339 (padTo 4 year @ ''-'' @ padTo 2 month @ ''-'' @ padTo 2 day @ ''T'' @
      padTo 2 hour @ '':'' @ padTo 2 mins @ '':'' @ padTo 2 sec @ ''Z'') =
    Some ((daysOf \<lparr>cd_year = int year, cd_month = int month, cd_day = int day\<rparr> * 86400
      + int (hour * 3600 + mins * 60 + sec)) * nanosPerSecond)"
  using assms by (simp add: parseRFC3339_def getYear_padTo getnum_padTo getZone_def hasPrefix_def)

lemma nanosPerDay_split:
  fixes t :: int
  shows "0 \<le> nanosOfDay t div nanosPerSecond" and "nanosOfDay t div nanosPerSecond < 86400"
    and "(t div nanosPerDay * 86400 + nanosOfDay t div nanosPerSecond) * nanosPerSecond = t - t mod nanosPerSecond"
proof -
  have a: "nanosOfDay t div nanosPerSecond = t div nanosPerSecond mod 86400"
    using zmod_zmult2_eq [of 86400 t nanosPerSecond] by (simp add: nanosOfDay_def)
  have b: "t div nanosPerDay = t div nanosPerSecond div 86400"
    using zdiv_zmult2_eq [of 86400 t nanosPerSecond] by simp
  show "0 \<le> nanosOfDay t div nanosPerSecond" "nanosOfDay t div nanosPerSecond < 86400" by (simp_all add: a)
  show "(t div nanosPerDay * 86400 + nanosOfDay t div nanosPerSecond) * nanosPerSecond = t - t mod nanosPerSecond"
    unfolding a b by (simp only: div_mult_mod_eq minus_mod_eq_div_mult)
qed

theorem parse_format:
  assumes "1 \<le> cd_year (civilOf (t div nanosPerDay))" and "cd_year (civilOf (t div nanosPerDay)) < 10000"
  shows "parseRFC3339 (formatRFC3339 t) = Some (t - t mod nanosPerSecond)"
proof -
  define c where "c = civilOf (t div nanosPerDay)"
  define s where "s = nat (nanosOfDay t div nanosPerSecond)"
  note valid = civilOf_valid [of "t div nanosPerDay", folded c_def]
  have s: "s < 86400" "(t div nanosPerDay * 86400 + int s) * nanosPerSecond = t - t mod nanosPerSecond"
    using nanosPerDay_split [of t] by (simp_all add: s_def nat_less_iff)
  have day: "validDay (nat (cd_year c)) (nat (cd_month c)) (nat (cd_day c))"
    using valid(2,4,5) assms(1) by (simp add: validDay_def c_def nat_diff_distrib le_nat_iff)
  have "monthLengths (isLeap (cd_year c)) ! nat (cd_month c - 1) \<le> 31"
  proof -
    have "nat (cd_month c - 1) < 12" using valid(2,3) by linarith
    then show ?thesis by (simp add: monthLengths_def nth_Cons' split: if_split)
  qed
  with valid(4,5) have d: "nat (cd_day c) < 100" by linarith
  have c: "\<lparr>cd_year = int (nat (cd_year c)), cd_month = int (nat (cd_month c)), cd_day = int (nat (cd_day c))\<rparr> = c"
    using valid(2,4) assms(1) by (simp add: c_def)
  have hms: "s div 3600 * 3600 + s div 60 mod 60 * 60 + s mod 60 = s" "s div 3600 < 24"
  proof -
    have "s div 3600 = s div 60 div 60" using div_mult2_eq [of s 60 60] by simp
    then show "s div 3600 * 3600 + s div 60 mod 60 * 60 + s mod 60 = s"
      using div_mult_mod_eq [of s 60] div_mult_mod_eq [of "s div 60" 60] by linarith
    show "s div 3600 < 24" using s(1) by simp
  qed
  have bounds: "nat (cd_year c) < 10000" "1 \<le> nat (cd_month c)" "nat (cd_month c) \<le> 12"
      "s div 60 mod 60 < 60" "s mod 60 < 60"
    using assms(2) valid(2,3) by (simp_all add: c_def)
  have "parseRFC3339 (formatRFC3339 t) = Some ((daysOf c * 86400 + int s) * nanosPerSecond)"
    unfolding formatRFC3339_def Let_def s_def [symmetric] c_def [symmetric]
    using parse_parts [OF bounds(1,2,3) day d hms(2) bounds(4,5)] unfolding c hms(1) .
  then show ?thesis using valid(1) s(2) by simp
qed

end
