(* ===== verification/Fleet_Drain.thy ===== *)
theory Fleet_Drain
  imports Routing_Control Go_RFC3339
begin

text \<open>
  Taking a cluster out of service and back (\<open>pkg/server/handlers_drain.go\<close>), and the
  effect of an agent's status report on the cluster record
  (\<open>pkg/server/handlers_agent.go\<close>). A drained cluster gets no prompt until it is
  activated, and an activated one is safe from agent reports for a while.
\<close>

section \<open>Draining and activating a cluster\<close>

datatype replyDetail =
    Message string
  | NotRegistered string
  | InvalidURL string
  | StoreFailed StoreError
  | LedgerFailed string
  | CompensationFailed StoreError string

text \<open>A reply: a status code with its error, or the fields of a JSON object with their
  values printed.\<close>

datatype fleetReply = ReplyError int replyDetail | ReplyOK "(string, string) gomap"

definition cloneClusterRecord :: "ClusterRecord \<Rightarrow> ClusterRecord" where
  "cloneClusterRecord record = record\<lparr>cl_Labels := map (\<lambda>(key, value). (key, value)) (cl_Labels record)\<rparr>"

text \<open>\<open>recordToLedger\<close>: a failed write is an error only if a gateway is configured.\<close>

definition recordToLedger :: "fleetConfig \<Rightarrow> string \<Rightarrow> string \<Rightarrow> string option" where
  "recordToLedger cfg entryType clusterID =
     (case fcfg_FleetRecorder cfg of
        None \<Rightarrow> None
      | Some recordPlacement \<Rightarrow> (case recordPlacement entryType clusterID of
          None \<Rightarrow> None
        | Some err \<Rightarrow> if fcfg_LedgerGatewayURL cfg \<noteq> [] then Some err else None))"

text \<open>\<open>updateRecorded\<close> is the common tail of both handlers: store the record, write the
  ledger entry, restore the original if that failed. The clock readings are those of
  the two updates.\<close>

definition updateRecorded ::
  "fleetConfig \<Rightarrow> time \<times> time \<Rightarrow> string \<Rightarrow> string \<Rightarrow> ClusterRecord \<Rightarrow> ClusterRecord \<Rightarrow> fleetState \<Rightarrow>
   fleetState \<times> fleetReply option" where
  "updateRecorded cfg clock entryType clusterID original record st =
     (case clusterUpdate (fst clock) record (fs_ClusterRepo st) of
        (repo, Some err) \<Rightarrow> (st\<lparr>fs_ClusterRepo := repo\<rparr>, Some (ReplyError 500 (StoreFailed err)))
      | (repo, None) \<Rightarrow> (case recordToLedger cfg entryType clusterID of
          None \<Rightarrow> (st\<lparr>fs_ClusterRepo := repo\<rparr>, None)
        | Some err \<Rightarrow> (case clusterUpdate (snd clock) original repo of
            (repo', Some rollbackErr) \<Rightarrow> (st\<lparr>fs_ClusterRepo := repo'\<rparr>, Some (ReplyError 500 (CompensationFailed rollbackErr err)))
          | (repo', None) \<Rightarrow> (st\<lparr>fs_ClusterRepo := repo'\<rparr>, Some (ReplyError 500 (LedgerFailed err))))))"

definition unbindDrained :: "string \<Rightarrow> fleetState \<Rightarrow> fleetState" where
  "unbindDrained clusterID st = st\<lparr>fs_SessionTable := map_option (UnbindCluster clusterID) (fs_SessionTable st)\<rparr>"

definition handleDrainCluster ::
  "fleetConfig \<Rightarrow> time \<Rightarrow> time \<times> time \<Rightarrow> string \<Rightarrow> fleetState \<Rightarrow> fleetState \<times> fleetReply" where
  "handleDrainCluster cfg now clock clusterID st =
     (if clusterID = [] then (st, ReplyError 400 (Message ''cluster id is required''))
      else case clusterGet clusterID (fs_ClusterRepo st) of
        Inl _ \<Rightarrow> (st, ReplyError 404 (Message ''cluster not found''))
      | Inr record \<Rightarrow>
        if cl_Status record = ClusterStatusDraining then (st, ReplyError 409 (Message ''cluster is already draining''))
        else if cl_Status record = ClusterStatusDrained then (st, ReplyError 409 (Message ''cluster is already drained''))
        else if cl_Status record \<noteq> ClusterStatusRunning \<and> cl_Status record \<noteq> ClusterStatusHealthy \<and>
                cl_Status record \<noteq> ClusterStatusDegraded
          then (st, ReplyError 409 (Message ''cluster must be Running, Healthy, or Degraded to drain''))
        else
          (let record' = record\<lparr>cl_Status := ClusterStatusDraining,
                 cl_Labels := AList.update ''drain_started_at'' (formatRFC3339 now) (cl_Labels record)\<rparr>
           in case updateRecorded cfg clock ''fleet.cluster.drain_started'' clusterID (cloneClusterRecord record) record' st of
                (st1, Some failure) \<Rightarrow> (st1, failure)
              | (st1, None) \<Rightarrow>
                  (unbindDrained clusterID st1, ReplyOK [(''cluster_id'', clusterID), (''status'', ''draining'')])))"

definition handleActivateCluster ::
  "fleetConfig \<Rightarrow> time \<Rightarrow> time \<times> time \<Rightarrow> string \<Rightarrow> fleetState \<Rightarrow> fleetState \<times> fleetReply" where
  "handleActivateCluster cfg now clock clusterID st =
     (if clusterID = [] then (st, ReplyError 400 (Message ''cluster id is required''))
      else case clusterGet clusterID (fs_ClusterRepo st) of
        Inl _ \<Rightarrow> (st, ReplyError 404 (Message ''cluster not found''))
      | Inr record \<Rightarrow>
        if cl_Status record = ClusterStatusRunning \<or> cl_Status record = ClusterStatusHealthy
        then (st, ReplyOK [(''cluster_id'', clusterID), (''status'', cl_Status record)])
        else
          (let record' = record\<lparr>cl_Status := ClusterStatusRunning,
                 cl_Labels := AList.update ''activated_at'' (formatRFC3339 now)
                   (AList.delete ''drain_started_at'' (cl_Labels record))\<rparr>
           in case updateRecorded cfg clock ''fleet.cluster.activated'' clusterID (cloneClusterRecord record) record' st of
                (st1, Some failure) \<Rightarrow> (st1, failure)
              | (st1, None) \<Rightarrow> (st1, ReplyOK [(''cluster_id'', clusterID), (''status'', ''running'')])))"

section \<open>Agent status reports\<close>

record agentStatusReport =
  asr_ClusterID :: string
  asr_Name :: string
  asr_Region :: string
  asr_Phase :: string
  asr_GPUAvailable :: int64
  asr_GPUTotal :: int64
  asr_Healthy :: bool
  asr_HealthURL :: string
  asr_InferenceURL :: string
  asr_RoutingEndpoint :: string
  asr_MetricsEndpoint :: string
  asr_TLSServerName :: string

definition reportedStatus :: "agentStatusReport \<Rightarrow> string" where
  "reportedStatus report =
     (let status = trimSpace (asr_Phase report)
      in if status = [] then (if asr_Healthy report then ''Running'' else ''Unhealthy'')
         else if \<not> asr_Healthy report \<and> status \<noteq> ''Degraded'' \<and> status \<noteq> ''Unhealthy'' then ''Unhealthy''
         else status)"

definition setLabel :: "string \<times> string \<Rightarrow> (string, string) gomap \<Rightarrow> (string, string) gomap" where
  "setLabel lv m = (if snd lv = [] then AList.delete (fst lv) m else AList.update (fst lv) (snd lv) m)"

definition statusAfterReport :: "time \<Rightarrow> string \<Rightarrow> ClusterRecord \<Rightarrow> ClusterRecord" where
  "statusAfterReport now status record =
     (if cl_Status record = ClusterStatusDraining \<or> cl_Status record = ClusterStatusDrained then record
      else case map_of (cl_Labels record) ''activated_at'' of
        Some activatedAt \<Rightarrow>
          (if (case parseRFC3339 activatedAt of None \<Rightarrow> False | Some t \<Rightarrow> timeSub now t < 30 * nanosPerSecond) then record
           else record\<lparr>cl_Status := status, cl_Labels := AList.delete ''activated_at'' (cl_Labels record)\<rparr>)
      | None \<Rightarrow> record\<lparr>cl_Status := status\<rparr>)"

definition applyAgentStatus :: "time \<Rightarrow> agentStatusReport \<Rightarrow> string \<Rightarrow> ClusterRecord \<Rightarrow> ClusterRecord" where
  "applyAgentStatus now report status record =
     (let r1 = statusAfterReport now status (record\<lparr>cl_Name := asr_Name report, cl_Region := asr_Region report,
                 cl_GPUAvailable := asr_GPUAvailable report, cl_GPUTotal := asr_GPUTotal report\<rparr>)
      in r1\<lparr>cl_Labels := fold setLabel
           [(''health_url'', asr_HealthURL report), (''inference_url'', asr_InferenceURL report),
            (''fleet.llm-d.ai/egress-address'', asr_RoutingEndpoint report),
            (''fleet.llm-d.ai/metrics-endpoint'', asr_MetricsEndpoint report),
            (''fleet.llm-d.ai/tls-server-name'', asr_TLSServerName report)] (cl_Labels r1)\<rparr>)"

text \<open>\<open>validateAgentURL\<close>, with the result of \<open>url.ParseRequestURI\<close> as a parameter: the
  scheme and the host of a parsed value.\<close>

definition validateAgentURL :: "(string \<Rightarrow> (string \<times> string) option) \<Rightarrow> string \<Rightarrow> string \<Rightarrow> replyDetail option" where
  "validateAgentURL parseRequestURI field value =
     (if value = [] then None
      else case parseRequestURI value of
        None \<Rightarrow> Some (InvalidURL field)
      | Some (scheme, host) \<Rightarrow>
          if host = [] \<or> scheme \<noteq> ''http'' \<and> scheme \<noteq> ''https'' then Some (InvalidURL field) else None)"

definition reportRefusal :: "(string \<Rightarrow> (string \<times> string) option) \<Rightarrow> agentStatusReport \<Rightarrow> replyDetail option" where
  "reportRefusal parseRequestURI report =
     (if blank (asr_ClusterID report) then Some (Message ''cluster_id is required'')
      else if asr_GPUAvailable report < 0 \<or> asr_GPUTotal report < 0 \<or> asr_GPUTotal report < asr_GPUAvailable report
        then Some (Message ''GPU capacity must satisfy 0 <= gpu_available <= gpu_total'')
      else firstErr (\<lambda>(field, value). validateAgentURL parseRequestURI field value)
        [(''health_url'', asr_HealthURL report), (''inference_url'', asr_InferenceURL report),
         (''routing_endpoint'', asr_RoutingEndpoint report), (''metrics_endpoint'', asr_MetricsEndpoint report)])"

text \<open>\<open>handleAgentStatus\<close> on a decoded report.\<close>

definition handleAgentStatus ::
  "(string \<Rightarrow> (string \<times> string) option) \<Rightarrow> time \<times> time \<Rightarrow> agentStatusReport \<Rightarrow> fleetState \<Rightarrow> fleetState \<times> fleetReply" where
  "handleAgentStatus parseRequestURI clock report0 st =
     (let report = (if asr_Name report0 = [] then report0\<lparr>asr_Name := asr_ClusterID report0\<rparr> else report0)
      in case reportRefusal parseRequestURI report of
           Some msg \<Rightarrow> (st, ReplyError 400 msg)
         | None \<Rightarrow> (case clusterGet (asr_ClusterID report) (fs_ClusterRepo st) of
             Inl _ \<Rightarrow> (st, ReplyError 403 (NotRegistered (asr_ClusterID report)))
           | Inr record \<Rightarrow>
               (case clusterUpdate (snd clock) (applyAgentStatus (fst clock) report (reportedStatus report) record) (fs_ClusterRepo st) of
                  (repo, Some err) \<Rightarrow> (st\<lparr>fs_ClusterRepo := repo\<rparr>, ReplyError 500 (StoreFailed err))
                | (repo, None) \<Rightarrow> (st\<lparr>fs_ClusterRepo := repo\<rparr>, ReplyOK [(''status'', ''accepted''), (''created'', ''false'')]))))"

section \<open>Drained clusters\<close>

definition boundIn :: "fleetState \<Rightarrow> string \<Rightarrow> bool" where
  "boundIn st x \<longleftrightarrow>
     (case fs_SessionTable st of None \<Rightarrow> False
      | Some t \<Rightarrow> \<exists>b \<in> ran (map_of (sat_bindings t)). sb_ClusterID b = x)"

definition draining :: "ClusterRecord \<Rightarrow> bool" where
  "draining c \<longleftrightarrow> cl_Status c = ClusterStatusDraining \<or> cl_Status c = ClusterStatusDrained"

definition fleetInv :: "fleetState \<Rightarrow> bool" where
  "fleetInv st \<longleftrightarrow> keyedBy cl_ID (fs_ClusterRepo st) \<and>
     (case fs_SessionTable st of None \<Rightarrow> True | Some t \<Rightarrow> sessionInv t)"

text \<open>A cluster out of service: its record says so and no session is bound to it.\<close>

definition outOfService :: "string \<Rightarrow> fleetState \<Rightarrow> bool" where
  "outOfService x st \<longleftrightarrow> fleetInv st \<and> (\<exists>c. map_of (fs_ClusterRepo st) x = Some c \<and> draining c) \<and> \<not> boundIn st x"

lemma draining_not_serving: "draining c \<Longrightarrow> \<not> servingStatus (cl_Status c)"
  by (auto simp: draining_def servingStatus_def ClusterStatusDraining_def ClusterStatusDrained_def)

lemma outOfService_not_serving: "outOfService x st \<Longrightarrow> \<not> serving st st' x"
  by (auto simp: outOfService_def serving_def dest: draining_not_serving)

lemma outOfService_not_bound: "outOfService x st \<Longrightarrow> boundCluster env s st \<noteq> Some x"
  by (auto simp: outOfService_def boundIn_def boundCluster_def Lookup_def ran_def split: option.splits if_splits)

lemma outOfService_keyed: "outOfService x st \<Longrightarrow> keyedBy cl_ID (fs_ClusterRepo st)"
  by (simp add: outOfService_def fleetInv_def)

lemma outOfService_cong:
  "outOfService x st \<Longrightarrow> fs_ClusterRepo st' = fs_ClusterRepo st \<Longrightarrow> fs_SessionTable st' = fs_SessionTable st \<Longrightarrow> outOfService x st'"
  by (simp add: outOfService_def fleetInv_def boundIn_def)

lemma ran_map_upd: "b \<in> ran (m(k \<mapsto> v)) \<Longrightarrow> b = v \<or> b \<in> ran m"
  by (auto simp: ran_def split: if_splits)

lemma outOfService_bind:
  "outOfService x st \<Longrightarrow> y \<noteq> x \<Longrightarrow> fs_ClusterRepo st' = fs_ClusterRepo st \<Longrightarrow>
     fs_SessionTable st' = map_option (Bind now s y) (fs_SessionTable st) \<Longrightarrow> outOfService x st'"
  by (cases "fs_SessionTable st") (auto simp: outOfService_def fleetInv_def boundIn_def Bind_def [of now s y] go_map sessionInv_def dest!: ran_map_upd)

lemma outOfService_shrink:
  assumes "outOfService x st" and "fs_ClusterRepo st' = fs_ClusterRepo st"
    and "fs_SessionTable st' = map_option f (fs_SessionTable st)"
    and "\<And>t. sessionInv t \<Longrightarrow> sessionInv (f t) \<and> map_of (sat_bindings (f t)) \<subseteq>\<^sub>m map_of (sat_bindings t)"
  shows "outOfService x st'"
proof (cases "fs_SessionTable st")
  case None
  with assms(1,2,3) show ?thesis by (simp add: outOfService_def fleetInv_def boundIn_def)
next
  case (Some t)
  with assms(1) have "sessionInv t" by (simp add: outOfService_def fleetInv_def)
  with assms(4) have "sessionInv (f t)" "ran (map_of (sat_bindings (f t))) \<subseteq> ran (map_of (sat_bindings t))"
    by (auto simp: ran_def map_le_def dom_def) metis
  with Some assms(1,2,3) show ?thesis by (auto simp: outOfService_def fleetInv_def boundIn_def)
qed

lemma outOfService_unbind: "outOfService x st \<Longrightarrow> outOfService x (unbindSession s st)"
proof (cases "s = []")
  case False
  assume "outOfService x st"
  then show ?thesis
  proof (rule outOfService_shrink [where f = "Unbind s"])
    show "sessionInv t \<Longrightarrow> sessionInv (Unbind s t) \<and> map_of (sat_bindings (Unbind s t)) \<subseteq>\<^sub>m map_of (sat_bindings t)" for t
      by (simp add: sessionInv_def Unbind_def map_of_adelete map_le_def)
  qed (simp_all add: unbindSession_def False)
qed (simp add: unbindSession_def)

lemma outOfService_rebind:
  "outOfService x st \<Longrightarrow> y \<noteq> x \<Longrightarrow> outOfService x (rebind env s y st)"
  using outOfService_unbind [of x st s]
  by (auto simp: rebind_def bindSession_def intro: outOfService_bind)

text \<open>A stage that keeps the drained cluster \<open>x\<close> out of service and never selects it.\<close>

definition avoids :: "string \<Rightarrow> fleetState \<times> ('e, routeResponse) res \<Rightarrow> bool" where
  "avoids x r \<longleftrightarrow> outOfService x (fst r) \<and> (\<forall>d. snd r = Inr d \<longrightarrow> rp_TargetCluster d \<noteq> x)"

lemma sameFleet_out: "outOfService x st \<Longrightarrow> sameFleet st st' \<Longrightarrow> outOfService x st'"
  by (rule outOfService_cong) (simp_all add: sameFleet_def)

lemma routeFresh_avoids:
  assumes "outOfService x st"
  shows "avoids x (routeFresh cfg env req result esc st)"
proof (cases "routeFresh cfg env req result esc st")
  case (Pair st' r)
  show ?thesis
  proof (cases r)
    case (Inl e)
    with routeFresh_error [of cfg env req result esc st st' e] Pair assms show ?thesis
      by (auto simp: avoids_def intro: outOfService_cong)
  next
    case (Inr resp)
    from routeFresh_target [OF outOfService_keyed [OF assms] Pair [unfolded Inr]]
    have t: "serving st st' (rp_TargetCluster resp)" "fs_ClusterRepo st' = fs_ClusterRepo st"
      "fs_SessionTable st' = (if rr_SessionID req = [] then fs_SessionTable st
         else map_option (Bind (re_bindAt env) (rr_SessionID req) (rp_TargetCluster resp)) (fs_SessionTable st))"
      by simp_all
    then have ne: "rp_TargetCluster resp \<noteq> x" using outOfService_not_serving [OF assms] by auto
    have "outOfService x st'"
    proof (cases "rr_SessionID req = []")
      case True
      with t assms show ?thesis by (auto intro: outOfService_cong)
    next
      case False
      with outOfService_bind [OF assms ne t(2)] t(3) show ?thesis by simp
    qed
    with ne show ?thesis by (simp add: avoids_def Pair Inr)
  qed
qed

lemma classifyAndRoute_avoids:
  assumes "outOfService x st"
  shows "avoids x (classifyAndRoute cfg env req st)"
proof -
  have a: "outOfService x (afterClassify cfg env req st)"
    using sameFleet_out [OF assms afterClassify_same] .
  show ?thesis
    using routeFresh_avoids [OF a] routeFresh_avoids [OF outOfService_unbind [OF a]] outOfService_not_bound [OF assms] a
    by (auto simp: classifyAndRoute_alt Let_def avoids_def split: option.split)
qed

lemma stage_avoids:
  assumes "outOfService x st" and "nextHealthyProvider cfg env i model st = (st1, p)"
  shows "outOfService x st1" and "p \<noteq> [] \<Longrightarrow> p \<noteq> x"
  using nextHealthyProvider_spec [OF outOfService_keyed [OF assms(1)] assms(2)] sameFleet_out [OF assms(1)]
    outOfService_not_serving [OF assms(1)] by blast+

lemma stages_avoid:
  assumes "outOfService x st" and "rp_TargetCluster d \<noteq> x"
  shows "avoids x (explicitGPU cfg env req d st)" and "avoids x (gpuStage cfg env req m d st)"
    and "avoids x (cpuStage cfg env req m d st)"
  using assms stage_avoids [OF assms(1)]
  by (auto simp: avoids_def explicitGPU_def gpuStage_def cpuStage_def Let_def outOfService_rebind split: prod.splits)

lemma selectInferenceProvider_avoids:
  assumes "outOfService x st"
  shows "outOfService x (fst (selectInferenceProvider cfg env req st)) \<and>
    (\<forall>m d. snd (selectInferenceProvider cfg env req st) = Inr (m, d) \<longrightarrow> rp_TargetCluster d \<noteq> x)"
proof -
  obtain st1 r1 where 1: "classifyAndRoute cfg env req st = (st1, r1)" by fastforce
  have a1: "outOfService x st1" "\<And>d. r1 = Inr d \<Longrightarrow> rp_TargetCluster d \<noteq> x"
    using classifyAndRoute_avoids [OF assms, of cfg env req] by (simp_all add: 1 avoids_def)
  show ?thesis
  proof (cases r1)
    case (Inl e)
    with a1 show ?thesis by (simp add: selectInferenceProvider_def 1)
  next
    case (Inr d1)
    obtain st2 r2 where 2: "explicitGPU cfg env req d1 st1 = (st2, r2)" by fastforce
    have a2: "outOfService x st2" "\<And>d. r2 = Inr d \<Longrightarrow> rp_TargetCluster d \<noteq> x"
      using stages_avoid(1) [OF a1(1) a1(2) [OF Inr], of cfg env req] by (simp_all add: 2 avoids_def)
    show ?thesis
    proof (cases r2)
      case (Inl e)
      with a2 show ?thesis by (simp add: selectInferenceProvider_def 1 2 \<open>r1 = Inr d1\<close>)
    next
      case (Inr d2)
      let ?m = "physicalModelFor cfg (requestedModelClass cfg (rr_Model req)) d2"
      obtain st3 r3 where 3: "gpuStage cfg env req ?m d2 st2 = (st3, r3)" by fastforce
      have a3: "outOfService x st3" "\<And>d. r3 = Inr d \<Longrightarrow> rp_TargetCluster d \<noteq> x"
        using stages_avoid(2) [OF a2(1) a2(2) [OF Inr], of cfg env req ?m] by (simp_all add: 3 avoids_def)
      show ?thesis
      proof (cases r3)
        case (Inl e)
        with a3 show ?thesis by (simp add: selectInferenceProvider_def 1 2 3 \<open>r1 = Inr d1\<close> \<open>r2 = Inr d2\<close>)
      next
        case (Inr d3)
        obtain st4 r4 where 4: "cpuStage cfg env req ?m d3 st3 = (st4, r4)" by fastforce
        have "outOfService x st4" "\<And>d. r4 = Inr d \<Longrightarrow> rp_TargetCluster d \<noteq> x"
          using stages_avoid(3) [OF a3(1) a3(2) [OF Inr], of cfg env req ?m] by (simp_all add: 4 avoids_def)
        then show ?thesis
          by (cases r4) (simp_all add: selectInferenceProvider_def 1 2 3 4 \<open>r1 = Inr d1\<close> \<open>r2 = Inr d2\<close> Inr)
      qed
    qed
  qed
qed

section \<open>Sequences of requests\<close>

datatype fleetOp =
    OpRoute requestEnv routeRequest
  | OpInfer requestEnv routeRequest
  | OpReport "time \<times> time" agentStatusReport
  | OpMetrics ClusterMetrics
  | OpDrain time "time \<times> time" string
  | OpActivate time "time \<times> time" string
  | OpReapSessions time

text \<open>A step returns the new state and the cluster a prompt was sent to, if any.\<close>

fun fleetStep ::
  "fleetConfig \<Rightarrow> (string \<Rightarrow> (string \<times> string) option) \<Rightarrow> fleetOp \<Rightarrow> fleetState \<Rightarrow> fleetState \<times> string option" where
  "fleetStep cfg uri (OpRoute env req) st =
     (case classifyAndRoute cfg env req st of (st', r) \<Rightarrow> (st', case r of Inl _ \<Rightarrow> None | Inr d \<Rightarrow> Some (rp_TargetCluster d)))"
| "fleetStep cfg uri (OpInfer env req) st =
     (case selectInferenceProvider cfg env req st of
        (st', r) \<Rightarrow> (st', case r of Inl _ \<Rightarrow> None | Inr (m, d) \<Rightarrow> Some (rp_TargetCluster d)))"
| "fleetStep cfg uri (OpReport clock report) st = (fst (handleAgentStatus uri clock report st), None)"
| "fleetStep cfg uri (OpMetrics m) st = (st\<lparr>fs_MetricsCollector := addMetrics m (fs_MetricsCollector st)\<rparr>, None)"
| "fleetStep cfg uri (OpDrain now clock y) st = (fst (handleDrainCluster cfg now clock y st), None)"
| "fleetStep cfg uri (OpActivate now clock y) st = (fst (handleActivateCluster cfg now clock y st), None)"
| "fleetStep cfg uri (OpReapSessions now) st =
     (st\<lparr>fs_SessionTable := map_option (reapSessions now) (fs_SessionTable st)\<rparr>, None)"

text \<open>Each step comes with its own configuration, so that the classifier, the ledger
  and the routing policies may answer differently from one step to the next.\<close>

fun targetsOf ::
  "(string \<Rightarrow> (string \<times> string) option) \<Rightarrow> (fleetConfig \<times> fleetOp) list \<Rightarrow> fleetState \<Rightarrow> string list" where
  "targetsOf uri [] st = []"
| "targetsOf uri ((cfg, op) # ops) st =
     (case fleetStep cfg uri op st of (st', t) \<Rightarrow>
        (case t of None \<Rightarrow> [] | Some c \<Rightarrow> [c]) @ targetsOf uri ops st')"

fun activates :: "string \<Rightarrow> fleetOp \<Rightarrow> bool" where
  "activates x (OpActivate now clock y) = (y = x)"
| "activates x op = False"

lemma out_update:
  assumes "outOfService x st" and "cl_ID c = y" and "y \<noteq> x \<or> draining c"
  shows "outOfService x (st\<lparr>fs_ClusterRepo := fst (clusterUpdate now c (fs_ClusterRepo st))\<rparr>)"
proof -
  have "keyedBy cl_ID (fst (clusterUpdate now c (fs_ClusterRepo st)))"
    using outOfService_keyed [OF assms(1)] by (simp add: clusterUpdate_def clusterTouched_def)
  with assms show ?thesis
    by (auto simp: outOfService_def fleetInv_def boundIn_def clusterUpdate_def clusterTouched_def map_of_aupdate draining_def)
qed

lemma updateRecorded_out:
  assumes "outOfService x st" and "cl_ID original = y" and "cl_ID record = y" and "y \<noteq> x"
  shows "outOfService x (fst (updateRecorded cfg clock entryType clusterID original record st))"
proof -
  let ?st1 = "st\<lparr>fs_ClusterRepo := fst (clusterUpdate (fst clock) record (fs_ClusterRepo st))\<rparr>"
  have 1: "outOfService x ?st1" by (rule out_update [OF assms(1,3)]) (use assms(4) in simp)
  have 2: "outOfService x (?st1\<lparr>fs_ClusterRepo := fst (clusterUpdate (snd clock) original (fs_ClusterRepo ?st1))\<rparr>)"
    by (rule out_update [OF 1 assms(2)]) (use assms(4) in simp)
  obtain repo e where u: "clusterUpdate (fst clock) record (fs_ClusterRepo st) = (repo, e)" by fastforce
  obtain repo' e' where u': "clusterUpdate (snd clock) original repo = (repo', e')" by fastforce
  from 1 2 show ?thesis
    by (cases e; cases e'; cases "recordToLedger cfg entryType clusterID") (simp_all add: updateRecorded_def u u')
qed

lemma clone_cluster_id [simp]: "cloneClusterRecord c = c"
  by (simp add: cloneClusterRecord_def)

lemma keyed_get: "keyedBy cl_ID r \<Longrightarrow> clusterGet y r = Inr c \<Longrightarrow> cl_ID c = y \<and> map_of r y = Some c"
  by (auto simp: clusterGet_def keyedBy_def dest!: map_of_SomeD split: option.splits)

lemma out_unbindDrained: "outOfService x st \<Longrightarrow> outOfService x (unbindDrained y st)"
proof (rule outOfService_shrink [where f = "UnbindCluster y"])
  show "sessionInv t \<Longrightarrow> sessionInv (UnbindCluster y t) \<and> map_of (sat_bindings (UnbindCluster y t)) \<subseteq>\<^sub>m map_of (sat_bindings t)" for t
    by (auto simp: sessionInv_def UnbindCluster_def map_of_deleteIf map_le_def dom_def split: option.splits if_splits)
qed (simp_all add: unbindDrained_def)

lemma drain_out:
  assumes "outOfService x st"
  shows "outOfService x (fst (handleDrainCluster cfg now clock y st))"
proof (cases "clusterGet y (fs_ClusterRepo st)")
  case (Inr rc)
  note rec = keyed_get [OF outOfService_keyed [OF assms] Inr]
  show ?thesis
  proof (cases "draining rc")
    case True
    with assms Inr show ?thesis by (auto simp: handleDrainCluster_def draining_def)
  next
    case False
    with rec assms have "y \<noteq> x" by (auto simp: outOfService_def)
    let ?rc = "rc\<lparr>cl_Status := ClusterStatusDraining,
      cl_Labels := AList.update ''drain_started_at'' (formatRFC3339 now) (cl_Labels rc)\<rparr>"
    obtain st1 failure where u: "updateRecorded cfg clock ''fleet.cluster.drain_started'' y rc ?rc st = (st1, failure)" by fastforce
    have "outOfService x st1"
      using updateRecorded_out [OF assms, of rc y ?rc cfg clock "''fleet.cluster.drain_started''" y] rec \<open>y \<noteq> x\<close> u by simp
    with assms out_unbindDrained [OF this] show ?thesis
      by (cases failure) (simp_all add: handleDrainCluster_def Inr Let_def u)
  qed
next
  case (Inl e)
  with assms show ?thesis by (simp add: handleDrainCluster_def)
qed

lemma activate_out:
  assumes "outOfService x st" and "y \<noteq> x"
  shows "outOfService x (fst (handleActivateCluster cfg now clock y st))"
proof (cases "clusterGet y (fs_ClusterRepo st)")
  case (Inr rc)
  note rec = keyed_get [OF outOfService_keyed [OF assms(1)] Inr]
  let ?rc = "rc\<lparr>cl_Status := ClusterStatusRunning, cl_Labels := AList.update ''activated_at'' (formatRFC3339 now)
      (AList.delete ''drain_started_at'' (cl_Labels rc))\<rparr>"
  obtain st1 failure where u: "updateRecorded cfg clock ''fleet.cluster.activated'' y rc ?rc st = (st1, failure)" by fastforce
  have "outOfService x st1"
    using updateRecorded_out [OF assms(1), of rc y ?rc cfg clock "''fleet.cluster.activated''" y] rec assms(2) u by simp
  with assms show ?thesis by (cases failure) (simp_all add: handleActivateCluster_def Inr Let_def u)
next
  case (Inl e)
  with assms show ?thesis by (simp add: handleActivateCluster_def)
qed

lemma applyAgentStatus_sel:
  "cl_ID (applyAgentStatus now report status c) = cl_ID c"
  "draining c \<Longrightarrow> draining (applyAgentStatus now report status c)"
  by (auto simp: applyAgentStatus_def statusAfterReport_def Let_def draining_def split: option.split)

lemma report_out:
  assumes "outOfService x st"
  shows "outOfService x (fst (handleAgentStatus uri clock report st))"
proof -
  let ?r = "if asr_Name report = [] then report\<lparr>asr_Name := asr_ClusterID report\<rparr> else report"
  have id: "asr_ClusterID ?r = asr_ClusterID report" by simp
  show ?thesis
  proof (cases "reportRefusal uri ?r = None \<and> (\<exists>c. clusterGet (asr_ClusterID report) (fs_ClusterRepo st) = Inr c)")
    case True
    then obtain c where ok: "reportRefusal uri ?r = None" and c: "clusterGet (asr_ClusterID report) (fs_ClusterRepo st) = Inr c" by blast
    note rec = keyed_get [OF outOfService_keyed [OF assms] c]
    let ?c = "applyAgentStatus (fst clock) ?r (reportedStatus ?r) c"
    have "asr_ClusterID report \<noteq> x \<or> draining ?c"
      using rec assms applyAgentStatus_sel(2) by (auto simp: outOfService_def)
    from out_update [OF assms _ this, of "snd clock"] rec
    have o: "outOfService x (st\<lparr>fs_ClusterRepo := fst (clusterUpdate (snd clock) ?c (fs_ClusterRepo st))\<rparr>)"
      by (simp add: applyAgentStatus_sel)
    obtain repo e where u: "clusterUpdate (snd clock) ?c (fs_ClusterRepo st) = (repo, e)" by fastforce
    from o show ?thesis
      unfolding handleAgentStatus_def Let_def ok id c by (cases e) (simp_all add: u del: if_split)
  next
    case False
    with assms show ?thesis
      unfolding handleAgentStatus_def Let_def id by (auto split: option.split sum.split)
  qed
qed

lemma fleetStep_out:
  assumes "outOfService x st" and "\<not> activates x op" and "fleetStep cfg uri op st = (st', t)"
  shows "outOfService x st' \<and> t \<noteq> Some x"
proof (cases op)
  case (OpRoute env req)
  with assms classifyAndRoute_avoids [OF assms(1), of cfg env req] show ?thesis
    by (auto simp: avoids_def split: prod.splits sum.splits)
next
  case (OpInfer env req)
  with assms selectInferenceProvider_avoids [OF assms(1), of cfg env req] show ?thesis
    by (auto split: prod.splits sum.splits)
next
  case (OpReapSessions now)
  have "outOfService x (st\<lparr>fs_SessionTable := map_option (reapSessions now) (fs_SessionTable st)\<rparr>)"
  proof (rule outOfService_shrink [OF assms(1), where f = "reapSessions now"])
    show "sessionInv t \<Longrightarrow> sessionInv (reapSessions now t) \<and> map_of (sat_bindings (reapSessions now t)) \<subseteq>\<^sub>m map_of (sat_bindings t)" for t
      by (auto simp: sessionInv_def reapSessions_def map_of_deleteIf map_le_def dom_def split: option.splits if_splits)
  qed simp_all
  with OpReapSessions assms(3) show ?thesis by auto
next
  case (OpMetrics m)
  with assms outOfService_cong [OF assms(1), of st'] show ?thesis by auto
qed (use assms in \<open>auto simp: drain_out activate_out report_out\<close>)

lemma targets_out:
  "outOfService x st \<Longrightarrow> list_all (\<lambda>(cfg, op). \<not> activates x op) ops \<Longrightarrow> x \<notin> set (targetsOf uri ops st)"
proof (induction ops arbitrary: st)
  case (Cons o1 ops)
  obtain cfg op where o1: "o1 = (cfg, op)" by fastforce
  obtain st' t where s: "fleetStep cfg uri op st = (st', t)" by fastforce
  from fleetStep_out [OF Cons.prems(1) _ s] Cons.prems(2) o1 have "outOfService x st'" "t \<noteq> Some x" by simp_all
  with Cons.IH [of st'] Cons.prems(2) show ?case by (simp add: o1 s split: option.split)
qed simp

lemma updateRecorded_failure:
  "updateRecorded cfg clock entryType clusterID original c st = (st', Some f) \<Longrightarrow> \<exists>d. f = ReplyError 500 d"
  by (auto simp: updateRecorded_def split: prod.splits option.splits)

lemma drain_success:
  assumes "fleetInv st" and "handleDrainCluster cfg now clock x st = (st', ReplyOK body)"
  shows "outOfService x st'"
proof -
  obtain c where get: "clusterGet x (fs_ClusterRepo st) = Inr c" and ne: "x \<noteq> []"
    using assms(2) by (auto simp: handleDrainCluster_def split: if_splits sum.splits)
  have key: "keyedBy cl_ID (fs_ClusterRepo st)" using assms(1) by (simp add: fleetInv_def)
  note rec = keyed_get [OF key get]
  let ?c = "c\<lparr>cl_Status := ClusterStatusDraining,
      cl_Labels := AList.update ''drain_started_at'' (formatRFC3339 now) (cl_Labels c)\<rparr>"
  obtain st1 failure where u: "updateRecorded cfg clock ''fleet.cluster.drain_started'' x c ?c st = (st1, failure)" by fastforce
  have st': "st' = unbindDrained x st1" "failure = None"
    using assms(2) ne updateRecorded_failure [of cfg clock "''fleet.cluster.drain_started''" x c ?c st st1 "ReplyOK body"] u
    by (auto simp: handleDrainCluster_def get Let_def split: if_splits option.splits)
  have up: "clusterUpdate (fst clock) ?c (fs_ClusterRepo st) = (AList.update x (clusterTouched (fst clock) ?c) (fs_ClusterRepo st), None)"
    using rec by (simp add: clusterUpdate_def)
  have st1: "st1 = st\<lparr>fs_ClusterRepo := AList.update x (clusterTouched (fst clock) ?c) (fs_ClusterRepo st)\<rparr>"
    using u st'(2) by (auto simp: updateRecorded_def up split: option.splits prod.splits)
  have "keyedBy cl_ID (AList.update x (clusterTouched (fst clock) ?c) (fs_ClusterRepo st))"
    using key rec by (simp add: clusterTouched_def)
  moreover have "\<not> boundIn st' x"
    using assms(1) by (auto simp: st' st1 unbindDrained_def boundIn_def fleetInv_def UnbindCluster_def sessionInv_def
        map_of_deleteIf ran_def split: option.splits if_splits)
  ultimately show ?thesis
    using assms(1) by (auto simp: outOfService_def st' st1 unbindDrained_def fleetInv_def map_of_aupdate clusterTouched_def
        draining_def split: option.splits)
qed


text \<open>C32: A drain whose ledger entry cannot be written, with a ledger configured, is
  undone: the reply is the ledger error, the stored record is the old one but for its
  update time, and no session loses its binding.\<close>

theorem drain_compensates:
  assumes "fleetInv st" and "clusterGet x (fs_ClusterRepo st) = Inr c" and "x \<noteq> []"
    and "cl_Status c \<in> {ClusterStatusRunning, ClusterStatusHealthy, ClusterStatusDegraded}"
    and "recordToLedger cfg ''fleet.cluster.drain_started'' x = Some err"
  shows "\<exists>st'. handleDrainCluster cfg now clock x st = (st', ReplyError 500 (LedgerFailed err)) \<and>
    clusterGet x (fs_ClusterRepo st') = Inr (c\<lparr>cl_UpdatedAt := snd clock\<rparr>) \<and> fs_SessionTable st' = fs_SessionTable st"
proof -
  have rec: "cl_ID c = x" "map_of (fs_ClusterRepo st) x = Some c"
    using keyed_get [OF _ assms(2)] assms(1) by (auto simp: fleetInv_def)
  have "cl_Status c \<noteq> ClusterStatusDraining" "cl_Status c \<noteq> ClusterStatusDrained"
    using assms(4) by (auto simp: ClusterStatusRunning_def ClusterStatusHealthy_def ClusterStatusDegraded_def
        ClusterStatusDraining_def ClusterStatusDrained_def)
  then show ?thesis
    using assms(2,3,4,5) rec
    by (auto simp: handleDrainCluster_def updateRecorded_def clusterUpdate_def clusterTouched_def clusterGet_def map_of_aupdate Let_def)
qed

section \<open>Activation\<close>

lemma activate_success:
  assumes "fleetInv st" and "handleActivateCluster cfg now clock x st = (st', ReplyOK body)"
    and "clusterGet x (fs_ClusterRepo st) = Inr c" and "\<not> servingStatus (cl_Status c)"
  shows "\<exists>a. map_of (fs_ClusterRepo st') x = Some a \<and> cl_ID a = x \<and> cl_Status a = ClusterStatusRunning \<and>
    map_of (cl_Labels a) ''activated_at'' = Some (formatRFC3339 now)"
proof -
  have rec: "cl_ID c = x" "map_of (fs_ClusterRepo st) x = Some c"
    using keyed_get [OF _ assms(3)] assms(1) by (auto simp: fleetInv_def)
  let ?c = "c\<lparr>cl_Status := ClusterStatusRunning, cl_Labels := AList.update ''activated_at'' (formatRFC3339 now)
      (AList.delete ''drain_started_at'' (cl_Labels c))\<rparr>"
  obtain st1 failure where u: "updateRecorded cfg clock ''fleet.cluster.activated'' x c ?c st = (st1, failure)" by fastforce
  have "failure = None" "st' = st1"
    using assms(2,4) updateRecorded_failure [of cfg clock "''fleet.cluster.activated''" x c ?c st st1 "ReplyOK body"] u
    by (auto simp: handleActivateCluster_def assms(3) Let_def servingStatus_def ClusterStatusRunning_def ClusterStatusHealthy_def
        split: if_splits option.splits)
  moreover have "clusterUpdate (fst clock) ?c (fs_ClusterRepo st) =
      (AList.update x (clusterTouched (fst clock) ?c) (fs_ClusterRepo st), None)"
    using rec by (simp add: clusterUpdate_def)
  ultimately have "fs_ClusterRepo st' = AList.update x (clusterTouched (fst clock) ?c) (fs_ClusterRepo st)"
    using u by (auto simp: updateRecorded_def split: option.splits prod.splits)
  with rec show ?thesis by (simp add: map_of_aupdate clusterTouched_def)
qed

lemma protected_report:
  assumes "cl_Status a = ClusterStatusRunning" and "map_of (cl_Labels a) ''activated_at'' = Some (formatRFC3339 now)"
    and "1 \<le> cd_year (civilOf (now div nanosPerDay))" and "cd_year (civilOf (now div nanosPerDay)) < 10000"
    and "now \<le> later" and "later < now + 29 * nanosPerSecond"
  shows "cl_Status (applyAgentStatus later report status a) = ClusterStatusRunning"
proof -
  have "timeSub later (now - now mod nanosPerSecond) < 30 * nanosPerSecond"
    using assms(5,6) pos_mod_bound [of nanosPerSecond now] pos_mod_sign [of nanosPerSecond now] by (simp add: timeSub_def)
  then show ?thesis
    using assms(1,2) parse_format [OF assms(3,4)]
    by (simp add: applyAgentStatus_def statusAfterReport_def Let_def ClusterStatusRunning_def ClusterStatusDraining_def ClusterStatusDrained_def)
qed

lemma report_effect:
  assumes "clusterGet (asr_ClusterID report) (fs_ClusterRepo st) = Inr a" and "cl_ID a = asr_ClusterID report"
  obtains c' where "clusterGet (asr_ClusterID report) (fs_ClusterRepo (fst (handleAgentStatus uri clock report st))) = Inr c'"
    and "c' = a \<or> (\<exists>r status. cl_Status c' = cl_Status (applyAgentStatus (fst clock) r status a))"
proof -
  let ?r = "if asr_Name report = [] then report\<lparr>asr_Name := asr_ClusterID report\<rparr> else report"
  have id: "asr_ClusterID ?r = asr_ClusterID report" by simp
  show thesis
  proof (cases "reportRefusal uri ?r")
    case None
    let ?c = "applyAgentStatus (fst clock) ?r (reportedStatus ?r) a"
    have "map_of (fs_ClusterRepo st) (cl_ID ?c) = Some a"
      using assms(1,2) by (simp add: applyAgentStatus_sel clusterGet_def split: option.splits)
    then have "clusterUpdate (snd clock) ?c (fs_ClusterRepo st) =
        (AList.update (cl_ID ?c) (clusterTouched (snd clock) ?c) (fs_ClusterRepo st), None)"
      by (simp add: clusterUpdate_def)
    then have "clusterGet (asr_ClusterID report) (fs_ClusterRepo (fst (handleAgentStatus uri clock report st))) =
        Inr (clusterTouched (snd clock) ?c)"
      using assms(2) unfolding handleAgentStatus_def Let_def None id assms(1)
      by (simp add: clusterGet_def map_of_aupdate applyAgentStatus_sel del: if_split)
    moreover have "cl_Status (clusterTouched (snd clock) ?c) = cl_Status ?c" by (simp add: clusterTouched_def)
    ultimately show thesis using that by blast
  next
    case (Some d)
    with assms(1) that [of a] show thesis unfolding handleAgentStatus_def Let_def Some by simp
  qed
qed


section \<open>Concrete drains\<close>

lemma example_inv: "fleetInv exampleState"
  using example_keyed by (simp add: fleetInv_def exampleState_def)

lemmas drain_run = handleDrainCluster_def handleActivateCluster_def updateRecorded_def recordToLedger_def clusterGet_def
  clusterUpdate_def clusterTouched_def ClusterStatusRunning_def ClusterStatusHealthy_def ClusterStatusDegraded_def
  ClusterStatusDraining_def ClusterStatusDrained_def example_defs Let_def

lemma example_drain:
  "\<exists>st body. handleDrainCluster exampleConfig 5 (6, 7) ''east'' exampleState = (st, ReplyOK body)"
  by (simp add: drain_run)


definition failingLedger :: fleetConfig where
  "failingLedger = exampleConfig\<lparr>fcfg_FleetRecorder := Some (\<lambda>t x. Some ''down''), fcfg_LedgerGatewayURL := ''https://ledger''\<rparr>"

lemma drain_compensates_witness:
  "\<exists>st. handleDrainCluster failingLedger 5 (6, 7) ''east'' exampleState = (st, ReplyError 500 (LedgerFailed ''down'')) \<and>
     clusterGet ''east'' (fs_ClusterRepo st) = Inr ((servingCluster ''east'')\<lparr>cl_UpdatedAt := 7\<rparr>) \<and>
     fs_SessionTable st = fs_SessionTable exampleState"
  using drain_compensates [OF example_inv, of "''east''" "servingCluster ''east''" failingLedger "''down''" 5 "(6, 7)"]
  by (simp add: clusterGet_def recordToLedger_def failingLedger_def ClusterStatusRunning_def example_defs)

definition drainedState :: fleetState where
  "drainedState = exampleState\<lparr>fs_ClusterRepo := [(''east'', (servingCluster ''east'')\<lparr>cl_Status := ''Draining''\<rparr>)]\<rparr>"

definition sickReport :: agentStatusReport where
  "sickReport = \<lparr>asr_ClusterID = ''east'', asr_Name = ''e'', asr_Region = [], asr_Phase = ''Failed'', asr_GPUAvailable = 0,
     asr_GPUTotal = 1, asr_Healthy = False, asr_HealthURL = [], asr_InferenceURL = [], asr_RoutingEndpoint = [],
     asr_MetricsEndpoint = [], asr_TLSServerName = []\<rparr>"

lemma example_activate:
  "\<exists>st body. handleActivateCluster exampleConfig 5 (6, 7) ''east'' drainedState = (st, ReplyOK body)"
  by (simp add: drain_run drainedState_def)


end
