(* ===== verification/Provider_Balance.thy ===== *)
theory Provider_Balance
  imports Routing_Control
begin

text \<open>
  The round robin over the providers of a model (\<open>pkg/server/model_providers.go\<close>):
  it is fair pick by pick, but a request that names the GPU model takes two picks
  (\<open>pkg/server/handlers_inference.go\<close>), so two GPU providers are not balanced.
\<close>

section \<open>Round robin\<close>

primrec picks :: "nat \<Rightarrow> string list \<Rightarrow> 64 word \<Rightarrow> string list" where
  "picks 0 providers counter = []"
| "picks (Suc n) providers counter =
     (case pickProvider providers counter of (counter', provider) \<Rightarrow> provider # picks n providers counter')"

lemma picks_rotation:
  "ps \<noteq> [] \<Longrightarrow> unat c + n < 2 ^ 64 \<Longrightarrow> picks n ps c = map (\<lambda>i. ps ! ((unat c + i) mod length ps)) [0..<n]"
proof (induction n arbitrary: c)
  case (Suc n)
  have "unat (c + 1) = unat c + 1" using Suc.prems(2) by (subst unat_plus_simple [THEN iffD1]) (auto simp: word_le_nat_alt unat_word_ariths)
  with Suc show ?case by (simp add: pickProvider_def map_upt_Suc del: upt_Suc)
qed simp

text \<open>C39: The round robin is fair: over as many picks as there are eligible providers,
  the list staying the same, each provider is picked as often as it is listed,
  wherever the counter starts, as long as the 64-bit counter does not wrap between
  them.\<close>

theorem round_robin_fair:
  assumes "providers \<noteq> []" and "unat counter + length providers < 2 ^ 64"
  shows "mset (picks (length providers) providers counter) = mset providers"
proof -
  have "picks (length providers) providers counter = rotate (unat counter) providers"
    unfolding picks_rotation [OF assms] by (rule nth_equalityI) (simp_all add: nth_rotate)
  then show ?thesis
    by (simp add: rotate_drop_take) (metis append_take_drop_id mset_append union_commute)
qed

section \<open>Explicit GPU requests and the round robin\<close>

text \<open>Without active probes every snapshot of an unchanged fleet is the same.\<close>

definition sameSnapshot :: "fleetState \<Rightarrow> fleetState \<Rightarrow> bool" where
  "sameSnapshot st st' \<longleftrightarrow>
     fs_ProviderHealth st' = None \<and> fs_ClusterRepo st' = fs_ClusterRepo st \<and>
     fs_MetricsCollector st' = fs_MetricsCollector st \<and> fs_providerRouteCounter st' = fs_providerRouteCounter st"

lemma sameSnapshot_trans: "sameSnapshot a b \<Longrightarrow> sameSnapshot b c \<Longrightarrow> sameSnapshot a c"
  by (simp add: sameSnapshot_def)

lemma inferenceHealth_None: "inferenceHealth respond clock hs None = (None, hs)"
  by (induction hs) (simp_all add: Healthy_provider_def)

lemma snapshot_None:
  "fs_ProviderHealth st = None \<Longrightarrow>
     inferenceSnapshot env i st = (st, BuildClusterHealth (fs_ClusterRepo st) (fs_MetricsCollector st))"
  by (cases st) (simp add: inferenceSnapshot_def BuildInferenceClusterHealth_def inferenceHealth_None)

lemma sameSnapshot_binds:
  "fs_ProviderHealth st = None \<Longrightarrow> sameSnapshot st (unbindSession s st)"
  "fs_ProviderHealth st = None \<Longrightarrow> sameSnapshot st (rebind env s c st)"
  "fs_ProviderHealth st = None \<Longrightarrow> sameSnapshot st (recordTier r s (bindSession env s c st))"
  by (simp_all add: sameSnapshot_def unbindSession_def rebind_def bindSession_def recordTier_def SetSessionTier_def split: option.split)

lemma afterClassify_snapshot: "fs_ProviderHealth st = None \<Longrightarrow> sameSnapshot st (afterClassify cfg env req st)"
  by (auto simp: sameSnapshot_def afterClassify_def ClassifyPrompt_def split: option.splits sum.splits)

lemma routeFresh_snapshot:
  "fs_ProviderHealth st = None \<Longrightarrow> sameSnapshot st (fst (routeFresh cfg env req r esc st))"
  using sameSnapshot_binds(3) [of st] by (auto simp: routeFresh_def snapshot_None sameSnapshot_def split: sum.split)

lemma classifyAndRoute_snapshot:
  assumes "fs_ProviderHealth st = None"
  shows "sameSnapshot st (fst (classifyAndRoute cfg env req st))"
proof -
  let ?a = "afterClassify cfg env req st"
  have a: "sameSnapshot st ?a" "fs_ProviderHealth ?a = None"
    using afterClassify_snapshot [OF assms, of cfg env req] by (simp_all add: sameSnapshot_def)
  have u: "sameSnapshot ?a (unbindSession (rr_SessionID req) ?a)" "fs_ProviderHealth (unbindSession (rr_SessionID req) ?a) = None"
    using sameSnapshot_binds(1) [OF a(2)] by (simp_all add: sameSnapshot_def)
  show ?thesis
    using a(1) sameSnapshot_trans [OF a(1) routeFresh_snapshot [OF a(2)]]
      sameSnapshot_trans [OF a(1) sameSnapshot_trans [OF u(1) routeFresh_snapshot [OF u(2)]]]
    by (simp add: classifyAndRoute_alt Let_def split: option.split)
qed

lemma nextHealthyProvider_None:
  assumes "fs_ProviderHealth st = None"
    and "eligibleProviders cfg (BuildClusterHealth (fs_ClusterRepo st) (fs_MetricsCollector st)) model [] = ps" and "ps \<noteq> []"
  shows "nextHealthyProvider cfg env i model st =
    (st\<lparr>fs_providerRouteCounter := fs_providerRouteCounter st + 1\<rparr>, ps ! (unat (fs_providerRouteCounter st) mod length ps))"
  using assms by (simp add: nextHealthyProvider_def nextHealthyProviderExcluding_def snapshot_None pickProvider_def)

definition gpuProviders :: "fleetConfig \<Rightarrow> fleetState \<Rightarrow> string list" where
  "gpuProviders cfg st =
     eligibleProviders cfg (BuildClusterHealth (fs_ClusterRepo st) (fs_MetricsCollector st)) (gpuPhysicalModel cfg) []"

lemma gpuProviders_cong: "sameSnapshot st st' \<Longrightarrow> gpuProviders cfg st' = gpuProviders cfg st"
  by (simp add: sameSnapshot_def gpuProviders_def)

text \<open>An explicit GPU request advances the counter twice and goes to the second pick.\<close>

lemma explicit_gpu_picks:
  assumes none: "fs_ProviderHealth st = None" and gpu: "requestedModelClass cfg (rr_Model req) = ''gpu''"
    and models: "gpuPhysicalModel cfg \<noteq> cpuPhysicalModel cfg" and ps: "gpuProviders cfg st \<noteq> []"
    and sel: "selectInferenceProvider cfg env req st = (st', Inr (m, d))"
  shows "rp_TargetCluster d = gpuProviders cfg st ! (unat (fs_providerRouteCounter st + 1) mod length (gpuProviders cfg st)) \<and>
    fs_providerRouteCounter st' = fs_providerRouteCounter st + 2 \<and> fs_ProviderHealth st' = None \<and>
    gpuProviders cfg st' = gpuProviders cfg st"
proof -
  obtain st1 d1 where cl: "classifyAndRoute cfg env req st = (st1, Inr d1)"
    using sel by (auto simp: selectInferenceProvider_def split: prod.splits sum.splits)
  have s1: "sameSnapshot st st1" using classifyAndRoute_snapshot [OF none, of cfg env req] by (simp add: cl)
  define ps c q p where "ps = gpuProviders cfg st" and "c = fs_providerRouteCounter st"
    and "q = ps ! (unat c mod length ps)" and "p = ps ! (unat (c + 1) mod length ps)"
  define u st2 v where "u = st1\<lparr>fs_providerRouteCounter := c + 1\<rparr>"
    and "st2 = rebind env (rr_SessionID req) q u" and "v = st2\<lparr>fs_providerRouteCounter := c + 1 + 1\<rparr>"
  have n1: "nextHealthyProvider cfg env 1 (gpuPhysicalModel cfg) st1 = (u, q)"
    using nextHealthyProvider_None [of st1 cfg "gpuPhysicalModel cfg" ps env 1] s1 ps gpuProviders_cong [OF s1, of cfg]
    by (simp add: sameSnapshot_def gpuProviders_def ps_def c_def q_def u_def)
  have "sameSnapshot u st2" using s1 unfolding st2_def by (intro sameSnapshot_binds(2)) (simp add: u_def sameSnapshot_def)
  then have s2: "fs_ProviderHealth st2 = None" "fs_providerRouteCounter st2 = c + 1" "gpuProviders cfg st2 = ps"
    using s1 by (simp_all add: sameSnapshot_def gpuProviders_def u_def ps_def)
  have n2: "nextHealthyProvider cfg env 2 (gpuPhysicalModel cfg) st2 = (v, p)"
    using nextHealthyProvider_None [of st2 cfg "gpuPhysicalModel cfg" ps env 2] s2 ps
    by (simp add: gpuProviders_def p_def v_def ps_def)
  have m: "physicalModelFor cfg ''gpu'' x = gpuPhysicalModel cfg" for x by (simp add: physicalModelFor_def)
  have e: "explicitGPU cfg env req d1 st1 = (if q = [] then (u, Inl NoGPUProvider)
      else (st2, Inr (d1\<lparr>rp_TargetCluster := q, rp_Reason := ''explicit-model''\<rparr>)))"
    by (simp add: explicitGPU_def gpu n1 [unfolded One_nat_def] st2_def)
  have g: "gpuStage cfg env req (gpuPhysicalModel cfg) d2 st2 = (if p = [] then (v, Inl NoSelectedGPUProvider)
      else (rebind env (rr_SessionID req) p v, Inr (d2\<lparr>rp_TargetCluster := p, rp_Reason := rp_Reason d2\<rparr>)))" for d2
    using models by (simp add: gpuStage_def gpu n2)
  have "cpuStage cfg env req (gpuPhysicalModel cfg) d3 st3 = (st3, Inr d3)" for d3 st3
    using models by (simp add: cpuStage_def)
  with sel have "q \<noteq> []" "p \<noteq> []" "st' = rebind env (rr_SessionID req) p v" "rp_TargetCluster d = p"
    by (auto simp: selectInferenceProvider_def cl e g gpu m Let_def split: if_splits)
  moreover have v: "sameSnapshot v (rebind env (rr_SessionID req) p v)"
    by (rule sameSnapshot_binds(2)) (simp add: v_def s2)
  moreover have "gpuProviders cfg v = ps" using s2(3) by (simp add: v_def gpuProviders_def)
  ultimately show ?thesis
    using gpuProviders_cong [OF v, of cfg] unfolding p_def ps_def [symmetric] c_def [symmetric]
    by (simp add: sameSnapshot_def v_def)
qed

lemma parity_step: "unat (c + 2 + 1 :: 64 word) mod 2 = unat (c + 1 :: 64 word) mod 2"
proof -
  have "unat (x + 2) mod 2 = unat x mod 2" for x :: "64 word"
  proof -
    have "unat (x + 2) = (unat x + 2) mod 2 ^ 64" using unat_word_ariths(1) [of x 2] by simp
    also have "\<dots> mod 2 = (unat x + 2) mod 2" by (rule mod_mod_cancel) simp
    finally show ?thesis by simp
  qed
  from this [of "c + 1"] show ?thesis by (simp only: ac_simps)
qed

text \<open>C36: With two healthy GPU providers that are not actively probed, and distinct
  CPU and GPU models, the round robin does not alternate between the two for requests that name the GPU model: each such request takes two picks and
  uses the second, so two such requests in a row go to the same provider.\<close>

theorem explicit_gpu_pinned:
  assumes "fs_ProviderHealth st = None" and "gpuPhysicalModel cfg \<noteq> cpuPhysicalModel cfg"
    and "length (gpuProviders cfg st) = 2"
    and "requestedModelClass cfg (rr_Model req) = ''gpu''" and "requestedModelClass cfg (rr_Model req') = ''gpu''"
    and "selectInferenceProvider cfg env req st = (st1, Inr (m, d))"
    and "selectInferenceProvider cfg env' req' st1 = (st2, Inr (m', d'))"
  shows "rp_TargetCluster d' = rp_TargetCluster d"
proof -
  have ne: "gpuProviders cfg st \<noteq> []" using assms(3) by auto
  note first = explicit_gpu_picks [OF assms(1,4,2) ne assms(6)]
  with ne have "gpuProviders cfg st1 \<noteq> []" by simp
  with explicit_gpu_picks [OF _ assms(5,2) _ assms(7)] first assms(3)
  have "rp_TargetCluster d' = gpuProviders cfg st ! (unat (fs_providerRouteCounter st + 2 + 1) mod 2)"
    by simp
  with first assms(3) show ?thesis unfolding parity_step by simp
qed

lemma round_robin_fair_witness:
  "mset (picks (length [''a'', ''b'', ''c'']) [''a'', ''b'', ''c''] 7) = mset [''a'', ''b'', ''c'']"
  by (rule round_robin_fair) simp_all

lemma example_sorted: "sortSlice bytesLess [''east'', ''west''] = [''east'', ''west'']"
  by (simp add: sortSlice_def insertLeft_def less_char_def)

lemma example_gpu: "gpuProviders exampleConfig exampleState = [''east'', ''west'']"
  by (simp add: gpuProviders_def eligibleProviders_def example_health example_sorted clusterHealthOf_def servingCluster_def
      servingStatus_def modelProviders_def exampleConfig_def gpuPhysicalModel_def)

lemma example_class: "requestedModelClass exampleConfig ''gpu'' = ''gpu''" "gpuPhysicalModel exampleConfig = ''gpu''"
    "cpuPhysicalModel exampleConfig = ''cpu''"
  by (simp_all add: requestedModelClass_def gpuPhysicalModel_def cpuPhysicalModel_def exampleConfig_def defaultCPUModel_def)

lemmas infer_run = selectInferenceProvider_def explicitGPU_def gpuStage_def cpuStage_def physicalModelFor_def
  nextHealthyProvider_def nextHealthyProviderExcluding_def eligibleProviders_def pickProvider_def rebind_def bindSession_def
  unbindSession_def recordTier_def SetSessionTier_def Bind_def Unbind_def cachePut_def modelProviders_def providersForModel_def
  requestedModelClass_def gpuPhysicalModel_def cpuPhysicalModel_def responseOf_def escalates_def SessionTierRank_def tierRank_def
  tierRanks_def sortSlice_def insertLeft_def less_char_def example_run

lemma example_infer:
  "\<exists>st d. selectInferenceProvider exampleConfig (exampleEnv 7) (exampleTurn ''gpu'') exampleState = (st, Inr (''gpu'', d))"
  by (simp add: infer_run)

lemma example_infer_again:
  "\<exists>st d. selectInferenceProvider exampleConfig (exampleEnv 8) (exampleTurn ''gpu'')
     (fst (selectInferenceProvider exampleConfig (exampleEnv 7) (exampleTurn ''gpu'') exampleState)) = (st, Inr (''gpu'', d))"
  by (simp add: infer_run numeral_2_eq_2 [symmetric])

lemma explicit_gpu_pinned_witness:
  "\<exists>st d st' d'. selectInferenceProvider exampleConfig (exampleEnv 7) (exampleTurn ''gpu'') exampleState = (st, Inr (''gpu'', d)) \<and>
     selectInferenceProvider exampleConfig (exampleEnv 8) (exampleTurn ''gpu'') st = (st', Inr (''gpu'', d')) \<and>
     rp_TargetCluster d' = rp_TargetCluster d"
proof -
  obtain st d where first: "selectInferenceProvider exampleConfig (exampleEnv 7) (exampleTurn ''gpu'') exampleState = (st, Inr (''gpu'', d))"
    using example_infer by blast
  moreover obtain st' d' where again: "selectInferenceProvider exampleConfig (exampleEnv 8) (exampleTurn ''gpu'') st = (st', Inr (''gpu'', d'))"
    using example_infer_again by (auto simp: first)
  moreover have "rr_Model (exampleTurn ''gpu'') = ''gpu''" "fs_ProviderHealth exampleState = None"
    by (simp_all add: exampleTurn_def exampleState_def)
  ultimately show ?thesis
    using explicit_gpu_pinned [OF _ _ _ _ _ first again] example_gpu example_class by simp
qed

end
