(* ===== verification/Spec2Isabelle.thy ===== *)
theory Spec2Isabelle
  imports Intent_Lifecycle Rollout Placement Rate_Limit Fleet_Drain Provider_Balance
begin

text \<open>
  A verification development for the fleet controller of \<open>llm-d-fleet\<close>: the Go
  packages under \<open>src/pkg\<close> that decide which operations on a fleet of inference
  clusters are admitted, who may ask for them, where models are placed, how a new
  model version is rolled out and which cluster serves a prompt. Paths below are relative to \<open>src/\<close>.

  \<^bold>\<open>The program.\<close> A client submits an \<^emph>\<open>intent\<close> over HTTP. Middleware authenticates,
  rate-limits and authorizes the request (\<open>pkg/auth\<close>). The operation service
  (\<open>pkg/intents\<close>) validates the intent, decides admission, stores the intent with
  an operation, and moves the operation through a governed state machine in which
  authorization, actuation and outcome each need evidence recorded in an external
  ledger. What an operation does to the fleet is computed by the placement solver
  (\<open>pkg/placement\<close>, with GPU estimates from \<open>pkg/modelpack\<close>) and by the rollout
  controller (\<open>pkg/lifecycle/rollout\<close>), over the records kept by the repositories
  of \<open>pkg/store/postgres\<close>. A prompt is classified, kept on the cluster of its session
  or routed by a policy over a snapshot of the clusters' health (\<open>pkg/routing\<close>,
  \<open>pkg/classifier\<close>, \<open>pkg/server\<close>), and clusters are drained and activated around it.

  \<^bold>\<open>The language.\<close> These theories model what the sources use of Go:
  \<^item> \<open>Go_Base\<close>: 64-bit integers as \<open>int\<close> with \<open>wrap64\<close> at each operation that can
    leave the range, truncating division, byte strings and the functions of
    \<open>strings\<close>, \<open>strconv\<close>, \<open>unicode/utf8\<close>, errors as the left side of a sum, and maps
    that the code ranges over or measures as association lists (\<open>gomap\<close>);
  \<^item> \<open>Go_Float\<close>: \<open>float64\<close> with binary64 rounding, comparison, conversion and
    parsing, with monotonicity of rounding and exactness below \<open>2 ^ 53\<close>;
    conversions to integers follow amd64;
  \<^item> \<open>Go_Any\<close>, \<open>Go_JSON\<close>: dynamic values and the decoder of \<open>encoding/json\<close>;
    the parser carries the fuel \<open>2 * length + 2\<close>, more than the steps any input
    of that length takes, and the nesting limit 10000 of the library;
  \<^item> \<open>Go_Crypto\<close>: SHA-256 and HMAC, executed on words;
  \<^item> \<open>Go_Strings\<close>, \<open>Go_Sort\<close>, \<open>Go_Time\<close>, \<open>Go_RFC3339\<close>: further string functions,
    \<open>sort.Slice\<close> by insertion (the library may order equal elements differently and
    no theorem depends on that order), durations, the calendar and time stamps,
    which parse back to the second they were printed from.
  Clock readings and random bytes are arguments. A method that holds a mutex is one
  atomic operation on the state; interleavings are sequences of such operations.

  \<^bold>\<open>Atomicity and sharing.\<close> Three modelling decisions bound what the theorems say
  of a concurrent run. A service method that reads an operation and writes it back
  (\<open>Transition\<close>, \<open>AttachLedgerReceipt\<close>, \<open>Cancel\<close>) and a handler of \<open>pkg/server\<close> are one
  step each, although the code takes the repository lock once per call: two such
  calls on the same record that overlap are not covered. The proof verifier and the
  model resolver are pure functions of their arguments, so two calls with the same
  arguments agree. Values returned by \<open>catalogGet\<close> and by the cluster repository are
  values, where the code returns a pointer or a record that shares its label map
  with the store; no modelled function writes to such a value except on the way to
  storing it.

  \<^bold>\<open>Intents and operations.\<close> \<open>Intent_Types\<close> has the records and enumerations of
  \<open>pkg/intents/types.go\<close>; \<open>Intent_Validation\<close> the checks of \<open>validation.go\<close> and the
  admission decision of \<open>evaluator.go\<close>; \<open>Intent_Repository\<close> the repository interface
  as a record of functions, the in-memory repository of \<open>service.go\<close>, and the
  locale of the store contract, interpreted on it; \<open>Intent_Service\<close> every method of
  the service. \<open>Intent_Lifecycle\<close> has the step relation of the service and proves,
  for any repository that meets the contract and then for the in-memory one, that
  every reachable operation has passed the milestones of its state in order, that
  authorization and success need their evidence, idempotence of submission and of
  receipts, the frame of a transition (of all stored data only the state, the update
  time and one appended history entry of the operation change) and all outcomes of a
  cancellation. Admission is
  characterized and monotone in the policy and in the model's confidence.

  \<^bold>\<open>Stores.\<close> \<open>Fleet_API\<close> has the declarative types of \<open>pkg/apis/fleet/v1alpha1\<close>.
  \<open>Store_Memory\<close> has the records and in-memory repositories of
  \<open>pkg/store/postgres\<close>, a locale of keyed stores interpreted on four of them, a
  refinement of the cluster repository to a finite map and the event query.

  \<^bold>\<open>Rollouts.\<close> \<open>Rollout\<close> has \<open>pkg/lifecycle/rollout/controller.go\<close> over a repository
  parameter: creation, promotion behind the SLO gate, rollback, and recovery after a
  restart, with invariants by rule induction on the controller's steps. A passing
  canary completes, in the cache and in the stored row, after as many promotions as
  the increment needs.

  \<^bold>\<open>Placement.\<close> \<open>Modelpack\<close> has the OCI reference parser, the GPU estimate and the
  catalog of \<open>pkg/modelpack\<close>; \<open>Placement\<close> the constraint solver, the model package
  wrapper and the scorers of \<open>pkg/placement\<close>, with the locale of a solver's
  promise, which the wrapper keeps.

  \<^bold>\<open>Access.\<close> \<open>Auth_Access\<close> has identities, roles and the authorization middleware of
  \<open>pkg/auth\<close>; \<open>Rate_Limit\<close> the token buckets, their eviction and the middleware.

  \<^bold>\<open>Routing.\<close> \<open>Routing_Policy\<close> has the policy evaluator of \<open>pkg/routing/policy\<close> and
  the three balancers of \<open>pkg/routing/balancer\<close>, with the locale of a balancer's
  promise, and characterizes the chosen cluster and the errors. \<open>Routing_Session\<close>
  has the session table of \<open>pkg/routing/session.go\<close> and the classification cache of
  \<open>pkg/classifier/cache.go\<close>, both interpreting a locale of tables whose entries
  expire; the session table refines the latest binding of a log of operations.
  \<open>Provider_Health\<close> has the in-memory metrics collector, the health snapshot and the
  active probes of \<open>pkg/server/provider_health.go\<close>: their verdict is the hysteresis
  of two successes against three failures, and the start-up loop \<open>Initialize\<close>, a
  partial function, returns when every provider answers steadily.
  \<open>Routing_Control\<close> has \<open>classifyAndRoute\<close> and the provider choice of
  \<open>handleInference\<close> as steps on the controller's state, with the classifier and the
  ledger recorder as parameters: a prompt goes to the cluster of its session or to
  one that is serving. \<open>Fleet_Drain\<close> has draining, activation and agent status
  reports: a drained cluster gets no later prompt, a drain that cannot be recorded
  is undone, a fresh activation survives agent reports. \<open>Provider_Balance\<close> shows
  that the round robin is fair pick by pick and that requests naming the GPU model
  take two picks each.

  \<^bold>\<open>Not modelled.\<close> Code whose content is I/O: HTTP, gRPC and Kubernetes clients,
  watches and leader election, SQL, certificate loading, metric scraping, command
  lines and process start-up, generated code. Of \<open>pkg/server\<close> the modelled handlers
  start after the request body is decoded; quotas, the proxied request with its
  retry, and the remaining handlers are left out. The Ed25519 tokens and proxy
  assertions (\<open>pkg/auth/token.go\<close>, \<open>trusted_proxy.go\<close>), since signature checking is
  outside the sources. Logging, metrics and lock acquisition have no counterpart in
  the definitions. The Rust agent under \<open>crates/\<close> is a separate program.
\<close>

end
